(* ===== verification/Prelude.thy ===== *)
theory Prelude
  imports Main "HOL-Library.Word" "HOL-Library.Signed_Division"
begin

text \<open>
  Shared vocabulary of the development: Go's fixed-width integers, the three ways a Go call can
  end (a value, an error, a panic), programs over an explicit world, the chain of wrapped errors
  that \<open>fmt.Errorf\<close>, \<open>errors.Join\<close> and \<open>errors.Is\<close> build and walk, and the integer formatting
  verbs of \<open>fmt.Sprintf\<close> that the services use. The lemmas about \<open>call\<close> (one Go call followed
  by its \<open>if err != nil\<close>) carry most proofs about handlers.
\<close>

section \<open>Types\<close>

type_synonym int64 = "64 word"
type_synonym int32 = "32 word"
type_synonym float64 = "64 word" \<comment> \<open>the IEEE bits; floats are only copied\<close>
type_synonym uuid = "128 word" \<comment> \<open>\<open>uuid.UUID\<close> is \<open>[16]byte\<close>; \<open>uuid.Nil\<close> is 0\<close>
type_synonym bytes = string \<comment> \<open>a Go string and a \<open>[]byte\<close> are both byte sequences\<close>
type_synonym gotime = int \<comment> \<open>nanoseconds since Go's zero time\<close>

abbreviation uuid_Nil :: uuid where "uuid_Nil \<equiv> 0"

named_theorems go_defs "definitions of handlers, to be unfolded branch by branch"
named_theorems go_elims "what a call that ended in a given way says about its parts"

section \<open>Outcomes and programs\<close>

datatype ('e, 'a) outcome = Ok 'a | Err 'e | Panic string

text \<open>A program takes the world and gives the world it leaves behind and how it ended.\<close>

type_synonym ('w, 'e, 'a) prog = "'w \<Rightarrow> 'w \<times> ('e, 'a) outcome"

definition ok :: "'a \<Rightarrow> ('w, 'e, 'a) prog" where
  "ok a w = (w, Ok a)"

definition fail :: "'e \<Rightarrow> ('w, 'e, 'a) prog" where
  "fail e w = (w, Err e)"

definition panic :: "string \<Rightarrow> ('w, 'e, 'a) prog" where
  "panic p w = (w, Panic p)"

text \<open>
  \<open>call m h k\<close> is \<open>x, err := m(); if err != nil { return h(err) }; k(x)\<close>. A panic of \<open>m\<close>
  unwinds past the rest of the caller.
\<close>

definition call :: "('w, 'e, 'a) prog \<Rightarrow> ('e \<Rightarrow> 'f) \<Rightarrow> ('a \<Rightarrow> ('w, 'f, 'b) prog) \<Rightarrow> ('w, 'f, 'b) prog" where
  "call m h k w =
     (case m w of
        (w', Ok a) \<Rightarrow> k a w'
      | (w', Err e) \<Rightarrow> (w', Err (h e))
      | (w', Panic p) \<Rightarrow> (w', Panic p))"

definition nil_deref :: string where
  "nil_deref = ''runtime error: invalid memory address or nil pointer dereference''"

text \<open>A pure computation that can fail, as a program that leaves the world alone.\<close>

definition lift :: "('e, 'a) outcome \<Rightarrow> ('w, 'e, 'a) prog" where
  "lift r w = (w, r)"

lemma ok_simps [simp]: "ok a w = (w', r) \<longleftrightarrow> w' = w \<and> r = Ok a"
  by (auto simp: ok_def)

lemma fail_simps [simp]: "fail e w = (w', r) \<longleftrightarrow> w' = w \<and> r = Err e"
  by (auto simp: fail_def)

lemma panic_simps [simp]: "panic p w = (w', r) \<longleftrightarrow> w' = w \<and> r = Panic p"
  by (auto simp: panic_def)

lemma lift_simps [simp]: "lift r w = (w', r') \<longleftrightarrow> w' = w \<and> r = r'"
  by (auto simp: lift_def)

lemma call_Ok_iff [go_elims]:
  "call m h k w = (w', Ok b) \<longleftrightarrow> (\<exists>w1 a. m w = (w1, Ok a) \<and> k a w1 = (w', Ok b))"
  by (auto simp: call_def split: prod.splits outcome.splits)

lemma call_Err_iff [go_elims]:
  "call m h k w = (w', Err f) \<longleftrightarrow>
     (\<exists>e. m w = (w', Err e) \<and> f = h e) \<or> (\<exists>w1 a. m w = (w1, Ok a) \<and> k a w1 = (w', Err f))"
  by (auto simp: call_def split: prod.splits outcome.splits)

lemma call_Panic_iff [go_elims]:
  "call m h k w = (w', Panic p) \<longleftrightarrow>
     m w = (w', Panic p) \<or> (\<exists>w1 a. m w = (w1, Ok a) \<and> k a w1 = (w', Panic p))"
  by (auto simp: call_def split: prod.splits outcome.splits)

lemma call_iff:
  "call m h k w = (w', r) \<longleftrightarrow>
     (\<exists>e. m w = (w', Err e) \<and> r = Err (h e)) \<or> (\<exists>p. m w = (w', Panic p) \<and> r = Panic p) \<or>
     (\<exists>w1 a. m w = (w1, Ok a) \<and> k a w1 = (w', r))"
  by (auto simp: call_def split: prod.splits outcome.splits)

text \<open>A switch whose failing cases return an error and whose good case goes on.\<close>

lemma guard_iff [go_elims]:
  "(case g of None \<Rightarrow> k | Some e \<Rightarrow> fail (f e)) w = (w', r) \<longleftrightarrow>
     (\<exists>e. g = Some e \<and> w' = w \<and> r = Err (f e)) \<or> (g = None \<and> k w = (w', r))"
  by (auto split: option.splits)

lemma call_ok: "m w = (w1, Ok a) \<Longrightarrow> call m h k w = k a w1"
  by (simp add: call_def)

lemma call_err: "m w = (w1, Err e) \<Longrightarrow> call m h k w = (w1, Err (h e))"
  by (simp add: call_def)

lemma call_panic: "m w = (w1, Panic p) \<Longrightarrow> call m h k w = (w1, Panic p)"
  by (simp add: call_def)

lemmas call_evals = call_ok call_err call_panic

text \<open>Sequencing of pure results.\<close>

definition bind_out :: "('e, 'a) outcome \<Rightarrow> ('a \<Rightarrow> ('e, 'b) outcome) \<Rightarrow> ('e, 'b) outcome" where
  "bind_out r k = (case r of Ok a \<Rightarrow> k a | Err e \<Rightarrow> Err e | Panic p \<Rightarrow> Panic p)"

lemma bind_out_simps [simp]:
  "bind_out (Ok a) k = k a" "bind_out (Err e) k = Err e" "bind_out (Panic p) k = Panic p"
  by (simp_all add: bind_out_def)

lemma bind_out_Ok: "bind_out r k = Ok b \<longleftrightarrow> (\<exists>a. r = Ok a \<and> k a = Ok b)"
  by (cases r) auto

text \<open>
  A frame rule: what a call and its continuation both keep of the world, the whole keeps. \<open>v\<close>
  is any view of the world (a table, a log).
\<close>

definition keeps :: "('w \<Rightarrow> 'v) \<Rightarrow> ('w, 'e, 'a) prog \<Rightarrow> bool" where
  "keeps v m \<longleftrightarrow> (\<forall>w. v (fst (m w)) = v w)"

lemma keepsD: "keeps v m \<Longrightarrow> m w = (w', r) \<Longrightarrow> v w' = v w"
  unfolding keeps_def by (metis fst_conv)

lemma keepsI: "(\<And>w w' r. m w = (w', r) \<Longrightarrow> v w' = v w) \<Longrightarrow> keeps v m"
  unfolding keeps_def by (metis prod.collapse)

lemma keeps_ok [simp, intro]: "keeps v (ok a)"
  by (simp add: keeps_def ok_def)

lemma keeps_fail [simp, intro]: "keeps v (fail e)"
  by (simp add: keeps_def fail_def)

lemma keeps_panic [simp, intro]: "keeps v (panic p)"
  by (simp add: keeps_def panic_def)

lemma keeps_lift [simp, intro]: "keeps v (lift r)"
  by (simp add: keeps_def lift_def)

lemma keeps_call [intro]:
  assumes "keeps v m" and "\<And>a. keeps v (k a)"
  shows "keeps v (call m h k)"
proof (rule keepsI)
  fix w w' r
  assume run: "call m h k w = (w', r)"
  obtain w1 r1 where m: "m w = (w1, r1)" by fastforce
  have "v w1 = v w" using keepsD [OF assms(1) m] .
  with run m show "v w' = v w"
    using keepsD [OF assms(2)] by (cases r1) (auto simp: call_evals)
qed

section \<open>Go errors\<close>

text \<open>
  A sentinel (a package-level \<open>errors.New\<close>) has an identity that \<open>errors.Is\<close> compares; an inline
  \<open>errors.New\<close> or a library error is only its text; \<open>fmt.Errorf("...%w...")\<close> keeps the wrapped
  error between a prefix and a suffix; \<open>errors.Join\<close> holds two.
\<close>

datatype 's goerr =
    Sentinel 's
  | ErrText string
  | Wrapf string "'s goerr" string
  | Joined "'s goerr" "'s goerr"

fun error_msg :: "('s \<Rightarrow> string) \<Rightarrow> 's goerr \<Rightarrow> string" where
  "error_msg txt (Sentinel s) = txt s"
| "error_msg txt (ErrText t) = t"
| "error_msg txt (Wrapf p e s) = p @ error_msg txt e @ s"
| "error_msg txt (Joined a b) = error_msg txt a @ [char_of (10::nat)] @ error_msg txt b"

fun errors_Is :: "'s goerr \<Rightarrow> 's \<Rightarrow> bool" where
  "errors_Is (Sentinel s) t = (s = t)"
| "errors_Is (ErrText _) t = False"
| "errors_Is (Wrapf _ e _) t = errors_Is e t"
| "errors_Is (Joined a b) t = (errors_Is a t \<or> errors_Is b t)"

text \<open>\<open>fmt.Errorf("%s: %w", op, err)\<close>\<close>

definition wrap :: "string \<Rightarrow> 's goerr \<Rightarrow> 's goerr" where
  "wrap op e = Wrapf (op @ '': '') e ''''"

lemma errors_Is_wrap [simp]: "errors_Is (wrap op e) t = errors_Is e t"
  by (simp add: wrap_def)

lemma wrap_not_sentinel [simp]: "wrap op e \<noteq> Sentinel s" "Sentinel s \<noteq> wrap op e"
  by (simp_all add: wrap_def)

lemma error_msg_wrap [simp]: "error_msg txt (wrap op e) = op @ '': '' @ error_msg txt e"
  by (simp add: wrap_def)

text \<open>\<open>%v\<close> of a \<open>[]string\<close>: the elements between brackets, separated by a space.\<close>

fun sep_by_space :: "string list \<Rightarrow> string" where
  "sep_by_space [] = ''''"
| "sep_by_space [s] = s"
| "sep_by_space (s # t # ts) = s @ '' '' @ sep_by_space (t # ts)"

definition fmt_v_strings :: "string list \<Rightarrow> string" where
  "fmt_v_strings ss = ''['' @ sep_by_space ss @ '']''"

section \<open>Dynamically typed values\<close>

text \<open>The values that occur in a \<open>map[string]any\<close>: the dynamic type is the constructor.\<close>

datatype goany =
    AString string
  | AInt int64 \<comment> \<open>Go's \<open>int\<close>, 64 bits wide on the deployed platforms\<close>
  | AInt32 int32
  | AInt64 int64
  | AFloat64 float64
  | ABool bool
  | ANil
  | AOther string

section \<open>Integers: truncated division and decimal formatting\<close>

text \<open>Go's \<open>/\<close> and \<open>%\<close> on \<open>int64\<close> truncate towards zero; the result wraps to 64 bits.\<close>

definition go_quot :: "int64 \<Rightarrow> int64 \<Rightarrow> int64" where
  "go_quot a b = word_of_int (sint a sdiv sint b)"

definition go_rem :: "int64 \<Rightarrow> int64 \<Rightarrow> int64" where
  "go_rem a b = word_of_int (sint a smod sint b)"

definition digit :: "nat \<Rightarrow> char" where
  "digit d = char_of (48 + d)"

fun show_nat :: "nat \<Rightarrow> string" where
  "show_nat n = (if n < 10 then [digit n] else show_nat (n div 10) @ [digit (n mod 10)])"

declare show_nat.simps [simp del]

text \<open>\<open>%d\<close>\<close>

definition fmt_d :: "int \<Rightarrow> string" where
  "fmt_d i = (if i < 0 then ''-'' @ show_nat (nat (- i)) else show_nat (nat i))"

definition zero_pad :: "nat \<Rightarrow> string \<Rightarrow> string" where
  "zero_pad n s = replicate (n - length s) CHR ''0'' @ s"

text \<open>\<open>%02d\<close>: the width counts the sign, which is written before the padding.\<close>

definition fmt_02d :: "int \<Rightarrow> string" where
  "fmt_02d i =
     (if i < 0 then ''-'' @ zero_pad 1 (show_nat (nat (- i))) else zero_pad 2 (show_nat (nat i)))"

definition is_digit :: "char \<Rightarrow> bool" where
  "is_digit c \<longleftrightarrow> 48 \<le> (of_char c :: nat) \<and> (of_char c :: nat) \<le> 57"

definition digit_val :: "char \<Rightarrow> nat" where
  "digit_val c = of_char c - 48"

text \<open>Reading a run of decimal digits, the inverse used to state round trips.\<close>

definition read_nat :: "string \<Rightarrow> nat" where
  "read_nat s = foldl (\<lambda>n c. 10 * n + digit_val c) 0 s"

lemma digit_val_digit [simp]: "d < 10 \<Longrightarrow> digit_val (digit d) = d"
  by (simp add: digit_val_def digit_def)

lemma is_digit_digit [simp]: "d < 10 \<Longrightarrow> is_digit (digit d)"
  by (simp add: is_digit_def digit_def)

lemma show_nat_digits: "\<forall>c \<in> set (show_nat n). is_digit c"
proof (induction n rule: show_nat.induct)
  case (1 n)
  then show ?case by (subst show_nat.simps) auto
qed

lemma show_nat_nonempty [simp]: "show_nat n \<noteq> []"
  by (subst show_nat.simps) simp

lemma read_nat_snoc: "read_nat (s @ [c]) = 10 * read_nat s + digit_val c"
  by (simp add: read_nat_def)

lemma read_show_nat [simp]: "read_nat (show_nat n) = n"
proof (induction n rule: show_nat.induct)
  case (1 n)
  show ?case
  proof (cases "n < 10")
    case True
    then show ?thesis by (subst show_nat.simps) (simp add: read_nat_def)
  next
    case False
    with 1 show ?thesis by (subst show_nat.simps) (simp add: read_nat_snoc)
  qed
qed

lemma sint_int64_range: "- (2 ^ 63) \<le> sint (d :: int64)" "sint (d :: int64) < 2 ^ 63"
  using sint_ge [of d] sint_lt [of d] by simp_all

lemma go_quot_pos:
  fixes d :: int64
  assumes "0 \<le> sint d" and "0 < k" and "k < 2 ^ 63"
  shows "sint (go_quot d (word_of_int k)) = sint d div k"
proof -
  have k: "sint (word_of_int k :: int64) = k"
    using assms by (simp add: signed_take_bit_int_eq_self sint_sbintrunc')
  have le: "sint d div k \<le> sint d" using zdiv_mono2 [of "sint d" 1 k] assms by simp
  have "0 \<le> sint d div k" using assms by (simp add: pos_imp_zdiv_nonneg_iff)
  moreover have "sint d sdiv k = sint d div k"
    using assms by (simp add: signed_divide_int_def sgn_if)
  ultimately have "go_quot d (word_of_int k) = word_of_int (sint d div k)"
    unfolding go_quot_def k by simp
  then show ?thesis
    using le \<open>0 \<le> sint d div k\<close> sint_int64_range(2) [of d]
    by (simp add: signed_take_bit_int_eq_self sint_sbintrunc')
qed

lemma go_rem_pos:
  fixes d :: int64
  assumes "0 \<le> sint d" and "0 < k" and "k < 2 ^ 63"
  shows "sint (go_rem d (word_of_int k)) = sint d mod k"
proof -
  have k: "sint (word_of_int k :: int64) = k"
    using assms by (simp add: signed_take_bit_int_eq_self sint_sbintrunc')
  have "0 \<le> sint d mod k" "sint d mod k < k" using assms by simp_all
  moreover have "sint d smod k = sint d mod k"
    using assms by (simp add: signed_modulo_int_def signed_divide_int_def sgn_if minus_div_mult_eq_mod)
  then have "go_rem d (word_of_int k) = word_of_int (sint d mod k)"
    unfolding go_rem_def k by simp
  ultimately show ?thesis
    using assms(3) by (simp add: signed_take_bit_int_eq_self sint_sbintrunc')
qed

end
