(* ===== verification/Uuid_Lib.thy ===== *)
theory Uuid_Lib
  imports Prelude
begin

text \<open>
  The functions of \<open>github.com/google/uuid\<close> that the services call. The package is not part of the
  repository, so its two directions are a parameter \<open>U\<close> of every definition that uses them, and
  the locale \<open>uuid_codec\<close> names what the services rely on: \<open>Parse\<close> reads back what \<open>String\<close>
  prints. \<open>canonical_uuid\<close> is the hyphenated lower-case hexadecimal form (RFC 9562, section 4) and
  interprets the locale.
\<close>

record uuid_lib =
  uuid_Parse :: "string \<Rightarrow> (string, uuid) outcome"
  uuid_String :: "uuid \<Rightarrow> string"

text \<open>\<open>uuid.MustParse\<close> panics where \<open>Parse\<close> returns an error.\<close>

definition uuid_MustParse :: "uuid_lib \<Rightarrow> string \<Rightarrow> ('e, uuid) outcome" where
  "uuid_MustParse U s =
     (case uuid_Parse U s of Ok u \<Rightarrow> Ok u | Err e \<Rightarrow> Panic e | Panic p \<Rightarrow> Panic p)"

text \<open>\<open>id[:]\<close>: the 16 bytes of an identifier, most significant first.\<close>

definition uuid_bytes :: "uuid \<Rightarrow> bytes" where
  "uuid_bytes u = map (\<lambda>i. char_of (drop_bit (8 * (15 - i)) (uint u))) [0..<16]"

locale uuid_codec =
  fixes U :: uuid_lib
  assumes parse_string [simp]: "uuid_Parse U (uuid_String U u) = Ok u"
    and string_nonempty [simp]: "uuid_String U u \<noteq> ''''"
begin

lemma string_eq_iff [simp]: "uuid_String U u = uuid_String U v \<longleftrightarrow> u = v"
  using parse_string by (metis outcome.inject(1))

lemma must_parse_string [simp]: "uuid_MustParse U (uuid_String U u) = Ok u"
  by (simp add: uuid_MustParse_def)

lemma distinct_strings [simp]: "distinct (map (uuid_String U) us) = distinct us"
  by (simp add: distinct_map inj_on_def)

end

section \<open>The canonical form\<close>

definition hex_digit :: "nat \<Rightarrow> char" where
  "hex_digit d = (if d < 10 then char_of (48 + d) else char_of (87 + d))"

definition hex_val :: "char \<Rightarrow> nat option" where
  "hex_val c =
     (let n = of_char c :: nat in
      if 48 \<le> n \<and> n \<le> 57 then Some (n - 48)
      else if 97 \<le> n \<and> n \<le> 102 then Some (n - 87)
      else if 65 \<le> n \<and> n \<le> 70 then Some (n - 55)
      else None)"

fun hex_fixed :: "nat \<Rightarrow> nat \<Rightarrow> string" where
  "hex_fixed 0 n = []"
| "hex_fixed (Suc k) n = hex_fixed k (n div 16) @ [hex_digit (n mod 16)]"

definition unhex_step :: "char \<Rightarrow> nat option \<Rightarrow> nat option" where
  "unhex_step c acc = Option.bind acc (\<lambda>n. map_option (\<lambda>d. 16 * n + d) (hex_val c))"

definition unhex :: "string \<Rightarrow> nat option" where
  "unhex s = fold unhex_step s (Some 0)"

lemma hex_val_digit [simp]: "d < 16 \<Longrightarrow> hex_val (hex_digit d) = Some d"
  by (auto simp: hex_val_def hex_digit_def Let_def)

lemma length_hex_fixed [simp]: "length (hex_fixed k n) = k"
  by (induction k arbitrary: n) auto

lemma unhex_fixed: "unhex (hex_fixed k n) = Some (n mod 16 ^ k)"
proof (induction k arbitrary: n)
  case 0
  show ?case by (simp add: unhex_def)
next
  case (Suc k)
  have "n mod 16 ^ Suc k = 16 * (n div 16 mod 16 ^ k) + n mod 16"
    by (simp add: mod_mult2_eq)
  with Suc show ?case by (simp add: unhex_def unhex_step_def)
qed

definition canon_String :: "uuid \<Rightarrow> string" where
  "canon_String u =
     (let h = hex_fixed 32 (unat u) in
      take 8 h @ ''-'' @ take 4 (drop 8 h) @ ''-'' @ take 4 (drop 12 h) @ ''-'' @
      take 4 (drop 16 h) @ ''-'' @ drop 20 h)"

definition canon_Parse :: "string \<Rightarrow> (string, uuid) outcome" where
  "canon_Parse s =
     (if length s \<noteq> 36 then Err ''invalid UUID length''
      else if s ! 8 \<noteq> CHR ''-'' \<or> s ! 13 \<noteq> CHR ''-'' \<or> s ! 18 \<noteq> CHR ''-'' \<or> s ! 23 \<noteq> CHR ''-''
      then Err ''invalid UUID format''
      else case unhex (take 8 s @ take 4 (drop 9 s) @ take 4 (drop 14 s) @
                       take 4 (drop 19 s) @ drop 24 s) of
             None \<Rightarrow> Err ''invalid UUID format''
           | Some n \<Rightarrow> Ok (of_nat n))"

definition canonical_uuid :: uuid_lib where
  "canonical_uuid = \<lparr>uuid_Parse = canon_Parse, uuid_String = canon_String\<rparr>"

text \<open>Cutting 32 digits into the five groups, hyphenating them and putting them back together.\<close>

lemma canon_groups:
  fixes h :: string
  assumes len: "length h = 32"
  defines "s \<equiv> take 8 h @ ''-'' @ take 4 (drop 8 h) @ ''-'' @ take 4 (drop 12 h) @ ''-'' @
      take 4 (drop 16 h) @ ''-'' @ drop 20 h"
  shows "length s = 36"
    and "s ! 8 = CHR ''-''" and "s ! 13 = CHR ''-''" and "s ! 18 = CHR ''-''" and "s ! 23 = CHR ''-''"
    and "take 8 s @ take 4 (drop 9 s) @ take 4 (drop 14 s) @ take 4 (drop 19 s) @ drop 24 s = h"
proof -
  obtain a r where h1: "h = a @ r" and a: "length a = 8" and r: "length r = 24"
    by (rule that [of "take 8 h" "drop 8 h"]) (simp_all add: len)
  obtain b r2 where h2: "r = b @ r2" and b: "length b = 4" and r2: "length r2 = 20"
    by (rule that [of "take 4 r" "drop 4 r"]) (simp_all add: r)
  obtain c r3 where h3: "r2 = c @ r3" and c: "length c = 4" and r3: "length r3 = 16"
    by (rule that [of "take 4 r2" "drop 4 r2"]) (simp_all add: r2)
  obtain d e where h4: "r3 = d @ e" and d: "length d = 4" and e: "length e = 12"
    by (rule that [of "take 4 r3" "drop 4 r3"]) (simp_all add: r3)
  have h: "h = a @ b @ c @ d @ e" by (simp add: h1 h2 h3 h4)
  have s: "s = a @ ''-'' @ b @ ''-'' @ c @ ''-'' @ d @ ''-'' @ e"
    by (simp add: s_def h a b c d e)
  show "length s = 36" by (simp add: s a b c d e)
  show "s ! 8 = CHR ''-''" by (simp add: s a nth_append)
  show "s ! 13 = CHR ''-''" by (simp add: s a b nth_append)
  show "s ! 18 = CHR ''-''" by (simp add: s a b c nth_append)
  show "s ! 23 = CHR ''-''" by (simp add: s a b c d nth_append)
  show "take 8 s @ take 4 (drop 9 s) @ take 4 (drop 14 s) @ take 4 (drop 19 s) @ drop 24 s = h"
    by (simp add: s h a b c d e)
qed

lemma canon_roundtrip: "canon_Parse (canon_String u) = Ok u"
proof -
  have "unat u < 16 ^ 32" using unsigned_less [of u, where ?'a = nat] by simp
  then have "unhex (hex_fixed 32 (unat u)) = Some (unat u)"
    by (simp add: unhex_fixed)
  then show ?thesis
    by (simp only: canon_Parse_def canon_String_def Let_def canon_groups [OF length_hex_fixed])
      (simp add: canon_groups [OF length_hex_fixed])
qed

lemma canon_nonempty: "canon_String u \<noteq> ''''"
  by (simp add: canon_String_def Let_def)

interpretation canon: uuid_codec canonical_uuid
  by unfold_locales (simp_all add: canonical_uuid_def canon_roundtrip canon_nonempty)

end
