(* ===== verification/Order_Model.thy ===== *)
theory Order_Model
  imports Uuid_Lib
begin

text \<open>
  The domain types of the order service (\<open>order/internal/model\<close>): its error sentinels, orders and
  their statuses, the parts it reads from the inventory, and the parameter and result structs of
  its operations. A status and a payment method are Go strings, so any string is a value of the
  type; the named constants are the ones the code compares with.
\<close>

section \<open>Errors\<close>

text \<open>The sentinels of \<open>model/error.go\<close>, and the one of pgx that the repository compares with.\<close>

datatype order_sentinel =
    ErrValidation | ErrOrderNotFound | ErrOrderConflict | ErrRateLimited | ErrBadGateway
  | ErrServiceUnavailable | ErrUnauthorized | ErrForbidden | ErrPartsOutOfStock | ErrUnknownStatus
  | ErrPartNotFound | PgxErrNoRows

fun order_err_text :: "order_sentinel \<Rightarrow> string" where
  "order_err_text ErrValidation = ''validation error''"
| "order_err_text ErrOrderNotFound = ''order not found''"
| "order_err_text ErrOrderConflict = ''order conflict''"
| "order_err_text ErrRateLimited = ''rate limited''"
| "order_err_text ErrBadGateway = ''bad gateway''"
| "order_err_text ErrServiceUnavailable = ''service unavailable''"
| "order_err_text ErrUnauthorized = ''unauthorized user''"
| "order_err_text ErrForbidden = ''forbidden''"
| "order_err_text ErrPartsOutOfStock = ''parts out of stock''"
| "order_err_text ErrUnknownStatus = ''unknown status''"
| "order_err_text ErrPartNotFound = ''part not found''"
| "order_err_text PgxErrNoRows = ''no rows in result set''"

type_synonym oerr = "order_sentinel goerr"

section \<open>Orders\<close>

type_synonym PaymentMethod = string
type_synonym OrderStatus = string

definition PaymentMethodUnknown :: PaymentMethod where
  "PaymentMethodUnknown = ''PAYMENT_METHOD_UNKNOWN''"
definition PaymentMethodCard :: PaymentMethod where
  "PaymentMethodCard = ''PAYMENT_METHOD_CARD''"
definition PaymentMethodSBP :: PaymentMethod where
  "PaymentMethodSBP = ''PAYMENT_METHOD_SBP''"
definition PaymentMethodCreditCard :: PaymentMethod where
  "PaymentMethodCreditCard = ''PAYMENT_METHOD_CREDIT_CARD''"
definition PaymentMethodInvestorMoney :: PaymentMethod where
  "PaymentMethodInvestorMoney = ''PAYMENT_METHOD_INVESTOR_MONEY''"

lemmas payment_method_defs =
  PaymentMethodUnknown_def PaymentMethodCard_def PaymentMethodSBP_def
  PaymentMethodCreditCard_def PaymentMethodInvestorMoney_def

definition StatusPendingPayment :: OrderStatus where
  "StatusPendingPayment = ''PENDING_PAYMENT''"
definition StatusPaid :: OrderStatus where
  "StatusPaid = ''PAID''"
definition StatusCompleted :: OrderStatus where
  "StatusCompleted = ''COMPLETED''"
definition StatusCancelled :: OrderStatus where
  "StatusCancelled = ''CANCELLED''"

lemmas status_defs =
  StatusPendingPayment_def StatusPaid_def StatusCompleted_def StatusCancelled_def

text \<open>The constants are pairwise different, so a switch over them has disjoint cases.\<close>

lemma status_distinct [simp]:
  "StatusPendingPayment \<noteq> StatusPaid" "StatusPaid \<noteq> StatusPendingPayment"
  "StatusPendingPayment \<noteq> StatusCompleted" "StatusCompleted \<noteq> StatusPendingPayment"
  "StatusPendingPayment \<noteq> StatusCancelled" "StatusCancelled \<noteq> StatusPendingPayment"
  "StatusPaid \<noteq> StatusCompleted" "StatusCompleted \<noteq> StatusPaid"
  "StatusPaid \<noteq> StatusCancelled" "StatusCancelled \<noteq> StatusPaid"
  "StatusCompleted \<noteq> StatusCancelled" "StatusCancelled \<noteq> StatusCompleted"
  by (simp_all add: status_defs)

lemma status_nonempty [simp]:
  "StatusPendingPayment \<noteq> ''''" "StatusPaid \<noteq> ''''" "StatusCompleted \<noteq> ''''" "StatusCancelled \<noteq> ''''"
  by (simp_all add: status_defs)

record order =
  ord_ID :: uuid
  ord_UserID :: uuid
  ord_PartIDs :: "uuid list"
  ord_TotalPrice :: int64
  ord_TransactionID :: "uuid option"
  ord_PaymentMethod :: "PaymentMethod option"
  ord_Status :: OrderStatus

text \<open>\<open>model.Order{}\<close>: the zero value of every field.\<close>

definition zero_order :: order where
  "zero_order = \<lparr>ord_ID = uuid_Nil, ord_UserID = uuid_Nil, ord_PartIDs = [], ord_TotalPrice = 0,
     ord_TransactionID = None, ord_PaymentMethod = None, ord_Status = ''''\<rparr>"

record create_params =
  cp_UserID :: uuid
  cp_PartIDs :: "uuid list"

record create_result =
  cr_ID :: uuid
  cr_TotalPrice :: int64

record pay_params =
  pp_ID :: uuid
  pp_UserID :: uuid
  pp_PaymentMethod :: PaymentMethod

record pay_result =
  pr_TransactionID :: uuid

record paid_order =
  po_EventID :: uuid
  po_OrderID :: uuid
  po_UserID :: uuid
  po_PaymentMethod :: PaymentMethod
  po_TransactionID :: uuid

record assembled_ship =
  as_EventID :: uuid
  as_OrderID :: uuid
  as_UserID :: uuid
  as_BuildTime :: int64 \<comment> \<open>\<open>time.Duration\<close>: nanoseconds\<close>

section \<open>Parts, as the order service sees them\<close>

type_synonym Category = int32

definition CategoryUnknown :: Category where "CategoryUnknown = 0"
definition CategoryEngine :: Category where "CategoryEngine = 1"
definition CategoryFuel :: Category where "CategoryFuel = 2"
definition CategoryPorthole :: Category where "CategoryPorthole = 3"
definition CategoryWing :: Category where "CategoryWing = 4"

lemmas category_defs =
  CategoryUnknown_def CategoryEngine_def CategoryFuel_def CategoryPorthole_def CategoryWing_def

record dimensions =
  dim_Length :: float64
  dim_Width :: float64
  dim_Height :: float64
  dim_Weight :: float64

record manufacturer =
  man_Name :: string
  man_Country :: string
  man_Website :: string

record part =
  part_ID :: string
  part_Name :: string
  part_Description :: string
  part_PriceCents :: int64
  part_StockQuantity :: int64
  part_Category :: Category
  part_Dimensions :: "dimensions option"
  part_Manufacturer :: "manufacturer option"
  part_Tags :: "string list"
  part_Metadata :: "(string \<rightharpoonup> goany) option"
  part_CreatedAt :: "gotime option"
  part_UpdatedAt :: "gotime option"

definition zero_part :: part where
  "zero_part = \<lparr>part_ID = '''', part_Name = '''', part_Description = '''', part_PriceCents = 0,
     part_StockQuantity = 0, part_Category = 0, part_Dimensions = None, part_Manufacturer = None,
     part_Tags = [], part_Metadata = None, part_CreatedAt = None, part_UpdatedAt = None\<rparr>"

record parts_filter =
  pf_IDs :: "string list"
  pf_Names :: "string list"
  pf_Categories :: "Category list"
  pf_ManufacturerCountries :: "string list"
  pf_Tags :: "string list"

definition zero_filter :: parts_filter where
  "zero_filter = \<lparr>pf_IDs = [], pf_Names = [], pf_Categories = [],
     pf_ManufacturerCountries = [], pf_Tags = []\<rparr>"

end
