(* ===== verification/Order_Repository.thy ===== *)
theory Order_Repository
  imports Order_Model
begin

text \<open>
  The order repository (\<open>order/internal/repository/order/repository.go\<close>) and the table it works on
  (\<open>order/migrations\<close>). The statements the repository builds with squirrel are values of
  \<open>statement\<close>; \<open>ToSql\<close> of squirrel and \<open>QueryRow\<close>/\<open>Exec\<close> of pgx are not part of the repository and
  are the record \<open>postgres\<close>, a parameter of every operation. The locale \<open>orders_db\<close> names what
  PostgreSQL documents of these statements on a table with the migration's constraints; from it
  follow the laws of \<open>order_repo_api\<close>, the contract the order service relies on.
\<close>

section \<open>Statements\<close>

datatype column =
    ColId | ColUserId | ColPartIds | ColTotalPrice | ColTransactionId | ColPaymentMethod | ColStatus

datatype sql_value = VUuid uuid | VUuids "uuid list" | VBigint int64 | VText string | VNull

text \<open>
  \<open>INSERT INTO orders (cols) VALUES (vals) RETURNING id\<close>, \<open>SELECT cols FROM orders WHERE id = i\<close>
  and \<open>UPDATE orders SET col = val, ... WHERE id = i\<close>.
\<close>

datatype statement =
    InsertReturningId "column list" "sql_value list"
  | SelectWhereId "column list" uuid
  | UpdateWhereId "(column \<times> sql_value) list" uuid

record ('w, 'q) postgres =
  ToSql :: "statement \<Rightarrow> (oerr, 'q) outcome"
  QueryRow :: "'q \<Rightarrow> ('w, oerr, sql_value list) prog"
  Exec :: "'q \<Rightarrow> ('w, oerr, nat) prog" \<comment> \<open>the number of rows affected\<close>

definition opt_uuid :: "uuid option \<Rightarrow> sql_value" where
  "opt_uuid x = (case x of None \<Rightarrow> VNull | Some u \<Rightarrow> VUuid u)"

definition opt_text :: "string option \<Rightarrow> sql_value" where
  "opt_text x = (case x of None \<Rightarrow> VNull | Some t \<Rightarrow> VText t)"

text \<open>\<open>row.Scan\<close> into the struct's fields: a value of another type is an error.\<close>

fun scan_id :: "sql_value list \<Rightarrow> (oerr, uuid) outcome" where
  "scan_id [VUuid i] = Ok i"
| "scan_id _ = Err (ErrText ''cannot scan'')"

fun scan_opt_uuid :: "sql_value \<Rightarrow> uuid option option" where
  "scan_opt_uuid VNull = Some None"
| "scan_opt_uuid (VUuid u) = Some (Some u)"
| "scan_opt_uuid _ = None"

fun scan_opt_text :: "sql_value \<Rightarrow> string option option" where
  "scan_opt_text VNull = Some None"
| "scan_opt_text (VText t) = Some (Some t)"
| "scan_opt_text _ = None"

fun scan_order :: "sql_value list \<Rightarrow> (oerr, order) outcome" where
  "scan_order [VUuid i, VUuid u, VUuids ps, VBigint cents, tx, pm, VText st] =
     (case (scan_opt_uuid tx, scan_opt_text pm) of
        (Some t, Some m) \<Rightarrow>
          Ok \<lparr>ord_ID = i, ord_UserID = u, ord_PartIDs = ps, ord_TotalPrice = cents,
              ord_TransactionID = t, ord_PaymentMethod = m, ord_Status = st\<rparr>
      | _ \<Rightarrow> Err (ErrText ''cannot scan''))"
| "scan_order _ = Err (ErrText ''cannot scan'')"

section \<open>The operations\<close>

definition insert_columns :: "column list" where
  "insert_columns = [ColUserId, ColPartIds, ColTotalPrice, ColTransactionId, ColPaymentMethod, ColStatus]"

definition select_columns :: "column list" where
  "select_columns = ColId # insert_columns"

definition insert_values :: "order \<Rightarrow> sql_value list" where
  "insert_values ord =
     [VUuid (ord_UserID ord), VUuids (ord_PartIDs ord), VBigint (ord_TotalPrice ord),
      opt_uuid (ord_TransactionID ord), opt_text (ord_PaymentMethod ord), VText (ord_Status ord)]"

definition pg_Create :: "('w, 'q) postgres \<Rightarrow> order \<Rightarrow> ('w, oerr, uuid) prog" where
  "pg_Create pg ord =
     call (lift (ToSql pg (InsertReturningId insert_columns (insert_values ord)))) id (\<lambda>q.
     call (call (QueryRow pg q) id (\<lambda>row. lift (scan_id row))) id ok)"

definition pg_OrderByID :: "('w, 'q) postgres \<Rightarrow> uuid \<Rightarrow> ('w, oerr, order) prog" where
  "pg_OrderByID pg i =
     call (lift (ToSql pg (SelectWhereId select_columns i))) id (\<lambda>q.
     call (call (QueryRow pg q) id (\<lambda>row. lift (scan_order row)))
       (\<lambda>e. if errors_Is e PgxErrNoRows then Sentinel ErrOrderNotFound else e) ok)"

text \<open>The \<open>sq.Eq\<close> map: a column is set only where the update carries a value for it.\<close>

definition set_map :: "order \<Rightarrow> (column \<times> sql_value) list" where
  "set_map upd =
     (if ord_PartIDs upd \<noteq> [] then [(ColPartIds, VUuids (ord_PartIDs upd))] else []) @
     (if ord_TotalPrice upd \<noteq> 0 then [(ColTotalPrice, VBigint (ord_TotalPrice upd))] else []) @
     (case ord_TransactionID upd of Some t \<Rightarrow> [(ColTransactionId, VUuid t)] | None \<Rightarrow> []) @
     (case ord_PaymentMethod upd of Some m \<Rightarrow> [(ColPaymentMethod, VText m)] | None \<Rightarrow> []) @
     (if ord_Status upd \<noteq> '''' then [(ColStatus, VText (ord_Status upd))] else [])"

definition pg_Update :: "('w, 'q) postgres \<Rightarrow> order \<Rightarrow> ('w, oerr, unit) prog" where
  "pg_Update pg upd =
     (if ord_ID upd = uuid_Nil then fail (ErrText ''empty order id'')
      else if ord_Status upd = StatusPaid \<and> (ord_TransactionID upd = None \<or> ord_PaymentMethod upd = None)
      then fail (ErrText ''setting status=PAID requires transaction_id and payment_method'')
      else if set_map upd = [] then ok ()
      else call (lift (ToSql pg (UpdateWhereId (set_map upd) (ord_ID upd)))) id (\<lambda>q.
           call (Exec pg q) id (\<lambda>n. if n = 0 then fail (Sentinel ErrOrderNotFound) else ok ())))"

section \<open>The table\<close>

text \<open>
  A row of \<open>orders\<close> has the fields of \<open>order\<close>. \<open>set_col\<close> writes one column, \<open>col_value\<close> reads one;
  an inserted row starts from the column defaults of the migration (\<open>status\<close> is
  \<open>PENDING_PAYMENT\<close>). \<open>row_check\<close> is the migration's \<open>order_status\<close> enumeration and its two
  \<open>CHECK\<close> constraints.
\<close>

fun set_col :: "column \<times> sql_value \<Rightarrow> order \<Rightarrow> order" where
  "set_col (ColId, VUuid i) r = r\<lparr>ord_ID := i\<rparr>"
| "set_col (ColUserId, VUuid u) r = r\<lparr>ord_UserID := u\<rparr>"
| "set_col (ColPartIds, VUuids ps) r = r\<lparr>ord_PartIDs := ps\<rparr>"
| "set_col (ColTotalPrice, VBigint n) r = r\<lparr>ord_TotalPrice := n\<rparr>"
| "set_col (ColTransactionId, VUuid t) r = r\<lparr>ord_TransactionID := Some t\<rparr>"
| "set_col (ColTransactionId, VNull) r = r\<lparr>ord_TransactionID := None\<rparr>"
| "set_col (ColPaymentMethod, VText m) r = r\<lparr>ord_PaymentMethod := Some m\<rparr>"
| "set_col (ColPaymentMethod, VNull) r = r\<lparr>ord_PaymentMethod := None\<rparr>"
| "set_col (ColStatus, VText s) r = r\<lparr>ord_Status := s\<rparr>"
| "set_col _ r = r"

fun col_value :: "order \<Rightarrow> column \<Rightarrow> sql_value" where
  "col_value r ColId = VUuid (ord_ID r)"
| "col_value r ColUserId = VUuid (ord_UserID r)"
| "col_value r ColPartIds = VUuids (ord_PartIDs r)"
| "col_value r ColTotalPrice = VBigint (ord_TotalPrice r)"
| "col_value r ColTransactionId = opt_uuid (ord_TransactionID r)"
| "col_value r ColPaymentMethod = opt_text (ord_PaymentMethod r)"
| "col_value r ColStatus = VText (ord_Status r)"

definition default_row :: "uuid \<Rightarrow> order" where
  "default_row i = zero_order\<lparr>ord_ID := i, ord_Status := StatusPendingPayment\<rparr>"

definition order_statuses :: "OrderStatus list" where
  "order_statuses = [StatusPendingPayment, StatusPaid, StatusCompleted, StatusCancelled]"

definition row_check :: "order \<Rightarrow> bool" where
  "row_check r \<longleftrightarrow>
     ord_Status r \<in> set order_statuses \<and> 0 \<le> sint (ord_TotalPrice r) \<and>
     (ord_Status r \<noteq> StatusPaid \<or> (ord_TransactionID r \<noteq> None \<and> ord_PaymentMethod r \<noteq> None))"

type_synonym orders_table = "uuid \<rightharpoonup> order"

text \<open>The invariant of the table: every row is stored under its own key and satisfies the checks.\<close>

definition table_ok :: "orders_table \<Rightarrow> bool" where
  "table_ok t \<longleftrightarrow> (\<forall>i r. t i = Some r \<longrightarrow> ord_ID r = i \<and> i \<noteq> uuid_Nil \<and> row_check r)"

lemma table_okD: "table_ok t \<Longrightarrow> t i = Some r \<Longrightarrow> ord_ID r = i \<and> i \<noteq> uuid_Nil \<and> row_check r"
  by (simp add: table_ok_def)

lemma table_ok_upd [intro]:
  "table_ok t \<Longrightarrow> ord_ID r = i \<Longrightarrow> i \<noteq> uuid_Nil \<Longrightarrow> row_check r \<Longrightarrow> table_ok (t(i \<mapsto> r))"
  by (simp add: table_ok_def)

text \<open>What an update means for a row, without the SQL: absent values leave the column alone.\<close>

definition merge_order :: "order \<Rightarrow> order \<Rightarrow> order" where
  "merge_order upd r = r\<lparr>
     ord_PartIDs := (if ord_PartIDs upd = [] then ord_PartIDs r else ord_PartIDs upd),
     ord_TotalPrice := (if ord_TotalPrice upd = 0 then ord_TotalPrice r else ord_TotalPrice upd),
     ord_TransactionID := (case ord_TransactionID upd of None \<Rightarrow> ord_TransactionID r | Some t \<Rightarrow> Some t),
     ord_PaymentMethod := (case ord_PaymentMethod upd of None \<Rightarrow> ord_PaymentMethod r | Some m \<Rightarrow> Some m),
     ord_Status := (if ord_Status upd = '''' then ord_Status r else ord_Status upd)\<rparr>"

lemma fold_set_map: "fold set_col (set_map upd) r = merge_order upd r"
  by (simp add: set_map_def merge_order_def split: option.splits)

lemma merge_order_sel [simp]:
  "ord_ID (merge_order upd r) = ord_ID r"
  "ord_UserID (merge_order upd r) = ord_UserID r"
  "ord_PartIDs (merge_order upd r) = (if ord_PartIDs upd = [] then ord_PartIDs r else ord_PartIDs upd)"
  "ord_TotalPrice (merge_order upd r) = (if ord_TotalPrice upd = 0 then ord_TotalPrice r else ord_TotalPrice upd)"
  "ord_TransactionID (merge_order upd r) =
     (case ord_TransactionID upd of None \<Rightarrow> ord_TransactionID r | Some t \<Rightarrow> Some t)"
  "ord_PaymentMethod (merge_order upd r) =
     (case ord_PaymentMethod upd of None \<Rightarrow> ord_PaymentMethod r | Some m \<Rightarrow> Some m)"
  "ord_Status (merge_order upd r) = (if ord_Status upd = '''' then ord_Status r else ord_Status upd)"
  by (simp_all add: merge_order_def)

text \<open>Updating a row with itself, changed only in its last three fields, stores exactly that.\<close>

lemma merge_order_self:
  assumes "ord_Status r' \<noteq> ''''" and "ord_TransactionID r' \<noteq> None \<or> ord_TransactionID r = None"
    and "ord_PaymentMethod r' \<noteq> None \<or> ord_PaymentMethod r = None"
    and "r' = r\<lparr>ord_TransactionID := t, ord_PaymentMethod := m, ord_Status := s\<rparr>"
  shows "merge_order r' r = r'"
  using assms by (auto simp: merge_order_def split: option.splits)

lemma fold_insert: "fold set_col (zip insert_columns (insert_values ord)) (default_row i) = ord\<lparr>ord_ID := i\<rparr>"
  by (simp add: insert_columns_def insert_values_def default_row_def zero_order_def
      opt_uuid_def opt_text_def split: option.splits)

lemma scan_opt_values [simp]:
  "scan_opt_uuid (opt_uuid x) = Some x" "scan_opt_text (opt_text y) = Some y"
  by (simp_all add: opt_uuid_def opt_text_def split: option.splits)

lemma scan_select [simp]: "scan_order (map (col_value r) select_columns) = Ok r"
  by (simp add: select_columns_def insert_columns_def)

section \<open>The contract of PostgreSQL and the contract of the repository\<close>

text \<open>
  \<open>tbl w\<close> is the content of the table in world \<open>w\<close>. A statement either succeeds with the effect
  PostgreSQL documents or returns an error and, being rolled back, changes nothing; an insert
  returns a fresh key; \<open>UPDATE\<close> reports how many rows the \<open>WHERE\<close> clause selected; a row that
  violates the migration's constraints is not stored. \<open>ErrNoRows\<close> is returned only where the key
  is absent.
\<close>

locale orders_db =
  fixes pg :: "('w, 'q) postgres"
    and tbl :: "'w \<Rightarrow> orders_table"
  assumes to_sql_no_panic: "ToSql pg s \<noteq> Panic p"
    and to_sql_foreign: "ToSql pg s = Err e \<Longrightarrow> \<not> errors_Is e x"
    and query_foreign: "QueryRow pg q w = (w', Err e) \<Longrightarrow> errors_Is e x \<Longrightarrow> x = PgxErrNoRows"
    and query_no_panic: "QueryRow pg q w \<noteq> (w', Panic p)"
    and exec_no_panic: "Exec pg q w \<noteq> (w', Panic p)"
    and sql_insert: "ToSql pg (InsertReturningId cols vals) = Ok q \<Longrightarrow> QueryRow pg q w = (w', Ok row) \<Longrightarrow>
      \<exists>i. row = [VUuid i] \<and> i \<noteq> uuid_Nil \<and> tbl w i = None \<and>
          row_check (fold set_col (zip cols vals) (default_row i)) \<and>
          tbl w' = (tbl w)(i \<mapsto> fold set_col (zip cols vals) (default_row i))"
    and sql_select: "ToSql pg (SelectWhereId cols i) = Ok q \<Longrightarrow> QueryRow pg q w = (w', Ok row) \<Longrightarrow>
      tbl w' = tbl w \<and> (\<exists>r. tbl w i = Some r \<and> row = map (col_value r) cols)"
    and select_no_rows: "ToSql pg (SelectWhereId cols i) = Ok q \<Longrightarrow> QueryRow pg q w = (w', Err e) \<Longrightarrow>
      errors_Is e PgxErrNoRows \<Longrightarrow> tbl w i = None"
    and query_err: "QueryRow pg q w = (w', Err e) \<Longrightarrow> tbl w' = tbl w"
    and sql_update: "ToSql pg (UpdateWhereId sets i) = Ok q \<Longrightarrow> Exec pg q w = (w', Ok n) \<Longrightarrow>
      (tbl w i = None \<and> n = 0 \<and> tbl w' = tbl w) \<or>
      (\<exists>r. tbl w i = Some r \<and> n = 1 \<and> row_check (fold set_col sets r) \<and>
           tbl w' = (tbl w)(i \<mapsto> fold set_col sets r))"
    and exec_err: "Exec pg q w = (w', Err e) \<Longrightarrow> tbl w' = tbl w"
begin

lemma inserted_row_scans:
  "ToSql pg (InsertReturningId cols vals) = Ok q \<Longrightarrow> QueryRow pg q w = (w', Ok row) \<Longrightarrow>
    scan_id row \<noteq> Err e"
  using sql_insert [of cols vals q w w' row] by auto

lemma selected_row_scans:
  "ToSql pg (SelectWhereId select_columns i) = Ok q \<Longrightarrow> QueryRow pg q w = (w', Ok row) \<Longrightarrow>
    scan_order row \<noteq> Err e"
  using sql_select [of select_columns i q w w' row] by auto

lemma update_some:
  "ToSql pg (UpdateWhereId sets i) = Ok q \<Longrightarrow> Exec pg q w = (w', Ok n) \<Longrightarrow> 0 < n \<Longrightarrow>
    \<exists>r. tbl w i = Some r \<and> row_check (fold set_col sets r) \<and> tbl w' = (tbl w)(i \<mapsto> fold set_col sets r)"
  using sql_update [of sets i q w w' n] by auto

lemma update_none:
  "ToSql pg (UpdateWhereId sets i) = Ok q \<Longrightarrow> Exec pg q w = (w', Ok 0) \<Longrightarrow> tbl w' = tbl w"
  using sql_update [of sets i q w w' 0] by auto

end

text \<open>
  What \<open>service.OrderRepository\<close> promises its client, with the SQL gone: the three operations act
  on the abstract table \<open>tbl\<close>.
\<close>

locale order_repo_api =
  fixes create :: "order \<Rightarrow> ('w, oerr, uuid) prog"
    and by_id :: "uuid \<Rightarrow> ('w, oerr, order) prog"
    and update :: "order \<Rightarrow> ('w, oerr, unit) prog"
    and tbl :: "'w \<Rightarrow> orders_table"
  assumes repo_no_panic:
      "create ord w \<noteq> (w', Panic p)" "by_id i w \<noteq> (w', Panic p)" "update ord w \<noteq> (w', Panic p)"
    and create_ok: "create ord w = (w', Ok i) \<Longrightarrow>
      i \<noteq> uuid_Nil \<and> tbl w i = None \<and> row_check (ord\<lparr>ord_ID := i\<rparr>) \<and>
      tbl w' = (tbl w)(i \<mapsto> ord\<lparr>ord_ID := i\<rparr>)"
    and create_err: "create ord w = (w', Err e) \<Longrightarrow> tbl w' = tbl w"
    and by_id_ok: "by_id i w = (w', Ok r) \<Longrightarrow> tbl w' = tbl w \<and> tbl w i = Some r"
    and by_id_err: "by_id i w = (w', Err e) \<Longrightarrow> tbl w' = tbl w"
    and by_id_not_found: "by_id i w = (w', Err e) \<Longrightarrow> errors_Is e ErrOrderNotFound \<Longrightarrow> tbl w i = None"
    and update_ok: "update upd w = (w', Ok ()) \<Longrightarrow> ord_Status upd \<noteq> '''' \<Longrightarrow>
      \<exists>r. tbl w (ord_ID upd) = Some r \<and> row_check (merge_order upd r) \<and>
          tbl w' = (tbl w)(ord_ID upd \<mapsto> merge_order upd r)"
    and update_err: "update upd w = (w', Err e) \<Longrightarrow> tbl w' = tbl w"
begin

lemma create_table_ok:
  "table_ok (tbl w) \<Longrightarrow> create ord w = (w', r) \<Longrightarrow> table_ok (tbl w')"
  using create_ok [of ord w w'] create_err [of ord w w'] by (cases r) (auto simp: repo_no_panic)

lemma by_id_frame: "by_id i w = (w', r) \<Longrightarrow> tbl w' = tbl w"
  by (cases r) (auto simp: repo_no_panic dest: by_id_ok by_id_err)

lemma update_table_ok:
  assumes "table_ok (tbl w)" and "ord_Status upd \<noteq> ''''" and "update upd w = (w', r)"
  shows "table_ok (tbl w')"
proof (cases r)
  case (Ok u)
  with assms obtain x where x: "tbl w (ord_ID upd) = Some x" and chk: "row_check (merge_order upd x)"
    and w': "tbl w' = (tbl w)(ord_ID upd \<mapsto> merge_order upd x)"
    using update_ok [of upd w w'] by auto
  show ?thesis
    unfolding w' using table_okD [OF assms(1) x] chk assms(1) by (intro table_ok_upd) auto
qed (use assms in \<open>auto simp: repo_no_panic dest: update_err\<close>)

text \<open>No operation of the contract makes a row disappear.\<close>

lemma create_keeps_rows: "create ord w = (w', r) \<Longrightarrow> tbl w i = Some x \<Longrightarrow> tbl w' i = Some x"
  using create_ok [of ord w w'] create_err [of ord w w'] by (cases r) (auto simp: repo_no_panic)

end

text \<open>The repository over any such database meets the contract.\<close>

lemma set_map_nonempty: "ord_Status upd \<noteq> '''' \<Longrightarrow> set_map upd \<noteq> []"
  by (simp add: set_map_def)

lemma scan_id_no_panic: "scan_id row \<noteq> Panic p"
  by (cases row rule: scan_id.cases) auto

lemma scan_order_no_panic: "scan_order row \<noteq> Panic p"
  by (cases row rule: scan_order.cases) (auto split: option.splits)

lemma scan_order_no_sentinel: "scan_order row = Err e \<Longrightarrow> \<not> errors_Is e x"
  by (cases row rule: scan_order.cases) (auto split: option.splits)

sublocale orders_db \<subseteq> order_repo_api "pg_Create pg" "pg_OrderByID pg" "pg_Update pg" tbl
proof unfold_locales
  fix ord upd :: order and w w' :: 'w and p :: string and i :: uuid and e :: oerr and r :: order
  show "pg_Create pg ord w \<noteq> (w', Panic p)"
    by (auto simp: pg_Create_def go_elims to_sql_no_panic query_no_panic scan_id_no_panic)
  show "pg_OrderByID pg i w \<noteq> (w', Panic p)"
    by (auto simp: pg_OrderByID_def go_elims to_sql_no_panic query_no_panic scan_order_no_panic)
  show "pg_Update pg ord w \<noteq> (w', Panic p)"
    by (auto simp: pg_Update_def go_elims to_sql_no_panic exec_no_panic split: if_splits)
  show "pg_Create pg ord w = (w', Ok i) \<Longrightarrow>
      i \<noteq> uuid_Nil \<and> tbl w i = None \<and> row_check (ord\<lparr>ord_ID := i\<rparr>) \<and>
      tbl w' = (tbl w)(i \<mapsto> ord\<lparr>ord_ID := i\<rparr>)"
    by (auto simp: pg_Create_def go_elims fold_insert dest!: sql_insert)
  show "pg_Create pg ord w = (w', Err e) \<Longrightarrow> tbl w' = tbl w"
    by (auto simp: pg_Create_def go_elims inserted_row_scans dest: query_err)
  show "pg_OrderByID pg i w = (w', Ok r) \<Longrightarrow> tbl w' = tbl w \<and> tbl w i = Some r"
    by (auto simp: pg_OrderByID_def go_elims dest!: sql_select)
  show "pg_OrderByID pg i w = (w', Err e) \<Longrightarrow> tbl w' = tbl w"
    by (auto simp: pg_OrderByID_def go_elims selected_row_scans dest: query_err)
  show "pg_Update pg upd w = (w', Ok ()) \<Longrightarrow> ord_Status upd \<noteq> '''' \<Longrightarrow>
      \<exists>r. tbl w (ord_ID upd) = Some r \<and> row_check (merge_order upd r) \<and>
          tbl w' = (tbl w)(ord_ID upd \<mapsto> merge_order upd r)"
    by (auto simp: pg_Update_def go_elims set_map_nonempty fold_set_map split: if_splits dest: update_some)
  show "pg_Update pg upd w = (w', Err e) \<Longrightarrow> tbl w' = tbl w"
    by (auto simp: pg_Update_def go_elims split: if_splits dest: exec_err update_none)
  show "pg_OrderByID pg i w = (w', Err e) \<Longrightarrow> errors_Is e ErrOrderNotFound \<Longrightarrow> tbl w i = None"
    by (auto simp: pg_OrderByID_def go_elims split: if_splits
        dest: to_sql_foreign query_foreign select_no_rows scan_order_no_sentinel)
qed

context orders_db
begin

lemma meets_repo_api: "order_repo_api (pg_Create pg) (pg_OrderByID pg) (pg_Update pg) tbl"
  by unfold_locales

end

section \<open>A table that meets the contract\<close>

text \<open>
  The migration's table as an interpreter of the three statements, over a world that holds the
  rows, the state of the key generator and whether the server answers: an insert takes the next
  key and fails where the key exists (\<open>PRIMARY KEY\<close>) or the row violates a constraint, an update
  fails where the new row violates one.
\<close>

record orders_world =
  ow_rows :: orders_table
  ow_next_id :: uuid
  ow_online :: bool

fun table_query :: "statement \<Rightarrow> (orders_world, oerr, sql_value list) prog" where
  "table_query (InsertReturningId cols vals) w =
     (let i = ow_next_id w; r = fold set_col (zip cols vals) (default_row i) in
      if \<not> ow_online w then (w, Err (ErrText ''connection refused''))
      else if i = uuid_Nil \<or> ow_rows w i \<noteq> None then (w, Err (ErrText ''unique violation''))
      else if \<not> row_check r then (w, Err (ErrText ''check violation''))
      else (w\<lparr>ow_rows := (ow_rows w)(i \<mapsto> r), ow_next_id := i + 1\<rparr>, Ok [VUuid i]))"
| "table_query (SelectWhereId cols i) w =
     (if \<not> ow_online w then (w, Err (ErrText ''connection refused''))
      else case ow_rows w i of
             None \<Rightarrow> (w, Err (Sentinel PgxErrNoRows))
           | Some r \<Rightarrow> (w, Ok (map (col_value r) cols)))"
| "table_query (UpdateWhereId sets i) w = (w, Err (Sentinel PgxErrNoRows))"

fun table_exec :: "statement \<Rightarrow> (orders_world, oerr, nat) prog" where
  "table_exec (UpdateWhereId sets i) w =
     (if \<not> ow_online w then (w, Err (ErrText ''connection refused''))
      else case ow_rows w i of
             None \<Rightarrow> (w, Ok 0)
           | Some r \<Rightarrow>
               (if \<not> row_check (fold set_col sets r) then (w, Err (ErrText ''check violation''))
                else (w\<lparr>ow_rows := (ow_rows w)(i \<mapsto> fold set_col sets r)\<rparr>, Ok 1)))"
| "table_exec _ w = (w, Err (ErrText ''not an update''))"

definition table_pg :: "(orders_world, statement) postgres" where
  "table_pg = \<lparr>ToSql = Ok, QueryRow = table_query, Exec = table_exec\<rparr>"

lemma table_no_panic [simp]: "table_query s w \<noteq> (w', Panic p)" "table_exec s w \<noteq> (w', Panic p)"
  by (cases s; simp add: Let_def split: option.splits)+

lemma table_query_err: "table_query s w = (w', Err e) \<Longrightarrow> w' = w \<and> (errors_Is e x \<longrightarrow> x = PgxErrNoRows)"
  by (cases s) (auto simp: Let_def split: if_splits option.splits)

lemma table_exec_err: "table_exec s w = (w', Err e) \<Longrightarrow> w' = w"
  by (cases s) (auto split: if_splits option.splits)

interpretation table_db: orders_db table_pg ow_rows
  by unfold_locales
    (auto simp: table_pg_def Let_def dest: table_query_err table_exec_err
      split: if_splits option.splits)

end
