(* ===== verification/Order_Service.thy ===== *)
theory Order_Service
  imports Order_Repository
begin

text \<open>
  The order service (\<open>order/internal/service/order/service.go\<close>): \<open>Create\<close>, \<open>Pay\<close>, \<open>OrderByID\<close>,
  \<open>Cancel\<close> and \<open>Complete\<close>. The struct's four interfaces are the fields of \<open>order_deps\<close>; each
  operation is a program over the world they share. Deadlines (\<open>context.WithTimeout\<close>) reach the
  model as errors of the dependency that was given the context; log lines are not modelled.
\<close>

record 'w order_deps =
  repo_Create :: "order \<Rightarrow> ('w, oerr, uuid) prog"
  repo_OrderByID :: "uuid \<Rightarrow> ('w, oerr, order) prog"
  repo_Update :: "order \<Rightarrow> ('w, oerr, unit) prog"
  inventory_ListParts :: "parts_filter \<Rightarrow> ('w, oerr, part list) prog"
  payment_PayOrder :: "pay_params \<Rightarrow> ('w, oerr, string) prog"
  producer_SendOrderPaid :: "paid_order \<Rightarrow> ('w, oerr, unit) prog"
  uuid_New :: "'w \<Rightarrow> 'w \<times> uuid"
  uuids :: uuid_lib

section \<open>The operations\<close>

text \<open>The loop over the listed parts: the running total and the identifiers of the parts that ran out.\<close>

fun price_loop :: "part list \<Rightarrow> int64 \<Rightarrow> string list \<Rightarrow> int64 \<times> string list" where
  "price_loop [] totalPrice endedParts = (totalPrice, endedParts)"
| "price_loop (p # ps) totalPrice endedParts =
     (if sint (part_StockQuantity p) \<le> 0 then price_loop ps totalPrice (endedParts @ [part_ID p])
      else price_loop ps (totalPrice + part_PriceCents p) endedParts)"

definition op_Create :: string where "op_Create = ''order.service.Create''"
definition op_Pay :: string where "op_Pay = ''order.service.Pay''"
definition op_OrderByID :: string where "op_OrderByID = ''order.service.OrderByID''"
definition op_Cancel :: string where "op_Cancel = ''order.service.Cancel''"
definition op_Complete :: string where "op_Complete = ''order.service.Complete''"

definition new_order :: "create_params \<Rightarrow> int64 \<Rightarrow> order" where
  "new_order params totalPrice = zero_order\<lparr>ord_UserID := cp_UserID params, ord_PartIDs := cp_PartIDs params,
     ord_TotalPrice := totalPrice, ord_Status := StatusPendingPayment\<rparr>"

definition Create :: "'w order_deps \<Rightarrow> create_params \<Rightarrow> ('w, oerr, create_result) prog" where
  "Create svc params =
     (if cp_UserID params = uuid_Nil \<or> cp_PartIDs params = []
      then fail (wrap op_Create (Sentinel ErrValidation))
      else call (inventory_ListParts svc
                   (zero_filter\<lparr>pf_IDs := map (uuid_String (uuids svc)) (cp_PartIDs params)\<rparr>))
             (\<lambda>_. wrap op_Create (Sentinel ErrBadGateway)) (\<lambda>parts.
           if length parts \<noteq> length (cp_PartIDs params)
           then fail (wrap op_Create (Sentinel ErrPartNotFound))
           else case price_loop parts 0 [] of (totalPrice, endedParts) \<Rightarrow>
             if endedParts \<noteq> []
             then fail (Wrapf (op_Create @ '': '') (Sentinel ErrPartsOutOfStock)
                          ('' '' @ fmt_v_strings endedParts))
             else call (repo_Create svc (new_order params totalPrice)) (wrap op_Create) (\<lambda>ordID.
                  ok \<lparr>cr_ID = ordID, cr_TotalPrice = totalPrice\<rparr>)))"

text \<open>
  \<open>Pay\<close> after the order was read: the status switch, the payment call, the update and the event.
  \<open>ord\<close> is the copy of the row that the repository returned.
\<close>

definition pay_paid :: "'w order_deps \<Rightarrow> pay_params \<Rightarrow> order \<Rightarrow> uuid \<Rightarrow> order" where
  "pay_paid svc params ord transactionID =
     ord\<lparr>ord_TransactionID := Some transactionID,
         ord_PaymentMethod := Some (pp_PaymentMethod params), ord_Status := StatusPaid\<rparr>"

definition paid_event :: "pay_params \<Rightarrow> order \<Rightarrow> uuid \<Rightarrow> uuid \<Rightarrow> paid_order" where
  "paid_event params ord transactionID eventID =
     \<lparr>po_EventID = eventID, po_OrderID = ord_ID ord, po_UserID = ord_UserID ord,
      po_PaymentMethod = pp_PaymentMethod params, po_TransactionID = transactionID\<rparr>"

definition parse_uuid :: "'w order_deps \<Rightarrow> string \<Rightarrow> (oerr, uuid) outcome" where
  "parse_uuid svc s =
     (case uuid_Parse (uuids svc) s of Ok u \<Rightarrow> Ok u | Err e \<Rightarrow> Err (ErrText e) | Panic p \<Rightarrow> Panic p)"

definition pay_send :: "'w order_deps \<Rightarrow> pay_params \<Rightarrow> order \<Rightarrow> uuid \<Rightarrow> ('w, oerr, pay_result) prog" where
  "pay_send svc params ord transactionID w =
     (case uuid_New svc w of (w1, eventID) \<Rightarrow>
        call (producer_SendOrderPaid svc (paid_event params ord transactionID eventID)) (wrap op_Pay)
          (\<lambda>_. ok \<lparr>pr_TransactionID = transactionID\<rparr>) w1)"

definition pay_charge :: "'w order_deps \<Rightarrow> pay_params \<Rightarrow> order \<Rightarrow> ('w, oerr, uuid) prog" where
  "pay_charge svc params ord =
     call (payment_PayOrder svc (params\<lparr>pp_UserID := ord_UserID ord\<rparr>))
       (\<lambda>_. wrap op_Pay (Sentinel ErrBadGateway)) (\<lambda>transactionIDStr.
     call (lift (parse_uuid svc transactionIDStr)) (wrap op_Pay) ok)"

definition pay_guard :: "order \<Rightarrow> order_sentinel option" where
  "pay_guard ord =
     (if ord_Status ord = StatusPendingPayment then None
      else if ord_Status ord = StatusPaid \<or> ord_Status ord = StatusCancelled then Some ErrOrderConflict
      else Some ErrUnknownStatus)"

definition Pay :: "'w order_deps \<Rightarrow> pay_params \<Rightarrow> ('w, oerr, pay_result) prog" where
  "Pay svc params =
     call (repo_OrderByID svc (pp_ID params)) (wrap op_Pay) (\<lambda>ord.
     case pay_guard ord of
       Some e \<Rightarrow> fail (wrap op_Pay (Sentinel e))
     | None \<Rightarrow>
         call (pay_charge svc params ord) id (\<lambda>transactionID.
         call (repo_Update svc (pay_paid svc params ord transactionID)) (wrap op_Pay) (\<lambda>_.
         pay_send svc params ord transactionID)))"

definition OrderByID :: "'w order_deps \<Rightarrow> uuid \<Rightarrow> ('w, oerr, order) prog" where
  "OrderByID svc ordID = call (repo_OrderByID svc ordID) (wrap op_OrderByID) ok"

definition cancel_guard :: "order \<Rightarrow> order_sentinel option" where
  "cancel_guard ord =
     (if ord_Status ord = StatusPendingPayment then None
      else if ord_Status ord = StatusPaid then Some ErrOrderConflict
      else if ord_Status ord = StatusCompleted then Some ErrOrderConflict
      else Some ErrUnknownStatus)"

definition Cancel :: "'w order_deps \<Rightarrow> uuid \<Rightarrow> ('w, oerr, unit) prog" where
  "Cancel svc ordID =
     call (repo_OrderByID svc ordID) (wrap op_Cancel) (\<lambda>ord.
     case cancel_guard ord of
       Some e \<Rightarrow> fail (wrap op_Cancel (Sentinel e))
     | None \<Rightarrow> call (repo_Update svc (ord\<lparr>ord_Status := StatusCancelled\<rparr>)) (wrap op_Cancel) ok)"

definition Complete :: "'w order_deps \<Rightarrow> uuid \<Rightarrow> ('w, oerr, unit) prog" where
  "Complete svc ordID =
     call (repo_Update svc (zero_order\<lparr>ord_ID := ordID, ord_Status := StatusCompleted\<rparr>))
       (wrap op_Complete) ok"

section \<open>Lemmas\<close>

definition in_stock :: "part \<Rightarrow> bool" where
  "in_stock p \<longleftrightarrow> 0 < sint (part_StockQuantity p)"

lemma price_loop_eq:
  "price_loop ps t es =
     (t + sum_list (map part_PriceCents (filter in_stock ps)),
      es @ map part_ID (filter (\<lambda>p. \<not> in_stock p) ps))"
  by (induction ps arbitrary: t es) (auto simp: in_stock_def not_less)

lemma price_loop_none_ended:
  "price_loop ps 0 [] = (t, []) \<longleftrightarrow> (\<forall>p \<in> set ps. in_stock p) \<and> t = sum_list (map part_PriceCents ps)"
  by (auto simp: price_loop_eq filter_empty_conv filter_id_conv [THEN iffD2])

text \<open>A sum of non-negative prices that fits in 63 bits does not wrap.\<close>

lemma sint_sum_list:
  fixes xs :: "int64 list"
  assumes "\<forall>x \<in> set xs. 0 \<le> sint x" and "(\<Sum>x\<leftarrow>xs. sint x) < 2 ^ 63"
  shows "sint (sum_list xs) = (\<Sum>x\<leftarrow>xs. sint x)"
  using assms
proof (induction xs)
  case Nil
  then show ?case by simp
next
  case (Cons x xs)
  have nonneg: "0 \<le> (\<Sum>x\<leftarrow>xs. sint x)" using Cons.prems(1) by (intro sum_list_nonneg) auto
  then have IH: "sint (sum_list xs) = (\<Sum>x\<leftarrow>xs. sint x)" using Cons by auto
  have "sint (x + sum_list xs) = signed_take_bit 63 (sint x + sint (sum_list xs))"
    by (simp add: sint_word_ariths)
  also have "\<dots> = sint x + sint (sum_list xs)"
    using Cons.prems nonneg IH by (intro signed_take_bit_int_eq_self) auto
  finally show ?case using IH by simp
qed

lemma pay_guard_None [simp]: "pay_guard ord = None \<longleftrightarrow> ord_Status ord = StatusPendingPayment"
  by (simp add: pay_guard_def)

lemma cancel_guard_None [simp]: "cancel_guard ord = None \<longleftrightarrow> ord_Status ord = StatusPendingPayment"
  by (simp add: cancel_guard_def)

lemma pay_paid_sel [simp]:
  "ord_ID (pay_paid svc params ord t) = ord_ID ord"
  "ord_Status (pay_paid svc params ord t) = StatusPaid"
  by (simp_all add: pay_paid_def)

lemma merge_pay_paid [simp]: "merge_order (pay_paid svc params ord t) ord = pay_paid svc params ord t"
  by (simp add: pay_paid_def merge_order_def)

lemma merge_cancelled [simp]:
  "merge_order (ord\<lparr>ord_Status := StatusCancelled\<rparr>) ord = ord\<lparr>ord_Status := StatusCancelled\<rparr>"
  by (simp add: merge_order_def split: option.splits)

lemma merge_completed [simp]:
  "merge_order (zero_order\<lparr>ord_ID := i, ord_Status := StatusCompleted\<rparr>) ord = ord\<lparr>ord_Status := StatusCompleted\<rparr>"
  by (simp add: merge_order_def zero_order_def)

section \<open>The life cycle of an order\<close>

text \<open>
  The changes a stored order can undergo, as the abstract specification of the three operations
  that write one: payment and cancellation leave from \<open>PENDING_PAYMENT\<close> only, completion from
  anywhere.
\<close>

inductive order_step :: "order \<Rightarrow> order \<Rightarrow> bool" where
  step_pay: "ord_Status r = StatusPendingPayment \<Longrightarrow>
     order_step r (r\<lparr>ord_TransactionID := Some t, ord_PaymentMethod := Some m, ord_Status := StatusPaid\<rparr>)"
| step_cancel: "ord_Status r = StatusPendingPayment \<Longrightarrow> order_step r (r\<lparr>ord_Status := StatusCancelled\<rparr>)"
| step_complete: "order_step r (r\<lparr>ord_Status := StatusCompleted\<rparr>)"

lemma order_step_frame:
  "order_step r r' \<Longrightarrow> ord_ID r' = ord_ID r \<and> ord_UserID r' = ord_UserID r \<and>
     ord_PartIDs r' = ord_PartIDs r \<and> ord_TotalPrice r' = ord_TotalPrice r"
  by (induction rule: order_step.induct) auto

lemma order_step_status:
  "order_step r r' \<Longrightarrow>
     (ord_Status r = StatusPendingPayment \<and> ord_Status r' \<in> {StatusPaid, StatusCancelled}) \<or>
     ord_Status r' = StatusCompleted"
  by (induction rule: order_step.induct) auto

lemma order_steps_frame:
  "order_step\<^sup>*\<^sup>* r r' \<Longrightarrow> ord_ID r' = ord_ID r \<and> ord_UserID r' = ord_UserID r \<and>
     ord_PartIDs r' = ord_PartIDs r \<and> ord_TotalPrice r' = ord_TotalPrice r"
  by (induction rule: rtranclp_induct) (auto dest: order_step_frame)

text \<open>An order that left \<open>PENDING_PAYMENT\<close> can only stay where it is or be completed.\<close>

lemma order_steps_settled:
  assumes "order_step\<^sup>*\<^sup>* r r'" and "ord_Status r \<noteq> StatusPendingPayment"
  shows "(ord_Status r' = ord_Status r \<or> ord_Status r' = StatusCompleted) \<and>
    ord_TransactionID r' = ord_TransactionID r \<and> ord_PaymentMethod r' = ord_PaymentMethod r"
  using assms
proof (induction rule: rtranclp_induct)
  case (step y z)
  then have y: "ord_Status y \<noteq> StatusPendingPayment" by auto
  from step(2) y have "ord_Status z = StatusCompleted \<and> ord_TransactionID z = ord_TransactionID y \<and>
      ord_PaymentMethod z = ord_PaymentMethod y"
    by cases auto
  with step show ?case by auto
qed simp

text \<open>The requests of one service instance, and a sequence of them handled one after the other.\<close>

datatype request =
    ReqCreate create_params | ReqPay pay_params | ReqGet uuid | ReqCancel uuid | ReqComplete uuid

fun handle_request :: "'w order_deps \<Rightarrow> request \<Rightarrow> 'w \<Rightarrow> 'w" where
  "handle_request svc (ReqCreate p) w = fst (Create svc p w)"
| "handle_request svc (ReqPay p) w = fst (Pay svc p w)"
| "handle_request svc (ReqGet i) w = fst (OrderByID svc i w)"
| "handle_request svc (ReqCancel i) w = fst (Cancel svc i w)"
| "handle_request svc (ReqComplete i) w = fst (Complete svc i w)"

text \<open>How one request may change a table: rows stay, and a row changes by an \<open>order_step\<close> or not at all.\<close>

definition table_step :: "orders_table \<Rightarrow> orders_table \<Rightarrow> bool" where
  "table_step t t' \<longleftrightarrow> (\<forall>i r. t i = Some r \<longrightarrow> (\<exists>r'. t' i = Some r' \<and> order_step\<^sup>*\<^sup>* r r'))"

lemma table_stepD: "table_step t t' \<Longrightarrow> t i = Some r \<Longrightarrow> \<exists>r'. t' i = Some r' \<and> order_step\<^sup>*\<^sup>* r r'"
  by (auto simp: table_step_def)

lemma table_step_refl [simp]: "table_step t t"
  by (auto simp: table_step_def)

lemma table_step_trans: "table_step t u \<Longrightarrow> table_step u v \<Longrightarrow> table_step t v"
  unfolding table_step_def by (meson rtranclp_trans)

lemma table_step_insert: "t i = None \<Longrightarrow> table_step t (t(i \<mapsto> r))"
  by (auto simp: table_step_def)

lemma table_step_change: "t i = Some r \<Longrightarrow> order_step r r' \<Longrightarrow> table_step t (t(i \<mapsto> r'))"
  by (auto simp: table_step_def)

lemma row_check_steps [simp]:
  "row_check r \<Longrightarrow> row_check (r\<lparr>ord_TransactionID := Some t, ord_PaymentMethod := Some m, ord_Status := StatusPaid\<rparr>)"
  "row_check r \<Longrightarrow> row_check (r\<lparr>ord_Status := StatusCancelled\<rparr>)"
  "row_check r \<Longrightarrow> row_check (r\<lparr>ord_Status := StatusCompleted\<rparr>)"
  by (simp_all add: row_check_def order_statuses_def)

lemma row_check_order_step: "order_step r r' \<Longrightarrow> row_check r \<Longrightarrow> row_check r'"
  by (induction rule: order_step.induct) auto

text \<open>A step keeps the table's invariant.\<close>

lemma table_ok_step: "table_ok t \<Longrightarrow> t i = Some r \<Longrightarrow> order_step r r' \<Longrightarrow> table_ok (t(i \<mapsto> r'))"
  by (auto dest: table_okD order_step_frame row_check_order_step)

section \<open>What the service does to the table\<close>

text \<open>
  The environment of the service: a repository that meets its contract, and an inventory client, a
  payment client, a producer and an identifier generator that do not write the orders table.
\<close>

locale order_service_env =
  order_repo_api "repo_Create svc" "repo_OrderByID svc" "repo_Update svc" tbl
  for svc :: "'w order_deps" and tbl :: "'w \<Rightarrow> orders_table" +
  assumes list_frame: "keeps tbl (inventory_ListParts svc f)"
    and pay_frame: "keeps tbl (payment_PayOrder svc p)"
    and send_frame: "keeps tbl (producer_SendOrderPaid svc e)"
    and uuid_frame: "uuid_New svc w = (w', u) \<Longrightarrow> tbl w' = tbl w"
begin

lemma charge_frame: "keeps tbl (pay_charge svc params ord)"
  unfolding pay_charge_def by (intro keeps_call pay_frame keeps_lift keeps_ok)

lemma send_step_frame: "keeps tbl (pay_send svc params ord t)"
proof (rule keepsI)
  fix w w' r
  assume run: "pay_send svc params ord t w = (w', r)"
  obtain w1 u where u: "uuid_New svc w = (w1, u)" by fastforce
  have "keeps tbl (call (producer_SendOrderPaid svc (paid_event params ord t u)) (wrap op_Pay)
      (\<lambda>_. ok \<lparr>pr_TransactionID = t\<rparr>))"
    by (intro keeps_call send_frame keeps_ok)
  from keepsD [OF this] run u show "tbl w' = tbl w"
    by (auto simp: pay_send_def uuid_frame)
qed

lemma create_stores:
  assumes "Create svc params w = (w', Ok res)"
  shows "\<exists>w1 parts. inventory_ListParts svc
            (zero_filter\<lparr>pf_IDs := map (uuid_String (uuids svc)) (cp_PartIDs params)\<rparr>) w = (w1, Ok parts) \<and>
          length parts = length (cp_PartIDs params) \<and> (\<forall>p \<in> set parts. in_stock p) \<and>
          cr_TotalPrice res = sum_list (map part_PriceCents parts) \<and>
          cr_ID res \<noteq> uuid_Nil \<and> tbl w (cr_ID res) = None \<and> 0 \<le> sint (cr_TotalPrice res) \<and>
          tbl w' = (tbl w)(cr_ID res \<mapsto> (new_order params (cr_TotalPrice res))\<lparr>ord_ID := cr_ID res\<rparr>)"
proof -
  from assms obtain w1 parts where
    list: "inventory_ListParts svc (zero_filter\<lparr>pf_IDs := map (uuid_String (uuids svc)) (cp_PartIDs params)\<rparr>) w
      = (w1, Ok parts)" and len: "length parts = length (cp_PartIDs params)"
    and run: "(case price_loop parts 0 [] of (totalPrice, endedParts) \<Rightarrow>
             if endedParts \<noteq> []
             then fail (Wrapf (op_Create @ '': '') (Sentinel ErrPartsOutOfStock)
                          ('' '' @ fmt_v_strings endedParts))
             else call (repo_Create svc (new_order params totalPrice)) (wrap op_Create) (\<lambda>ordID.
                  ok \<lparr>cr_ID = ordID, cr_TotalPrice = totalPrice\<rparr>)) w1 = (w', Ok res)"
    by (auto simp: Create_def go_elims split: if_splits)
  then obtain t where t: "price_loop parts 0 [] = (t, [])"
    and rest: "call (repo_Create svc (new_order params t)) (wrap op_Create)
      (\<lambda>ordID. ok \<lparr>cr_ID = ordID, cr_TotalPrice = t\<rparr>) w1 = (w', Ok res)"
    by (auto split: prod.splits if_splits)
  from rest obtain i where i: "repo_Create svc (new_order params t) w1 = (w', Ok i)"
    and res: "res = \<lparr>cr_ID = i, cr_TotalPrice = t\<rparr>"
    by (auto simp: go_elims)
  have "tbl w1 = tbl w" using keepsD [OF list_frame list] .
  with create_ok [OF i] list len t res show ?thesis
    by (auto simp: price_loop_none_ended row_check_def new_order_def)
qed

lemma create_no_effect:
  assumes "Create svc params w = (w', Err e)"
  shows "tbl w' = tbl w"
  using assms
  by (auto simp: Create_def go_elims split: if_splits prod.splits
      dest!: keepsD [OF list_frame] create_err)

lemma pay_stores:
  assumes ok: "table_ok (tbl w)" and run: "Pay svc params w = (w', Ok res)"
  shows "\<exists>r. tbl w (pp_ID params) = Some r \<and> ord_Status r = StatusPendingPayment \<and>
    tbl w' = (tbl w)(pp_ID params \<mapsto> pay_paid svc params r (pr_TransactionID res))"
proof -
  from run obtain w1 r w2 t w3 where
    read: "repo_OrderByID svc (pp_ID params) w = (w1, Ok r)" and st: "ord_Status r = StatusPendingPayment"
    and charge: "pay_charge svc params r w1 = (w2, Ok t)"
    and upd: "repo_Update svc (pay_paid svc params r t) w2 = (w3, Ok ())"
    and send: "pay_send svc params r t w3 = (w', Ok res)"
    by (auto simp: Pay_def go_elims)
  from by_id_ok [OF read] have w1: "tbl w1 = tbl w" and row: "tbl w (pp_ID params) = Some r" by auto
  have w2: "tbl w2 = tbl w1" using keepsD [OF charge_frame charge] .
  have w': "tbl w' = tbl w3" using keepsD [OF send_step_frame send] .
  have id: "ord_ID r = pp_ID params" using table_okD [OF ok row] by simp
  have res: "pr_TransactionID res = t"
    using send by (auto simp: pay_send_def go_elims split: prod.splits)
  show ?thesis using update_ok [OF upd] row st w1 w2 w' id res by auto
qed


text \<open>A payment that failed left the table alone, or the order is paid and only its event is missing.\<close>

lemma pay_failed:
  assumes ok: "table_ok (tbl w)" and run: "Pay svc params w = (w', Err e)"
  shows "tbl w' = tbl w \<or>
    (\<exists>r t w3. tbl w (pp_ID params) = Some r \<and> ord_Status r = StatusPendingPayment \<and>
       tbl w' = (tbl w)(pp_ID params \<mapsto> pay_paid svc params r t) \<and>
       pay_send svc params r t w3 = (w', Err e))"
proof -
  from run consider
      (read) e0 where "repo_OrderByID svc (pp_ID params) w = (w', Err e0)"
    | (guard) r where "repo_OrderByID svc (pp_ID params) w = (w', Ok r)"
    | (charge) w1 r e1 where "repo_OrderByID svc (pp_ID params) w = (w1, Ok r)"
        "pay_charge svc params r w1 = (w', Err e1)"
    | (update) w1 r w2 t e2 where "repo_OrderByID svc (pp_ID params) w = (w1, Ok r)"
        "pay_charge svc params r w1 = (w2, Ok t)"
        "repo_Update svc (pay_paid svc params r t) w2 = (w', Err e2)"
    | (late) w1 r w2 t w3 where "repo_OrderByID svc (pp_ID params) w = (w1, Ok r)"
        "ord_Status r = StatusPendingPayment" "pay_charge svc params r w1 = (w2, Ok t)"
        "repo_Update svc (pay_paid svc params r t) w2 = (w3, Ok ())"
        "pay_send svc params r t w3 = (w', Err e)"
    by (auto simp: Pay_def go_elims)
  then show ?thesis
  proof cases
    case late
    have "tbl w' = tbl w3" "tbl w2 = tbl w"
      using keepsD [OF send_step_frame late(5)] keepsD [OF charge_frame late(3)] by_id_ok [OF late(1)]
      by auto
    moreover have "tbl w (pp_ID params) = Some r" using by_id_ok [OF late(1)] by simp
    moreover from this have "ord_ID r = pp_ID params" using table_okD [OF ok] by blast
    ultimately show ?thesis using update_ok [OF late(4)] late(2,5) by auto
  qed (auto dest!: by_id_frame keepsD [OF charge_frame] update_err)
qed

lemma cancel_stores:
  assumes ok: "table_ok (tbl w)" and run: "Cancel svc i w = (w', Ok ())"
  shows "\<exists>r. tbl w i = Some r \<and> ord_Status r = StatusPendingPayment \<and>
    tbl w' = (tbl w)(i \<mapsto> r\<lparr>ord_Status := StatusCancelled\<rparr>)"
proof -
  from run obtain w1 r where read: "repo_OrderByID svc i w = (w1, Ok r)"
    and st: "ord_Status r = StatusPendingPayment"
    and upd: "repo_Update svc (r\<lparr>ord_Status := StatusCancelled\<rparr>) w1 = (w', Ok ())"
    by (auto simp: Cancel_def go_elims)
  from by_id_ok [OF read] have "tbl w1 = tbl w" and row: "tbl w i = Some r" by auto
  with update_ok [OF upd] table_okD [OF ok row] st show ?thesis by auto
qed

lemma cancel_no_effect: "Cancel svc i w = (w', Err e) \<Longrightarrow> tbl w' = tbl w"
  by (auto simp: Cancel_def go_elims dest!: by_id_frame update_err)

lemma complete_stores:
  assumes "Complete svc i w = (w', Ok ())"
  shows "\<exists>r. tbl w i = Some r \<and> tbl w' = (tbl w)(i \<mapsto> r\<lparr>ord_Status := StatusCompleted\<rparr>)"
proof -
  from assms have "repo_Update svc (zero_order\<lparr>ord_ID := i, ord_Status := StatusCompleted\<rparr>) w = (w', Ok ())"
    by (auto simp: Complete_def go_elims)
  from update_ok [OF this] show ?thesis by auto
qed

lemma complete_no_effect: "Complete svc i w = (w', Err e) \<Longrightarrow> tbl w' = tbl w"
  by (auto simp: Complete_def go_elims dest!: update_err)

lemma read_no_effect: "OrderByID svc i w = (w', r) \<Longrightarrow> tbl w' = tbl w"
proof -
  have "keeps tbl (repo_OrderByID svc i)" by (rule keepsI) (rule by_id_frame)
  then have "keeps tbl (OrderByID svc i)" unfolding OrderByID_def by (intro keeps_call keeps_ok)
  then show "OrderByID svc i w = (w', r) \<Longrightarrow> tbl w' = tbl w" by (rule keepsD)
qed

lemma read_returns: "OrderByID svc i w = (w', Ok r) \<Longrightarrow> tbl w i = Some r"
  by (auto simp: OrderByID_def go_elims dest!: by_id_ok)


text \<open>However a request ends, it changed at most one row, by one step of the life cycle.\<close>

lemma pay_table:
  assumes ok: "table_ok (tbl w)" and run: "Pay svc params w = (w', res)"
  shows "tbl w' = tbl w \<or>
    (\<exists>r t. tbl w (pp_ID params) = Some r \<and> ord_Status r = StatusPendingPayment \<and>
       tbl w' = (tbl w)(pp_ID params \<mapsto> pay_paid svc params r t))"
proof (cases res)
  case (Ok a)
  then show ?thesis using pay_stores [OF ok] run by blast
next
  case (Err e)
  then show ?thesis using pay_failed [OF ok] run by blast
next
  case (Panic p)
  with run consider
      (guard) r where "repo_OrderByID svc (pp_ID params) w = (w', Ok r)"
    | (charge) w1 r where "repo_OrderByID svc (pp_ID params) w = (w1, Ok r)"
        "pay_charge svc params r w1 = (w', Panic p)"
    | (late) w1 r w2 t w3 where "repo_OrderByID svc (pp_ID params) w = (w1, Ok r)"
        "ord_Status r = StatusPendingPayment" "pay_charge svc params r w1 = (w2, Ok t)"
        "repo_Update svc (pay_paid svc params r t) w2 = (w3, Ok ())"
        "pay_send svc params r t w3 = (w', Panic p)"
    by (auto simp: Pay_def go_elims repo_no_panic)
  then show ?thesis
  proof cases
    case late
    have "tbl w' = tbl w3" "tbl w2 = tbl w"
      using keepsD [OF send_step_frame late(5)] keepsD [OF charge_frame late(3)] by_id_ok [OF late(1)]
      by auto
    moreover have "tbl w (pp_ID params) = Some r" using by_id_ok [OF late(1)] by simp
    moreover from this have "ord_ID r = pp_ID params" using table_okD [OF ok] by blast
    ultimately show ?thesis using update_ok [OF late(4)] late(2) by auto
  qed (auto dest!: by_id_frame keepsD [OF charge_frame])
qed

lemma create_table:
  assumes "Create svc params w = (w', res)"
  shows "tbl w' = tbl w \<or>
    (\<exists>r. tbl w (ord_ID r) = None \<and> ord_ID r \<noteq> uuid_Nil \<and> row_check r \<and>
       tbl w' = (tbl w)(ord_ID r \<mapsto> r))"
proof -
  from assms consider
      (same) "w' = w"
    | (listed) f r where "inventory_ListParts svc f w = (w', r)"
    | (created) f w1 parts ord r where "inventory_ListParts svc f w = (w1, Ok parts)"
        "repo_Create svc ord w1 = (w', r)"
    unfolding Create_def call_iff
    by (simp add: call_iff split: if_splits prod.splits) blast+
  then show ?thesis
  proof cases
    case created
    have "tbl w1 = tbl w" using keepsD [OF list_frame created(1)] .
    with created(2) show ?thesis
    proof (cases r)
      case (Ok i)
      with created(2) create_ok [of ord w1 w' i] \<open>tbl w1 = tbl w\<close> show ?thesis
        by (intro disjI2 exI [of _ "ord\<lparr>ord_ID := i\<rparr>"]) auto
    qed (auto dest: create_err simp: repo_no_panic)
  qed (auto dest: keepsD [OF list_frame])
qed

lemma cancel_table:
  assumes "table_ok (tbl w)" and "Cancel svc i w = (w', res)"
  shows "tbl w' = tbl w \<or> (\<exists>r. tbl w i = Some r \<and> ord_Status r = StatusPendingPayment \<and>
    tbl w' = (tbl w)(i \<mapsto> r\<lparr>ord_Status := StatusCancelled\<rparr>))"
proof (cases res)
  case (Ok u)
  then show ?thesis using cancel_stores assms by auto
next
  case (Panic p)
  with assms show ?thesis by (auto simp: Cancel_def go_elims repo_no_panic)
qed (use assms in \<open>auto dest: cancel_no_effect\<close>)

lemma complete_table:
  assumes "Complete svc i w = (w', res)"
  shows "tbl w' = tbl w \<or> (\<exists>r. tbl w i = Some r \<and>
    tbl w' = (tbl w)(i \<mapsto> r\<lparr>ord_Status := StatusCompleted\<rparr>))"
proof (cases res)
  case (Ok u)
  then show ?thesis using complete_stores assms by auto
next
  case (Panic p)
  with assms show ?thesis by (auto simp: Complete_def go_elims repo_no_panic)
qed (use assms in \<open>auto dest: complete_no_effect\<close>)

lemma pay_paid_step: "ord_Status r = StatusPendingPayment \<Longrightarrow> order_step r (pay_paid svc params r t)"
  unfolding pay_paid_def by (rule step_pay)

lemma handle_request_ok:
  assumes "table_ok (tbl w)"
  shows "table_ok (tbl (handle_request svc q w)) \<and> table_step (tbl w) (tbl (handle_request svc q w))"
proof -
  note changes = table_step_insert table_step_change table_ok_step table_ok_upd pay_paid_step
    step_cancel step_complete
  show ?thesis
  proof (cases q)
    case (ReqCreate p)
    then show ?thesis using create_table [of p w] assms changes by (cases "Create svc p w") fastforce
  next
    case (ReqPay p)
    then show ?thesis using pay_table [of w p] assms changes by (cases "Pay svc p w") fastforce
  next
    case (ReqGet i)
    then show ?thesis using read_no_effect [of i w] assms by (cases "OrderByID svc i w") auto
  next
    case (ReqCancel i)
    then show ?thesis using cancel_table [of w i] assms changes by (cases "Cancel svc i w") fastforce
  next
    case (ReqComplete i)
    then show ?thesis using complete_table [of i w] assms changes by (cases "Complete svc i w") fastforce
  qed
qed

lemma handle_requests_ok:
  "table_ok (tbl w) \<Longrightarrow>
    table_ok (tbl (fold (handle_request svc) qs w)) \<and>
    table_step (tbl w) (tbl (fold (handle_request svc) qs w))"
proof (induction qs arbitrary: w)
  case (Cons q qs)
  with handle_request_ok [of w q] show ?case by (auto intro: table_step_trans)
qed simp

end

end
