(* ===== verification/Oapi.thy ===== *)
theory Oapi
  imports Order_Model
begin

text \<open>
  The OpenAPI layer of the order service (\<open>shared/pkg/openapi/order/v1\<close>): the schema types, their
  validators, the router that picks an operation from a method and a path, and the encoders that
  give a response its HTTP status. The JSON text itself is written by the jx library: a reply holds
  the value to be written. \<open>uri.NormalizeEscapedPath\<close> and \<open>url.PathUnescape\<close> are parameters.
\<close>

section \<open>Schema types\<close>

datatype api_error_type =
    BadRequestError | UnauthorizedError | ForbiddenError | NotFoundError | ConflictError
  | ValidationError | RateLimitError | InternalServerError | BadGatewayError
  | ServiceUnavailableError

text \<open>
  The ten error structs share \<open>Code\<close> and \<open>Message\<close> (\<open>OptInt32\<close>, \<open>OptString\<close>); \<open>ValidationError\<close>
  alone also has \<open>Details\<close>, which is \<open>None\<close> in a value of any other type.
\<close>

record api_error =
  ae_Type :: api_error_type
  ae_Code :: "int32 option"
  ae_Message :: "string option"
  ae_Details :: "string list option" \<comment> \<open>\<open>None\<close> is the nil slice\<close>

text \<open>\<open>OptNil...\<close>: not set, set to null, or set to a value.\<close>

datatype 'a opt_nil = Unset | SetNull | SetTo 'a

record create_order_request =
  cor_UserUUID :: uuid
  cor_PartUuids :: "uuid list option" \<comment> \<open>\<open>None\<close> is the nil slice\<close>

record create_order_response =
  cos_UUID :: uuid
  cos_TotalPrice :: string

record pay_order_request =
  por_PaymentMethod :: string

record pay_order_response =
  pos_TransactionUUID :: uuid

record api_order =
  ao_OrderUUID :: uuid
  ao_UserUUID :: uuid
  ao_PartUuids :: "uuid list option" \<comment> \<open>\<open>None\<close> is the nil slice\<close>
  ao_TotalPrice :: string
  ao_TransactionUUID :: "uuid opt_nil"
  ao_PaymentMethod :: "string opt_nil"
  ao_Status :: string

text \<open>A value of one of the four response interfaces: the success type or an error struct.\<close>

datatype 'a api_res = ApiOk 'a | ApiErr api_error

section \<open>Response encoders\<close>

record 'a reply =
  rp_Status :: nat
  rp_ContentType :: "string option"
  rp_SpanOk :: bool
  rp_Body :: "'a option"

definition json_utf8 :: string where
  "json_utf8 = ''application/json; charset=utf-8''"

definition json_reply :: "nat \<Rightarrow> bool \<Rightarrow> 'a \<Rightarrow> (string, 'a reply) outcome" where
  "json_reply status okay body =
     Ok \<lparr>rp_Status = status, rp_ContentType = Some json_utf8, rp_SpanOk = okay, rp_Body = Some body\<rparr>"

definition unexpected :: "(string, 'a reply) outcome" where
  "unexpected = Err ''unexpected response type''"

definition encodeCancelOrderResponse :: "unit api_res \<Rightarrow> (string, unit api_res reply) outcome" where
  "encodeCancelOrderResponse response =
     (case response of
        ApiOk _ \<Rightarrow> Ok \<lparr>rp_Status = 204, rp_ContentType = None, rp_SpanOk = True, rp_Body = None\<rparr>
      | ApiErr e \<Rightarrow> (case ae_Type e of
          BadRequestError \<Rightarrow> json_reply 400 False response
        | UnauthorizedError \<Rightarrow> json_reply 401 False response
        | ForbiddenError \<Rightarrow> json_reply 403 False response
        | NotFoundError \<Rightarrow> json_reply 404 False response
        | ConflictError \<Rightarrow> json_reply 409 False response
        | RateLimitError \<Rightarrow> json_reply 429 False response
        | InternalServerError \<Rightarrow> json_reply 500 False response
        | _ \<Rightarrow> unexpected))"

definition encodeCreateOrderResponse ::
  "create_order_response api_res \<Rightarrow> (string, create_order_response api_res reply) outcome" where
  "encodeCreateOrderResponse response =
     (case response of
        ApiOk _ \<Rightarrow> json_reply 201 True response
      | ApiErr e \<Rightarrow> (case ae_Type e of
          BadRequestError \<Rightarrow> json_reply 400 False response
        | UnauthorizedError \<Rightarrow> json_reply 401 False response
        | ForbiddenError \<Rightarrow> json_reply 403 False response
        | NotFoundError \<Rightarrow> json_reply 404 False response
        | ValidationError \<Rightarrow> json_reply 422 False response
        | RateLimitError \<Rightarrow> json_reply 429 False response
        | InternalServerError \<Rightarrow> json_reply 500 False response
        | BadGatewayError \<Rightarrow> json_reply 502 False response
        | ServiceUnavailableError \<Rightarrow> json_reply 503 False response
        | _ \<Rightarrow> unexpected))"

definition encodeGetOrderByUUIDResponse :: "api_order api_res \<Rightarrow> (string, api_order api_res reply) outcome" where
  "encodeGetOrderByUUIDResponse response =
     (case response of
        ApiOk _ \<Rightarrow> json_reply 200 True response
      | ApiErr e \<Rightarrow> (case ae_Type e of
          BadRequestError \<Rightarrow> json_reply 400 False response
        | UnauthorizedError \<Rightarrow> json_reply 401 False response
        | ForbiddenError \<Rightarrow> json_reply 403 False response
        | NotFoundError \<Rightarrow> json_reply 404 False response
        | RateLimitError \<Rightarrow> json_reply 429 False response
        | InternalServerError \<Rightarrow> json_reply 500 False response
        | _ \<Rightarrow> unexpected))"

definition encodePayOrderResponse ::
  "pay_order_response api_res \<Rightarrow> (string, pay_order_response api_res reply) outcome" where
  "encodePayOrderResponse response =
     (case response of
        ApiOk _ \<Rightarrow> json_reply 200 True response
      | ApiErr e \<Rightarrow> (case ae_Type e of
          BadRequestError \<Rightarrow> json_reply 400 False response
        | UnauthorizedError \<Rightarrow> json_reply 401 False response
        | ForbiddenError \<Rightarrow> json_reply 403 False response
        | NotFoundError \<Rightarrow> json_reply 404 False response
        | ConflictError \<Rightarrow> json_reply 409 False response
        | ValidationError \<Rightarrow> json_reply 422 False response
        | RateLimitError \<Rightarrow> json_reply 429 False response
        | InternalServerError \<Rightarrow> json_reply 500 False response
        | BadGatewayError \<Rightarrow> json_reply 502 False response
        | ServiceUnavailableError \<Rightarrow> json_reply 503 False response))"

lemmas encoder_defs =
  encodeCancelOrderResponse_def encodeCreateOrderResponse_def encodeGetOrderByUUIDResponse_def
  encodePayOrderResponse_def json_reply_def unexpected_def

section \<open>Validators\<close>

text \<open>The regular expression \<open>^-?\d+(\.\d{2})$\<close> of \<open>total_price\<close>.\<close>

definition price_pattern :: "string \<Rightarrow> bool" where
  "price_pattern s =
     (let t = (case s of c # r \<Rightarrow> if c = CHR ''-'' then r else s | [] \<Rightarrow> s); n = length t - 3 in
      4 \<le> length t \<and> list_all is_digit (take n t) \<and> t ! n = CHR ''.'' \<and> list_all is_digit (drop (n + 1) t))"

definition OrderStatus_Validate :: "string \<Rightarrow> bool" where
  "OrderStatus_Validate s = (s \<in> set [''PENDING_PAYMENT'', ''PAID'', ''COMPLETED'', ''CANCELLED''])"

definition PaymentMethod_Validate :: "string \<Rightarrow> bool" where
  "PaymentMethod_Validate s =
     (s \<in> set [''PAYMENT_METHOD_UNKNOWN'', ''PAYMENT_METHOD_CARD'', ''PAYMENT_METHOD_SBP'',
        ''PAYMENT_METHOD_CREDIT_CARD'', ''PAYMENT_METHOD_INVESTOR_MONEY''])"

text \<open>A validator returns the names of the fields that failed, in the order they are checked.\<close>

definition failure :: "string \<Rightarrow> bool \<Rightarrow> string list" where
  "failure name okay = (if okay then [] else [name])"

definition CreateOrderRequest_Validate :: "create_order_request \<Rightarrow> string list" where
  "CreateOrderRequest_Validate s = failure ''part_uuids'' (cor_PartUuids s \<noteq> None)"

definition CreateOrderResponse_Validate :: "create_order_response \<Rightarrow> string list" where
  "CreateOrderResponse_Validate s = failure ''total_price'' (price_pattern (cos_TotalPrice s))"

definition PayOrderRequest_Validate :: "pay_order_request \<Rightarrow> string list" where
  "PayOrderRequest_Validate s = failure ''payment_method'' (PaymentMethod_Validate (por_PaymentMethod s))"

definition Order_Validate :: "api_order \<Rightarrow> string list" where
  "Order_Validate s =
     failure ''part_uuids'' (ao_PartUuids s \<noteq> None) @
     failure ''total_price'' (price_pattern (ao_TotalPrice s)) @
     failure ''payment_method'' (case ao_PaymentMethod s of SetTo m \<Rightarrow> PaymentMethod_Validate m | _ \<Rightarrow> True) @
     failure ''status'' (OrderStatus_Validate (ao_Status s))"

section \<open>Router\<close>

datatype operation = CreateOrderOperation | GetOrderByUUIDOperation | CancelOrderOperation | PayOrderOperation

record url =
  url_Path :: string
  url_RawPath :: string

text \<open>What \<open>ServeHTTP\<close> does with a request: 404, 405 with the allowed method, or one of the handlers.\<close>

datatype dispatch = NotFoundPage | NotAllowed string | HandleOp operation "string list" bool

definition cutPrefix :: "string \<Rightarrow> string \<Rightarrow> string option" where
  "cutPrefix pre path =
     (if pre = '''' then Some path
      else if take (length pre) path \<noteq> pre then None
      else Some (drop (length pre) path))"

text \<open>\<open>if l := len(lit); len(elem) >= l && elem[0:l] == lit { elem = elem[l:] } else { break }\<close>\<close>

definition cut_lit :: "string \<Rightarrow> string \<Rightarrow> string option" where
  "cut_lit lit elem =
     (if length lit \<le> length elem \<and> take (length lit) elem = lit then Some (drop (length lit) elem)
      else None)"

definition only_method :: "string \<Rightarrow> string \<Rightarrow> dispatch \<Rightarrow> dispatch" where
  "only_method allowed meth d = (if meth = allowed then d else NotAllowed allowed)"

text \<open>\<open>uri.NormalizeEscapedPath\<close> is the parameter \<open>norm\<close>.\<close>

definition request_elem :: "(string \<Rightarrow> string option) \<Rightarrow> url \<Rightarrow> string \<times> bool" where
  "request_elem norm u =
     (if url_RawPath u = '''' then (url_Path u, False)
      else case norm (url_RawPath u) of
             Some n \<Rightarrow> (n, CHR ''%'' \<in> set n)
           | None \<Rightarrow> (url_Path u, False))"

definition ServeHTTP :: "(string \<Rightarrow> string option) \<Rightarrow> string \<Rightarrow> string \<Rightarrow> url \<Rightarrow> dispatch" where
  "ServeHTTP norm pre meth u =
     (let (elem0, escaped) = request_elem norm u in
      case cutPrefix pre elem0 of
        None \<Rightarrow> NotFoundPage
      | Some elem \<Rightarrow>
      if elem = '''' then NotFoundPage
      else case cut_lit ''/api/v1/orders'' elem of
        None \<Rightarrow> NotFoundPage
      | Some elem \<Rightarrow>
      if elem = '''' then only_method ''POST'' meth (HandleOp CreateOrderOperation [] escaped)
      else case cut_lit ''/'' elem of
        None \<Rightarrow> NotFoundPage
      | Some elem \<Rightarrow>
      let arg = takeWhile (\<lambda>c. c \<noteq> CHR ''/'') elem; elem = dropWhile (\<lambda>c. c \<noteq> CHR ''/'') elem in
      if elem = '''' then only_method ''GET'' meth (HandleOp GetOrderByUUIDOperation [arg] escaped)
      else case cut_lit ''/'' elem of
        None \<Rightarrow> NotFoundPage
      | Some elem \<Rightarrow>
      if elem = '''' then NotFoundPage
      else if hd elem = CHR ''c'' then
        (case cut_lit ''cancel'' elem of
           None \<Rightarrow> NotFoundPage
         | Some elem \<Rightarrow>
             if elem = '''' then only_method ''POST'' meth (HandleOp CancelOrderOperation [arg] escaped)
             else NotFoundPage)
      else if hd elem = CHR ''p'' then
        (case cut_lit ''pay'' elem of
           None \<Rightarrow> NotFoundPage
         | Some elem \<Rightarrow>
             if elem = '''' then only_method ''POST'' meth (HandleOp PayOrderOperation [arg] escaped)
             else NotFoundPage)
      else NotFoundPage)"

record route =
  rt_name :: operation
  rt_summary :: string
  rt_operationID :: string
  rt_operationGroup :: string
  rt_pathPattern :: string
  rt_args :: "string list" \<comment> \<open>\<open>args[:count]\<close>\<close>

definition route_if :: "string \<Rightarrow> string \<Rightarrow> route \<Rightarrow> route option" where
  "route_if allowed meth r = (if meth = allowed then Some r else None)"

text \<open>The deferred loop of \<open>FindPath\<close>: \<open>url.PathUnescape\<close> is the parameter \<open>unesc\<close>.\<close>

definition unescape_args :: "(string \<Rightarrow> string option) \<Rightarrow> url \<Rightarrow> route \<Rightarrow> route" where
  "unescape_args unesc u r =
     (if url_RawPath u = '''' then r
      else r\<lparr>rt_args := map (\<lambda>a. case unesc a of Some b \<Rightarrow> b | None \<Rightarrow> a) (rt_args r)\<rparr>)"

definition FindPath ::
  "(string \<Rightarrow> string option) \<Rightarrow> (string \<Rightarrow> string option) \<Rightarrow> string \<Rightarrow> string \<Rightarrow> url \<Rightarrow> route option" where
  "FindPath norm unesc pre meth u = map_option (unescape_args unesc u)
     (case cutPrefix pre (fst (request_elem norm u)) of
        None \<Rightarrow> None
      | Some elem \<Rightarrow>
      if elem = '''' then None
      else case cut_lit ''/api/v1/orders'' elem of
        None \<Rightarrow> None
      | Some elem \<Rightarrow>
      if elem = '''' then route_if ''POST'' meth
        \<lparr>rt_name = CreateOrderOperation, rt_summary = ''Create an order'', rt_operationID = ''CreateOrder'',
         rt_operationGroup = '''', rt_pathPattern = ''/api/v1/orders'', rt_args = []\<rparr>
      else case cut_lit ''/'' elem of
        None \<Rightarrow> None
      | Some elem \<Rightarrow>
      let arg = takeWhile (\<lambda>c. c \<noteq> CHR ''/'') elem; elem = dropWhile (\<lambda>c. c \<noteq> CHR ''/'') elem in
      if elem = '''' then route_if ''GET'' meth
        \<lparr>rt_name = GetOrderByUUIDOperation, rt_summary = ''Get order by UUID'', rt_operationID = ''GetOrderByUUID'',
         rt_operationGroup = '''', rt_pathPattern = ''/api/v1/orders/{order_uuid}'', rt_args = [arg]\<rparr>
      else case cut_lit ''/'' elem of
        None \<Rightarrow> None
      | Some elem \<Rightarrow>
      if elem = '''' then None
      else if hd elem = CHR ''c'' then
        (case cut_lit ''cancel'' elem of
           None \<Rightarrow> None
         | Some elem \<Rightarrow>
             if elem = '''' then route_if ''POST'' meth
               \<lparr>rt_name = CancelOrderOperation, rt_summary = ''Cancel an order'', rt_operationID = ''CancelOrder'',
                rt_operationGroup = '''', rt_pathPattern = ''/api/v1/orders/{order_uuid}/cancel'', rt_args = [arg]\<rparr>
             else None)
      else if hd elem = CHR ''p'' then
        (case cut_lit ''pay'' elem of
           None \<Rightarrow> None
         | Some elem \<Rightarrow>
             if elem = '''' then route_if ''POST'' meth
               \<lparr>rt_name = PayOrderOperation, rt_summary = ''Pay for an order'', rt_operationID = ''PayOrder'',
                rt_operationGroup = '''', rt_pathPattern = ''/api/v1/orders/{order_uuid}/pay'', rt_args = [arg]\<rparr>
             else None)
      else None)"

definition FindRoute ::
  "(string \<Rightarrow> string option) \<Rightarrow> (string \<Rightarrow> string option) \<Rightarrow> string \<Rightarrow> string \<Rightarrow> string \<Rightarrow> route option" where
  "FindRoute norm unesc pre meth path = FindPath norm unesc pre meth \<lparr>url_Path = path, url_RawPath = ''''\<rparr>"

section \<open>What the router accepts\<close>

lemma cutPrefix_Some: "cutPrefix pre path = Some r \<longleftrightarrow> path = pre @ r"
  unfolding cutPrefix_def by (auto) (metis append_take_drop_id)+

lemma cut_lit_Some: "cut_lit lit elem = Some r \<longleftrightarrow> elem = lit @ r"
  unfolding cut_lit_def by (auto) (metis append_take_drop_id)+

lemma cut_self [simp]: "cutPrefix pre (pre @ r) = Some r" "cut_lit lit (lit @ r) = Some r"
  by (simp_all add: cutPrefix_Some cut_lit_Some)

lemma only_method_handle [simp]:
  "only_method m meth d = HandleOp p as e \<longleftrightarrow> meth = m \<and> d = HandleOp p as e"
  by (auto simp: only_method_def)

text \<open>The method and the path of an operation, as the OpenAPI document names them.\<close>

fun method_of :: "operation \<Rightarrow> string" where
  "method_of GetOrderByUUIDOperation = ''GET''"
| "method_of _ = ''POST''"

fun path_of :: "operation \<Rightarrow> string list \<Rightarrow> string option" where
  "path_of CreateOrderOperation [] = Some ''/api/v1/orders''"
| "path_of GetOrderByUUIDOperation [a] = Some (''/api/v1/orders/'' @ a)"
| "path_of CancelOrderOperation [a] = Some (''/api/v1/orders/'' @ a @ ''/cancel'')"
| "path_of PayOrderOperation [a] = Some (''/api/v1/orders/'' @ a @ ''/pay'')"
| "path_of _ _ = None"

definition args_ok :: "string list \<Rightarrow> bool" where
  "args_ok as \<longleftrightarrow> (\<forall>a \<in> set as. CHR ''/'' \<notin> set a)"

lemma arg_no_slash: "CHR ''/'' \<notin> set (takeWhile (\<lambda>c. c \<noteq> CHR ''/'') elem)"
  by (auto dest: set_takeWhileD)

lemma arg_of [simp]:
  "CHR ''/'' \<notin> set a \<Longrightarrow> takeWhile (\<lambda>c. c \<noteq> CHR ''/'') (a @ CHR ''/'' # r) = a"
  "CHR ''/'' \<notin> set a \<Longrightarrow> dropWhile (\<lambda>c. c \<noteq> CHR ''/'') (a @ CHR ''/'' # r) = CHR ''/'' # r"
  "CHR ''/'' \<notin> set a \<Longrightarrow> takeWhile (\<lambda>c. c \<noteq> CHR ''/'') a = a"
  "CHR ''/'' \<notin> set a \<Longrightarrow> dropWhile (\<lambda>c. c \<noteq> CHR ''/'') a = []"
  by (induction a) auto

text \<open>The router below \<open>/api/v1/orders/{order_uuid}\<close>: \<open>rest\<close> is what follows the argument.\<close>

definition item_dispatch :: "string \<Rightarrow> bool \<Rightarrow> string \<Rightarrow> string \<Rightarrow> dispatch" where
  "item_dispatch meth esc a rest =
     (if rest = '''' then only_method ''GET'' meth (HandleOp GetOrderByUUIDOperation [a] esc)
      else case cut_lit ''/'' rest of
        None \<Rightarrow> NotFoundPage
      | Some elem \<Rightarrow>
      if elem = '''' then NotFoundPage
      else if hd elem = CHR ''c'' then
        (case cut_lit ''cancel'' elem of
           None \<Rightarrow> NotFoundPage
         | Some elem \<Rightarrow>
             if elem = '''' then only_method ''POST'' meth (HandleOp CancelOrderOperation [a] esc)
             else NotFoundPage)
      else if hd elem = CHR ''p'' then
        (case cut_lit ''pay'' elem of
           None \<Rightarrow> NotFoundPage
         | Some elem \<Rightarrow>
             if elem = '''' then only_method ''POST'' meth (HandleOp PayOrderOperation [a] esc)
             else NotFoundPage)
      else NotFoundPage)"

lemma cut_consts [simp]:
  "cut_lit ''/'' (CHR ''/'' # x) = Some x"
  "cut_lit ''/api/v1/orders'' (''/api/v1/orders'' @ x) = Some x" "cut_lit lit lit = Some []"
  by (simp_all add: cut_lit_Some)

lemma serve_item:
  assumes "request_elem norm u = (pre @ ''/api/v1/orders/'' @ a @ rest, esc)" and "CHR ''/'' \<notin> set a"
    and "rest = '''' \<or> hd rest = CHR ''/''"
  shows "ServeHTTP norm pre meth u = item_dispatch meth esc a rest"
proof -
  have cut: "cut_lit ''/api/v1/orders'' (''/api/v1/orders/'' @ a @ rest) = Some (CHR ''/'' # a @ rest)"
    by (simp add: cut_lit_Some)
  have arg: "takeWhile (\<lambda>c. c \<noteq> CHR ''/'') (a @ rest) = a" "dropWhile (\<lambda>c. c \<noteq> CHR ''/'') (a @ rest) = rest"
    using assms(2,3) by (cases rest; simp)+
  show ?thesis
    unfolding ServeHTTP_def assms(1) Let_def prod.case cut_self option.case cut item_dispatch_def
    by (simp only: cut_consts option.case append_is_Nil_conv list.distinct if_False simp_thms arg)
qed

lemma item_dispatch_handle:
  "item_dispatch meth esc a rest = HandleOp oper as esc' \<longleftrightarrow> as = [a] \<and> esc' = esc \<and> meth = method_of oper \<and>
     (rest = '''' \<and> oper = GetOrderByUUIDOperation \<or> rest = ''/cancel'' \<and> oper = CancelOrderOperation \<or>
      rest = ''/pay'' \<and> oper = PayOrderOperation)"
proof (cases "cut_lit ''/'' rest")
  case (Some e)
  then have rest: "rest = CHR ''/'' # e" by (simp add: cut_lit_Some)
  show ?thesis
  proof (cases "cut_lit ''cancel'' e")
    case cancel: (Some e6)
    then have "e = ''cancel'' @ e6" by (simp add: cut_lit_Some)
    then have "e \<noteq> ''''" "hd e = CHR ''c''" "e = ''cancel'' \<longleftrightarrow> e6 = ''''" "e \<noteq> ''pay''" by simp_all
    then show ?thesis
      by (cases "e6 = ''''") (auto simp: item_dispatch_def Some cancel rest)
  next
    case cancel: None
    then have nc: "e \<noteq> ''cancel''" by (auto simp: cut_lit_def)
    show ?thesis
    proof (cases "cut_lit ''pay'' e")
      case pay: (Some e6)
      then have "e = ''pay'' @ e6" by (simp add: cut_lit_Some)
      then have "e \<noteq> ''''" "hd e = CHR ''p''" "e = ''pay'' \<longleftrightarrow> e6 = ''''" by simp_all
      then show ?thesis using nc
        by (cases "e6 = ''''") (auto simp: item_dispatch_def Some pay rest)
    next
      case None
      then have "e \<noteq> ''pay''" by (auto simp: cut_lit_def)
      with nc None cancel show ?thesis by (auto simp: item_dispatch_def rest)
    qed
  qed
next
  case None
  then have "rest \<noteq> CHR ''/'' # e" for e by auto
  with None show ?thesis by (auto simp: item_dispatch_def)
qed

lemma dispatch_sound:
  assumes "ServeHTTP norm pre meth u = HandleOp oper as esc"
  shows "\<exists>p. path_of oper as = Some p \<and> fst (request_elem norm u) = pre @ p \<and> args_ok as \<and>
    meth = method_of oper \<and> esc = snd (request_elem norm u)"
proof -
  obtain e0 esc0 where e0: "request_elem norm u = (e0, esc0)" by fastforce
  from assms e0 obtain e1 where e1: "e0 = pre @ e1"
    by (auto simp: ServeHTTP_def cutPrefix_Some split: option.splits)
  from assms e0 e1 obtain e2 where e2: "e1 = ''/api/v1/orders'' @ e2"
    by (auto simp: ServeHTTP_def cut_lit_Some split: option.splits if_splits)
  show ?thesis
  proof (cases "e2 = ''''")
    case True
    with assms e0 e1 e2 show ?thesis by (auto simp: ServeHTTP_def args_ok_def cut_lit_def)
  next
    case False
    with assms e0 e1 e2 obtain e3 where e3: "e2 = CHR ''/'' # e3"
      by (auto simp: ServeHTTP_def cut_lit_Some split: option.splits if_splits)
    define a where "a = takeWhile (\<lambda>c. c \<noteq> CHR ''/'') e3"
    define rest where "rest = dropWhile (\<lambda>c. c \<noteq> CHR ''/'') e3"
    have a: "CHR ''/'' \<notin> set a" by (simp add: a_def arg_no_slash)
    have rest: "rest = '''' \<or> hd rest = CHR ''/''"
      unfolding rest_def using hd_dropWhile [of "\<lambda>c. c \<noteq> CHR ''/''" e3] by blast
    have "e3 = a @ rest" by (simp add: a_def rest_def)
    then have req: "request_elem norm u = (pre @ ''/api/v1/orders/'' @ a @ rest, esc0)"
      by (simp add: e0 e1 e2 e3)
    from assms have "item_dispatch meth esc0 a rest = HandleOp oper as esc"
      by (simp only: serve_item [OF req a rest])
    moreover have "args_ok [a]" using a by (simp add: args_ok_def)
    ultimately show ?thesis
      by (auto simp only: item_dispatch_handle req fst_conv snd_conv path_of.simps append_Nil2 append_Cons append_Nil)
  qed
qed

lemma dispatch_complete:
  assumes "path_of oper as = Some p" and "args_ok as" and req: "request_elem norm u = (pre @ p, esc)"
  shows "ServeHTTP norm pre (method_of oper) u = HandleOp oper as esc"
proof (cases "oper = CreateOrderOperation")
  case True
  with assms(1) have "as = []" and p: "p = ''/api/v1/orders'' @ ''''" by (cases as; simp)+
  with True show ?thesis
    unfolding ServeHTTP_def req p Let_def prod.case cut_self option.case cut_consts only_method_def
    by (simp only: cut_consts option.case append_is_Nil_conv list.distinct if_False simp_thms if_True method_of.simps)
next
  case False
  with assms(1) obtain a rest where as: "as = [a]" and p: "p = ''/api/v1/orders/'' @ a @ rest"
    and rest: "rest = '''' \<and> oper = GetOrderByUUIDOperation \<or> rest = ''/cancel'' \<and> oper = CancelOrderOperation \<or>
      rest = ''/pay'' \<and> oper = PayOrderOperation"
    by (cases "(oper, as)" rule: path_of.cases) auto
  have hd: "rest = '''' \<or> hd rest = CHR ''/''" using rest by auto
  have a: "CHR ''/'' \<notin> set a" using assms(2) as by (simp add: args_ok_def)
  show ?thesis
    unfolding serve_item [OF req [unfolded p] a hd] using rest as by (simp add: item_dispatch_handle)
qed

text \<open>\<open>FindPath\<close> answers exactly where \<open>ServeHTTP\<close> would call a handler.\<close>

definition route_of :: "operation \<Rightarrow> string list \<Rightarrow> route" where
  "route_of oper as = (case oper of
     CreateOrderOperation \<Rightarrow> \<lparr>rt_name = oper, rt_summary = ''Create an order'', rt_operationID = ''CreateOrder'',
         rt_operationGroup = '''', rt_pathPattern = ''/api/v1/orders'', rt_args = as\<rparr>
   | GetOrderByUUIDOperation \<Rightarrow> \<lparr>rt_name = oper, rt_summary = ''Get order by UUID'', rt_operationID = ''GetOrderByUUID'',
         rt_operationGroup = '''', rt_pathPattern = ''/api/v1/orders/{order_uuid}'', rt_args = as\<rparr>
   | CancelOrderOperation \<Rightarrow> \<lparr>rt_name = oper, rt_summary = ''Cancel an order'', rt_operationID = ''CancelOrder'',
         rt_operationGroup = '''', rt_pathPattern = ''/api/v1/orders/{order_uuid}/cancel'', rt_args = as\<rparr>
   | PayOrderOperation \<Rightarrow> \<lparr>rt_name = oper, rt_summary = ''Pay for an order'', rt_operationID = ''PayOrder'',
         rt_operationGroup = '''', rt_pathPattern = ''/api/v1/orders/{order_uuid}/pay'', rt_args = as\<rparr>)"

definition dispatched :: "(string \<Rightarrow> string option) \<Rightarrow> url \<Rightarrow> dispatch \<Rightarrow> route option" where
  "dispatched unesc u d =
     (case d of HandleOp oper as esc \<Rightarrow> Some (unescape_args unesc u (route_of oper as)) | _ \<Rightarrow> None)"

lemma dispatched_only [simp]:
  "dispatched unesc u (only_method m meth (HandleOp oper as esc)) =
     map_option (unescape_args unesc u) (route_if m meth (route_of oper as))"
  "dispatched unesc u NotFoundPage = None"
  by (simp_all add: dispatched_def only_method_def route_if_def)

lemma FindPath_dispatched: "FindPath norm unesc pre meth u = dispatched unesc u (ServeHTTP norm pre meth u)"
proof -
  have distrib: "dispatched unesc u (if b then x else y) = (if b then dispatched unesc u x else dispatched unesc u y)"
      "dispatched unesc u (case z of None \<Rightarrow> x | Some v \<Rightarrow> g v) =
        (case z of None \<Rightarrow> dispatched unesc u x | Some v \<Rightarrow> dispatched unesc u (g v))"
      "map_option h (if b then r else q) = (if b then map_option h r else map_option h q)"
      "map_option h (case z of None \<Rightarrow> r | Some v \<Rightarrow> k v) =
        (case z of None \<Rightarrow> map_option h r | Some v \<Rightarrow> map_option h (k v))"
    for b x y and z :: "string option" and g and h :: "route \<Rightarrow> route" and r q k
    by (simp_all split: option.split)
  show ?thesis
    unfolding FindPath_def ServeHTTP_def Let_def split_def distrib dispatched_only route_of_def
    by (simp only: operation.case option.map)
qed

section \<open>Response interfaces\<close>

text \<open>
  The four response interfaces are sealed by a marker method: these are the error structs that have
  the marker. The success struct of an operation always has it.
\<close>

definition cancelOrderRes :: "api_error_type \<Rightarrow> bool" where
  "cancelOrderRes t =
     (t \<in> set [BadRequestError, ConflictError, ForbiddenError, InternalServerError, NotFoundError,
        RateLimitError, UnauthorizedError])"

definition createOrderRes :: "api_error_type \<Rightarrow> bool" where
  "createOrderRes t =
     (t \<in> set [BadGatewayError, BadRequestError, ForbiddenError, InternalServerError, NotFoundError,
        RateLimitError, ServiceUnavailableError, UnauthorizedError, ValidationError])"

definition getOrderByUUIDRes :: "api_error_type \<Rightarrow> bool" where
  "getOrderByUUIDRes t =
     (t \<in> set [BadRequestError, ForbiddenError, InternalServerError, NotFoundError, RateLimitError,
        UnauthorizedError])"

definition payOrderRes :: "api_error_type \<Rightarrow> bool" where
  "payOrderRes t =
     (t \<in> set [BadGatewayError, BadRequestError, ConflictError, ForbiddenError, InternalServerError,
        NotFoundError, RateLimitError, ServiceUnavailableError, UnauthorizedError, ValidationError])"

lemmas response_interface_defs =
  cancelOrderRes_def createOrderRes_def getOrderByUUIDRes_def payOrderRes_def

definition implements :: "(api_error_type \<Rightarrow> bool) \<Rightarrow> 'a api_res \<Rightarrow> bool" where
  "implements marker res = (case res of ApiOk _ \<Rightarrow> True | ApiErr e \<Rightarrow> marker (ae_Type e))"

text \<open>
  The default case of an encoder is dead code: an encoder has a case for exactly the structs with the
  marker of its operation.
\<close>

lemma encoders_cover_interfaces:
  "(encodeCancelOrderResponse c = unexpected) = (\<not> implements cancelOrderRes c)"
  "(encodeCreateOrderResponse n = unexpected) = (\<not> implements createOrderRes n)"
  "(encodeGetOrderByUUIDResponse g = unexpected) = (\<not> implements getOrderByUUIDRes g)"
  "(encodePayOrderResponse p = unexpected) = (\<not> implements payOrderRes p)"
  by (auto simp: encoder_defs implements_def response_interface_defs
      split: api_res.splits api_error_type.splits)

end
