(* ===== verification/Order_Http.thy ===== *)
theory Order_Http
  imports Order_Service Oapi
begin

text \<open>
  The HTTP side of the order service: the conversions between the OpenAPI types and the domain
  types (\<open>order/internal/converter/order.go\<close>) and the handlers with their error mappings
  (\<open>order/internal/transport/http/order/v1/order.go\<close>).
\<close>

section \<open>Converters\<close>

definition OAPIToPaymentMethod :: "string \<Rightarrow> PaymentMethod" where
  "OAPIToPaymentMethod pm =
     (if pm = ''PAYMENT_METHOD_UNKNOWN'' then PaymentMethodUnknown
      else if pm = ''PAYMENT_METHOD_CARD'' then PaymentMethodCard
      else if pm = ''PAYMENT_METHOD_SBP'' then PaymentMethodSBP
      else if pm = ''PAYMENT_METHOD_CREDIT_CARD'' then PaymentMethodCreditCard
      else if pm = ''PAYMENT_METHOD_INVESTOR_MONEY'' then PaymentMethodInvestorMoney
      else PaymentMethodUnknown)"

text \<open>The categories of the protobuf enumeration have the same numbers.\<close>

definition CategoryToPB :: "Category \<Rightarrow> int32" where
  "CategoryToPB c =
     (if c = CategoryUnknown then 0
      else if c = CategoryEngine then 1
      else if c = CategoryFuel then 2
      else if c = CategoryPorthole then 3
      else if c = CategoryWing then 4
      else 0)"

definition formatCents :: "int64 \<Rightarrow> string" where
  "formatCents cents =
     (let sign = (if sint cents < 0 then ''-'' else '''');
          c = (if sint cents < 0 then - cents else cents) in
      sign @ fmt_d (sint (go_quot c 100)) @ ''.'' @ fmt_02d (sint (go_rem c 100)))"

definition CreateOrderRequestToParams :: "create_order_request \<Rightarrow> create_params" where
  "CreateOrderRequestToParams req =
     \<lparr>cp_UserID = cor_UserUUID req,
      cp_PartIDs = (case cor_PartUuids req of None \<Rightarrow> [] | Some ps \<Rightarrow> ps)\<rparr>"

definition CreateOrderResultToResponse :: "create_result \<Rightarrow> create_order_response" where
  "CreateOrderResultToResponse res =
     \<lparr>cos_UUID = cr_ID res, cos_TotalPrice = formatCents (cr_TotalPrice res)\<rparr>"

definition PayOrderRequestToParams :: "uuid \<Rightarrow> pay_order_request \<Rightarrow> pay_params" where
  "PayOrderRequestToParams ordID req =
     \<lparr>pp_ID = ordID, pp_UserID = uuid_Nil, pp_PaymentMethod = OAPIToPaymentMethod (por_PaymentMethod req)\<rparr>"

definition PayOrderResultToResponse :: "pay_result \<Rightarrow> pay_order_response" where
  "PayOrderResultToResponse res = \<lparr>pos_TransactionUUID = pr_TransactionID res\<rparr>"

definition transactionIDToOptNilUUID :: "uuid option \<Rightarrow> uuid opt_nil" where
  "transactionIDToOptNilUUID i = (case i of None \<Rightarrow> SetNull | Some u \<Rightarrow> SetTo u)"

definition paymentMethodToOptNil :: "PaymentMethod option \<Rightarrow> string opt_nil" where
  "paymentMethodToOptNil pm = (case pm of None \<Rightarrow> SetNull | Some m \<Rightarrow> SetTo m)"

definition orderStatusToOAPI :: "OrderStatus \<Rightarrow> string" where
  "orderStatusToOAPI s =
     (if s = StatusPendingPayment then ''PENDING_PAYMENT''
      else if s = StatusPaid then ''PAID''
      else if s = StatusCompleted then ''COMPLETED''
      else if s = StatusCancelled then ''CANCELLED''
      else ''PENDING_PAYMENT'')"

text \<open>\<open>append([]uuid.UUID(nil), ids...)\<close> stays nil when there is nothing to append.\<close>

definition OrderToOAPI :: "order \<Rightarrow> api_order" where
  "OrderToOAPI m =
     \<lparr>ao_OrderUUID = ord_ID m, ao_UserUUID = ord_UserID m,
      ao_PartUuids = (if ord_PartIDs m = [] then None else Some (ord_PartIDs m)),
      ao_TotalPrice = formatCents (ord_TotalPrice m),
      ao_TransactionUUID = transactionIDToOptNilUUID (ord_TransactionID m),
      ao_PaymentMethod = paymentMethodToOptNil (ord_PaymentMethod m),
      ao_Status = orderStatusToOAPI (ord_Status m)\<rparr>"

section \<open>Error mappings\<close>

definition api_error_of :: "api_error_type \<Rightarrow> int32 \<Rightarrow> oerr \<Rightarrow> 'a api_res" where
  "api_error_of t code err =
     ApiErr \<lparr>ae_Type = t, ae_Code = Some code, ae_Message = Some (error_msg order_err_text err),
       ae_Details = None\<rparr>"

definition mapErrorToCreateOrderRes :: "oerr \<Rightarrow> create_order_response api_res" where
  "mapErrorToCreateOrderRes err =
     (if errors_Is err ErrValidation then api_error_of ValidationError 400 err
      else if errors_Is err ErrPartNotFound then api_error_of NotFoundError 404 err
      else if errors_Is err ErrPartsOutOfStock then api_error_of ValidationError 422 err
      else if errors_Is err ErrBadGateway then api_error_of BadGatewayError 502 err
      else if errors_Is err ErrServiceUnavailable then api_error_of ServiceUnavailableError 503 err
      else api_error_of InternalServerError 500 err)"

definition mapErrorToPayOrderRes :: "oerr \<Rightarrow> pay_order_response api_res" where
  "mapErrorToPayOrderRes err =
     (if errors_Is err ErrValidation then api_error_of ValidationError 400 err
      else if errors_Is err ErrOrderNotFound then api_error_of NotFoundError 404 err
      else if errors_Is err ErrOrderConflict then api_error_of ConflictError 409 err
      else if errors_Is err ErrBadGateway then api_error_of BadGatewayError 502 err
      else if errors_Is err ErrServiceUnavailable then api_error_of ServiceUnavailableError 503 err
      else api_error_of InternalServerError 500 err)"

definition mapErrorToGetOrderRes :: "oerr \<Rightarrow> api_order api_res" where
  "mapErrorToGetOrderRes err =
     (if errors_Is err ErrOrderNotFound then api_error_of NotFoundError 404 err
      else api_error_of InternalServerError 500 err)"

definition mapErrorToCancelOrderRes :: "oerr \<Rightarrow> unit api_res" where
  "mapErrorToCancelOrderRes err =
     (if errors_Is err ErrOrderNotFound then api_error_of NotFoundError 404 err
      else if errors_Is err ErrOrderConflict then api_error_of ConflictError 409 err
      else api_error_of InternalServerError 500 err)"

lemmas error_mapping_defs =
  mapErrorToCreateOrderRes_def mapErrorToPayOrderRes_def mapErrorToGetOrderRes_def
  mapErrorToCancelOrderRes_def

section \<open>Handlers\<close>

text \<open>
  A handler always returns a response and a nil error; a panic of the service goes through it.
  \<open>respond\<close> is the common \<open>if err != nil { return mapError(err), nil }; return conv(res), nil\<close>.
\<close>

definition respond ::
  "('w, oerr, 'a) prog \<Rightarrow> (oerr \<Rightarrow> 'b api_res) \<Rightarrow> ('a \<Rightarrow> 'b) \<Rightarrow> ('w, string, 'b api_res) prog" where
  "respond m mapErr conv w =
     (case m w of
        (w', Ok a) \<Rightarrow> (w', Ok (ApiOk (conv a)))
      | (w', Err e) \<Rightarrow> (w', Ok (mapErr e))
      | (w', Panic p) \<Rightarrow> (w', Panic p))"

definition invalid_order_uuid :: "'b api_res" where
  "invalid_order_uuid =
     ApiErr \<lparr>ae_Type = BadRequestError, ae_Code = Some 400, ae_Message = Some ''invalid order_uuid'',
       ae_Details = None\<rparr>"

text \<open>\<open>uuid.Parse(params.OrderUUID.String())\<close>, with the 400 response where it fails.\<close>

definition with_order_id ::
  "uuid_lib \<Rightarrow> uuid \<Rightarrow> (uuid \<Rightarrow> ('w, string, 'b api_res) prog) \<Rightarrow> ('w, string, 'b api_res) prog" where
  "with_order_id U orderUUID k =
     (case uuid_Parse U (uuid_String U orderUUID) of
        Ok ordID \<Rightarrow> k ordID
      | Err _ \<Rightarrow> ok invalid_order_uuid
      | Panic p \<Rightarrow> panic p)"

definition CreateOrder_handler ::
  "'w order_deps \<Rightarrow> create_order_request \<Rightarrow> ('w, string, create_order_response api_res) prog" where
  "CreateOrder_handler svc req =
     respond (Create svc (CreateOrderRequestToParams req)) mapErrorToCreateOrderRes CreateOrderResultToResponse"

definition PayOrder_handler ::
  "'w order_deps \<Rightarrow> pay_order_request \<Rightarrow> uuid \<Rightarrow> ('w, string, pay_order_response api_res) prog" where
  "PayOrder_handler svc req orderUUID =
     with_order_id (uuids svc) orderUUID (\<lambda>ordID.
       respond (Pay svc (PayOrderRequestToParams ordID req)) mapErrorToPayOrderRes PayOrderResultToResponse)"

definition GetOrderByUUID_handler :: "'w order_deps \<Rightarrow> uuid \<Rightarrow> ('w, string, api_order api_res) prog" where
  "GetOrderByUUID_handler svc orderUUID =
     with_order_id (uuids svc) orderUUID (\<lambda>ordID.
       respond (OrderByID svc ordID) mapErrorToGetOrderRes OrderToOAPI)"

definition CancelOrder_handler :: "'w order_deps \<Rightarrow> uuid \<Rightarrow> ('w, string, unit api_res) prog" where
  "CancelOrder_handler svc orderUUID =
     with_order_id (uuids svc) orderUUID (\<lambda>ordID.
       respond (Cancel svc ordID) mapErrorToCancelOrderRes id)"

section \<open>Prices\<close>

text \<open>The digits of a price whose magnitude is \<open>n\<close> cents.\<close>

definition price_text :: "nat \<Rightarrow> string" where
  "price_text n = show_nat (n div 100) @ ''.'' @ [digit (n mod 100 div 10), digit (n mod 10)]"

lemma show_nat_small: "n < 10 \<Longrightarrow> show_nat n = [digit n]"
  by (simp add: show_nat.simps)

lemma show_nat_two: "10 \<le> n \<Longrightarrow> n < 100 \<Longrightarrow> show_nat n = [digit (n div 10), digit (n mod 10)]"
  by (subst show_nat.simps) (simp add: show_nat_small)

lemma digit_zero: "digit 0 = CHR ''0''"
  by code_simp

lemma fmt_02d_two:
  assumes "n < 100"
  shows "fmt_02d (int n) = [digit (n div 10), digit (n mod 10)]"
proof (cases "n < 10")
  case True
  then show ?thesis by (simp add: fmt_02d_def zero_pad_def show_nat_small digit_zero)
next
  case False
  with assms show ?thesis by (simp add: fmt_02d_def zero_pad_def show_nat_two)
qed

lemma formatCents_magnitude:
  fixes c :: int64
  assumes "0 \<le> sint c"
  shows "fmt_d (sint (go_quot c 100)) @ ''.'' @ fmt_02d (sint (go_rem c 100)) = price_text (nat (sint c))"
proof -
  define n where "n = nat (sint c)"
  have c: "sint c = int n" using assms by (simp add: n_def)
  have q: "sint (go_quot c 100) = int (n div 100)" using go_quot_pos [of c 100] c by (simp add: zdiv_int)
  have r: "sint (go_rem c 100) = int (n mod 100)" using go_rem_pos [of c 100] c by (simp add: zmod_int)
  have "fmt_02d (int (n mod 100)) = [digit (n mod 100 div 10), digit (n mod 10)]"
    using fmt_02d_two [of "n mod 100"] by (simp add: mod_mod_cancel)
  then show ?thesis by (simp add: q r fmt_d_def price_text_def n_def [symmetric])
qed

lemma sint_minus: "sint c \<noteq> - (2 ^ 63) \<Longrightarrow> sint (- c) = - sint c" for c :: int64
  using sint_int64_range [of c]
  by (simp add: sint_word_ariths signed_take_bit_int_eq_self)

lemma formatCents_eq:
  assumes "sint c \<noteq> - (2 ^ 63)"
  shows "formatCents c = (if sint c < 0 then ''-'' else '''') @ price_text (nat \<bar>sint c\<bar>)"
proof (cases "sint c < 0")
  case True
  then have "0 \<le> sint (- c)" using sint_minus [OF assms] by simp
  from formatCents_magnitude [OF this] True show ?thesis
    by (simp add: formatCents_def sint_minus [OF assms])
next
  case False
  then show ?thesis using formatCents_magnitude [of c] by (simp add: formatCents_def)
qed

text \<open>What a reader of the text understands.\<close>

definition read_price_abs :: "string \<Rightarrow> nat" where
  "read_price_abs s = read_nat (take (length s - 3) s) * 100 + read_nat (drop (length s - 2) s)"

definition read_price :: "string \<Rightarrow> int" where
  "read_price s =
     (case s of c # r \<Rightarrow> if c = CHR ''-'' then - int (read_price_abs r) else int (read_price_abs s) | [] \<Rightarrow> 0)"

lemma read_price_text: "read_price_abs (price_text n) = n"
proof -
  have "n = n div 100 * 100 + n mod 100" by simp
  also have "n mod 100 = n mod 100 div 10 * 10 + n mod 10"
    using div_mult_mod_eq [of "n mod 100" 10] by (simp add: mod_mod_cancel)
  finally have "n = n div 100 * 100 + (n mod 100 div 10 * 10 + n mod 10)" .
  moreover have "read_nat [digit (n mod 100 div 10), digit (n mod 10)] = n mod 100 div 10 * 10 + n mod 10"
    by (simp add: read_nat_def)
  ultimately show ?thesis by (simp add: read_price_abs_def price_text_def)
qed

lemma show_nat_no_minus: "\<exists>c r. show_nat n = c # r \<and> c \<noteq> CHR ''-''"
proof -
  obtain c r where cr: "show_nat n = c # r" by (cases "show_nat n") auto
  then have "is_digit c" using show_nat_digits [of n] by simp
  then have "c \<noteq> CHR ''-''" by (auto simp: is_digit_def)
  with cr show ?thesis by blast
qed

lemma price_text_head: "\<exists>c r. price_text n = c # r \<and> c \<noteq> CHR ''-''"
  using show_nat_no_minus [of "n div 100"] by (auto simp: price_text_def)

lemma read_formatCents: "sint c \<noteq> - (2 ^ 63) \<Longrightarrow> read_price (formatCents c) = sint c"
  using price_text_head [of "nat \<bar>sint c\<bar>"] read_price_text [of "nat \<bar>sint c\<bar>"]
  by (auto simp: formatCents_eq read_price_def)

lemma price_text_pattern: "price_pattern (price_text n)" "price_pattern (CHR ''-'' # price_text n)"
proof -
  have d: "list_all is_digit (show_nat k)" for k using show_nat_digits by (simp add: list_all_iff)
  have len: "Suc 0 \<le> length (show_nat (n div 100))" by (simp add: Suc_le_eq)
  obtain c r where cr: "price_text n = c # r" "c \<noteq> CHR ''-''" using price_text_head by blast
  have core: "4 \<le> length (price_text n) \<and> list_all is_digit (take (length (price_text n) - 3) (price_text n)) \<and>
      price_text n ! (length (price_text n) - 3) = CHR ''.'' \<and>
      list_all is_digit (drop (length (price_text n) - 3 + 1) (price_text n))"
    using len d by (simp add: price_text_def nth_append)
  then show "price_pattern (price_text n)" "price_pattern (CHR ''-'' # price_text n)"
    using cr by (simp_all add: price_pattern_def Let_def)
qed

lemma formatCents_pattern: "sint c \<noteq> - (2 ^ 63) \<Longrightarrow> price_pattern (formatCents c)"
  by (simp add: formatCents_eq price_text_pattern)

text \<open>The one value without a positive counterpart.\<close>

lemma formatCents_min: "formatCents (word_of_int (- (2 ^ 63))) = ''--92233720368547758.-8''"
proof -
  let ?c = "word_of_int (- (2 ^ 63)) :: int64"
  have c: "sint ?c = - (2 ^ 63)" and neg: "- ?c = ?c"
    by (simp_all add: signed_take_bit_int_eq_self sint_sbintrunc')
  have h: "sint (100 :: int64) = 100" by simp
  have q: "sint (go_quot ?c 100) = - 92233720368547758"
    unfolding go_quot_def c h by (simp add: signed_divide_int_def signed_take_bit_int_eq_self sint_sbintrunc')
  have r: "sint (go_rem ?c 100) = - 8"
    unfolding go_rem_def c h by (simp add: signed_modulo_int_def signed_divide_int_def)
  have "formatCents ?c = ''-'' @ fmt_d (- 92233720368547758) @ ''.'' @ fmt_02d (- 8)"
    by (simp only: formatCents_def Let_def neg if_cancel q r) (simp only: c, simp)
  also have "\<dots> = ''--92233720368547758.-8''"
    by (simp add: fmt_d_def fmt_02d_def zero_pad_def show_nat.simps digit_def) code_simp
  finally show ?thesis .
qed

lemma formatCents_min_pattern: "\<not> price_pattern (formatCents (word_of_int (- (2 ^ 63))))"
  by (subst formatCents_min) code_simp

section \<open>Responses\<close>

lemma respond_eq:
  "respond m mapErr conv w = (w', r) \<longleftrightarrow>
     (\<exists>a. m w = (w', Ok a) \<and> r = Ok (ApiOk (conv a))) \<or> (\<exists>e. m w = (w', Err e) \<and> r = Ok (mapErr e)) \<or>
     (\<exists>p. m w = (w', Panic p) \<and> r = Panic p)"
  by (auto simp: respond_def split: prod.splits outcome.splits)

lemma with_order_id_codec: "uuid_codec U \<Longrightarrow> with_order_id U i k = k i"
  by (simp add: with_order_id_def uuid_codec.parse_string)

text \<open>The status line of a response to an error.\<close>

definition reply_status :: "(string, 'a reply) outcome \<Rightarrow> nat option" where
  "reply_status r = (case r of Ok x \<Rightarrow> Some (rp_Status x) | _ \<Rightarrow> None)"

lemma status_simps [simp]:
  "reply_status (json_reply n b x) = Some n" "reply_status unexpected = None"
  by (simp_all add: reply_status_def json_reply_def unexpected_def)

lemma status_if [simp]: "reply_status (if b then x else y) = (if b then reply_status x else reply_status y)"
  by simp

definition create_status :: "oerr \<Rightarrow> nat" where
  "create_status e =
     (if errors_Is e ErrValidation then 422 else if errors_Is e ErrPartNotFound then 404
      else if errors_Is e ErrPartsOutOfStock then 422 else if errors_Is e ErrBadGateway then 502
      else if errors_Is e ErrServiceUnavailable then 503 else 500)"

definition pay_status :: "oerr \<Rightarrow> nat" where
  "pay_status e =
     (if errors_Is e ErrValidation then 422 else if errors_Is e ErrOrderNotFound then 404
      else if errors_Is e ErrOrderConflict then 409 else if errors_Is e ErrBadGateway then 502
      else if errors_Is e ErrServiceUnavailable then 503 else 500)"

definition cancel_status :: "oerr \<Rightarrow> nat" where
  "cancel_status e =
     (if errors_Is e ErrOrderNotFound then 404 else if errors_Is e ErrOrderConflict then 409 else 500)"

definition get_status :: "oerr \<Rightarrow> nat" where
  "get_status e = (if errors_Is e ErrOrderNotFound then 404 else 500)"

lemmas status_line_defs = create_status_def pay_status_def cancel_status_def get_status_def

lemma error_status:
  "reply_status (encodeCreateOrderResponse (mapErrorToCreateOrderRes e)) = Some (create_status e)"
  "reply_status (encodePayOrderResponse (mapErrorToPayOrderRes e)) = Some (pay_status e)"
  "reply_status (encodeGetOrderByUUIDResponse (mapErrorToGetOrderRes e)) = Some (get_status e)"
  "reply_status (encodeCancelOrderResponse (mapErrorToCancelOrderRes e)) = Some (cancel_status e)"
  by (simp_all add: error_mapping_defs status_line_defs api_error_of_def encodeCreateOrderResponse_def
      encodePayOrderResponse_def encodeGetOrderByUUIDResponse_def encodeCancelOrderResponse_def)

text \<open>The code that the body of an error response carries.\<close>

definition body_code :: "'a api_res \<Rightarrow> int32 option" where
  "body_code res = (case res of ApiErr e \<Rightarrow> ae_Code e | ApiOk _ \<Rightarrow> None)"

lemma error_body_code:
  "body_code (mapErrorToCreateOrderRes e) = Some (if errors_Is e ErrValidation then 400 else of_nat (create_status e))"
  "body_code (mapErrorToPayOrderRes e) = Some (if errors_Is e ErrValidation then 400 else of_nat (pay_status e))"
  "body_code (mapErrorToGetOrderRes e) = Some (of_nat (get_status e))"
  "body_code (mapErrorToCancelOrderRes e) = Some (of_nat (cancel_status e))"
  by (simp_all add: error_mapping_defs status_line_defs api_error_of_def body_code_def)

text \<open>A stored order with parts passes the response's validation when its price is in range.\<close>

lemma order_response_valid:
  assumes "row_check r" and "ord_PartIDs r \<noteq> []"
    and "\<forall>m. ord_PaymentMethod r = Some m \<longrightarrow> PaymentMethod_Validate m"
  shows "Order_Validate (OrderToOAPI r) = []"
proof -
  have "price_pattern (formatCents (ord_TotalPrice r))"
    using assms(1) by (intro formatCents_pattern) (auto simp: row_check_def)
  moreover have "OrderStatus_Validate (orderStatusToOAPI (ord_Status r))"
    by (auto simp: orderStatusToOAPI_def OrderStatus_Validate_def)
  ultimately show ?thesis
    using assms by (auto simp: Order_Validate_def OrderToOAPI_def failure_def paymentMethodToOptNil_def
        split: option.splits)
qed

lemma OAPIToPaymentMethod_valid: "PaymentMethod_Validate (OAPIToPaymentMethod m)"
  by (auto simp: OAPIToPaymentMethod_def PaymentMethod_Validate_def payment_method_defs)

lemma OAPIToPaymentMethod_id: "PaymentMethod_Validate m \<Longrightarrow> OAPIToPaymentMethod m = m"
  by (auto simp: OAPIToPaymentMethod_def PaymentMethod_Validate_def payment_method_defs)

section \<open>Responses stay in their interface\<close>

lemma error_mappings_implement:
  "implements createOrderRes (mapErrorToCreateOrderRes e)"
  "implements payOrderRes (mapErrorToPayOrderRes e)"
  "implements getOrderByUUIDRes (mapErrorToGetOrderRes e)"
  "implements cancelOrderRes (mapErrorToCancelOrderRes e)"
  by (simp_all add: error_mapping_defs api_error_of_def implements_def response_interface_defs)

lemma respond_implements:
  assumes "\<And>e. implements marker (mapErr e)" and "respond m mapErr conv w = (w', Ok res)"
  shows "implements marker res"
  using assms by (auto simp: respond_def implements_def split: prod.splits outcome.splits)

lemma with_order_id_implements:
  assumes "marker BadRequestError"
    and "\<And>ordID w w' res. k ordID w = (w', Ok res) \<Longrightarrow> implements marker res"
    and "with_order_id U orderUUID k w = (w', Ok res)"
  shows "implements marker res"
  using assms(1,3)
  by (auto simp: with_order_id_def invalid_order_uuid_def implements_def ok_def panic_def
      dest!: assms(2) split: outcome.splits api_res.splits)

text \<open>
  So no handler of the service gives the server a response that it cannot encode.
\<close>

lemma handlers_encodable:
  "CreateOrder_handler svc req w = (w', Ok n) \<Longrightarrow> encodeCreateOrderResponse n \<noteq> unexpected"
  "PayOrder_handler svc preq u w = (w', Ok p) \<Longrightarrow> encodePayOrderResponse p \<noteq> unexpected"
  "GetOrderByUUID_handler svc u w = (w', Ok g) \<Longrightarrow> encodeGetOrderByUUIDResponse g \<noteq> unexpected"
  "CancelOrder_handler svc u w = (w', Ok c) \<Longrightarrow> encodeCancelOrderResponse c \<noteq> unexpected"
  unfolding encoders_cover_interfaces not_not
     apply (metis CreateOrder_handler_def error_mappings_implement(1) respond_implements)
    apply (unfold PayOrder_handler_def GetOrderByUUID_handler_def CancelOrder_handler_def)
    apply (erule with_order_id_implements [rotated 2], simp add: response_interface_defs,
      erule respond_implements [rotated], rule error_mappings_implement)+
  done

end
