(* ===== verification/Kafka.thy ===== *)
theory Kafka
  imports Prelude
begin

text \<open>
  The Kafka platform (\<open>platform/kafka\<close>): messages and their conversion from sarama's, the chain of
  middlewares, the claim loop of the group handler, the loop that keeps a consumer in its group, and
  the producer. sarama is not part of the repository: a consumer group, a session's \<open>MarkMessage\<close>
  and a \<open>SyncProducer\<close> are parameters. A handler is a program over the world, and its error type is
  left open, since every service brings its own sentinels.
\<close>

section \<open>Messages\<close>

record kafka_message =
  km_Headers :: "string \<rightharpoonup> bytes"
  km_Timestamp :: gotime
  km_BlockTimestamp :: gotime
  km_Key :: bytes
  km_Value :: bytes
  km_Topic :: string
  km_Partition :: int32
  km_Offset :: int64

record sarama_header =
  sh_Key :: "bytes option" \<comment> \<open>\<open>None\<close> is nil\<close>
  sh_Value :: bytes

record sarama_message =
  sm_Headers :: "sarama_header option list"
  sm_Timestamp :: gotime
  sm_BlockTimestamp :: gotime
  sm_Key :: bytes
  sm_Value :: bytes
  sm_Topic :: string
  sm_Partition :: int32
  sm_Offset :: int64

definition extractHeaders :: "sarama_header option list \<Rightarrow> (string \<rightharpoonup> bytes)" where
  "extractHeaders headers = foldl (\<lambda>result h.
     case h of
       Some header \<Rightarrow> (case sh_Key header of Some k \<Rightarrow> result(k \<mapsto> sh_Value header) | None \<Rightarrow> result)
     | None \<Rightarrow> result) Map.empty headers"

definition to_message :: "sarama_message \<Rightarrow> kafka_message" where
  "to_message m =
     \<lparr>km_Headers = extractHeaders (sm_Headers m), km_Timestamp = sm_Timestamp m,
      km_BlockTimestamp = sm_BlockTimestamp m, km_Key = sm_Key m, km_Value = sm_Value m,
      km_Topic = sm_Topic m, km_Partition = sm_Partition m, km_Offset = sm_Offset m\<rparr>"

section \<open>Middlewares\<close>

type_synonym ('w, 'e) message_handler = "kafka_message \<Rightarrow> ('w, 'e, unit) prog"
type_synonym ('w, 'e) middleware = "('w, 'e) message_handler \<Rightarrow> ('w, 'e) message_handler"

text \<open>\<open>emit\<close> writes the log line.\<close>

definition Logging :: "(string \<Rightarrow> 'w \<Rightarrow> 'w) \<Rightarrow> ('w, 'e) middleware" where
  "Logging emit next msg w = next msg (emit (km_Topic msg) w)"

text \<open>The deferred \<open>recover\<close> leaves the unnamed result at its zero value, which is a nil error.\<close>

definition Recovery :: "(string \<Rightarrow> 'w \<Rightarrow> 'w) \<Rightarrow> ('w, 'e) middleware" where
  "Recovery emit next msg w =
     (case next msg w of
        (w1, Panic p) \<Rightarrow> (emit p w1, Ok ())
      | r \<Rightarrow> r)"

text \<open>\<open>for i := len(middlewares) - 1; i >= 0; i-- { handler = middlewares[i](handler) }\<close>\<close>

fun wrap_from :: "('w, 'e) middleware list \<Rightarrow> nat \<Rightarrow> ('w, 'e) message_handler \<Rightarrow> ('w, 'e) message_handler" where
  "wrap_from mws 0 h = h"
| "wrap_from mws (Suc i) h = wrap_from mws i ((mws ! i) h)"

definition NewGroupHandler :: "('w, 'e) message_handler \<Rightarrow> ('w, 'e) middleware list \<Rightarrow> ('w, 'e) message_handler" where
  "NewGroupHandler handler mws = wrap_from mws (length mws) handler"

section \<open>The claim loop\<close>

text \<open>What one round of the \<open>select\<close> receives; the order is the scheduler's choice.\<close>

datatype claim_event = ClaimMessage sarama_message | ClaimClosed | SessionDone

text \<open>
  The loop over the events that arrive. \<open>None\<close> as the second component: the loop waits for the next
  event. A failed message is logged and not marked; the loop goes on.
\<close>

fun ConsumeClaim ::
  "('w, 'e) message_handler \<Rightarrow> (sarama_message \<Rightarrow> 'w \<Rightarrow> 'w) \<Rightarrow> claim_event list \<Rightarrow> 'w \<Rightarrow>
   'w \<times> ('e, unit) outcome option" where
  "ConsumeClaim handler mark [] w = (w, None)"
| "ConsumeClaim handler mark (ClaimClosed # es) w = (w, Some (Ok ()))"
| "ConsumeClaim handler mark (SessionDone # es) w = (w, Some (Ok ()))"
| "ConsumeClaim handler mark (ClaimMessage m # es) w =
     (case handler (to_message m) w of
        (w1, Ok _) \<Rightarrow> ConsumeClaim handler mark es (mark m w1)
      | (w1, Err _) \<Rightarrow> ConsumeClaim handler mark es w1
      | (w1, Panic p) \<Rightarrow> (w1, Some (Panic p)))"

section \<open>The consumer loop\<close>

text \<open>The errors that the loop tells apart.\<close>

datatype kafka_sentinel = ErrClosedConsumerGroup | KafkaContextCanceled | KafkaContextDeadline

type_synonym kerr = "kafka_sentinel goerr"

text \<open>
  \<open>group\<close> is one call of \<open>ConsumerGroup.Consume\<close> with the wrapped handler (it returns when the
  session ends), \<open>ctxErr\<close> is \<open>ctx.Err()\<close>. The loop may run for ever, so its value is an option.
\<close>

partial_function (option) Consume_loop ::
  "('w \<Rightarrow> 'w \<times> kerr option) \<Rightarrow> ('w \<Rightarrow> kerr option) \<Rightarrow> 'w \<Rightarrow> ('w \<times> kerr option) option" where
  "Consume_loop grp ctxErr w =
     (case grp w of
        (w1, Some err) \<Rightarrow> Some (w1, if errors_Is err ErrClosedConsumerGroup then None else Some err)
      | (w1, None) \<Rightarrow>
          (case ctxErr w1 of
             Some err \<Rightarrow> Some (w1, Some err)
           | None \<Rightarrow> Consume_loop grp ctxErr w1))"

definition Consume ::
  "(('w, 'e) message_handler \<Rightarrow> 'w \<Rightarrow> 'w \<times> kerr option) \<Rightarrow> ('w \<Rightarrow> kerr option) \<Rightarrow>
   ('w, 'e) middleware list \<Rightarrow> ('w, 'e) message_handler \<Rightarrow> 'w \<Rightarrow> ('w \<times> kerr option) option" where
  "Consume grp ctxErr mws handler w = Consume_loop (grp (NewGroupHandler handler mws)) ctxErr w"

section \<open>The producer\<close>

text \<open>\<open>send\<close> is \<open>SyncProducer.SendMessage\<close>: topic, key and value to a partition and an offset.\<close>

definition producer_Send ::
  "(string \<Rightarrow> bytes \<Rightarrow> bytes \<Rightarrow> ('w, 'e, int32 \<times> int64) prog) \<Rightarrow> string \<Rightarrow> bytes \<Rightarrow> bytes \<Rightarrow>
   ('w, 'e, unit) prog" where
  "producer_Send send topic key val = call (send topic key val) id (\<lambda>_. ok ())"

section \<open>Lemmas\<close>

text \<open>The first middleware of the list is the outermost.\<close>

lemma wrap_from_foldr: "wrap_from mws n h = foldr (\<lambda>m. m) (take n mws) h" if "n \<le> length mws"
  using that by (induction n arbitrary: h) (simp_all add: take_Suc_conv_app_nth)

lemma NewGroupHandler_foldr: "NewGroupHandler h mws = foldr (\<lambda>m. m) mws h"
  by (simp add: NewGroupHandler_def wrap_from_foldr)

lemma Recovery_no_panic: "Recovery emit next msg w \<noteq> (w', Panic p)"
  by (auto simp: Recovery_def split: prod.splits outcome.splits)

lemma Recovery_panic: "next msg w = (w1, Panic p) \<Longrightarrow> Recovery emit next msg w = (emit p w1, Ok ())"
  by (simp add: Recovery_def)

lemma Recovery_other: "next msg w = (w1, r) \<Longrightarrow> \<forall>p. r \<noteq> Panic p \<Longrightarrow> Recovery emit next msg w = (w1, r)"
  by (cases r) (simp_all add: Recovery_def)

text \<open>Where a \<open>Recovery\<close> stands in the chain and the middlewares outside it are \<open>Logging\<close>, nothing panics.\<close>

lemma Logging_panic: "Logging emit next msg w = (w', Panic p) \<Longrightarrow> \<exists>w1. next msg w1 = (w', Panic p)"
  by (auto simp: Logging_def)

lemma recovered_chain_no_panic:
  "NewGroupHandler h (Recovery emit # mws) msg w \<noteq> (w', Panic p)"
  by (simp add: NewGroupHandler_foldr Recovery_no_panic)

text \<open>
  The messages a run hands to the handler: those before the first event that ends it. When the
  handler does not panic the run is one pass over them.
\<close>

fun claimed :: "claim_event list \<Rightarrow> sarama_message list" where
  "claimed (ClaimMessage m # es) = m # claimed es"
| "claimed _ = []"

definition ended :: "claim_event list \<Rightarrow> bool" where
  "ended es \<longleftrightarrow> (\<exists>e \<in> set es. e = ClaimClosed \<or> e = SessionDone)"

definition handle_one :: "('w, 'e) message_handler \<Rightarrow> (sarama_message \<Rightarrow> 'w \<Rightarrow> 'w) \<Rightarrow> sarama_message \<Rightarrow> 'w \<Rightarrow> 'w" where
  "handle_one handler mark m w =
     (case handler (to_message m) w of (w1, Ok _) \<Rightarrow> mark m w1 | (w1, _) \<Rightarrow> w1)"

lemma ended_simps [simp]:
  "\<not> ended []" "ended (ClaimClosed # es)" "ended (SessionDone # es)"
  "ended (ClaimMessage m # es) = ended es"
  by (auto simp: ended_def)

lemma ConsumeClaim_fold:
  assumes "\<And>m w w' p. handler m w \<noteq> (w', Panic p)"
  shows "ConsumeClaim handler mark es w =
    (fold (handle_one handler mark) (claimed es) w, if ended es then Some (Ok ()) else None)"
proof (induction es arbitrary: w)
  case (Cons e es)
  show ?case
  proof (cases e)
    case (ClaimMessage m)
    obtain w1 r where "handler (to_message m) w = (w1, r)" by fastforce
    with Cons ClaimMessage assms show ?thesis by (cases r) (auto simp: handle_one_def)
  qed simp_all
qed simp

text \<open>The messages of a run that the handler finished without an error, in order.\<close>

fun succeeded ::
  "('w, 'e) message_handler \<Rightarrow> (sarama_message \<Rightarrow> 'w \<Rightarrow> 'w) \<Rightarrow> claim_event list \<Rightarrow> 'w \<Rightarrow> sarama_message list" where
  "succeeded handler mark (ClaimMessage m # es) w =
     (case handler (to_message m) w of
        (w1, Ok _) \<Rightarrow> m # succeeded handler mark es (mark m w1)
      | (w1, Err _) \<Rightarrow> succeeded handler mark es w1
      | (w1, Panic p) \<Rightarrow> [])"
| "succeeded handler mark _ w = []"

lemma succeeded_claimed: "set (succeeded handler mark es w) \<subseteq> set (claimed es)"
proof (induction es arbitrary: w)
  case (Cons e es)
  show ?case
  proof (cases e)
    case (ClaimMessage m)
    obtain w1 r where "handler (to_message m) w = (w1, r)" by fastforce
    with Cons ClaimMessage show ?thesis by (cases r) auto
  qed simp_all
qed simp

text \<open>
  \<open>position\<close> is the offset from which the group reads the partition again after a restart. Marking
  a message moves it past that message and never back; a handler has no business with it.
\<close>

locale offset_session =
  fixes mark :: "sarama_message \<Rightarrow> 'w \<Rightarrow> 'w"
    and position :: "'w \<Rightarrow> int"
  assumes mark_moves: "position (mark m w) = max (position w) (sint (sm_Offset m) + 1)"
begin

lemma position_after:
  fixes handler :: "('w, 'e) message_handler"
  assumes "\<And>m w w' r. handler m w = (w', r) \<Longrightarrow> position w' = position w"
  shows "position (fst (ConsumeClaim handler mark es w)) =
    foldl max (position w) (map (\<lambda>m. sint (sm_Offset m) + 1) (succeeded handler mark es w))"
proof (induction es arbitrary: w)
  case (Cons e es)
  show ?case
  proof (cases e)
    case (ClaimMessage m)
    obtain w1 r where run: "handler (to_message m) w = (w1, r)" by fastforce
    from assms [OF run] Cons ClaimMessage run show ?thesis by (cases r) (simp_all add: mark_moves)
  qed simp_all
qed simp

lemma foldl_max_ge: "x \<le> foldl max x ys" "y \<in> set ys \<Longrightarrow> y \<le> foldl max x (ys :: int list)"
proof -
  show ge: "x \<le> foldl max x ys" for x and ys :: "int list"
  proof (induction ys arbitrary: x)
    case (Cons a ys)
    have "x \<le> max x a" by simp
    also have "\<dots> \<le> foldl max (max x a) ys" by (rule Cons.IH)
    finally show ?case by simp
  qed simp
  show "y \<in> set ys \<Longrightarrow> y \<le> foldl max x ys"
  proof (induction ys arbitrary: x)
    case (Cons a ys)
    then show ?case using ge [of "max x a" ys] by auto
  qed simp
qed

text \<open>A success later in the partition moves the position past every earlier message, handled or not.\<close>

lemma position_past:
  fixes handler :: "('w, 'e) message_handler"
  assumes "\<And>m w w' r. handler m w = (w', r) \<Longrightarrow> position w' = position w"
    and "m' \<in> set (succeeded handler mark es w)"
  shows "sint (sm_Offset m') < position (fst (ConsumeClaim handler mark es w))"
proof -
  have "sint (sm_Offset m') + 1 \<in> set (map (\<lambda>m. sint (sm_Offset m) + 1) (succeeded handler mark es w))"
    using assms(2) by auto
  from foldl_max_ge(2) [OF this, of "position w"] show ?thesis
    by (simp add: position_after [OF assms(1)])
qed

end

text \<open>The consumer loop: it ends with the session during which the context ended or an error came.\<close>

lemma Consume_loop_Some:
  assumes "\<And>k. k < n \<Longrightarrow> grp (ws k) = (ws (Suc k), None) \<and> ctxErr (ws (Suc k)) = None"
    and "grp (ws n) = (ws (Suc n), r)" and "r \<noteq> None \<or> ctxErr (ws (Suc n)) \<noteq> None"
  shows "Consume_loop grp ctxErr (ws 0) = Some (ws (Suc n),
    case r of Some err \<Rightarrow> if errors_Is err ErrClosedConsumerGroup then None else Some err
            | None \<Rightarrow> ctxErr (ws (Suc n)))"
  using assms
proof (induction n arbitrary: ws)
  case 0
  then show ?case by (subst Consume_loop.simps) (auto split: option.splits)
next
  case (Suc n)
  from Suc.prems(1) [of 0] have first: "grp (ws 0) = (ws 1, None)" "ctxErr (ws 1) = None" by simp_all
  from Suc.prems(1) have "grp (ws (Suc k)) = (ws (Suc (Suc k)), None) \<and> ctxErr (ws (Suc (Suc k))) = None"
    if "k < n" for k using that by simp
  from Suc.IH [of "\<lambda>k. ws (Suc k)", OF this Suc.prems(2,3)] first show ?case
    by (subst Consume_loop.simps) simp
qed

text \<open>Whenever it returns, the last session explains why.\<close>

lemma Consume_loop_result:
  assumes "Consume_loop grp ctxErr w = Some y"
  shows "(snd y = None \<longrightarrow> (\<exists>w0 err. grp w0 = (fst y, Some err) \<and> errors_Is err ErrClosedConsumerGroup)) \<and>
    (\<forall>e. snd y = Some e \<longrightarrow> (\<exists>w0. grp w0 = (fst y, Some e)) \<or> ctxErr (fst y) = Some e)"
proof (induction rule: Consume_loop.raw_induct [OF _ assms])
  case (1 rec grp ctxErr w r)
  obtain w1 g where g: "grp w = (w1, g)" by fastforce
  show ?case
  proof (cases g)
    case (Some err)
    with 1(2) g have r: "r = (w1, if errors_Is err ErrClosedConsumerGroup then None else Some err)" by simp
    show ?thesis
    proof (cases "errors_Is err ErrClosedConsumerGroup")
      case True
      with r g Some show ?thesis by (simp, blast)
    next
      case False
      with r g Some show ?thesis by (simp, blast)
    qed
  next
    case None
    with 1 g show ?thesis by (cases "ctxErr w1") auto
  qed
qed

end
