(* ===== verification/Proto.thy ===== *)
theory Proto
  imports Prelude
begin

text \<open>
  The protobuf messages of \<open>shared/pkg/proto\<close> and the gRPC vocabulary around them. A message that
  the code handles through a pointer is an \<open>option\<close> (\<open>None\<close> is nil), and its getters are
  nil-safe. The protobuf runtime is not part of the repository: \<open>proto.Marshal\<close>/\<open>Unmarshal\<close> of
  the two Kafka records and \<open>timestamppb\<close> are the records \<open>proto_lib\<close> and \<open>ts_lib\<close>, whose laws
  are the locales \<open>proto_codec\<close> and \<open>timestamps\<close>. The proto3 wire format, written out for the
  two records, interprets the first; seconds and nanoseconds since 1970 the second.
\<close>

section \<open>Inventory messages\<close>

text \<open>The \<open>oneof value\<close> of \<open>Value\<close>; \<open>None\<close> is a oneof that is not set.\<close>

datatype value_oneof =
    Value_StringValue string
  | Value_Int64Value int64
  | Value_DoubleValue float64
  | Value_BoolValue bool

record pb_value =
  pbv_Value :: "value_oneof option"

record pb_timestamp =
  ts_Seconds :: int64
  ts_Nanos :: int32

record pb_dimensions =
  pbd_Length :: float64
  pbd_Width :: float64
  pbd_Height :: float64
  pbd_Weight :: float64

record pb_manufacturer =
  pbm_Name :: string
  pbm_Country :: string
  pbm_Website :: string

record pb_part =
  pbp_Uuid :: string
  pbp_Name :: string
  pbp_Description :: string
  pbp_PriceCents :: int64
  pbp_StockQuantity :: int64
  pbp_Category :: int32
  pbp_Dimensions :: "pb_dimensions option"
  pbp_Manufacturer :: "pb_manufacturer option"
  pbp_Tags :: "string list"
  pbp_Metadata :: "(string \<rightharpoonup> pb_value option) option"
  pbp_CreatedAt :: "pb_timestamp option"
  pbp_UpdatedAt :: "pb_timestamp option"

definition CATEGORY_UNKNOWN :: int32 where "CATEGORY_UNKNOWN = 0"
definition CATEGORY_ENGINE :: int32 where "CATEGORY_ENGINE = 1"
definition CATEGORY_FUEL :: int32 where "CATEGORY_FUEL = 2"
definition CATEGORY_PORTHOLE :: int32 where "CATEGORY_PORTHOLE = 3"
definition CATEGORY_WING :: int32 where "CATEGORY_WING = 4"

lemmas pb_category_defs =
  CATEGORY_UNKNOWN_def CATEGORY_ENGINE_def CATEGORY_FUEL_def CATEGORY_PORTHOLE_def CATEGORY_WING_def

record pb_filter =
  pbf_Uuids :: "string list"
  pbf_Names :: "string list"
  pbf_Categories :: "int32 list"
  pbf_ManufacturerCountries :: "string list"
  pbf_Tags :: "string list"

record get_part_request =
  gpr_Uuid :: string

record get_part_response =
  gpo_Part :: "pb_part option"

record list_parts_request =
  lpr_Filter :: "pb_filter option"

record list_parts_response =
  lpo_Parts :: "pb_part option list"

definition GetPartRequest_GetUuid :: "get_part_request option \<Rightarrow> string" where
  "GetPartRequest_GetUuid x = (case x of Some r \<Rightarrow> gpr_Uuid r | None \<Rightarrow> '''')"

definition ListPartsRequest_GetFilter :: "list_parts_request option \<Rightarrow> pb_filter option" where
  "ListPartsRequest_GetFilter x = (case x of Some r \<Rightarrow> lpr_Filter r | None \<Rightarrow> None)"

section \<open>Payment messages\<close>

definition PAYMENT_METHOD_UNKNOWN :: int32 where "PAYMENT_METHOD_UNKNOWN = 0"
definition PAYMENT_METHOD_CARD :: int32 where "PAYMENT_METHOD_CARD = 1"
definition PAYMENT_METHOD_SBP :: int32 where "PAYMENT_METHOD_SBP = 2"
definition PAYMENT_METHOD_CREDIT_CARD :: int32 where "PAYMENT_METHOD_CREDIT_CARD = 3"
definition PAYMENT_METHOD_INVESTOR_MONEY :: int32 where "PAYMENT_METHOD_INVESTOR_MONEY = 4"

lemmas pb_method_defs =
  PAYMENT_METHOD_UNKNOWN_def PAYMENT_METHOD_CARD_def PAYMENT_METHOD_SBP_def
  PAYMENT_METHOD_CREDIT_CARD_def PAYMENT_METHOD_INVESTOR_MONEY_def

record pay_order_pb_request =
  ppr_OrderUuid :: string
  ppr_UserUuid :: string
  ppr_PaymentMethod :: int32

record pay_order_pb_response =
  ppo_TransactionUuid :: string

section \<open>Kafka records\<close>

record paid_order_record =
  por_EventUuid :: string
  por_OrderUuid :: string
  por_UserUuid :: string
  por_PayMethod :: string
  por_TransactionUuid :: string

record assembled_ship_record =
  asr_EventUuid :: string
  asr_OrderUuid :: string
  asr_UserUuid :: string
  asr_BuildTimeSec :: int64

section \<open>Status codes of gRPC\<close>

datatype grpc_code = GrpcCanceled | GrpcUnknown | GrpcInvalidArgument | GrpcNotFound | GrpcInternal

record grpc_status =
  st_Code :: grpc_code
  st_Message :: string

definition status_Error :: "grpc_code \<Rightarrow> string \<Rightarrow> grpc_status" where
  "status_Error c m = \<lparr>st_Code = c, st_Message = m\<rparr>"

section \<open>The protobuf runtime\<close>

record proto_lib =
  Marshal_paid :: "paid_order_record \<Rightarrow> (string, bytes) outcome"
  Unmarshal_paid :: "bytes \<Rightarrow> (string, paid_order_record) outcome"
  Marshal_ship :: "assembled_ship_record \<Rightarrow> (string, bytes) outcome"
  Unmarshal_ship :: "bytes \<Rightarrow> (string, assembled_ship_record) outcome"

text \<open>What the services rely on: a record that was marshalled is read back as it was.\<close>

locale proto_codec =
  fixes P :: proto_lib
  assumes paid_roundtrip: "Marshal_paid P m = Ok b \<Longrightarrow> Unmarshal_paid P b = Ok m"
    and ship_roundtrip: "Marshal_ship P n = Ok b \<Longrightarrow> Unmarshal_ship P b = Ok n"
begin

lemma paid_injective:
  "Marshal_paid P m = Ok b \<Longrightarrow> Marshal_paid P m' = Ok b \<Longrightarrow> m = m'"
  using paid_roundtrip by (metis outcome.inject(1))

lemma ship_injective:
  "Marshal_ship P n = Ok b \<Longrightarrow> Marshal_ship P n' = Ok b \<Longrightarrow> n = n'"
  using ship_roundtrip by (metis outcome.inject(1))

end

record ts_lib =
  ts_New :: "gotime \<Rightarrow> pb_timestamp"
  ts_AsTime :: "pb_timestamp \<Rightarrow> gotime"

text \<open>Seconds between Go's zero time (year 1) and 1970, and the times whose seconds fit \<open>int64\<close>.\<close>

definition unix_epoch_secs :: int where
  "unix_epoch_secs = 62135596800"

definition time_in_range :: "gotime \<Rightarrow> bool" where
  "time_in_range t \<longleftrightarrow>
     - (2 ^ 63) \<le> t div 1000000000 - unix_epoch_secs \<and> t div 1000000000 - unix_epoch_secs < 2 ^ 63"

locale timestamps =
  fixes T :: ts_lib
  assumes as_time_new: "time_in_range t \<Longrightarrow> ts_AsTime T (ts_New T t) = t"

definition unix_ts :: ts_lib where
  "unix_ts =
     \<lparr>ts_New = (\<lambda>t. \<lparr>ts_Seconds = word_of_int (t div 1000000000 - unix_epoch_secs),
                      ts_Nanos = word_of_int (t mod 1000000000)\<rparr>),
      ts_AsTime = (\<lambda>s. (sint (ts_Seconds s) + unix_epoch_secs) * 1000000000 + sint (ts_Nanos s))\<rparr>"

lemma sint_word_of_int_in_range:
  "- (2 ^ 63) \<le> i \<Longrightarrow> i < 2 ^ 63 \<Longrightarrow> sint (word_of_int i :: int64) = i"
  by (simp add: signed_take_bit_int_eq_self sint_sbintrunc')

interpretation unix: timestamps unix_ts
proof
  fix t
  assume "time_in_range t"
  moreover have "sint (word_of_int (t mod 1000000000) :: int32) = t mod 1000000000"
    by (simp add: signed_take_bit_int_eq_self sint_sbintrunc' order_less_trans [OF pos_mod_bound]
        order_trans [OF _ pos_mod_sign])
  moreover have "t div 1000000000 * 1000000000 + t mod 1000000000 = t"
    by (rule div_mult_mod_eq)
  ultimately show "ts_AsTime unix_ts (ts_New unix_ts t) = t"
    by (simp add: unix_ts_def time_in_range_def sint_word_of_int_in_range del: of_int_diff)
qed

section \<open>The wire format\<close>

text \<open>A base-128 number: seven bits to a byte, the least significant first, high bit while more follow.\<close>

fun varint :: "nat \<Rightarrow> bytes" where
  "varint n = (if n < 128 then [char_of n] else char_of (128 + n mod 128) # varint (n div 128))"

declare varint.simps [simp del]

fun read_varint :: "bytes \<Rightarrow> (nat \<times> bytes) option" where
  "read_varint [] = None"
| "read_varint (c # cs) =
     (if (of_char c :: nat) < 128 then Some (of_char c, cs)
      else map_option (\<lambda>(n, r). (of_char c - 128 + 128 * n, r)) (read_varint cs))"

lemma read_varint_append [simp]: "read_varint (varint n @ r) = Some (n, r)"
proof (induction n rule: varint.induct)
  case (1 n)
  then show ?case
    by (cases "n < 128") (simp_all add: varint.simps [of n] mult.commute)
qed

lemma read_varint_shorter: "read_varint bs = Some (n, r) \<Longrightarrow> length r < length bs"
  by (induction bs arbitrary: n) (auto split: if_splits)

datatype wire = WVarint nat | WLen bytes

definition wire_string :: "nat \<Rightarrow> string \<Rightarrow> bytes" where
  "wire_string k s = (if s = '''' then [] else varint (8 * k + 2) @ varint (length s) @ s)"

definition wire_int64 :: "nat \<Rightarrow> int64 \<Rightarrow> bytes" where
  "wire_int64 k n = (if n = 0 then [] else varint (8 * k) @ varint (unat n))"

text \<open>Reading one field, and all of them. \<open>None\<close> is a malformed message.\<close>

definition read_field :: "bytes \<Rightarrow> ((nat \<times> wire) \<times> bytes) option" where
  "read_field bs =
     Option.bind (read_varint bs) (\<lambda>(tag, r).
       Option.bind (read_varint r) (\<lambda>(n, r').
         if tag mod 8 = 0 then Some ((tag div 8, WVarint n), r')
         else if tag mod 8 = 2 \<and> n \<le> length r' then Some ((tag div 8, WLen (take n r')), drop n r')
         else None))"

lemma read_field_shorter: "read_field bs = Some (f, r) \<Longrightarrow> length r < length bs"
  by (fastforce simp: read_field_def bind_eq_Some_conv dest: read_varint_shorter split: if_splits)

function read_fields :: "bytes \<Rightarrow> (nat \<times> wire) list option" where
  "read_fields bs =
     (if bs = [] then Some []
      else case read_field bs of
             None \<Rightarrow> None
           | Some (f, r) \<Rightarrow> map_option ((#) f) (read_fields r))"
  by auto

termination read_fields
  by (relation "measure length") (auto simp: read_field_shorter)

declare read_fields.simps [simp del]

lemma read_fields_Nil [simp]: "read_fields [] = Some []"
  by (simp add: read_fields.simps)

lemma varint_nonempty [simp]: "varint n \<noteq> []"
  by (subst varint.simps) simp

lemma tag_of [simp]: "Suc (Suc (8 * k)) mod 8 = 2" "Suc (Suc (8 * k)) div 8 = k"
  by presburger+

lemma read_fields_string [simp]:
  "read_fields (wire_string k s @ r) =
     map_option ((@) (if s = '''' then [] else [(k, WLen s)])) (read_fields r)"
proof (cases "s = ''''")
  case False
  have "read_field (varint (8 * k + 2) @ varint (length s) @ s @ r) = Some ((k, WLen s), r)"
    by (simp add: read_field_def)
  with False show ?thesis
    by (subst read_fields.simps) (cases "read_fields r"; simp add: wire_string_def)
qed (simp add: wire_string_def option.map_id0 [unfolded id_def] append_Nil [abs_def])

lemma read_fields_int64 [simp]:
  "read_fields (wire_int64 k n @ r) =
     map_option ((@) (if n = 0 then [] else [(k, WVarint (unat n))])) (read_fields r)"
proof (cases "n = 0")
  case False
  have "read_field (varint (8 * k) @ varint (unat n) @ r) = Some ((k, WVarint (unat n)), r)"
    by (simp add: read_field_def)
  with False show ?thesis
    by (subst read_fields.simps) (cases "read_fields r"; simp add: wire_int64_def)
qed (simp add: wire_int64_def option.map_id0 [unfolded id_def] append_Nil [abs_def])

text \<open>The last occurrence of a field wins; a field that does not occur has its default.\<close>

definition string_field :: "nat \<Rightarrow> (nat \<times> wire) list \<Rightarrow> string" where
  "string_field k fs = foldl (\<lambda>acc (j, w). case w of WLen s \<Rightarrow> if j = k then s else acc | _ \<Rightarrow> acc) '''' fs"

definition int64_field :: "nat \<Rightarrow> (nat \<times> wire) list \<Rightarrow> int64" where
  "int64_field k fs = foldl (\<lambda>acc (j, w). case w of WVarint n \<Rightarrow> if j = k then of_nat n else acc | _ \<Rightarrow> acc) 0 fs"

definition wire_paid :: "paid_order_record \<Rightarrow> bytes" where
  "wire_paid m = wire_string 1 (por_EventUuid m) @ wire_string 2 (por_OrderUuid m) @
     wire_string 3 (por_UserUuid m) @ wire_string 4 (por_PayMethod m) @ wire_string 5 (por_TransactionUuid m)"

definition read_paid :: "(nat \<times> wire) list \<Rightarrow> paid_order_record" where
  "read_paid fs = \<lparr>por_EventUuid = string_field 1 fs, por_OrderUuid = string_field 2 fs,
     por_UserUuid = string_field 3 fs, por_PayMethod = string_field 4 fs,
     por_TransactionUuid = string_field 5 fs\<rparr>"

definition wire_ship :: "assembled_ship_record \<Rightarrow> bytes" where
  "wire_ship m = wire_string 1 (asr_EventUuid m) @ wire_string 2 (asr_OrderUuid m) @
     wire_string 3 (asr_UserUuid m) @ wire_int64 4 (asr_BuildTimeSec m)"

definition read_ship :: "(nat \<times> wire) list \<Rightarrow> assembled_ship_record" where
  "read_ship fs = \<lparr>asr_EventUuid = string_field 1 fs, asr_OrderUuid = string_field 2 fs,
     asr_UserUuid = string_field 3 fs, asr_BuildTimeSec = int64_field 4 fs\<rparr>"

definition wire_result :: "'a option \<Rightarrow> (string, 'a) outcome" where
  "wire_result x = (case x of None \<Rightarrow> Err ''proto: cannot parse invalid wire-format data'' | Some a \<Rightarrow> Ok a)"

definition wire_proto :: proto_lib where
  "wire_proto =
     \<lparr>Marshal_paid = (\<lambda>m. Ok (wire_paid m)),
      Unmarshal_paid = (\<lambda>b. wire_result (map_option read_paid (read_fields b))),
      Marshal_ship = (\<lambda>m. Ok (wire_ship m)),
      Unmarshal_ship = (\<lambda>b. wire_result (map_option read_ship (read_fields b)))\<rparr>"

lemma read_wire_paid: "map_option read_paid (read_fields (wire_paid m)) = Some m"
proof -
  have "read_fields (wire_paid m @ []) \<noteq> None \<and> read_paid (the (read_fields (wire_paid m @ []))) = m"
    by (simp add: wire_paid_def read_paid_def string_field_def del: append_Nil2)
  then show ?thesis by auto
qed

lemma read_wire_ship: "map_option read_ship (read_fields (wire_ship m)) = Some m"
proof -
  have "read_fields (wire_ship m @ []) \<noteq> None \<and> read_ship (the (read_fields (wire_ship m @ []))) = m"
    by (simp add: wire_ship_def read_ship_def string_field_def int64_field_def del: append_Nil2)
  then show ?thesis by auto
qed

interpretation wire_codec: proto_codec wire_proto
  by unfold_locales
    (auto simp: wire_proto_def read_wire_paid read_wire_ship, simp_all add: wire_result_def)

end
