(* ===== verification/Order_Events.thy ===== *)
theory Order_Events
  imports Order_Service Kafka Proto
begin

text \<open>
  The Kafka side of the order service: the converter (\<open>order/internal/converter/kafka.go\<close>), the
  producer of \<open>order.paid\<close> (\<open>service/producer/order/producer.go\<close>) and the handler of
  \<open>order.assembled\<close> messages (\<open>service/consumer/order/consumer.go\<close>).
\<close>

definition PaidOrderToModel :: "proto_lib \<Rightarrow> uuid_lib \<Rightarrow> paid_order \<Rightarrow> (oerr, bytes) outcome" where
  "PaidOrderToModel P U m =
     (case Marshal_paid P
        \<lparr>por_EventUuid = uuid_String U (po_EventID m), por_OrderUuid = uuid_String U (po_OrderID m),
         por_UserUuid = uuid_String U (po_UserID m), por_PayMethod = po_PaymentMethod m,
         por_TransactionUuid = uuid_String U (po_TransactionID m)\<rparr> of
        Err e \<Rightarrow> Err (Wrapf ''failed to unmarshal protobuf: '' (ErrText e) '''')
      | Panic p \<Rightarrow> Panic p
      | Ok b \<Rightarrow> Ok b)"

definition AssembledShipToModel :: "proto_lib \<Rightarrow> uuid_lib \<Rightarrow> bytes \<Rightarrow> (oerr, assembled_ship) outcome" where
  "AssembledShipToModel P U data =
     (case Unmarshal_ship P data of
        Err e \<Rightarrow> Err (Wrapf ''failed to unmarshal protobuf: '' (ErrText e) '''')
      | Panic p \<Rightarrow> Panic p
      | Ok pb \<Rightarrow>
          bind_out (uuid_MustParse U (asr_EventUuid pb)) (\<lambda>event.
          bind_out (uuid_MustParse U (asr_OrderUuid pb)) (\<lambda>ordr.
          bind_out (uuid_MustParse U (asr_UserUuid pb)) (\<lambda>user.
          Ok \<lparr>as_EventID = event, as_OrderID = ordr, as_UserID = user,
              as_BuildTime = asr_BuildTimeSec pb\<rparr>))))"

text \<open>\<open>send\<close> is the \<open>Send\<close> of the \<open>kafka.Producer\<close>.\<close>

definition SendOrderPaid ::
  "proto_lib \<Rightarrow> uuid_lib \<Rightarrow> (bytes \<Rightarrow> bytes \<Rightarrow> ('w, oerr, unit) prog) \<Rightarrow> paid_order \<Rightarrow> ('w, oerr, unit) prog" where
  "SendOrderPaid P U send event =
     call (lift (PaidOrderToModel P U event))
       (\<lambda>e. Wrapf ''converter paid_order_to_proto error: '' e '''') (\<lambda>payload.
     call (send (uuid_bytes (po_OrderID event)) payload)
       (\<lambda>e. Wrapf ''producer to order.paid topic error: '' e '''') ok)"

text \<open>\<open>complete\<close> is the \<open>Complete\<close> of the order service.\<close>

definition shipAssembledHandler ::
  "proto_lib \<Rightarrow> uuid_lib \<Rightarrow> (uuid \<Rightarrow> ('w, oerr, unit) prog) \<Rightarrow> ('w, oerr) message_handler" where
  "shipAssembledHandler P U complete msg =
     call (lift (AssembledShipToModel P U (km_Value msg)))
       (\<lambda>e. Wrapf ''converter assembled_ship_to_model error: '' e '''') (\<lambda>payload.
     call (complete (as_OrderID payload)) id ok)"

section \<open>Lemmas\<close>

lemma ship_decodes:
  assumes "uuid_codec U" and "Unmarshal_ship P data = Ok \<lparr>asr_EventUuid = uuid_String U e,
      asr_OrderUuid = uuid_String U i, asr_UserUuid = uuid_String U u, asr_BuildTimeSec = s\<rparr>"
  shows "AssembledShipToModel P U data =
    Ok \<lparr>as_EventID = e, as_OrderID = i, as_UserID = u, as_BuildTime = s\<rparr>"
  using assms(2) by (simp add: AssembledShipToModel_def uuid_codec.must_parse_string [OF assms(1)])

lemma paid_sent:
  assumes "SendOrderPaid P U send event w = (w', Ok ())"
  shows "\<exists>payload. Marshal_paid P
        \<lparr>por_EventUuid = uuid_String U (po_EventID event), por_OrderUuid = uuid_String U (po_OrderID event),
         por_UserUuid = uuid_String U (po_UserID event), por_PayMethod = po_PaymentMethod event,
         por_TransactionUuid = uuid_String U (po_TransactionID event)\<rparr> = Ok payload \<and>
      send (uuid_bytes (po_OrderID event)) payload w = (w', Ok ())"
  using assms
  by (auto simp: SendOrderPaid_def PaidOrderToModel_def go_elims split: outcome.splits)

lemma SendOrderPaid_frame: "(\<And>k b. keeps v (send k b)) \<Longrightarrow> keeps v (SendOrderPaid P U send event)"
  unfolding SendOrderPaid_def by (intro keeps_call keeps_lift keeps_ok)

text \<open>A record that does not decode, or whose identifiers do not parse, never reaches the service.\<close>

lemma undecodable_ship:
  assumes "\<And>ship. AssembledShipToModel P U (km_Value msg) \<noteq> Ok ship"
  shows "fst (shipAssembledHandler P U complete msg w) = w"
  using assms by (cases "AssembledShipToModel P U (km_Value msg)")
    (auto simp: shipAssembledHandler_def call_def lift_def)

lemma decoded_ship:
  assumes "AssembledShipToModel P U (km_Value msg) = Ok ship"
  shows "shipAssembledHandler P U complete msg w = complete (as_OrderID ship) w"
  using assms by (auto simp: shipAssembledHandler_def call_def lift_def ok_def split: prod.splits outcome.splits)

end
