(* ===== verification/Order_Clients.thy ===== *)
theory Order_Clients
  imports Order_Model Proto
begin

text \<open>
  The gRPC clients of the order service (\<open>order/internal/client\<close>): the conversions of parts, filters
  and payment parameters, and the two clients over the generated stubs, which are parameters.
\<close>

section \<open>Inventory\<close>

definition dimensionsToModel :: "pb_dimensions option \<Rightarrow> dimensions option" where
  "dimensionsToModel d = map_option (\<lambda>d. \<lparr>dim_Length = pbd_Length d, dim_Width = pbd_Width d,
     dim_Height = pbd_Height d, dim_Weight = pbd_Weight d\<rparr>) d"

definition manufacturerToModel :: "pb_manufacturer option \<Rightarrow> manufacturer option" where
  "manufacturerToModel m = map_option (\<lambda>m. \<lparr>man_Name = pbm_Name m, man_Country = pbm_Country m,
     man_Website = pbm_Website m\<rparr>) m"

fun value_to_any :: "value_oneof \<Rightarrow> goany" where
  "value_to_any (Value_StringValue s) = AString s"
| "value_to_any (Value_Int64Value i) = AInt64 i"
| "value_to_any (Value_DoubleValue d) = AFloat64 d"
| "value_to_any (Value_BoolValue b) = ABool b"

text \<open>A nil value and an unset oneof get no entry.\<close>

definition metadataToModel :: "(string \<rightharpoonup> pb_value option) option \<Rightarrow> (string \<rightharpoonup> goany) option" where
  "metadataToModel src = map_option (\<lambda>m k.
     case m k of
       Some (Some v) \<Rightarrow> map_option value_to_any (pbv_Value v)
     | _ \<Rightarrow> None) src"

definition tsToTimePtr :: "ts_lib \<Rightarrow> pb_timestamp option \<Rightarrow> gotime option" where
  "tsToTimePtr T ts = map_option (ts_AsTime T) ts"

definition partToModel :: "ts_lib \<Rightarrow> pb_part option \<Rightarrow> part" where
  "partToModel T p =
     (case p of
        None \<Rightarrow> zero_part
      | Some p \<Rightarrow>
          \<lparr>part_ID = pbp_Uuid p, part_Name = pbp_Name p, part_Description = pbp_Description p,
           part_PriceCents = pbp_PriceCents p, part_StockQuantity = pbp_StockQuantity p,
           part_Category = pbp_Category p,
           part_Dimensions = dimensionsToModel (pbp_Dimensions p),
           part_Manufacturer = manufacturerToModel (pbp_Manufacturer p),
           part_Tags = pbp_Tags p,
           part_Metadata = metadataToModel (pbp_Metadata p),
           part_CreatedAt = tsToTimePtr T (pbp_CreatedAt p),
           part_UpdatedAt = tsToTimePtr T (pbp_UpdatedAt p)\<rparr>)"

definition PartsListToModel :: "ts_lib \<Rightarrow> pb_part option list \<Rightarrow> part list" where
  "PartsListToModel T ps = map (partToModel T) ps"

definition PartsFilterToPB :: "parts_filter \<Rightarrow> pb_filter" where
  "PartsFilterToPB f =
     \<lparr>pbf_Uuids = pf_IDs f, pbf_Names = pf_Names f, pbf_Categories = map (\<lambda>c. c) (pf_Categories f),
      pbf_ManufacturerCountries = pf_ManufacturerCountries f, pbf_Tags = pf_Tags f\<rparr>"

definition invclient_ListParts ::
  "ts_lib \<Rightarrow> (list_parts_request \<Rightarrow> ('w, oerr, list_parts_response) prog) \<Rightarrow> parts_filter \<Rightarrow>
   ('w, oerr, part list) prog" where
  "invclient_ListParts T grpc f =
     call (grpc \<lparr>lpr_Filter = Some (PartsFilterToPB f)\<rparr>) id (\<lambda>parts.
       ok (PartsListToModel T (lpo_Parts parts)))"

section \<open>Payment\<close>

definition paymentMethodToPB :: "PaymentMethod \<Rightarrow> int32" where
  "paymentMethodToPB m =
     (if m = PaymentMethodUnknown then PAYMENT_METHOD_UNKNOWN
      else if m = PaymentMethodCard then PAYMENT_METHOD_CARD
      else if m = PaymentMethodSBP then PAYMENT_METHOD_SBP
      else if m = PaymentMethodCreditCard then PAYMENT_METHOD_CREDIT_CARD
      else if m = PaymentMethodInvestorMoney then PAYMENT_METHOD_INVESTOR_MONEY
      else PAYMENT_METHOD_UNKNOWN)"

definition PayOrderParamsToPB :: "uuid_lib \<Rightarrow> pay_params \<Rightarrow> pay_order_pb_request" where
  "PayOrderParamsToPB U params =
     \<lparr>ppr_OrderUuid = uuid_String U (pp_ID params), ppr_UserUuid = uuid_String U (pp_UserID params),
      ppr_PaymentMethod = paymentMethodToPB (pp_PaymentMethod params)\<rparr>"

definition pmtclient_PayOrder ::
  "uuid_lib \<Rightarrow> (pay_order_pb_request \<Rightarrow> ('w, oerr, pay_order_pb_response) prog) \<Rightarrow> pay_params \<Rightarrow>
   ('w, oerr, string) prog" where
  "pmtclient_PayOrder U grpc params =
     call (grpc (PayOrderParamsToPB U params)) id (\<lambda>paid. ok (ppo_TransactionUuid paid))"

section \<open>Lemmas\<close>

lemma PartsListToModel_length [simp]: "length (PartsListToModel T ps) = length ps"
  by (simp add: PartsListToModel_def)

definition known_methods :: "PaymentMethod list" where
  "known_methods =
     [PaymentMethodCard, PaymentMethodSBP, PaymentMethodCreditCard, PaymentMethodInvestorMoney]"

text \<open>The four real methods get four different numbers; everything else is \<open>UNKNOWN\<close>.\<close>

lemma paymentMethodToPB_unknown: "paymentMethodToPB m = PAYMENT_METHOD_UNKNOWN \<longleftrightarrow> m \<notin> set known_methods"
  by (auto simp: paymentMethodToPB_def known_methods_def pb_method_defs payment_method_defs)

lemma paymentMethodToPB_inj:
  "m \<in> set known_methods \<Longrightarrow> m' \<in> set known_methods \<Longrightarrow> paymentMethodToPB m = paymentMethodToPB m' \<Longrightarrow> m = m'"
  by (auto simp: paymentMethodToPB_def known_methods_def pb_method_defs payment_method_defs split: if_splits)

end
