(* ===== verification/Order_Concurrency.thy ===== *)
theory Order_Concurrency
  imports Order_Service
begin

text \<open>
  Requests that overlap. The server runs every request in its own goroutine, so between two calls
  of one request the world may change by calls of another. A thread is a request of
  \<open>Order_Service\<close> cut at its calls of the repository, the payment service and the producer; a
  schedule is the order in which the threads take their steps. A thread that runs alone is the
  operation itself, and whatever the schedule, the table's invariant holds and the parts of an order
  that no request may change stay as they were.
\<close>

section \<open>Threads\<close>

datatype thread_result =
    PayResult "(oerr, pay_result) outcome"
  | CancelResult "(oerr, unit) outcome"
  | CompleteResult "(oerr, unit) outcome"

datatype thread =
    PayStart pay_params
  | PayCharge pay_params order
  | PayUpdate pay_params order uuid
  | PaySend pay_params order uuid
  | CancelStart uuid
  | CancelUpdate order
  | CompleteStart uuid
  | Done thread_result

text \<open>How a call that failed ends its thread.\<close>

definition next_step :: "('w \<times> (oerr, 'a) outcome) \<Rightarrow> (oerr \<Rightarrow> thread) \<Rightarrow> (string \<Rightarrow> thread) \<Rightarrow> ('a \<Rightarrow> thread) \<Rightarrow> 'w \<times> thread" where
  "next_step res onErr onPanic onOk =
     (case res of
        (w, Ok a) \<Rightarrow> (w, onOk a)
      | (w, Err e) \<Rightarrow> (w, onErr e)
      | (w, Panic p) \<Rightarrow> (w, onPanic p))"

abbreviation pay_err :: "oerr \<Rightarrow> thread" where "pay_err e \<equiv> Done (PayResult (Err e))"
abbreviation pay_panic :: "string \<Rightarrow> thread" where "pay_panic p \<equiv> Done (PayResult (Panic p))"
abbreviation cancel_err :: "oerr \<Rightarrow> thread" where "cancel_err e \<equiv> Done (CancelResult (Err e))"
abbreviation cancel_panic :: "string \<Rightarrow> thread" where "cancel_panic p \<equiv> Done (CancelResult (Panic p))"

fun thread_step :: "'w order_deps \<Rightarrow> thread \<Rightarrow> 'w \<Rightarrow> 'w \<times> thread" where
  "thread_step svc (PayStart params) w =
     next_step (repo_OrderByID svc (pp_ID params) w) (\<lambda>e. pay_err (wrap op_Pay e)) pay_panic (\<lambda>ord.
       case pay_guard ord of
         Some e \<Rightarrow> pay_err (wrap op_Pay (Sentinel e))
       | None \<Rightarrow> PayCharge params ord)"
| "thread_step svc (PayCharge params ord) w =
     next_step (pay_charge svc params ord w) pay_err pay_panic (PayUpdate params ord)"
| "thread_step svc (PayUpdate params ord t) w =
     next_step (repo_Update svc (pay_paid svc params ord t) w) (\<lambda>e. pay_err (wrap op_Pay e)) pay_panic
       (\<lambda>_. PaySend params ord t)"
| "thread_step svc (PaySend params ord t) w =
     next_step (pay_send svc params ord t w) pay_err pay_panic (\<lambda>res. Done (PayResult (Ok res)))"
| "thread_step svc (CancelStart i) w =
     next_step (repo_OrderByID svc i w) (\<lambda>e. cancel_err (wrap op_Cancel e)) cancel_panic (\<lambda>ord.
       case cancel_guard ord of
         Some e \<Rightarrow> cancel_err (wrap op_Cancel (Sentinel e))
       | None \<Rightarrow> CancelUpdate ord)"
| "thread_step svc (CancelUpdate ord) w =
     next_step (repo_Update svc (ord\<lparr>ord_Status := StatusCancelled\<rparr>) w)
       (\<lambda>e. cancel_err (wrap op_Cancel e)) cancel_panic (\<lambda>u. Done (CancelResult (Ok u)))"
| "thread_step svc (CompleteStart i) w =
     (case Complete svc i w of (w', r) \<Rightarrow> (w', Done (CompleteResult r)))"
| "thread_step svc (Done r) w = (w, Done r)"

text \<open>A thread on its own.\<close>

fun run_alone :: "'w order_deps \<Rightarrow> nat \<Rightarrow> thread \<Rightarrow> 'w \<Rightarrow> 'w \<times> thread" where
  "run_alone svc 0 t w = (w, t)"
| "run_alone svc (Suc n) t w = (case thread_step svc t w of (w1, t1) \<Rightarrow> run_alone svc n t1 w1)"

text \<open>Threads under a schedule of thread numbers.\<close>

definition sched_step :: "'w order_deps \<Rightarrow> nat \<Rightarrow> thread list \<times> 'w \<Rightarrow> thread list \<times> 'w" where
  "sched_step svc i s =
     (case s of (ts, w) \<Rightarrow>
        if i < length ts then (case thread_step svc (ts ! i) w of (w', t') \<Rightarrow> (ts[i := t'], w'))
        else (ts, w))"

definition run_schedule :: "'w order_deps \<Rightarrow> nat list \<Rightarrow> thread list \<Rightarrow> 'w \<Rightarrow> thread list \<times> 'w" where
  "run_schedule svc sched ts w = fold (sched_step svc) sched (ts, w)"

section \<open>A thread that runs alone\<close>

lemma next_step_simps [simp]:
  "next_step (w, Ok a) e p k = (w, k a)" "next_step (w, Err x) e p k = (w, e x)"
  "next_step (w, Panic s) e p k = (w, p s)"
  by (simp_all add: next_step_def)

lemma run_alone_Done [simp]: "run_alone svc n (Done r) w = (w, Done r)"
  by (induction n) simp_all

lemma pay_alone:
  assumes "Pay svc params w = (w', r)"
  shows "run_alone svc 4 (PayStart params) w = (w', Done (PayResult r))"
proof -
  obtain w1 o1 where read: "repo_OrderByID svc (pp_ID params) w = (w1, o1)" by fastforce
  show ?thesis
  proof (cases o1)
    case (Ok ord)
    show ?thesis
    proof (cases "pay_guard ord")
      case None
      obtain w2 o2 where charge: "pay_charge svc params ord w1 = (w2, o2)" by fastforce
      show ?thesis
      proof (cases o2)
        case (Ok t)
        obtain w3 o3 where upd: "repo_Update svc (pay_paid svc params ord t) w2 = (w3, o3)" by fastforce
        obtain w4 o4 where send: "pay_send svc params ord t w3 = (w4, o4)" by fastforce
        from assms read \<open>o1 = Ok ord\<close> None charge Ok upd send show ?thesis
          by (cases o3; cases o4) (auto simp: Pay_def call_def numeral_eq_Suc simp del: pay_guard_None)
      qed (use assms read Ok None charge in \<open>auto simp: Pay_def call_def numeral_eq_Suc simp del: pay_guard_None\<close>)
    qed (use assms read Ok in \<open>auto simp: Pay_def call_def numeral_eq_Suc fail_def\<close>)
  qed (use assms read in \<open>auto simp: Pay_def call_def numeral_eq_Suc\<close>)
qed

lemma cancel_alone:
  assumes "Cancel svc i w = (w', r)"
  shows "run_alone svc 2 (CancelStart i) w = (w', Done (CancelResult r))"
proof -
  obtain w1 o1 where read: "repo_OrderByID svc i w = (w1, o1)" by fastforce
  show ?thesis
  proof (cases o1)
    case (Ok ord)
    obtain w2 o2 where upd: "repo_Update svc (ord\<lparr>ord_Status := StatusCancelled\<rparr>) w1 = (w2, o2)" by fastforce
    from assms read Ok upd show ?thesis
      by (cases "cancel_guard ord"; cases o2) (auto simp: Cancel_def call_def numeral_eq_Suc fail_def ok_def simp del: cancel_guard_None)
  qed (use assms read in \<open>auto simp: Cancel_def call_def numeral_eq_Suc\<close>)
qed

section \<open>Any schedule\<close>

text \<open>What no request may change of an order.\<close>

definition same_order :: "order \<Rightarrow> order \<Rightarrow> bool" where
  "same_order r r' \<longleftrightarrow> ord_ID r' = ord_ID r \<and> ord_UserID r' = ord_UserID r \<and>
     ord_PartIDs r' = ord_PartIDs r \<and> ord_TotalPrice r' = ord_TotalPrice r"

lemma same_order_refl [simp]: "same_order r r"
  by (simp add: same_order_def)

lemma same_order_sym: "same_order r r' \<Longrightarrow> same_order r' r"
  by (simp add: same_order_def)

lemma same_order_trans: "same_order r r' \<Longrightarrow> same_order r' r'' \<Longrightarrow> same_order r r''"
  by (simp add: same_order_def)

text \<open>The copy of a row that a thread carries agrees with the row in those fields.\<close>

definition copy_ok :: "orders_table \<Rightarrow> order \<Rightarrow> bool" where
  "copy_ok t ord \<longleftrightarrow> (\<exists>r. t (ord_ID ord) = Some r \<and> same_order r ord)"

fun thread_ok :: "orders_table \<Rightarrow> thread \<Rightarrow> bool" where
  "thread_ok t (PayCharge params ord) = copy_ok t ord"
| "thread_ok t (PayUpdate params ord tx) = copy_ok t ord"
| "thread_ok t (PaySend params ord tx) = copy_ok t ord"
| "thread_ok t (CancelUpdate ord) = copy_ok t ord"
| "thread_ok t _ = True"

definition rows_kept :: "orders_table \<Rightarrow> orders_table \<Rightarrow> bool" where
  "rows_kept t t' \<longleftrightarrow> (\<forall>i r. t i = Some r \<longrightarrow> (\<exists>r'. t' i = Some r' \<and> same_order r r'))"

lemma rows_kept_refl [simp]: "rows_kept t t"
  by (simp add: rows_kept_def)

lemma rows_kept_trans: "rows_kept t u \<Longrightarrow> rows_kept u v \<Longrightarrow> rows_kept t v"
  unfolding rows_kept_def by (meson same_order_trans)

lemma copy_ok_kept: "copy_ok t ord \<Longrightarrow> rows_kept t t' \<Longrightarrow> copy_ok t' ord"
  unfolding copy_ok_def rows_kept_def by (meson same_order_sym same_order_trans)

lemma thread_ok_kept: "thread_ok t x \<Longrightarrow> rows_kept t t' \<Longrightarrow> thread_ok t' x"
  by (cases x) (auto intro: copy_ok_kept)

lemma rows_kept_merge:
  assumes "copy_ok t upd" and "t (ord_ID upd) = Some r"
  shows "rows_kept t (t(ord_ID upd \<mapsto> merge_order upd r))"
  using assms by (auto simp: rows_kept_def copy_ok_def same_order_def)

lemma copy_ok_change [simp]:
  "copy_ok t (pay_paid svc params ord tx) = copy_ok t ord"
  "copy_ok t (ord\<lparr>ord_Status := s\<rparr>) = copy_ok t ord"
  by (simp_all add: copy_ok_def same_order_def pay_paid_def)

lemma copy_ok_read: "table_ok t \<Longrightarrow> t i = Some r \<Longrightarrow> copy_ok t r"
  by (auto simp: copy_ok_def dest: table_okD)

context order_service_env
begin

lemma update_schedule:
  assumes ok: "table_ok (tbl w)" and "ord_Status upd \<noteq> ''''" and "copy_ok (tbl w) upd"
    and run: "repo_Update svc upd w = (w', r)"
  shows "table_ok (tbl w') \<and> rows_kept (tbl w) (tbl w')"
proof -
  have "rows_kept (tbl w) (tbl w')"
  proof (cases r)
    case (Ok u)
    with run assms update_ok [of upd w w'] show ?thesis by (auto intro: rows_kept_merge)
  next
    case (Err e)
    with run show ?thesis by (simp add: update_err)
  qed (use run repo_no_panic in auto)
  then show ?thesis using update_table_ok [OF ok assms(2) run] by simp
qed

lemma thread_step_ok:
  assumes ok: "table_ok (tbl w)" and t: "thread_ok (tbl w) t" and st: "thread_step svc t w = (w', t')"
  shows "table_ok (tbl w') \<and> rows_kept (tbl w) (tbl w') \<and> thread_ok (tbl w') t'"
proof (cases t)
  case (PayStart params)
  obtain o1 where read: "repo_OrderByID svc (pp_ID params) w = (w', o1)"
    using st PayStart by (cases "repo_OrderByID svc (pp_ID params) w") (auto simp: next_step_def split: outcome.splits)
  with PayStart st ok by_id_frame [OF read] show ?thesis
    by (cases o1) (auto split: option.splits dest!: by_id_ok intro: copy_ok_read)
next
  case (PayCharge params ord)
  obtain o1 where run: "pay_charge svc params ord w = (w', o1)"
    using st PayCharge by (cases "pay_charge svc params ord w") (auto simp: next_step_def split: outcome.splits)
  with PayCharge st ok t keepsD [OF charge_frame run] show ?thesis by (cases o1) auto
next
  case (PayUpdate params ord tx)
  obtain o1 where run: "repo_Update svc (pay_paid svc params ord tx) w = (w', o1)"
    using st PayUpdate by (cases "repo_Update svc (pay_paid svc params ord tx) w")
      (auto simp: next_step_def split: outcome.splits)
  from update_schedule [OF ok _ _ run] PayUpdate t have "table_ok (tbl w') \<and> rows_kept (tbl w) (tbl w')" by simp
  with PayUpdate st t run show ?thesis by (cases o1) (auto intro: copy_ok_kept)
next
  case (PaySend params ord tx)
  obtain o1 where run: "pay_send svc params ord tx w = (w', o1)"
    using st PaySend by (cases "pay_send svc params ord tx w") (auto simp: next_step_def split: outcome.splits)
  with PaySend st ok t keepsD [OF send_step_frame run] show ?thesis by (cases o1) auto
next
  case (CancelStart i)
  obtain o1 where read: "repo_OrderByID svc i w = (w', o1)"
    using st CancelStart by (cases "repo_OrderByID svc i w") (auto simp: next_step_def split: outcome.splits)
  with CancelStart st ok by_id_frame [OF read] show ?thesis
    by (cases o1) (auto split: option.splits dest!: by_id_ok intro: copy_ok_read)
next
  case (CancelUpdate ord)
  obtain o1 where run: "repo_Update svc (ord\<lparr>ord_Status := StatusCancelled\<rparr>) w = (w', o1)"
    using st CancelUpdate by (cases "repo_Update svc (ord\<lparr>ord_Status := StatusCancelled\<rparr>) w")
      (auto simp: next_step_def split: outcome.splits)
  from update_schedule [OF ok _ _ run] CancelUpdate t have "table_ok (tbl w') \<and> rows_kept (tbl w) (tbl w')" by simp
  with CancelUpdate st t run show ?thesis by (cases o1) auto
next
  case (CompleteStart i)
  obtain o1 where run: "Complete svc i w = (w', o1)"
    using st CompleteStart by (cases "Complete svc i w") auto
  from complete_table [OF run] have "rows_kept (tbl w) (tbl w')"
    by (auto simp: rows_kept_def same_order_def)
  moreover have "table_ok (tbl w')"
    using complete_table [OF run] ok table_ok_step [OF ok _ step_complete] by auto
  ultimately show ?thesis using CompleteStart st run by auto
qed (use st ok in auto)

lemma run_schedule_ok:
  assumes "table_ok (tbl w)" and "\<forall>t \<in> set ts. thread_ok (tbl w) t"
    and "run_schedule svc sched ts w = (ts', w')"
  shows "table_ok (tbl w') \<and> rows_kept (tbl w) (tbl w') \<and> (\<forall>t \<in> set ts'. thread_ok (tbl w') t)"
  using assms
proof (induction sched arbitrary: ts w)
  case Nil
  then show ?case by (simp add: run_schedule_def)
next
  case (Cons i sched)
  show ?case
  proof (cases "i < length ts")
    case True
    obtain w1 t1 where st: "thread_step svc (ts ! i) w = (w1, t1)" by fastforce
    have step: "table_ok (tbl w1) \<and> rows_kept (tbl w) (tbl w1) \<and> thread_ok (tbl w1) t1"
      using thread_step_ok [OF Cons.prems(1) _ st] Cons.prems(2) True by simp
    then have "\<forall>t \<in> set (ts[i := t1]). thread_ok (tbl w1) t"
      using Cons.prems(2) by (auto dest!: set_update_subset_insert [THEN subsetD] intro: thread_ok_kept)
    moreover have "run_schedule svc sched (ts[i := t1]) w1 = (ts', w')"
      using Cons.prems(3) True st by (simp add: run_schedule_def sched_step_def)
    ultimately show ?thesis using Cons.IH [of w1 "ts[i := t1]"] step rows_kept_trans by blast
  next
    case False
    with Cons show ?thesis by (simp add: run_schedule_def sched_step_def)
  qed
qed

end

end
