(* ===== verification/Go_Text.thy ===== *)
theory Go_Text
  imports Prelude
begin

text \<open>
  The functions of Go's \<open>strings\<close> package that the services use on UTF-8 byte sequences:
  \<open>TrimSpace\<close> with the byte forms of Unicode's white space, and \<open>ToLower\<close>, whose ASCII path is
  written out and whose path for other text (Unicode's case tables) is a parameter.
\<close>

definition byte :: "nat \<Rightarrow> char" where
  "byte n = char_of n"

text \<open>The encodings of the runes for which \<open>unicode.IsSpace\<close> holds.\<close>

definition space_forms :: "string list" where
  "space_forms =
     map (\<lambda>n. [byte n]) [9, 10, 11, 12, 13, 32] @
     [[byte 194, byte 133], [byte 194, byte 160], [byte 225, byte 154, byte 128]] @
     map (\<lambda>n. [byte 226, byte 128, byte n]) [128..<139] @
     [[byte 226, byte 128, byte 168], [byte 226, byte 128, byte 169], [byte 226, byte 128, byte 175],
      [byte 226, byte 129, byte 159], [byte 227, byte 128, byte 128]]"

definition starts_with :: "string \<Rightarrow> string \<Rightarrow> bool" where
  "starts_with p s \<longleftrightarrow> length p \<le> length s \<and> take (length p) s = p"

text \<open>The rest of the text after the white-space rune it starts with, if it starts with one.\<close>

fun cut_form :: "string list \<Rightarrow> string \<Rightarrow> string option" where
  "cut_form [] s = None"
| "cut_form (p # ps) s =
     (if p \<noteq> '''' \<and> starts_with p s then Some (drop (length p) s) else cut_form ps s)"

lemma cut_form_Some: "cut_form ps s = Some r \<Longrightarrow> \<exists>p. p \<noteq> '''' \<and> s = p @ r"
proof (induction ps)
  case (Cons p ps)
  show ?case
  proof (cases "p \<noteq> '''' \<and> starts_with p s")
    case True
    with Cons.prems have "s = p @ r" by (auto simp: starts_with_def) (metis append_take_drop_id)
    with True show ?thesis by blast
  qed (use Cons in auto)
qed simp

lemma cut_form_None: "cut_form ps s = None \<longleftrightarrow> (\<forall>p \<in> set ps. p \<noteq> '''' \<longrightarrow> \<not> starts_with p s)"
  by (induction ps) auto

function trim_forms :: "string list \<Rightarrow> string \<Rightarrow> string" where
  "trim_forms ps s = (case cut_form ps s of None \<Rightarrow> s | Some r \<Rightarrow> trim_forms ps r)"
  by auto

termination trim_forms
  by (relation "measure (length \<circ> snd)") (auto dest: cut_form_Some)

declare trim_forms.simps [simp del]

text \<open>\<open>strings.TrimLeftFunc\<close> and then \<open>strings.TrimRightFunc\<close>, which works from the end.\<close>

definition TrimSpace :: "string \<Rightarrow> string" where
  "TrimSpace s = rev (trim_forms (map rev space_forms) (rev (trim_forms space_forms s)))"

definition is_ascii :: "char \<Rightarrow> bool" where
  "is_ascii c \<longleftrightarrow> (of_char c :: nat) < 128"

definition ascii_lower :: "char \<Rightarrow> char" where
  "ascii_lower c =
     (if 65 \<le> (of_char c :: nat) \<and> (of_char c :: nat) \<le> 90 then char_of (of_char c + 32 :: nat) else c)"

text \<open>\<open>strings.ToLower\<close>: \<open>ulow\<close> is its path for text that is not ASCII.\<close>

definition ToLower :: "(string \<Rightarrow> string) \<Rightarrow> string \<Rightarrow> string" where
  "ToLower ulow s = (if list_all is_ascii s then map ascii_lower s else ulow s)"

lemma trim_forms_none: "cut_form ps (trim_forms ps s) = None"
proof (induction ps s rule: trim_forms.induct)
  case (1 ps s)
  then show ?case
    by (cases "cut_form ps s") (simp_all add: trim_forms.simps [of ps s])
qed

lemma trim_forms_suffix: "\<exists>p. s = p @ trim_forms ps s"
proof (induction ps s rule: trim_forms.induct)
  case (1 ps s)
  show ?case
  proof (cases "cut_form ps s")
    case (Some r)
    with 1 obtain p where p: "r = p @ trim_forms ps r" by blast
    obtain q where q: "s = q @ r" using cut_form_Some [OF Some] by blast
    have "trim_forms ps s = trim_forms ps r" using Some by (simp add: trim_forms.simps [of ps s])
    then have "s = (q @ p) @ trim_forms ps s" using p q by simp
    then show ?thesis by blast
  qed (simp add: trim_forms.simps [of ps s])
qed

lemma starts_with_prefix: "starts_with p s \<Longrightarrow> starts_with p (s @ t)"
  by (auto simp: starts_with_def)

lemma starts_with_Nil [simp]: "starts_with p '''' \<longleftrightarrow> p = ''''"
  by (auto simp: starts_with_def)

lemma space_forms_nonempty: "p \<in> set space_forms \<Longrightarrow> p \<noteq> ''''"
  by (auto simp: space_forms_def)

text \<open>Trimming gives a text that neither starts nor ends with white space, and is idempotent.\<close>

lemma TrimSpace_no_leading: "p \<in> set space_forms \<Longrightarrow> \<not> starts_with p (TrimSpace s)"
proof
  assume p: "p \<in> set space_forms" and st: "starts_with p (TrimSpace s)"
  let ?l = "trim_forms space_forms s"
  obtain q where "rev ?l = q @ trim_forms (map rev space_forms) (rev ?l)"
    using trim_forms_suffix by blast
  then have "?l = TrimSpace s @ rev q"
    by (metis TrimSpace_def rev_append rev_rev_ident)
  then have "starts_with p ?l" using st starts_with_prefix by metis
  with p trim_forms_none [of space_forms s] show False
    by (auto simp: cut_form_None space_forms_nonempty)
qed

lemma TrimSpace_no_trailing: "p \<in> set space_forms \<Longrightarrow> \<not> starts_with (rev p) (rev (TrimSpace s))"
  using trim_forms_none [of "map rev space_forms" "rev (trim_forms space_forms s)"]
  by (auto simp: cut_form_None TrimSpace_def space_forms_nonempty)

lemma TrimSpace_id:
  assumes "\<And>p. p \<in> set space_forms \<Longrightarrow> \<not> starts_with p s"
    and "\<And>p. p \<in> set space_forms \<Longrightarrow> \<not> starts_with (rev p) (rev s)"
  shows "TrimSpace s = s"
proof -
  have "cut_form space_forms s = None" "cut_form (map rev space_forms) (rev s) = None"
    using assms by (auto simp: cut_form_None)
  then show ?thesis
    by (simp add: TrimSpace_def trim_forms.simps [of _ s] trim_forms.simps [of _ "rev s"])
qed

lemma TrimSpace_idem [simp]: "TrimSpace (TrimSpace s) = TrimSpace s"
  by (rule TrimSpace_id) (simp_all add: TrimSpace_no_leading TrimSpace_no_trailing)

lemma ascii_lower_ascii [simp]: "is_ascii (ascii_lower c) = is_ascii c"
  by (auto simp: is_ascii_def ascii_lower_def)

lemma ascii_lower_idem [simp]: "ascii_lower (ascii_lower c) = ascii_lower c"
  by (auto simp: ascii_lower_def)

lemma ToLower_ascii_idem:
  "list_all is_ascii s \<Longrightarrow> ToLower ulow (ToLower ulow s) = ToLower ulow s"
  by (simp add: ToLower_def list.pred_map comp_def list_all_iff)

end
