(* ===== verification/Inventory_Model.thy ===== *)
theory Inventory_Model
  imports Go_Text Proto
begin

text \<open>
  The data of the inventory service: the domain model (\<open>inventory/internal/model\<close>), the documents
  of its collection and the conversions between them (\<open>repository/part/model.go\<close>,
  \<open>converter.go\<close>), the filter it sends to MongoDB, and the conversions to and from the protobuf
  messages (\<open>inventory/internal/converter/part.go\<close>).
\<close>

section \<open>Domain model\<close>

text \<open>The sentinels of \<open>model/error.go\<close> and the one of the MongoDB driver.\<close>

datatype inv_sentinel = InvErrPartNotFound | InvErrInvalidArgument | MongoErrNoDocuments

fun inv_err_text :: "inv_sentinel \<Rightarrow> string" where
  "inv_err_text InvErrPartNotFound = ''part not found''"
| "inv_err_text InvErrInvalidArgument = ''invalid argument''"
| "inv_err_text MongoErrNoDocuments = ''mongo: no documents in result''"

type_synonym ierr = "inv_sentinel goerr"

type_synonym inv_category = int32

definition InvCategoryUnknown :: inv_category where "InvCategoryUnknown = 0"
definition InvCategoryEngine :: inv_category where "InvCategoryEngine = 1"
definition InvCategoryFuel :: inv_category where "InvCategoryFuel = 2"
definition InvCategoryPorthole :: inv_category where "InvCategoryPorthole = 3"
definition InvCategoryWing :: inv_category where "InvCategoryWing = 4"

lemmas inv_category_defs =
  InvCategoryUnknown_def InvCategoryEngine_def InvCategoryFuel_def InvCategoryPorthole_def
  InvCategoryWing_def

record inv_dimensions =
  id_Length :: float64
  id_Width :: float64
  id_Height :: float64
  id_Weight :: float64

record inv_manufacturer =
  im_Name :: string
  im_Country :: string
  im_Website :: string

record inv_part =
  ip_ID :: string
  ip_Name :: string
  ip_Description :: string
  ip_PriceCents :: int64
  ip_StockQuantity :: int64
  ip_Category :: inv_category
  ip_Dimensions :: "inv_dimensions option"
  ip_Manufacturer :: "inv_manufacturer option"
  ip_Tags :: "string list"
  ip_Metadata :: "(string \<rightharpoonup> goany) option"
  ip_CreatedAt :: "gotime option"
  ip_UpdatedAt :: "gotime option"

record inv_filter =
  if_IDs :: "string list"
  if_Names :: "string list"
  if_Categories :: "inv_category list"
  if_ManufacturerCountries :: "string list"
  if_Tags :: "string list"

definition zero_inv_filter :: inv_filter where
  "zero_inv_filter = \<lparr>if_IDs = [], if_Names = [], if_Categories = [],
     if_ManufacturerCountries = [], if_Tags = []\<rparr>"

definition PartsFilter_Empty :: "inv_filter \<Rightarrow> bool" where
  "PartsFilter_Empty f \<longleftrightarrow>
     length (if_IDs f) = 0 \<and> length (if_Names f) = 0 \<and> length (if_Categories f) = 0 \<and>
     length (if_ManufacturerCountries f) = 0 \<and> length (if_Tags f) = 0"

section \<open>Documents\<close>

record manufacturer_entity =
  me_Name :: string
  me_Country :: string
  me_CountryNorm :: string
  me_Website :: string

record dimensions_entity =
  de_Length :: float64
  de_Width :: float64
  de_Height :: float64
  de_Weight :: float64

record part_entity =
  pe_ID :: string
  pe_Name :: string
  pe_Description :: string
  pe_PriceCents :: int64
  pe_StockQuantity :: int64
  pe_Category :: inv_category
  pe_Dimensions :: "dimensions_entity option"
  pe_Manufacturer :: "manufacturer_entity option"
  pe_Tags :: "string list"
  pe_Metadata :: "(string \<rightharpoonup> goany) option"
  pe_CreatedAt :: "gotime option"
  pe_UpdatedAt :: "gotime option"

text \<open>\<open>strings.ToLower(strings.TrimSpace(s))\<close>\<close>

definition normalizeCountry :: "(string \<Rightarrow> string) \<Rightarrow> string \<Rightarrow> string" where
  "normalizeCountry ulow s = ToLower ulow (TrimSpace s)"

text \<open>The pointer conversions return nil for nil; these are their bodies for a non-nil pointer.\<close>

definition EntityToModel :: "part_entity \<Rightarrow> inv_part" where
  "EntityToModel e =
     \<lparr>ip_ID = pe_ID e, ip_Name = pe_Name e, ip_Description = pe_Description e,
      ip_PriceCents = pe_PriceCents e, ip_StockQuantity = pe_StockQuantity e,
      ip_Category = pe_Category e,
      ip_Dimensions = map_option (\<lambda>d. \<lparr>id_Length = de_Length d, id_Width = de_Width d,
        id_Height = de_Height d, id_Weight = de_Weight d\<rparr>) (pe_Dimensions e),
      ip_Manufacturer = map_option (\<lambda>m. \<lparr>im_Name = me_Name m, im_Country = me_Country m,
        im_Website = me_Website m\<rparr>) (pe_Manufacturer e),
      ip_Tags = pe_Tags e, ip_Metadata = pe_Metadata e,
      ip_CreatedAt = pe_CreatedAt e, ip_UpdatedAt = pe_UpdatedAt e\<rparr>"

definition EntityFromModel :: "(string \<Rightarrow> string) \<Rightarrow> inv_part \<Rightarrow> part_entity" where
  "EntityFromModel ulow p =
     \<lparr>pe_ID = ip_ID p, pe_Name = ip_Name p, pe_Description = ip_Description p,
      pe_PriceCents = ip_PriceCents p, pe_StockQuantity = ip_StockQuantity p,
      pe_Category = ip_Category p,
      pe_Dimensions = map_option (\<lambda>d. \<lparr>de_Length = id_Length d, de_Width = id_Width d,
        de_Height = id_Height d, de_Weight = id_Weight d\<rparr>) (ip_Dimensions p),
      pe_Manufacturer = map_option (\<lambda>m. \<lparr>me_Name = im_Name m, me_Country = im_Country m,
        me_CountryNorm = normalizeCountry ulow (im_Country m), me_Website = im_Website m\<rparr>)
        (ip_Manufacturer p),
      pe_Tags = ip_Tags p, pe_Metadata = ip_Metadata p,
      pe_CreatedAt = ip_CreatedAt p, pe_UpdatedAt = ip_UpdatedAt p\<rparr>"

lemma EntityToModel_FromModel [simp]: "EntityToModel (EntityFromModel ulow p) = p"
  by (cases "ip_Dimensions p"; cases "ip_Manufacturer p")
    (simp_all add: EntityToModel_def EntityFromModel_def)

text \<open>The normalised country of a document is the one its country has.\<close>

definition entity_ok :: "(string \<Rightarrow> string) \<Rightarrow> part_entity \<Rightarrow> bool" where
  "entity_ok ulow e \<longleftrightarrow>
     (case pe_Manufacturer e of None \<Rightarrow> True | Some m \<Rightarrow> me_CountryNorm m = normalizeCountry ulow (me_Country m))"

lemma entity_ok_FromModel [simp]: "entity_ok ulow (EntityFromModel ulow p)"
  by (simp add: entity_ok_def EntityFromModel_def split: option.splits)

lemma EntityFromModel_ToModel: "entity_ok ulow e \<Longrightarrow> EntityFromModel ulow (EntityToModel e) = e"
  by (cases "pe_Manufacturer e"; cases "pe_Dimensions e")
    (simp_all add: EntityToModel_def EntityFromModel_def entity_ok_def)

section \<open>Filters\<close>

text \<open>
  A \<open>bson.M\<close> filter: conditions by field path, \<open>{field: v}\<close> or \<open>{field: {"$in": [...]}}\<close>. The keys
  that the code inserts are pairwise different, so the list stands for the map.
\<close>

datatype bson_value = BString string | BInt32 int32

datatype mongo_cond = CondEq bson_value | CondIn "bson_value list"

type_synonym mongo_query = "(string \<times> mongo_cond) list"

definition BuildMongoFilter :: "(string \<Rightarrow> string) \<Rightarrow> inv_filter \<Rightarrow> mongo_query" where
  "BuildMongoFilter ulow f =
     (if length (if_IDs f) > 0 then [(''_id'', CondIn (map BString (if_IDs f)))] else []) @
     (if length (if_Names f) > 0 then [(''name'', CondIn (map BString (if_Names f)))] else []) @
     (if length (if_Categories f) > 0 then [(''category'', CondIn (map BInt32 (if_Categories f)))] else []) @
     (if length (if_Tags f) > 0 then [(''tags'', CondIn (map BString (if_Tags f)))] else []) @
     (if length (if_ManufacturerCountries f) > 0
      then [(''manufacturer.country_norm'',
             CondIn (map BString (map (normalizeCountry ulow) (if_ManufacturerCountries f))))]
      else [])"

text \<open>
  What MongoDB documents of such a filter: the values that a path selects in a document (an array
  field gives its elements, a missing one none), a condition holds when one of them fits, and a
  document matches when every condition holds.
\<close>

definition doc_values :: "part_entity \<Rightarrow> string \<Rightarrow> bson_value list" where
  "doc_values e path =
     (if path = ''_id'' then [BString (pe_ID e)]
      else if path = ''name'' then [BString (pe_Name e)]
      else if path = ''category'' then [BInt32 (pe_Category e)]
      else if path = ''tags'' then map BString (pe_Tags e)
      else if path = ''manufacturer.country_norm''
      then (case pe_Manufacturer e of None \<Rightarrow> [] | Some m \<Rightarrow> [BString (me_CountryNorm m)])
      else [])"

fun cond_holds :: "mongo_cond \<Rightarrow> bson_value list \<Rightarrow> bool" where
  "cond_holds (CondEq v) vs = list_ex (\<lambda>x. x = v) vs"
| "cond_holds (CondIn ws) vs = list_ex (\<lambda>x. x \<in> set ws) vs"

definition doc_matches :: "mongo_query \<Rightarrow> part_entity \<Rightarrow> bool" where
  "doc_matches q e \<longleftrightarrow> list_all (\<lambda>(path, c). cond_holds c (doc_values e path)) q"

text \<open>
  The filter as the service documents it: any of the values within a field, all of the fields
  together, an empty field selecting everything, countries compared in normal form.
\<close>

definition selects :: "'a list \<Rightarrow> 'a list \<Rightarrow> bool" where
  "selects want have \<longleftrightarrow> want = [] \<or> list_ex (\<lambda>x. x \<in> set want) have"

definition part_selected :: "(string \<Rightarrow> string) \<Rightarrow> inv_filter \<Rightarrow> inv_part \<Rightarrow> bool" where
  "part_selected ulow f p \<longleftrightarrow>
     selects (if_IDs f) [ip_ID p] \<and> selects (if_Names f) [ip_Name p] \<and>
     selects (if_Categories f) [ip_Category p] \<and>
     selects (map (normalizeCountry ulow) (if_ManufacturerCountries f))
       (map (normalizeCountry ulow \<circ> im_Country) (case ip_Manufacturer p of None \<Rightarrow> [] | Some m \<Rightarrow> [m])) \<and>
     selects (if_Tags f) (ip_Tags p)"

lemma selects_Nil [simp]: "selects [] have"
  by (simp add: selects_def)

lemma doc_matches_Cons [simp]:
  "doc_matches [] e" "doc_matches (c # q) e \<longleftrightarrow> cond_holds (snd c) (doc_values e (fst c)) \<and> doc_matches q e"
  "doc_matches (q1 @ q2) e \<longleftrightarrow> doc_matches q1 e \<and> doc_matches q2 e"
  by (auto simp: doc_matches_def split_beta)

lemma doc_matches_if [simp]:
  "doc_matches (if b then q else []) e \<longleftrightarrow> (b \<longrightarrow> doc_matches q e)"
  by simp

lemma filter_correct:
  assumes "entity_ok ulow e"
  shows "doc_matches (BuildMongoFilter ulow f) e = part_selected ulow f (EntityToModel e)"
  using assms
  by (cases "pe_Manufacturer e")
    (auto simp: BuildMongoFilter_def part_selected_def selects_def doc_values_def EntityToModel_def
      entity_ok_def list_ex_iff image_iff)

lemma filter_empty: "PartsFilter_Empty f \<Longrightarrow> part_selected ulow f p"
  by (simp add: PartsFilter_Empty_def part_selected_def)

lemma filter_ids: "part_selected ulow (zero_inv_filter\<lparr>if_IDs := ids\<rparr>) p \<longleftrightarrow> ids = [] \<or> ip_ID p \<in> set ids"
  by (simp add: part_selected_def selects_def zero_inv_filter_def)

section \<open>Conversions to and from protobuf\<close>

definition categoriesToModel :: "int32 list \<Rightarrow> inv_category list" where
  "categoriesToModel cs = map (\<lambda>c.
     if c = CATEGORY_UNKNOWN then InvCategoryUnknown
     else if c = CATEGORY_ENGINE then InvCategoryEngine
     else if c = CATEGORY_FUEL then InvCategoryFuel
     else if c = CATEGORY_PORTHOLE then InvCategoryPorthole
     else if c = CATEGORY_WING then InvCategoryWing
     else InvCategoryUnknown) cs"

definition categoriyFromModel :: "inv_category \<Rightarrow> int32" where
  "categoriyFromModel c =
     (if c = InvCategoryUnknown then CATEGORY_UNKNOWN
      else if c = InvCategoryEngine then CATEGORY_ENGINE
      else if c = InvCategoryFuel then CATEGORY_FUEL
      else if c = InvCategoryPorthole then CATEGORY_PORTHOLE
      else if c = InvCategoryWing then CATEGORY_WING
      else CATEGORY_UNKNOWN)"

definition dimensionsFromModel :: "inv_dimensions option \<Rightarrow> pb_dimensions option" where
  "dimensionsFromModel d = map_option (\<lambda>d. \<lparr>pbd_Length = id_Length d, pbd_Width = id_Width d,
     pbd_Height = id_Height d, pbd_Weight = id_Weight d\<rparr>) d"

definition manufacturerFromModel :: "inv_manufacturer option \<Rightarrow> pb_manufacturer option" where
  "manufacturerFromModel m = map_option (\<lambda>m. \<lparr>pbm_Name = im_Name m, pbm_Country = im_Country m,
     pbm_Website = im_Website m\<rparr>) m"

text \<open>The type switch of \<open>metadataFromModel\<close>: a value of any other type gets no entry.\<close>

fun metadata_value :: "goany \<Rightarrow> value_oneof option" where
  "metadata_value (AString s) = Some (Value_StringValue s)"
| "metadata_value (AInt64 i) = Some (Value_Int64Value i)"
| "metadata_value (AFloat64 d) = Some (Value_DoubleValue d)"
| "metadata_value (ABool b) = Some (Value_BoolValue b)"
| "metadata_value _ = None"

definition metadataFromModel :: "(string \<rightharpoonup> goany) option \<Rightarrow> (string \<rightharpoonup> pb_value option) option" where
  "metadataFromModel src = map_option (\<lambda>m k.
     Option.bind (m k) (\<lambda>v. map_option (\<lambda>x. Some \<lparr>pbv_Value = Some x\<rparr>) (metadata_value v))) src"

text \<open>\<open>*p.CreatedAt\<close> and \<open>*p.UpdatedAt\<close> panic where the pointer is nil.\<close>

definition PartFromModel :: "ts_lib \<Rightarrow> inv_part \<Rightarrow> ('e, pb_part) outcome" where
  "PartFromModel T p =
     (case (ip_CreatedAt p, ip_UpdatedAt p) of
        (Some created, Some updated) \<Rightarrow> Ok
          \<lparr>pbp_Uuid = ip_ID p, pbp_Name = ip_Name p, pbp_Description = ip_Description p,
           pbp_PriceCents = ip_PriceCents p, pbp_StockQuantity = ip_StockQuantity p,
           pbp_Category = categoriyFromModel (ip_Category p),
           pbp_Dimensions = dimensionsFromModel (ip_Dimensions p),
           pbp_Manufacturer = manufacturerFromModel (ip_Manufacturer p),
           pbp_Tags = ip_Tags p,
           pbp_Metadata = metadataFromModel (ip_Metadata p),
           pbp_CreatedAt = Some (ts_New T created), pbp_UpdatedAt = Some (ts_New T updated)\<rparr>
      | _ \<Rightarrow> Panic nil_deref)"

definition PartsFilterToModel :: "pb_filter option \<Rightarrow> inv_filter" where
  "PartsFilterToModel f =
     (case f of
        None \<Rightarrow> zero_inv_filter
      | Some f \<Rightarrow> \<lparr>if_IDs = pbf_Uuids f, if_Names = pbf_Names f,
          if_Categories = categoriesToModel (pbf_Categories f),
          if_ManufacturerCountries = pbf_ManufacturerCountries f, if_Tags = pbf_Tags f\<rparr>)"

end
