(* ===== verification/Inventory_Repository.thy ===== *)
theory Inventory_Repository
  imports Inventory_Model "HOL-Library.Multiset"
begin

text \<open>
  The part repository (\<open>inventory/internal/repository/part/repository.go\<close>) and the parts it is
  started with (\<open>init.go\<close>). The MongoDB driver is not part of the repository and is the record
  \<open>mongo_coll\<close>; the locale \<open>parts_coll\<close> names what MongoDB documents of the three commands, and
  from it follow the laws of \<open>part_repo_api\<close>, the contract of \<open>service.PartRepository\<close>.
\<close>

text \<open>
  A cursor that is read to its end: what \<open>Decode\<close> gives for each document, and what \<open>Err\<close> gives
  once \<open>Next\<close> has returned false.
\<close>

record mongo_cursor =
  cur_Docs :: "(ierr, part_entity) outcome list"
  cur_Err :: "ierr option"

record 'w mongo_coll =
  FindOne :: "mongo_query \<Rightarrow> ('w, ierr, part_entity) prog" \<comment> \<open>with the \<open>Decode\<close> of its result\<close>
  Find :: "mongo_query \<Rightarrow> ('w, ierr, mongo_cursor) prog"
  InsertMany :: "part_entity list \<Rightarrow> ('w, ierr, unit) prog"
  time_Now :: "'w \<Rightarrow> 'w \<times> gotime"
  to_lower :: "string \<Rightarrow> string" \<comment> \<open>\<open>strings.ToLower\<close> beyond ASCII\<close>

section \<open>The operations\<close>

definition mongo_PartByID :: "'w mongo_coll \<Rightarrow> string \<Rightarrow> ('w, ierr, inv_part) prog" where
  "mongo_PartByID m i =
     call (FindOne m [(''_id'', CondEq (BString i))])
       (\<lambda>e. if errors_Is e MongoErrNoDocuments then Sentinel InvErrPartNotFound
            else wrap ''repository.PartByID'' e)
       (\<lambda>ent. ok (EntityToModel ent))"

text \<open>The loop over the cursor; \<open>out\<close> is the slice built so far.\<close>

fun list_loop :: "(ierr, part_entity) outcome list \<Rightarrow> inv_part list \<Rightarrow> (ierr, inv_part list) outcome" where
  "list_loop [] out = Ok out"
| "list_loop (Ok ent # ds) out = list_loop ds (out @ [EntityToModel ent])"
| "list_loop (Err e # ds) out = Err (Wrapf ''repository.List decode: '' e '''')"
| "list_loop (Panic p # ds) out = Panic p"

definition mongo_List :: "'w mongo_coll \<Rightarrow> inv_filter \<Rightarrow> ('w, ierr, inv_part list) prog" where
  "mongo_List m f =
     call (Find m (BuildMongoFilter (to_lower m) f)) (wrap ''repository.List'') (\<lambda>cur.
     call (lift (list_loop (cur_Docs cur) [])) id (\<lambda>out.
     case cur_Err cur of
       Some e \<Rightarrow> fail (Wrapf ''repository.List cursor: '' e '''')
     | None \<Rightarrow> ok out))"

text \<open>
  The loop that builds the documents of a batch. A nil part is skipped; a missing or zero
  \<open>CreatedAt\<close> becomes the time of the call.
\<close>

fun batch_loop ::
  "'w mongo_coll \<Rightarrow> inv_part option list \<Rightarrow> part_entity list \<Rightarrow> ('w, ierr, part_entity list) prog" where
  "batch_loop m [] docs w = (w, Ok docs)"
| "batch_loop m (None # ps) docs w = batch_loop m ps docs w"
| "batch_loop m (Some p # ps) docs w =
     (if ip_ID p = '''' then (w, Err (ErrText ''repository.CreateBatch: part ID is empty''))
      else if ip_CreatedAt p = None \<or> ip_CreatedAt p = Some 0
      then (case time_Now m w of (w1, now) \<Rightarrow>
              batch_loop m ps (docs @ [EntityFromModel (to_lower m) (p\<lparr>ip_CreatedAt := Some now\<rparr>)]) w1)
      else batch_loop m ps (docs @ [EntityFromModel (to_lower m) p]) w)"

definition mongo_CreateBatch :: "'w mongo_coll \<Rightarrow> inv_part option list \<Rightarrow> ('w, ierr, unit) prog" where
  "mongo_CreateBatch m parts =
     call (batch_loop m parts []) id (\<lambda>docs.
       if length docs = 0 then ok ()
       else call (InsertMany m docs) (wrap ''repository.CreateBatch'') ok)"

section \<open>The parts of a fresh installation\<close>

text \<open>
  \<open>PartsBootstrap\<close>: three parts under fresh identifiers. The descriptions are Russian text, written
  as UTF-8 bytes; floats are their IEEE bits. Integer literals in a \<open>map[string]any\<close> are Go \<open>int\<close>s.
\<close>

definition bootstrap_engine :: "string \<Rightarrow> gotime \<Rightarrow> inv_part" where
  "bootstrap_engine i now =
     \<lparr>ip_ID = i, ip_Name = ''HyperDrive Engine Mk1'',
      ip_Description = map char_of [208::nat, 158, 209, 129, 208, 189, 208, 190, 208, 178, 208, 189, 208, 190, 208, 185,
            32, 208, 179, 208, 184, 208, 191, 208, 181, 209, 128, 208, 180, 209, 128, 208, 176,
            208, 185, 208, 178, 32, 208, 180, 208, 187, 209, 143, 32, 208, 188, 208, 176, 208,
            187, 209, 139, 209, 133, 32, 208, 186, 208, 190, 209, 129, 208, 188, 208, 184, 209,
            135, 208, 181, 209, 129, 208, 186, 208, 184, 209, 133, 32, 208, 186, 208, 190, 209,
            128, 208, 176, 208, 177, 208, 187, 208, 181, 208, 185, 46],
      ip_PriceCents = 12500050, ip_StockQuantity = 10, ip_Category = InvCategoryEngine,
      ip_Dimensions = Some \<lparr>id_Length = 4643000109586448384, id_Width = 4640537203540230144,
        id_Height = 4639129828656676864, id_Weight = 4659255289491488768\<rparr>,
      ip_Manufacturer = Some \<lparr>im_Name = ''Andromeda Drives Inc.'', im_Country = ''USA'',
        im_Website = ''https://andromeda-drives.example.com''\<rparr>,
      ip_Tags = [''engine'', ''hyperdrive'', ''mk1'', ''small-ship''],
      ip_Metadata = Some (Map.empty(''max_thrust_kn'' := Some (AFloat64 4650687894887858176),
           ''warranty_years'' := Some (AInt 5),
           ''military_grade'' := Some (ABool True),
           ''fuel_type'' := Some (AString ''quantum-plasma''))),
      ip_CreatedAt = Some now, ip_UpdatedAt = Some now\<rparr>"

definition bootstrap_fuel_cell :: "string \<Rightarrow> gotime \<Rightarrow> inv_part" where
  "bootstrap_fuel_cell i now =
     \<lparr>ip_ID = i, ip_Name = ''Quantum Fuel Cell QF-200'',
      ip_Description = map char_of [208::nat, 162, 208, 190, 208, 191, 208, 187, 208, 184, 208, 178, 208, 189, 208, 176,
            209, 143, 32, 209, 143, 209, 135, 208, 181, 208, 185, 208, 186, 208, 176, 32, 208,
            180, 208, 187, 209, 143, 32, 208, 179, 208, 184, 208, 191, 208, 181, 209, 128, 208,
            180, 209, 128, 208, 176, 208, 185, 208, 178, 208, 190, 208, 178, 32, 209, 129, 208,
            181, 209, 128, 208, 184, 208, 184, 32, 81, 70, 46],
      ip_PriceCents = 780000, ip_StockQuantity = 120, ip_Category = InvCategoryFuel,
      ip_Dimensions = Some \<lparr>id_Length = 4635329916471083008, id_Width = 4630826316843712512,
        id_Height = 4630122629401935872, id_Weight = 4631530004285489152\<rparr>,
      ip_Manufacturer = Some \<lparr>im_Name = ''Sirius Energy Systems'', im_Country = ''Germany'',
        im_Website = ''https://sirius-energy.example.com''\<rparr>,
      ip_Tags = [''fuel'', ''quantum'', ''cell'', ''qf-series''],
      ip_Metadata = Some (Map.empty(''capacity_kwh'' := Some (AFloat64 4643000109586448384),
           ''compatible_engine'' := Some (AString ''HyperDrive Engine Mk1''),
           ''hazard_class'' := Some (AInt 3))),
      ip_CreatedAt = Some now, ip_UpdatedAt = Some now\<rparr>"

definition bootstrap_porthole :: "string \<Rightarrow> gotime \<Rightarrow> inv_part" where
  "bootstrap_porthole i now =
     \<lparr>ip_ID = i, ip_Name = ''Panoramic Porthole PX-360'',
      ip_Description = map char_of [208::nat, 159, 208, 176, 208, 189, 208, 190, 209, 128, 208, 176, 208, 188, 208, 189,
            209, 139, 208, 185, 32, 208, 184, 208, 187, 208, 187, 209, 142, 208, 188, 208, 184,
            208, 189, 208, 176, 209, 130, 208, 190, 209, 128, 32, 209, 129, 32, 208, 186, 209,
            128, 209, 131, 208, 179, 208, 190, 208, 178, 209, 139, 208, 188, 32, 208, 190, 208,
            177, 208, 183, 208, 190, 209, 128, 208, 190, 208, 188, 32, 51, 54, 48, 194, 176, 46],
      ip_PriceCents = 1520000, ip_StockQuantity = 35, ip_Category = InvCategoryPorthole,
      ip_Dimensions = Some \<lparr>id_Length = 4638144666238189568, id_Width = 4638144666238189568,
        id_Height = 4622945017495814144, id_Weight = 4634274385308418048\<rparr>,
      ip_Manufacturer = Some \<lparr>im_Name = ''Orion Optics'', im_Country = ''Japan'',
        im_Website = ''https://orion-optics.example.com''\<rparr>,
      ip_Tags = [''porthole'', ''glass'', ''panoramic'', ''px-360''],
      ip_Metadata = Some (Map.empty(''glass_type'' := Some (AString ''triplex-titanium''),
           ''max_pressure_bar'' := Some (AFloat64 4638144666238189568),
           ''radiation_protection'' := Some (ABool True))),
      ip_CreatedAt = Some now, ip_UpdatedAt = Some now\<rparr>"

definition PartsBootstrap ::
  "('w \<Rightarrow> 'w \<times> gotime) \<Rightarrow> ('w \<Rightarrow> 'w \<times> string) \<Rightarrow> (inv_part option list \<Rightarrow> ('w, ierr, unit) prog) \<Rightarrow>
   ('w, ierr, unit) prog" where
  "PartsBootstrap clock newString createBatch w =
     (case clock w of (w0, now) \<Rightarrow>
      case newString w0 of (w1, i1) \<Rightarrow>
      case newString w1 of (w2, i2) \<Rightarrow>
      case newString w2 of (w3, i3) \<Rightarrow>
        createBatch [Some (bootstrap_engine i1 now), Some (bootstrap_fuel_cell i2 now),
                     Some (bootstrap_porthole i3 now)] w3)"

section \<open>Lemmas about the loops\<close>

lemma list_loop_Ok:
  "list_loop ds out = Ok ps \<longleftrightarrow> (\<exists>es. ds = map Ok es \<and> ps = out @ map EntityToModel es)"
proof (induction ds out rule: list_loop.induct)
  case (2 ent ds out)
  show ?case by (auto simp: 2 Cons_eq_map_conv intro: exI [of _ "ent # _"])
qed (auto simp: Cons_eq_map_conv)

text \<open>A decoding error stops the loop with the error of the first document that has one.\<close>

lemma list_loop_Err:
  "list_loop ds out = Err e \<longleftrightarrow>
     (\<exists>es d rest. ds = map Ok es @ Err d # rest \<and> e = Wrapf ''repository.List decode: '' d '''')"
proof (induction ds out rule: list_loop.induct)
  case (2 ent ds out)
  show ?case
    unfolding list_loop.simps 2
    by (auto simp: Cons_eq_append_conv Cons_eq_map_conv) (metis append_Cons list.simps(9))
next
  case (3 e' ds out)
  show ?case by (auto simp: Cons_eq_append_conv Cons_eq_map_conv)
qed (auto simp: Cons_eq_append_conv Cons_eq_map_conv)

definition non_nil :: "'a option list \<Rightarrow> 'a list" where
  "non_nil ps = map the (filter (\<lambda>p. p \<noteq> None) ps)"

lemma non_nil_simps [simp]:
  "non_nil [] = []" "non_nil (None # ps) = non_nil ps" "non_nil (Some p # ps) = p # non_nil ps"
  by (simp_all add: non_nil_def)

text \<open>What \<open>CreateBatch\<close> does with one part: the stored document, apart from a new \<open>CreatedAt\<close>.\<close>

definition stamped :: "inv_part \<Rightarrow> inv_part \<Rightarrow> bool" where
  "stamped p q \<longleftrightarrow>
     (if ip_CreatedAt p = None \<or> ip_CreatedAt p = Some 0
      then \<exists>now. q = p\<lparr>ip_CreatedAt := Some now\<rparr> else q = p)"

lemma stamped_created: "ip_CreatedAt p = None \<or> ip_CreatedAt p = Some 0 \<Longrightarrow> stamped p (p\<lparr>ip_CreatedAt := Some now\<rparr>)"
  by (auto simp: stamped_def)

lemma stamped_same: "ip_CreatedAt p \<noteq> None \<Longrightarrow> ip_CreatedAt p \<noteq> Some 0 \<Longrightarrow> stamped p p"
  by (cases "ip_CreatedAt p") (simp_all add: stamped_def)

lemma stamped_keeps [simp]:
  "stamped p q \<Longrightarrow> ip_ID q = ip_ID p" "stamped p q \<Longrightarrow> ip_UpdatedAt q = ip_UpdatedAt p"
  "stamped p q \<Longrightarrow> ip_CreatedAt q \<noteq> None"
  by (cases "ip_CreatedAt p"; auto simp: stamped_def split: if_splits)+

lemma batch_loop_Ok:
  assumes "batch_loop m parts docs w = (w', Ok docs')"
  shows "\<exists>qs. docs' = docs @ map (EntityFromModel (to_lower m)) qs \<and>
    list_all2 stamped (non_nil parts) qs \<and> '''' \<notin> ip_ID ` set qs"
  using assms
proof (induction m parts docs w rule: batch_loop.induct)
  case (1 m docs w)
  then show ?case by auto
next
  case (2 m ps docs w)
  then show ?case by simp
next
  case (3 m p ps docs w)
  then have nonempty: "ip_ID p \<noteq> ''''" by (auto split: if_splits)
  show ?case
  proof (cases "ip_CreatedAt p = None \<or> ip_CreatedAt p = Some 0")
    case True
    obtain w1 now where clock: "time_Now m w = (w1, now)" by fastforce
    let ?q = "p\<lparr>ip_CreatedAt := Some now\<rparr>"
    have "batch_loop m ps (docs @ [EntityFromModel (to_lower m) ?q]) w1 = (w', Ok docs')"
      using 3(3) nonempty True clock by simp
    from 3(1) [OF nonempty True clock [symmetric] this] obtain qs where
      "docs' = (docs @ [EntityFromModel (to_lower m) ?q]) @ map (EntityFromModel (to_lower m)) qs"
      "list_all2 stamped (non_nil ps) qs" "'''' \<notin> ip_ID ` set qs" by blast
    with nonempty True show ?thesis
      by (intro exI [of _ "?q # qs"]) (simp add: stamped_created)
  next
    case False
    have "batch_loop m ps (docs @ [EntityFromModel (to_lower m) p]) w = (w', Ok docs')"
      using 3(3) nonempty False by simp
    from 3(2) [OF nonempty False this] obtain qs where
      "docs' = (docs @ [EntityFromModel (to_lower m) p]) @ map (EntityFromModel (to_lower m)) qs"
      "list_all2 stamped (non_nil ps) qs" "'''' \<notin> ip_ID ` set qs" by blast
    with nonempty False show ?thesis
      by (intro exI [of _ "p # qs"]) (simp add: stamped_same)
  qed
qed

section \<open>The contract of the collection and the contract of the repository\<close>

text \<open>
  \<open>docs w\<close> are the documents of the collection. A read changes none and returns, in some order,
  the documents that match; \<open>ErrNoDocuments\<close> means that none does; an insert that reports no error
  stored every document, under keys that were free. \<open>stored\<close> is what a document reads back as.
\<close>

locale parts_coll =
  fixes m :: "'w mongo_coll"
    and docs :: "'w \<Rightarrow> part_entity list"
    and stored :: "part_entity \<Rightarrow> part_entity"
  assumes find_one_ok: "FindOne m q w = (w', Ok ent) \<Longrightarrow> docs w' = docs w \<and> ent \<in> set (docs w) \<and> doc_matches q ent"
    and find_one_err: "FindOne m q w = (w', Err e) \<Longrightarrow> docs w' = docs w"
    and find_one_none: "FindOne m q w = (w', Err e) \<Longrightarrow> errors_Is e MongoErrNoDocuments \<Longrightarrow>
      \<forall>ent \<in> set (docs w). \<not> doc_matches q ent"
    and find_one_foreign: "FindOne m q w = (w', Err e) \<Longrightarrow> errors_Is e x \<Longrightarrow> x = MongoErrNoDocuments"
    and find_ok: "Find m q w = (w', Ok cur) \<Longrightarrow> docs w' = docs w \<and>
      (cur_Err cur = None \<longrightarrow>
        (\<exists>es. mset es = mset (filter (doc_matches q) (docs w)) \<and>
              list_all2 (\<lambda>r e. \<forall>x. r = Ok x \<longrightarrow> x = e) (cur_Docs cur) es))"
    and find_err: "Find m q w = (w', Err e) \<Longrightarrow> docs w' = docs w"
    and find_foreign: "Find m q w = (w', Err e) \<Longrightarrow> \<not> errors_Is e x"
    and cursor_foreign: "Find m q w = (w', Ok cur) \<Longrightarrow>
      (\<forall>e. cur_Err cur = Some e \<longrightarrow> \<not> errors_Is e x) \<and> (\<forall>e. Err e \<in> set (cur_Docs cur) \<longrightarrow> \<not> errors_Is e x)"
    and no_panics: "FindOne m q w \<noteq> (w', Panic p)" "Find m q w \<noteq> (w', Panic p)"
      "InsertMany m es w \<noteq> (w', Panic p)"
    and cursor_no_panic: "Find m q w = (w', Ok cur) \<Longrightarrow> Panic p \<notin> set (cur_Docs cur)"
    and insert_ok: "InsertMany m es w = (w', Ok ()) \<Longrightarrow>
      mset (docs w') = mset (docs w) + mset (map stored es) \<and>
      distinct (map pe_ID es) \<and> pe_ID ` set es \<inter> pe_ID ` set (docs w) = {}"
    and stored_id: "pe_ID (stored ent) = pe_ID ent"
    and stored_ok: "entity_ok (to_lower m) ent \<Longrightarrow> entity_ok (to_lower m) (stored ent)"
    and clock_frame: "time_Now m w = (w', t) \<Longrightarrow> docs w' = docs w"
begin

lemma list_all2_decoded:
  "list_all2 (\<lambda>r e. \<forall>x. r = Ok x \<longrightarrow> x = e) (map Ok xs) es \<Longrightarrow> xs = es"
  by (induction xs arbitrary: es) (auto simp: list_all2_Cons1)

lemma id_missing:
  assumes "FindOne m [(''_id'', CondEq (BString i))] w = (w', Err e)" and "errors_Is e MongoErrNoDocuments"
    and "ent \<in> set (docs w)"
  shows "i \<noteq> pe_ID ent"
  using find_one_none [OF assms(1,2)] assms(3) by (auto simp: doc_values_def)

lemma batch_frame: "batch_loop m ps ds w = (w', r) \<Longrightarrow> docs w' = docs w"
proof (induction ps arbitrary: ds w)
  case (Cons x ps)
  show ?case
  proof (cases x)
    case None
    with Cons show ?thesis by simp
  next
    case (Some p)
    obtain w1 now where clock: "time_Now m w = (w1, now)" by fastforce
    from Cons Some show ?thesis
      by (auto simp: clock clock_frame [OF clock] split: if_splits)
  qed
qed simp

lemma create_batch_stores:
  assumes "mongo_CreateBatch m parts w = (w', Ok ())"
  shows "\<exists>qs. list_all2 stamped (non_nil parts) qs \<and> '''' \<notin> ip_ID ` set qs \<and>
    mset (docs w') = mset (docs w) + mset (map (stored \<circ> EntityFromModel (to_lower m)) qs) \<and>
    distinct (map ip_ID qs) \<and> ip_ID ` set qs \<inter> pe_ID ` set (docs w) = {}"
proof -
  from assms obtain w1 ds where loop: "batch_loop m parts [] w = (w1, Ok ds)"
    and ins: "(ds = [] \<and> w' = w1) \<or> InsertMany m ds w1 = (w', Ok ())"
    by (auto simp: mongo_CreateBatch_def go_elims split: if_splits)
  from batch_loop_Ok [OF loop] obtain qs where ds: "ds = map (EntityFromModel (to_lower m)) qs"
    and qs: "list_all2 stamped (non_nil parts) qs" "'''' \<notin> ip_ID ` set qs" by auto
  have ids: "map pe_ID ds = map ip_ID qs" by (simp add: ds EntityFromModel_def)
  then have idset: "pe_ID ` set ds = ip_ID ` set qs" by (metis set_map)
  from ins have "mset (docs w') = mset (docs w1) + mset (map stored ds) \<and>
      distinct (map pe_ID ds) \<and> pe_ID ` set ds \<inter> pe_ID ` set (docs w1) = {}"
    by (auto dest: insert_ok)
  then have "mset (docs w') = mset (docs w) + mset (map (stored \<circ> EntityFromModel (to_lower m)) qs) \<and>
      distinct (map ip_ID qs) \<and> ip_ID ` set qs \<inter> pe_ID ` set (docs w) = {}"
    unfolding ids idset batch_frame [OF loop] by (simp only: ds map_map)
  with qs show ?thesis by blast
qed

text \<open>A stored batch keeps the identifiers of the collection distinct and its documents normal.\<close>

lemma create_batch_invariant:
  assumes run: "mongo_CreateBatch m parts w = (w', Ok ())"
    and dist: "distinct (map pe_ID (docs w))" and good: "\<forall>ent \<in> set (docs w). entity_ok (to_lower m) ent"
  shows "distinct (map pe_ID (docs w')) \<and> (\<forall>ent \<in> set (docs w'). entity_ok (to_lower m) ent)"
proof -
  from create_batch_stores [OF run] obtain qs where
    ms: "mset (docs w') = mset (docs w @ map (stored \<circ> EntityFromModel (to_lower m)) qs)"
    and qs: "distinct (map ip_ID qs)" "ip_ID ` set qs \<inter> pe_ID ` set (docs w) = {}" by auto
  have ids: "pe_ID \<circ> (stored \<circ> EntityFromModel (to_lower m)) = ip_ID"
    by (auto simp: fun_eq_iff stored_id EntityFromModel_def)
  have "mset (map pe_ID (docs w')) = mset (map pe_ID (docs w) @ map ip_ID qs)"
    using arg_cong [OF ms, of "image_mset pe_ID"] ids by (simp flip: image_mset.compositionality)
      (metis (no_types, lifting) image_mset.compositionality)
  then have "distinct (map pe_ID (docs w')) = distinct (map pe_ID (docs w) @ map ip_ID qs)"
    by (rule mset_eq_imp_distinct_iff)
  then have "distinct (map pe_ID (docs w'))" using dist qs by (auto simp: Int_commute)
  moreover have "set (docs w') = set (docs w @ map (stored \<circ> EntityFromModel (to_lower m)) qs)"
    using ms by (rule mset_eq_setD)
  ultimately show ?thesis using good by (auto simp: stored_ok)
qed

end

locale part_repo_api =
  fixes by_id :: "string \<Rightarrow> ('w, ierr, inv_part) prog"
    and list_parts :: "inv_filter \<Rightarrow> ('w, ierr, inv_part list) prog"
    and ulow :: "string \<Rightarrow> string"
    and parts :: "'w \<Rightarrow> inv_part list"
    and good :: "'w \<Rightarrow> bool" \<comment> \<open>the stored documents have their normalised country\<close>
  assumes repo_no_panics: "by_id i w \<noteq> (w', Panic p)" "list_parts f w \<noteq> (w', Panic p)"
    and part_ok: "by_id i w = (w', Ok q) \<Longrightarrow> q \<in> set (parts w) \<and> ip_ID q = i"
    and part_missing: "by_id i w = (w', Err e) \<Longrightarrow> errors_Is e InvErrPartNotFound \<Longrightarrow> i \<notin> ip_ID ` set (parts w)"
    and part_sentinels: "by_id i w = (w', Err e) \<Longrightarrow> \<not> errors_Is e InvErrInvalidArgument"
    and listed: "good w \<Longrightarrow> list_parts f w = (w', Ok ps) \<Longrightarrow> mset ps = mset (filter (part_selected ulow f) (parts w))"
    and list_sentinels: "list_parts f w = (w', Err e) \<Longrightarrow> \<not> errors_Is e x"
    and read_frame: "by_id i w = (w', r) \<Longrightarrow> parts w' = parts w \<and> good w' = good w"
      "list_parts f w = (w', r') \<Longrightarrow> parts w' = parts w \<and> good w' = good w"
begin

lemma listed_set: "good w \<Longrightarrow> list_parts f w = (w', Ok ps) \<Longrightarrow> set ps = {q \<in> set (parts w). part_selected ulow f q}"
  using listed [of w f w' ps] by (metis mset_eq_setD set_filter)

lemma listed_at_most: "good w \<Longrightarrow> list_parts f w = (w', Ok ps) \<Longrightarrow> length ps \<le> length (parts w)"
  using listed [of w f w' ps] by (metis length_filter_le mset_eq_length)

text \<open>
  Listing by identifier: every part at most once, so at most as many parts as there are different
  identifiers in the filter.
\<close>

lemma listed_ids_distinct:
  assumes "good w" and "distinct (map ip_ID (parts w))" and "list_parts f w = (w', Ok ps)"
  shows "distinct (map ip_ID ps)"
proof -
  have "mset (map ip_ID ps) = mset (map ip_ID (filter (part_selected ulow f) (parts w)))"
    using listed [OF assms(1,3)] by (simp only: mset_map)
  then show ?thesis using distinct_map_filter [OF assms(2)] mset_eq_imp_distinct_iff by blast
qed

lemma listed_by_ids:
  assumes "good w" and "distinct (map ip_ID (parts w))"
    and "list_parts (zero_inv_filter\<lparr>if_IDs := ids\<rparr>) w = (w', Ok ps)" and "ids \<noteq> []"
  shows "length ps \<le> card (set ids) \<and> set (map ip_ID ps) = set ids \<inter> ip_ID ` set (parts w)"
proof -
  have "set (map ip_ID ps) = set ids \<inter> ip_ID ` set (parts w)"
    using listed_set [OF assms(1,3)] assms(4) by (auto simp: filter_ids)
  moreover have "length ps = card (set (map ip_ID ps))"
    using distinct_card [OF listed_ids_distinct [OF assms(1,2,3)]] by simp
  ultimately show ?thesis by (metis List.finite_set card_mono inf_le1)
qed

end

sublocale parts_coll \<subseteq>
  part_repo_api "mongo_PartByID m" "mongo_List m" "to_lower m" "\<lambda>w. map EntityToModel (docs w)"
    "\<lambda>w. \<forall>ent \<in> set (docs w). entity_ok (to_lower m) ent"
proof unfold_locales
  fix i p :: string and f :: inv_filter and w w' :: 'w and q :: inv_part and ps and e :: ierr and x
    and r :: "(ierr, inv_part) outcome" and r' :: "(ierr, inv_part list) outcome"
  have loop_no_panic: "Panic p \<notin> set ds \<Longrightarrow> list_loop ds out \<noteq> Panic p" for ds out
    by (induction ds out rule: list_loop.induct) auto
  show "mongo_PartByID m i w \<noteq> (w', Panic p)"
    by (auto simp: mongo_PartByID_def go_elims no_panics)
  show "mongo_List m f w \<noteq> (w', Panic p)"
    by (auto simp: mongo_List_def go_elims no_panics dest!: loop_no_panic [OF cursor_no_panic] split: option.splits)
  show "mongo_PartByID m i w = (w', Ok q) \<Longrightarrow> q \<in> set (map EntityToModel (docs w)) \<and> ip_ID q = i"
    by (auto simp: mongo_PartByID_def go_elims doc_values_def EntityToModel_def dest!: find_one_ok)
  show "mongo_PartByID m i w = (w', Err e) \<Longrightarrow> errors_Is e InvErrPartNotFound \<Longrightarrow>
      i \<notin> ip_ID ` set (map EntityToModel (docs w))"
    by (auto simp: mongo_PartByID_def go_elims doc_values_def EntityToModel_def wrap_def split: if_splits
        dest: id_missing find_one_foreign)
  show "mongo_PartByID m i w = (w', Err e) \<Longrightarrow> \<not> errors_Is e InvErrInvalidArgument"
    by (auto simp: mongo_PartByID_def go_elims split: if_splits dest: find_one_foreign)
  show "\<forall>ent \<in> set (docs w). entity_ok (to_lower m) ent \<Longrightarrow> mongo_List m f w = (w', Ok ps) \<Longrightarrow>
      mset ps = mset (filter (part_selected (to_lower m) f) (map EntityToModel (docs w)))"
  proof -
    assume good: "\<forall>ent \<in> set (docs w). entity_ok (to_lower m) ent" and "mongo_List m f w = (w', Ok ps)"
    then obtain cur es where find: "Find m (BuildMongoFilter (to_lower m) f) w = (w', Ok cur)"
      and "cur_Err cur = None" and "cur_Docs cur = map Ok es" and ps: "ps = map EntityToModel es"
      by (auto simp: mongo_List_def go_elims list_loop_Ok split: option.splits)
    with find_ok [OF find] have "mset es = mset (filter (doc_matches (BuildMongoFilter (to_lower m) f)) (docs w))"
      by (auto dest: list_all2_decoded)
    moreover have "filter (doc_matches (BuildMongoFilter (to_lower m) f)) (docs w) =
        filter (part_selected (to_lower m) f \<circ> EntityToModel) (docs w)"
      using good by (intro filter_cong) (auto simp: filter_correct)
    ultimately show "mset ps = mset (filter (part_selected (to_lower m) f) (map EntityToModel (docs w)))"
      by (simp only: ps filter_map mset_map)
  qed
  show "mongo_List m f w = (w', Err e) \<Longrightarrow> \<not> errors_Is e x"
    by (auto simp: mongo_List_def go_elims list_loop_Err split: option.splits
        dest: find_foreign cursor_foreign) (metis cursor_foreign in_set_conv_decomp)
  show "mongo_PartByID m i w = (w', r) \<Longrightarrow> map EntityToModel (docs w') = map EntityToModel (docs w) \<and>
      (\<forall>ent \<in> set (docs w'). entity_ok (to_lower m) ent) = (\<forall>ent \<in> set (docs w). entity_ok (to_lower m) ent)"
    by (auto simp: mongo_PartByID_def call_iff no_panics dest: find_one_err find_one_ok)
  show "mongo_List m f w = (w', r') \<Longrightarrow> map EntityToModel (docs w') = map EntityToModel (docs w) \<and>
      (\<forall>ent \<in> set (docs w'). entity_ok (to_lower m) ent) = (\<forall>ent \<in> set (docs w). entity_ok (to_lower m) ent)"
    by (auto simp: mongo_List_def call_iff no_panics split: option.splits dest: find_err find_ok)
qed

section \<open>A collection that meets the contract\<close>

text \<open>
  The collection as a list of documents in insertion order, over a world that also holds the clock
  and whether the server answers. \<open>bson_stored\<close> is what BSON keeps of a document: an \<open>int\<close> comes
  back as \<open>int32\<close> where it fits and as \<open>int64\<close> otherwise, a time in whole milliseconds. An unordered
  insert stores the documents whose key is free and reports an error when there was another.
\<close>

record parts_world =
  pw_docs :: "part_entity list"
  pw_clock :: gotime
  pw_online :: bool

fun bson_any :: "goany \<Rightarrow> goany" where
  "bson_any (AInt i) = (if - (2 ^ 31) \<le> sint i \<and> sint i < 2 ^ 31 then AInt32 (word_of_int (sint i)) else AInt64 i)"
| "bson_any v = v"

definition bson_time :: "gotime \<Rightarrow> gotime" where
  "bson_time t = t div 1000000 * 1000000"

definition bson_stored :: "part_entity \<Rightarrow> part_entity" where
  "bson_stored ent = ent\<lparr>pe_Metadata := map_option (\<lambda>m k. map_option bson_any (m k)) (pe_Metadata ent),
     pe_CreatedAt := map_option bson_time (pe_CreatedAt ent),
     pe_UpdatedAt := map_option bson_time (pe_UpdatedAt ent)\<rparr>"

definition coll_find_one :: "mongo_query \<Rightarrow> (parts_world, ierr, part_entity) prog" where
  "coll_find_one q w =
     (if \<not> pw_online w then (w, Err (ErrText ''server selection error''))
      else case filter (doc_matches q) (pw_docs w) of
             [] \<Rightarrow> (w, Err (Sentinel MongoErrNoDocuments))
           | ent # _ \<Rightarrow> (w, Ok ent))"

definition coll_find :: "mongo_query \<Rightarrow> (parts_world, ierr, mongo_cursor) prog" where
  "coll_find q w =
     (if \<not> pw_online w then (w, Err (ErrText ''server selection error''))
      else (w, Ok \<lparr>cur_Docs = map Ok (filter (doc_matches q) (pw_docs w)), cur_Err = None\<rparr>))"

definition insert_doc :: "part_entity \<Rightarrow> part_entity list \<Rightarrow> part_entity list" where
  "insert_doc ent ds = (if pe_ID ent \<in> pe_ID ` set ds then ds else ds @ [bson_stored ent])"

definition coll_insert :: "part_entity list \<Rightarrow> (parts_world, ierr, unit) prog" where
  "coll_insert es w =
     (if \<not> pw_online w then (w, Err (ErrText ''server selection error''))
      else (w\<lparr>pw_docs := fold insert_doc es (pw_docs w)\<rparr>,
            if distinct (map pe_ID es) \<and> list_all (\<lambda>ent. pe_ID ent \<notin> pe_ID ` set (pw_docs w)) es
            then Ok () else Err (ErrText ''E11000 duplicate key error'')))"

definition coll_mongo :: "parts_world mongo_coll" where
  "coll_mongo =
     \<lparr>FindOne = coll_find_one, Find = coll_find, InsertMany = coll_insert,
      time_Now = (\<lambda>w. (w\<lparr>pw_clock := pw_clock w + 1\<rparr>, pw_clock w)), to_lower = map ascii_lower\<rparr>"

lemma bson_stored_sel [simp]: "pe_ID (bson_stored ent) = pe_ID ent" "pe_Manufacturer (bson_stored ent) = pe_Manufacturer ent"
  by (simp_all add: bson_stored_def)

lemma fold_insert_doc:
  "distinct (map pe_ID es) \<Longrightarrow> list_all (\<lambda>ent. pe_ID ent \<notin> pe_ID ` set ds) es \<Longrightarrow>
    fold insert_doc es ds = ds @ map bson_stored es"
proof (induction es arbitrary: ds)
  case (Cons a es)
  from Cons.prems have "fold insert_doc es (ds @ [bson_stored a]) = (ds @ [bson_stored a]) @ map bson_stored es"
    by (intro Cons.IH) (auto simp: list_all_iff image_iff)
  moreover have "insert_doc a ds = ds @ [bson_stored a]" using Cons.prems by (simp add: insert_doc_def)
  ultimately show ?case by simp
qed simp

lemma decoded_all: "list_all2 (\<lambda>r e. \<forall>x. r = Ok x \<longrightarrow> x = e) (map Ok es) es"
  by (simp add: list_all2_conv_all_nth)

interpretation coll_db: parts_coll coll_mongo pw_docs bson_stored
proof unfold_locales
  fix q w w' es ent and e :: ierr and x p cur t
  note defs = coll_mongo_def coll_find_one_def coll_find_def coll_insert_def
  show "FindOne coll_mongo q w = (w', Ok ent) \<Longrightarrow> pw_docs w' = pw_docs w \<and> ent \<in> set (pw_docs w) \<and> doc_matches q ent"
    by (auto simp: defs filter_eq_Cons_iff split: if_splits list.splits)
  show "FindOne coll_mongo q w = (w', Err e) \<Longrightarrow> errors_Is e MongoErrNoDocuments \<Longrightarrow>
      \<forall>ent \<in> set (pw_docs w). \<not> doc_matches q ent"
    by (auto simp: defs filter_empty_conv split: if_splits list.splits)
  show "Find coll_mongo q w = (w', Ok cur) \<Longrightarrow> pw_docs w' = pw_docs w \<and>
      (cur_Err cur = None \<longrightarrow>
        (\<exists>es. mset es = mset (filter (doc_matches q) (pw_docs w)) \<and>
              list_all2 (\<lambda>r e. \<forall>x. r = Ok x \<longrightarrow> x = e) (cur_Docs cur) es))"
    using decoded_all [of "filter (doc_matches q) (pw_docs w)"]
    by (auto simp: defs simp del: mset_filter split: if_splits intro!: exI)
  show "InsertMany coll_mongo es w = (w', Ok ()) \<Longrightarrow>
      mset (pw_docs w') = mset (pw_docs w) + mset (map bson_stored es) \<and>
      distinct (map pe_ID es) \<and> pe_ID ` set es \<inter> pe_ID ` set (pw_docs w) = {}"
    by (auto simp: defs fold_insert_doc list_all_iff split: if_splits)
  show "entity_ok (to_lower coll_mongo) ent \<Longrightarrow> entity_ok (to_lower coll_mongo) (bson_stored ent)"
    by (simp add: entity_ok_def)
qed (auto simp: coll_mongo_def coll_find_one_def coll_find_def coll_insert_def
    split: if_splits list.splits)

end
