(* ===== verification/Inventory_Service.thy ===== *)
theory Inventory_Service
  imports Inventory_Repository
begin

text \<open>
  The inventory service (\<open>inventory/internal/service/part/service.go\<close>), its gRPC handlers and error
  mapping (\<open>transport/grpc/inventory/v1/inventory.go\<close>), and the logging interceptor in front of
  them (\<open>transport/grpc/interceptors/logging.go\<close>).
\<close>

section \<open>The service\<close>

record 'w part_repo =
  parts_PartByID :: "string \<Rightarrow> ('w, ierr, inv_part) prog"
  parts_List :: "inv_filter \<Rightarrow> ('w, ierr, inv_part list) prog"

definition inventory_Part :: "'w part_repo \<Rightarrow> string \<Rightarrow> ('w, ierr, inv_part) prog" where
  "inventory_Part R partID =
     (let i = TrimSpace partID in
      if i = '''' then fail (Joined (Sentinel InvErrInvalidArgument) (ErrText ''uuid must be non-empty''))
      else call (parts_PartByID R i) (wrap ''inventory.service.Part'') ok)"

definition inventory_ListParts_svc :: "'w part_repo \<Rightarrow> inv_filter \<Rightarrow> ('w, ierr, inv_part list) prog" where
  "inventory_ListParts_svc R f = call (parts_List R f) (wrap ''inventory.service.ListParts'') ok"

section \<open>The gRPC handlers\<close>

definition inventory_mapError :: "ierr \<Rightarrow> grpc_status" where
  "inventory_mapError err =
     (if errors_Is err InvErrInvalidArgument then status_Error GrpcInvalidArgument ''invalid argument''
      else if errors_Is err InvErrPartNotFound then status_Error GrpcNotFound ''part not found''
      else status_Error GrpcInternal ''internal error'')"

definition GetPart_handler ::
  "ts_lib \<Rightarrow> 'w part_repo \<Rightarrow> get_part_request option \<Rightarrow> ('w, grpc_status, get_part_response) prog" where
  "GetPart_handler T R req =
     call (inventory_Part R (GetPartRequest_GetUuid req)) inventory_mapError (\<lambda>p.
     call (lift (PartFromModel T p)) id (\<lambda>pb. ok \<lparr>gpo_Part = Some pb\<rparr>))"

text \<open>The loop that converts the listed parts.\<close>

fun parts_loop :: "ts_lib \<Rightarrow> inv_part list \<Rightarrow> pb_part option list \<Rightarrow> (grpc_status, pb_part option list) outcome" where
  "parts_loop T [] out = Ok out"
| "parts_loop T (p # ps) out =
     (case PartFromModel T p of
        Ok pb \<Rightarrow> parts_loop T ps (out @ [Some pb])
      | Err e \<Rightarrow> Err e
      | Panic s \<Rightarrow> Panic s)"

definition ListParts_handler ::
  "ts_lib \<Rightarrow> 'w part_repo \<Rightarrow> list_parts_request option \<Rightarrow> ('w, grpc_status, list_parts_response) prog" where
  "ListParts_handler T R req =
     call (inventory_ListParts_svc R (PartsFilterToModel (ListPartsRequest_GetFilter req)))
       inventory_mapError (\<lambda>parts.
     call (lift (parts_loop T parts [])) id (\<lambda>out. ok \<lparr>lpo_Parts = out\<rparr>))"

section \<open>The logging interceptor\<close>

fun code_String :: "grpc_code \<Rightarrow> string" where
  "code_String GrpcCanceled = ''Canceled''"
| "code_String GrpcUnknown = ''Unknown''"
| "code_String GrpcInvalidArgument = ''InvalidArgument''"
| "code_String GrpcNotFound = ''NotFound''"
| "code_String GrpcInternal = ''Internal''"

text \<open>\<open>path.Base\<close>: trailing slashes are dropped, then everything up to the last one.\<close>

definition path_Base :: "string \<Rightarrow> string" where
  "path_Base s =
     (if s = '''' then ''.''
      else let t = dropWhile (\<lambda>c. c = CHR ''/'') (rev s) in
           if t = '''' then ''/'' else rev (takeWhile (\<lambda>c. c \<noteq> CHR ''/'') t))"

text \<open>One line of the log: the level, the method and the code. The duration is left out.\<close>

record log_line =
  ll_Error :: bool
  ll_Method :: string
  ll_Code :: string

definition UnaryLogging ::
  "(log_line \<Rightarrow> 'w \<Rightarrow> 'w) \<Rightarrow> string \<Rightarrow> ('req \<Rightarrow> ('w, grpc_status, 'resp) prog) \<Rightarrow> 'req \<Rightarrow>
   ('w, grpc_status, 'resp) prog" where
  "UnaryLogging emit fullMethod handler req w =
     (case handler req w of
        (w1, Ok resp) \<Rightarrow> (emit \<lparr>ll_Error = False, ll_Method = path_Base fullMethod, ll_Code = ''OK''\<rparr> w1, Ok resp)
      | (w1, Err st) \<Rightarrow>
          (emit \<lparr>ll_Error = True, ll_Method = path_Base fullMethod, ll_Code = code_String (st_Code st)\<rparr> w1, Err st)
      | (w1, Panic p) \<Rightarrow> (w1, Panic p))"

text \<open>The interceptor changes neither the reply nor what the handler did to the world.\<close>

lemma UnaryLogging_transparent:
  assumes "\<And>l w. v (emit l w) = v w"
  shows "snd (UnaryLogging emit meth h req w) = snd (h req w) \<and>
    v (fst (UnaryLogging emit meth h req w)) = v (fst (h req w))"
  using assms by (auto simp: UnaryLogging_def split: prod.splits outcome.splits)

section \<open>Lemmas\<close>

definition timestamped :: "inv_part \<Rightarrow> bool" where
  "timestamped p \<longleftrightarrow> ip_CreatedAt p \<noteq> None \<and> ip_UpdatedAt p \<noteq> None"

text \<open>The message of a part that has both times.\<close>

definition pb_of :: "ts_lib \<Rightarrow> inv_part \<Rightarrow> pb_part" where
  "pb_of T p =
     \<lparr>pbp_Uuid = ip_ID p, pbp_Name = ip_Name p, pbp_Description = ip_Description p,
      pbp_PriceCents = ip_PriceCents p, pbp_StockQuantity = ip_StockQuantity p,
      pbp_Category = categoriyFromModel (ip_Category p),
      pbp_Dimensions = dimensionsFromModel (ip_Dimensions p),
      pbp_Manufacturer = manufacturerFromModel (ip_Manufacturer p),
      pbp_Tags = ip_Tags p, pbp_Metadata = metadataFromModel (ip_Metadata p),
      pbp_CreatedAt = map_option (ts_New T) (ip_CreatedAt p),
      pbp_UpdatedAt = map_option (ts_New T) (ip_UpdatedAt p)\<rparr>"

lemma PartFromModel_Ok [simp]: "timestamped p \<Longrightarrow> PartFromModel T p = Ok (pb_of T p)"
  by (auto simp: timestamped_def PartFromModel_def pb_of_def)

lemma PartFromModel_Panic [simp]: "\<not> timestamped p \<Longrightarrow> PartFromModel T p = Panic nil_deref"
  by (cases "ip_CreatedAt p"; cases "ip_UpdatedAt p") (auto simp: timestamped_def PartFromModel_def)

lemma PartFromModel_cases: "PartFromModel T p = Ok pb \<longleftrightarrow> timestamped p \<and> pb = pb_of T p"
  by (cases "timestamped p") auto

lemma PartFromModel_no_Err: "PartFromModel T p \<noteq> Err e"
  by (cases "timestamped p") auto

lemma parts_loop_Ok:
  "parts_loop T ps out = Ok res \<longleftrightarrow> (\<forall>p \<in> set ps. timestamped p) \<and> res = out @ map (Some \<circ> pb_of T) ps"
proof (induction ps arbitrary: out)
  case (Cons p ps)
  then show ?case by (cases "timestamped p") auto
qed auto

lemma parts_loop_no_Err: "parts_loop T ps out \<noteq> Err e"
  by (induction ps arbitrary: out) (auto simp: PartFromModel_no_Err split: outcome.splits)

lemma parts_loop_total:
  "\<forall>p \<in> set ps. timestamped p \<Longrightarrow> parts_loop T ps out = Ok (out @ map (Some \<circ> pb_of T) ps)"
  by (simp add: parts_loop_Ok)

section \<open>What the server answers\<close>

text \<open>
  The server over a repository that meets its contract: the two handlers answer as the protobuf
  service documents, and change nothing.
\<close>

locale inventory_server =
  part_repo_api "parts_PartByID R" "parts_List R" ulow parts good
  for R :: "'w part_repo" and ulow :: "string \<Rightarrow> string" and parts :: "'w \<Rightarrow> inv_part list"
    and good :: "'w \<Rightarrow> bool"
begin

lemma get_part_ok:
  "GetPart_handler T R req w = (w', Ok resp) \<Longrightarrow>
     \<exists>q \<in> set (parts w). ip_ID q = TrimSpace (GetPartRequest_GetUuid req) \<and> timestamped q \<and>
       gpo_Part resp = Some (pb_of T q)"
  by (auto simp: GetPart_handler_def inventory_Part_def Let_def go_elims PartFromModel_cases
      split: if_splits dest!: part_ok)

lemma get_part_err:
  assumes "GetPart_handler T R req w = (w', Err st)"
  shows "(st_Code st = GrpcInvalidArgument \<longleftrightarrow> TrimSpace (GetPartRequest_GetUuid req) = '''') \<and>
    (st_Code st = GrpcNotFound \<longrightarrow> TrimSpace (GetPartRequest_GetUuid req) \<notin> ip_ID ` set (parts w))"
  using assms
  by (auto simp: GetPart_handler_def inventory_Part_def Let_def go_elims PartFromModel_no_Err
      inventory_mapError_def status_Error_def split: if_splits dest: part_missing part_sentinels)

lemma get_part_frame: "GetPart_handler T R req w = (w', r) \<Longrightarrow> parts w' = parts w \<and> good w' = good w"
  by (auto simp: GetPart_handler_def inventory_Part_def Let_def call_iff split: if_splits
      dest: read_frame)

lemma list_parts_ok:
  assumes "good w" and "ListParts_handler T R req w = (w', Ok resp)"
  shows "mset (lpo_Parts resp) = image_mset (Some \<circ> pb_of T)
      (mset (filter (part_selected ulow (PartsFilterToModel (ListPartsRequest_GetFilter req))) (parts w)))"
  using assms
  by (auto simp: ListParts_handler_def inventory_ListParts_svc_def go_elims parts_loop_Ok
      dest!: listed)

lemma list_parts_err:
  "ListParts_handler T R req w = (w', Err st) \<Longrightarrow> st = status_Error GrpcInternal ''internal error''"
  by (auto simp: ListParts_handler_def inventory_ListParts_svc_def go_elims parts_loop_no_Err
      inventory_mapError_def dest: list_sentinels)

lemma list_parts_frame: "ListParts_handler T R req w = (w', r) \<Longrightarrow> parts w' = parts w \<and> good w' = good w"
  by (auto simp: ListParts_handler_def inventory_ListParts_svc_def call_iff dest: read_frame)

lemma list_parts_no_panic:
  "good w \<Longrightarrow> \<forall>p \<in> set (parts w). timestamped p \<Longrightarrow> ListParts_handler T R req w \<noteq> (w', Panic s)"
  by (auto simp: ListParts_handler_def inventory_ListParts_svc_def go_elims repo_no_panics parts_loop_total
      dest!: listed_set)

end

text \<open>The repository over MongoDB, as \<open>app/di.go\<close> wires it.\<close>

definition mongo_parts :: "'w mongo_coll \<Rightarrow> 'w part_repo" where
  "mongo_parts m = \<lparr>parts_PartByID = mongo_PartByID m, parts_List = mongo_List m\<rparr>"

sublocale parts_coll \<subseteq> server: inventory_server "mongo_parts m" "to_lower m" "\<lambda>w. map EntityToModel (docs w)"
    "\<lambda>w. \<forall>ent \<in> set (docs w). entity_ok (to_lower m) ent"
  using part_repo_api_axioms by (unfold inventory_server_def) (simp add: mongo_parts_def)

context parts_coll
begin

lemma meets_server: "inventory_server (mongo_parts m) (to_lower m) (\<lambda>w. map EntityToModel (docs w))
    (\<lambda>w. \<forall>ent \<in> set (docs w). entity_ok (to_lower m) ent)"
  by unfold_locales

end

end
