(* ===== verification/Payment.thy ===== *)
theory Payment
  imports Proto Uuid_Lib
begin

text \<open>
  The payment service: its model (\<open>payment/internal/model/payment.go\<close>), the conversions from and to
  protobuf (\<open>converter/payment.go\<close>), the service (\<open>service/payment/service.go\<close>), the gRPC handler
  with its error mapping (\<open>transport/grpc/payment/v1/payment.go\<close>) and the interceptor that rejects
  nil requests (\<open>interceptors/reject_nil.go\<close>). The service keeps no state: a payment is a fresh
  transaction identifier.
\<close>

section \<open>Model\<close>

type_synonym pay_method = int64

definition MethodUnknown :: pay_method where "MethodUnknown = 0"
definition MethodCard :: pay_method where "MethodCard = 1"
definition MethodSBP :: pay_method where "MethodSBP = 2"
definition MethodCreditCard :: pay_method where "MethodCreditCard = 3"
definition MethodInvestorMoney :: pay_method where "MethodInvestorMoney = 4"

lemmas method_defs =
  MethodUnknown_def MethodCard_def MethodSBP_def MethodCreditCard_def MethodInvestorMoney_def

text \<open>The only sentinel that the service's error mapping looks for.\<close>

datatype pay_sentinel = ContextCanceled

fun pay_err_text :: "pay_sentinel \<Rightarrow> string" where
  "pay_err_text ContextCanceled = ''context canceled''"

type_synonym perr = "pay_sentinel goerr"

record pay_order_params =
  pop_OrderID :: string
  pop_UserID :: string
  pop_Method :: pay_method

record pay_order_result =
  pres_TransactionUUID :: string

definition PayOrderParams_Validate :: "pay_order_params \<Rightarrow> perr option" where
  "PayOrderParams_Validate p =
     (if pop_OrderID p = '''' then Some (ErrText ''order_id is required'')
      else if pop_UserID p = '''' then Some (ErrText ''user_id is required'')
      else if pop_Method p = MethodUnknown then Some (ErrText ''payment_method is unknown'')
      else None)"

text \<open>The text of the second case contains a tab.\<close>

definition Method_String :: "pay_method \<Rightarrow> string" where
  "Method_String m =
     (if m = MethodUnknown then ''METHOD_UNKNOWN''
      else if m = MethodCard then ''METHOD_'' @ [char_of (9::nat)] @ ''CARD''
      else if m = MethodSBP then ''METHOD_SBP''
      else if m = MethodCreditCard then ''METHOD_CREDIT_CARD''
      else if m = MethodInvestorMoney then ''METHOD_INVESTOR_MONEY''
      else ''METHOD_UNKNOWN'')"

section \<open>Conversions\<close>

definition methodFromPB :: "int32 \<Rightarrow> (perr, pay_method) outcome" where
  "methodFromPB m =
     (if m = PAYMENT_METHOD_UNKNOWN then Err (ErrText ''payment_method unknown'')
      else if m = PAYMENT_METHOD_CARD then Ok MethodCard
      else if m = PAYMENT_METHOD_SBP then Ok MethodSBP
      else if m = PAYMENT_METHOD_CREDIT_CARD then Ok MethodCreditCard
      else if m = PAYMENT_METHOD_INVESTOR_MONEY then Ok MethodInvestorMoney
      else Err (ErrText ''payment_method unsupported''))"

definition PayOrderParamsFromPB :: "pay_order_pb_request option \<Rightarrow> (perr, pay_order_params) outcome" where
  "PayOrderParamsFromPB req =
     (case req of
        None \<Rightarrow> Err (ErrText ''request is nil'')
      | Some r \<Rightarrow>
          (case methodFromPB (ppr_PaymentMethod r) of
             Err e \<Rightarrow> Err e
           | Panic p \<Rightarrow> Panic p
           | Ok m \<Rightarrow> Ok \<lparr>pop_OrderID = ppr_OrderUuid r, pop_UserID = ppr_UserUuid r, pop_Method = m\<rparr>))"

definition PayOrderRespToPB :: "pay_order_result \<Rightarrow> pay_order_pb_response" where
  "PayOrderRespToPB res = \<lparr>ppo_TransactionUuid = pres_TransactionUUID res\<rparr>"

section \<open>Service and handler\<close>

definition payment_PayOrder_svc ::
  "('w \<Rightarrow> 'w \<times> string) \<Rightarrow> pay_order_params \<Rightarrow> ('w, perr, pay_order_result) prog" where
  "payment_PayOrder_svc newString params w =
     (case PayOrderParams_Validate params of
        Some err \<Rightarrow> (w, Err (wrap ''payment.service.PayOrder'' err))
      | None \<Rightarrow> (case newString w of (w1, txID) \<Rightarrow> (w1, Ok \<lparr>pres_TransactionUUID = txID\<rparr>)))"

definition isValidationError :: "perr \<Rightarrow> bool" where
  "isValidationError err =
     (let msg = error_msg pay_err_text err in
      msg = ''order_uuid is required'' \<or> msg = ''user_uuid is required'' \<or>
      msg = ''payment_method is unknown'' \<or> msg = ''payment_method unsupported'' \<or>
      msg = ''request is nil'')"

definition payment_mapError :: "perr \<Rightarrow> grpc_status" where
  "payment_mapError err =
     (if errors_Is err ContextCanceled then status_Error GrpcCanceled ''request canceled''
      else if isValidationError err then status_Error GrpcInvalidArgument (error_msg pay_err_text err)
      else status_Error GrpcInternal ''internal error'')"

text \<open>\<open>svc\<close> is the handler's \<open>PaymentService\<close>.\<close>

definition PayOrder_grpc_handler ::
  "(pay_order_params \<Rightarrow> ('w, perr, pay_order_result) prog) \<Rightarrow> pay_order_pb_request option \<Rightarrow>
   ('w, grpc_status, pay_order_pb_response) prog" where
  "PayOrder_grpc_handler svc req =
     call (lift (PayOrderParamsFromPB req))
       (\<lambda>e. status_Error GrpcInvalidArgument (error_msg pay_err_text e)) (\<lambda>cmd.
     call (svc cmd) payment_mapError (\<lambda>res. ok (PayOrderRespToPB res)))"

definition RejectNilRequest ::
  "('req \<Rightarrow> ('w, grpc_status, 'resp) prog) \<Rightarrow> 'req option \<Rightarrow> ('w, grpc_status, 'resp) prog" where
  "RejectNilRequest handler req =
     (case req of
        None \<Rightarrow> fail (status_Error GrpcInvalidArgument ''request is nil'')
      | Some r \<Rightarrow> handler r)"

section \<open>Lemmas\<close>

definition supported_methods :: "int32 list" where
  "supported_methods =
     [PAYMENT_METHOD_CARD, PAYMENT_METHOD_SBP, PAYMENT_METHOD_CREDIT_CARD, PAYMENT_METHOD_INVESTOR_MONEY]"

lemma methodFromPB_Ok:
  "methodFromPB m = Ok k \<longleftrightarrow> m \<in> set supported_methods \<and> k = of_nat (unat m)"
  by (auto simp: methodFromPB_def supported_methods_def pb_method_defs method_defs)

lemma methodFromPB_known: "methodFromPB m = Ok k \<Longrightarrow> k \<noteq> MethodUnknown"
  by (auto simp: methodFromPB_def method_defs split: if_splits)

lemma methodFromPB_no_panic [simp]: "methodFromPB m \<noteq> Panic p"
  by (simp add: methodFromPB_def)

lemma methodFromPB_Err:
  "m \<notin> set supported_methods \<Longrightarrow>
    methodFromPB m = Err (ErrText (if m = PAYMENT_METHOD_UNKNOWN then ''payment_method unknown''
                                   else ''payment_method unsupported''))"
  by (auto simp: methodFromPB_def supported_methods_def)

lemma svc_PayOrder_cases:
  assumes "methodFromPB (ppr_PaymentMethod r) = Ok k"
  shows "payment_PayOrder_svc ns \<lparr>pop_OrderID = ppr_OrderUuid r, pop_UserID = ppr_UserUuid r, pop_Method = k\<rparr> w =
    (if ppr_OrderUuid r = '''' then (w, Err (wrap ''payment.service.PayOrder'' (ErrText ''order_id is required'')))
     else if ppr_UserUuid r = '''' then (w, Err (wrap ''payment.service.PayOrder'' (ErrText ''user_id is required'')))
     else (case ns w of (w1, t) \<Rightarrow> (w1, Ok \<lparr>pres_TransactionUUID = t\<rparr>)))"
  using methodFromPB_known [OF assms]
  by (simp add: payment_PayOrder_svc_def PayOrderParams_Validate_def)

text \<open>The wrapped text of a validation error is none of the five texts it is compared with.\<close>

lemma wrapped_not_validation [simp]:
  "isValidationError (wrap ''payment.service.PayOrder'' e) = False"
  by (simp add: isValidationError_def)

lemma handler_rejects_method:
  "ppr_PaymentMethod r \<notin> set supported_methods \<Longrightarrow>
    PayOrder_grpc_handler svc (Some r) w =
      (w, Err (status_Error GrpcInvalidArgument
         (if ppr_PaymentMethod r = PAYMENT_METHOD_UNKNOWN then ''payment_method unknown''
          else ''payment_method unsupported'')))"
  by (simp add: PayOrder_grpc_handler_def PayOrderParamsFromPB_def methodFromPB_Err call_def lift_def)

lemma handler_supported:
  "ppr_PaymentMethod r \<in> set supported_methods \<Longrightarrow>
    PayOrder_grpc_handler (payment_PayOrder_svc ns) (Some r) w =
      (if ppr_OrderUuid r = '''' \<or> ppr_UserUuid r = ''''
       then (w, Err (status_Error GrpcInternal ''internal error''))
       else (case ns w of (w1, t) \<Rightarrow> (w1, Ok \<lparr>ppo_TransactionUuid = t\<rparr>)))"
proof -
  assume "ppr_PaymentMethod r \<in> set supported_methods"
  then obtain k where k: "methodFromPB (ppr_PaymentMethod r) = Ok k" by (auto simp: methodFromPB_Ok)
  show ?thesis
    by (simp add: PayOrder_grpc_handler_def PayOrderParamsFromPB_def k call_def lift_def
        svc_PayOrder_cases [OF k] payment_mapError_def PayOrderRespToPB_def ok_def
        split: prod.split)
qed

lemma handler_nil:
  "PayOrder_grpc_handler svc None w = (w, Err (status_Error GrpcInvalidArgument ''request is nil''))"
  by (simp add: PayOrder_grpc_handler_def PayOrderParamsFromPB_def call_def lift_def)

end
