(* ===== verification/Assembly.thy ===== *)
theory Assembly
  imports Kafka Proto Uuid_Lib
begin

text \<open>
  The assembly service: the Kafka converter (\<open>assembly/internal/converter/kafka.go\<close>) and the handler
  of \<open>order.paid\<close> messages, which waits for the build time and then publishes the assembled ship
  (\<open>service/assembly/service.go\<close>). The timer and the context of the \<open>select\<close> are one operation of
  the environment: it returns when the first of the two is ready.
\<close>

section \<open>Model\<close>

record asm_paid_order =
  apo_EventID :: uuid
  apo_OrderID :: uuid
  apo_UserID :: uuid
  apo_PaymentMethod :: string
  apo_TransactionID :: uuid

record asm_ship =
  ash_EventID :: uuid
  ash_OrderID :: uuid
  ash_UserID :: uuid
  ash_BuildTime :: int64 \<comment> \<open>\<open>time.Duration\<close>\<close>

section \<open>Durations\<close>

definition duration_Second :: int64 where "duration_Second = 1000000000"

text \<open>\<open>Duration.Milliseconds\<close>: \<open>int64(d) / 1e6\<close>.\<close>

definition duration_Milliseconds :: "int64 \<Rightarrow> int64" where
  "duration_Milliseconds d = go_quot d 1000000"

text \<open>\<open>t.Sub(u)\<close> saturates at the ends of \<open>int64\<close>; \<open>time.Since(u)\<close> is \<open>time.Now().Sub(u)\<close>.\<close>

definition time_Sub :: "gotime \<Rightarrow> gotime \<Rightarrow> int64" where
  "time_Sub t u = word_of_int (max (- (2 ^ 63)) (min (2 ^ 63 - 1) (t - u)))"

section \<open>Converter\<close>

definition asm_PaidOrderToModel :: "proto_lib \<Rightarrow> uuid_lib \<Rightarrow> bytes \<Rightarrow> (kerr, asm_paid_order) outcome" where
  "asm_PaidOrderToModel P U data =
     (case Unmarshal_paid P data of
        Err e \<Rightarrow> Err (Wrapf ''failed to unmarshal protobuf: '' (ErrText e) '''')
      | Panic p \<Rightarrow> Panic p
      | Ok pb \<Rightarrow>
          bind_out (uuid_MustParse U (por_EventUuid pb)) (\<lambda>event.
          bind_out (uuid_MustParse U (por_OrderUuid pb)) (\<lambda>ordr.
          bind_out (uuid_MustParse U (por_UserUuid pb)) (\<lambda>user.
          bind_out (uuid_MustParse U (por_TransactionUuid pb)) (\<lambda>tx.
          Ok \<lparr>apo_EventID = event, apo_OrderID = ordr, apo_UserID = user,
              apo_PaymentMethod = por_PayMethod pb, apo_TransactionID = tx\<rparr>)))))"

definition AssembledShipToPayload :: "proto_lib \<Rightarrow> uuid_lib \<Rightarrow> asm_ship \<Rightarrow> (kerr, bytes) outcome" where
  "AssembledShipToPayload P U m =
     (case Marshal_ship P
        \<lparr>asr_EventUuid = uuid_String U (ash_EventID m), asr_OrderUuid = uuid_String U (ash_OrderID m),
         asr_UserUuid = uuid_String U (ash_UserID m),
         asr_BuildTimeSec = go_quot (duration_Milliseconds (ash_BuildTime m)) 1000\<rparr> of
        Err e \<Rightarrow> Err (Wrapf ''failed to mashal protobuf: '' (ErrText e) '''')
      | Panic p \<Rightarrow> Panic p
      | Ok b \<Rightarrow> Ok b)"

section \<open>Service\<close>

text \<open>
  \<open>asm_wait d\<close> is the \<open>select\<close> on \<open>ctx.Done()\<close> and a timer of duration \<open>d\<close>: \<open>None\<close> when the timer
  fired, \<open>ctx.Err()\<close> when the context ended first.
\<close>

record 'w assembly_deps =
  asm_wait :: "int64 \<Rightarrow> 'w \<Rightarrow> 'w \<times> kerr option"
  asm_Now :: "'w \<Rightarrow> 'w \<times> gotime"
  asm_Send :: "bytes \<Rightarrow> bytes \<Rightarrow> ('w, kerr, unit) prog" \<comment> \<open>\<open>kafka.Producer\<close>\<close>
  asm_proto :: proto_lib
  asm_uuids :: uuid_lib

definition assemblyDelay :: int64 where
  "assemblyDelay = 10 * duration_Second"

definition sendAssembledShip :: "'w assembly_deps \<Rightarrow> asm_paid_order \<Rightarrow> int64 \<Rightarrow> ('w, kerr, unit) prog" where
  "sendAssembledShip A event buildTime =
     call (lift (AssembledShipToPayload (asm_proto A) (asm_uuids A)
             \<lparr>ash_EventID = apo_EventID event, ash_OrderID = apo_OrderID event,
              ash_UserID = apo_UserID event, ash_BuildTime = buildTime\<rparr>))
       (\<lambda>e. Wrapf ''converter assembled_ship_to_proto error: '' e '''') (\<lambda>payload.
     call (asm_Send A (uuid_bytes (apo_OrderID event)) payload)
       (\<lambda>e. Wrapf ''produce to order.assembled topic error: '' e '''') ok)"

definition assemble :: "'w assembly_deps \<Rightarrow> int64 \<Rightarrow> asm_paid_order \<Rightarrow> ('w, kerr, unit) prog" where
  "assemble A delay event w =
     (case asm_Now A w of (w1, start) \<Rightarrow>
      case asm_wait A delay w1 of
        (w2, Some err) \<Rightarrow> (w2, Err err)
      | (w2, None) \<Rightarrow>
          (case asm_Now A w2 of (w3, now) \<Rightarrow> sendAssembledShip A event (time_Sub now start) w3))"

definition paidOrderHandler :: "'w assembly_deps \<Rightarrow> int64 \<Rightarrow> ('w, kerr) message_handler" where
  "paidOrderHandler A delay msg =
     call (lift (asm_PaidOrderToModel (asm_proto A) (asm_uuids A) (km_Value msg)))
       (\<lambda>e. Wrapf ''converter paid_order_to_model error: '' e '''') (assemble A delay)"

section \<open>Lemmas\<close>

text \<open>The published build time is the elapsed time in whole seconds.\<close>

lemma build_secs:
  assumes "0 \<le> sint d"
  shows "sint (go_quot (duration_Milliseconds d) 1000) = sint d div 1000000000"
proof -
  have "sint (duration_Milliseconds d) = sint d div 1000000"
    using go_quot_pos [of d 1000000] assms by (simp add: duration_Milliseconds_def)
  moreover from this have "0 \<le> sint (duration_Milliseconds d)"
    using assms by (simp add: pos_imp_zdiv_nonneg_iff)
  ultimately show ?thesis
    using go_quot_pos [of "duration_Milliseconds d" 1000] by (simp add: div_mult2_eq' zdiv_zmult2_eq)
qed

lemma time_Sub_exact: "0 \<le> t - u \<Longrightarrow> t - u < 2 ^ 63 \<Longrightarrow> sint (time_Sub t u) = t - u"
  by (simp add: time_Sub_def signed_take_bit_int_eq_self sint_sbintrunc' min_def max_def)

lemma time_Sub_ge:
  assumes "0 \<le> k" and "k \<le> t - u" and "k < 2 ^ 63"
  shows "k \<le> sint (time_Sub t u)"
proof (cases "t - u < 2 ^ 63")
  case True
  with assms show ?thesis by (simp add: time_Sub_exact)
next
  case False
  then have "max (- (2 ^ 63)) (min (2 ^ 63 - 1) (t - u)) = (2 ^ 63 - 1 :: int)" by simp
  then have "sint (time_Sub t u) = 2 ^ 63 - 1"
    unfolding time_Sub_def by (simp add: signed_take_bit_int_eq_self sint_sbintrunc')
  with assms show ?thesis by simp
qed

text \<open>The record that the order service publishes decodes to the order's identifiers.\<close>

lemma asm_decodes:
  assumes "uuid_codec U" and "Unmarshal_paid P data = Ok \<lparr>por_EventUuid = uuid_String U e,
      por_OrderUuid = uuid_String U i, por_UserUuid = uuid_String U u, por_PayMethod = m,
      por_TransactionUuid = uuid_String U t\<rparr>"
  shows "asm_PaidOrderToModel P U data = Ok \<lparr>apo_EventID = e, apo_OrderID = i, apo_UserID = u,
    apo_PaymentMethod = m, apo_TransactionID = t\<rparr>"
  using assms(2) by (simp add: asm_PaidOrderToModel_def uuid_codec.must_parse_string [OF assms(1)])

section \<open>What the handler does\<close>

text \<open>
  The environment: a clock that does not run backwards, a timer that fires no earlier than asked,
  and a producer that appends to the log \<open>sent\<close> of keys and values when it reports no error.
\<close>

locale assembly_env =
  fixes A :: "'w assembly_deps"
    and now :: "'w \<Rightarrow> gotime"
    and sent :: "'w \<Rightarrow> (bytes \<times> bytes) list"
  assumes clock: "asm_Now A w = (w', t) \<Longrightarrow> now w \<le> t \<and> t \<le> now w' \<and> sent w' = sent w"
    and timer: "asm_wait A d w = (w', r) \<Longrightarrow> sent w' = sent w \<and> now w \<le> now w' \<and>
      (r = None \<longrightarrow> now w + sint d \<le> now w')"
    and send_ok: "asm_Send A k b w = (w', Ok ()) \<Longrightarrow> sent w' = sent w @ [(k, b)]"
    and send_err: "asm_Send A k b w = (w', Err e) \<Longrightarrow> sent w' = sent w"
    and send_no_panic: "asm_Send A k b w \<noteq> (w', Panic p)"
    and uuids_ok: "uuid_codec (asm_uuids A)"
    and proto_ok: "proto_codec (asm_proto A)"
begin

lemma ship_sent:
  assumes "sendAssembledShip A event d w = (w', Ok ())"
  shows "\<exists>b. sent w' = sent w @ [(uuid_bytes (apo_OrderID event), b)] \<and>
    Unmarshal_ship (asm_proto A) b = Ok
      \<lparr>asr_EventUuid = uuid_String (asm_uuids A) (apo_EventID event),
       asr_OrderUuid = uuid_String (asm_uuids A) (apo_OrderID event),
       asr_UserUuid = uuid_String (asm_uuids A) (apo_UserID event),
       asr_BuildTimeSec = go_quot (duration_Milliseconds d) 1000\<rparr>"
  using assms
  by (auto simp: sendAssembledShip_def AssembledShipToPayload_def go_elims split: outcome.splits
      dest!: send_ok dest: proto_codec.ship_roundtrip [OF proto_ok])

text \<open>A message that was handled without an error published one ship, built for at least the delay.\<close>

lemma handled:
  assumes run: "paidOrderHandler A delay msg w = (w', Ok ())" and delay: "0 \<le> sint delay"
  shows "\<exists>event secs b.
    asm_PaidOrderToModel (asm_proto A) (asm_uuids A) (km_Value msg) = Ok event \<and>
    sent w' = sent w @ [(uuid_bytes (apo_OrderID event), b)] \<and>
    Unmarshal_ship (asm_proto A) b = Ok
      \<lparr>asr_EventUuid = uuid_String (asm_uuids A) (apo_EventID event),
       asr_OrderUuid = uuid_String (asm_uuids A) (apo_OrderID event),
       asr_UserUuid = uuid_String (asm_uuids A) (apo_UserID event),
       asr_BuildTimeSec = secs\<rparr> \<and> sint delay div 1000000000 \<le> sint secs"
proof -
  from run obtain event where ev: "asm_PaidOrderToModel (asm_proto A) (asm_uuids A) (km_Value msg) = Ok event"
    and body: "assemble A delay event w = (w', Ok ())"
    by (auto simp: paidOrderHandler_def go_elims)
  obtain w1 start where s: "asm_Now A w = (w1, start)" by fastforce
  from body s obtain w2 where wt: "asm_wait A delay w1 = (w2, None)"
    by (auto simp: assemble_def split: prod.splits option.splits)
  obtain w3 fin where f: "asm_Now A w2 = (w3, fin)" by fastforce
  from body s wt f have ship: "sendAssembledShip A event (time_Sub fin start) w3 = (w', Ok ())"
    by (simp add: assemble_def)
  have "start + sint delay \<le> fin" using clock [OF s] timer [OF wt] clock [OF f] by simp
  then have ge: "sint delay \<le> sint (time_Sub fin start)"
    using delay sint_int64_range(2) [of delay] by (intro time_Sub_ge) auto
  then have "sint delay div 1000000000 \<le> sint (go_quot (duration_Milliseconds (time_Sub fin start)) 1000)"
    using delay by (simp add: build_secs zdiv_mono1)
  moreover have "sent w3 = sent w" using clock [OF s] timer [OF wt] clock [OF f] by simp
  ultimately show ?thesis using ev ship_sent [OF ship] by metis
qed

text \<open>Whatever else happens, nothing is published: not on a cancelled wait, a decoding error or a panic.\<close>

lemma not_handled:
  assumes "paidOrderHandler A delay msg w = (w', r)" and "r \<noteq> Ok ()"
  shows "sent w' = sent w"
proof -
  have send: "sent w2 = sent w1" if "sendAssembledShip A event d w1 = (w2, q)" "q \<noteq> Ok ()" for event d w1 w2 q
    using that by (auto simp: sendAssembledShip_def call_iff send_no_panic dest: send_err)
  have "sent w2 = sent w1" if run: "assemble A delay event w1 = (w2, q)" "q \<noteq> Ok ()" for event w1 w2 q
  proof -
    obtain v1 start where s: "asm_Now A w1 = (v1, start)" by fastforce
    obtain v2 o1 where wt: "asm_wait A delay v1 = (v2, o1)" by fastforce
    obtain v3 fin where f: "asm_Now A v2 = (v3, fin)" by fastforce
    from run s wt f clock [OF s] timer [OF wt] clock [OF f] show ?thesis
      by (auto simp: assemble_def split: option.splits dest: send)
  qed
  with assms show ?thesis by (auto simp: paidOrderHandler_def call_iff)
qed

end

end
