(* ===== verification/Notification.thy ===== *)
theory Notification
  imports Kafka Proto Uuid_Lib
begin

text \<open>
  The notification service: the Kafka converter (\<open>notification/internal/converter/kafka\<close>), the
  message texts (\<open>converter/telegram\<close> with its two templates), the Telegram service with its set of
  chats (\<open>service/telegram/service.go\<close>), the handler of \<open>/start\<close> (\<open>app/app.go\<close>) and the two consumers
  (\<open>service/consumer\<close>). The bot is not part of the repository and is a parameter. \<open>{{.BuildTime}}\<close>
  prints a \<open>time.Duration\<close>, so its \<open>String\<close> method is modelled too.
\<close>

section \<open>Model\<close>

record ntf_ship =
  nsh_EventID :: uuid
  nsh_OrderID :: uuid
  nsh_UserID :: uuid
  nsh_BuildTime :: int64

record ntf_paid =
  npo_EventID :: uuid
  npo_OrderID :: uuid
  npo_UserID :: uuid
  npo_PaymentMethod :: string
  npo_TransactionID :: uuid

record ship_notification =
  shn_OrderID :: string
  shn_UserID :: string
  shn_BuildTime :: int64

record paid_notification =
  pdn_OrderID :: string
  pdn_UserID :: string
  pdn_PaymentMethod :: string
  pdn_TransactionID :: string

section \<open>Kafka converter\<close>

definition ntf_AssembledShipToModel :: "proto_lib \<Rightarrow> uuid_lib \<Rightarrow> bytes \<Rightarrow> (kerr, ntf_ship) outcome" where
  "ntf_AssembledShipToModel P U data =
     (case Unmarshal_ship P data of
        Err e \<Rightarrow> Err (Wrapf ''failed to unmarshal protobuf: '' (ErrText e) '''')
      | Panic p \<Rightarrow> Panic p
      | Ok pb \<Rightarrow>
          bind_out (uuid_MustParse U (asr_EventUuid pb)) (\<lambda>event.
          bind_out (uuid_MustParse U (asr_OrderUuid pb)) (\<lambda>ordr.
          bind_out (uuid_MustParse U (asr_UserUuid pb)) (\<lambda>user.
          Ok \<lparr>nsh_EventID = event, nsh_OrderID = ordr, nsh_UserID = user,
              nsh_BuildTime = asr_BuildTimeSec pb\<rparr>))))"

definition ntf_PaidOrderToModel :: "proto_lib \<Rightarrow> uuid_lib \<Rightarrow> bytes \<Rightarrow> (kerr, ntf_paid) outcome" where
  "ntf_PaidOrderToModel P U data =
     (case Unmarshal_paid P data of
        Err e \<Rightarrow> Err (Wrapf ''failed to unmarshal protobuf: '' (ErrText e) '''')
      | Panic p \<Rightarrow> Panic p
      | Ok pb \<Rightarrow>
          bind_out (uuid_MustParse U (por_EventUuid pb)) (\<lambda>event.
          bind_out (uuid_MustParse U (por_OrderUuid pb)) (\<lambda>ordr.
          bind_out (uuid_MustParse U (por_UserUuid pb)) (\<lambda>user.
          bind_out (uuid_MustParse U (por_TransactionUuid pb)) (\<lambda>tx.
          Ok \<lparr>npo_EventID = event, npo_OrderID = ordr, npo_UserID = user,
              npo_PaymentMethod = por_PayMethod pb, npo_TransactionID = tx\<rparr>)))))"

section \<open>Durations as text\<close>

text \<open>
  \<open>fmtFrac\<close>: the last \<open>prec\<close> decimal digits of \<open>v\<close> without trailing zeros, after a point; nothing
  when they are all zero.
\<close>

definition fmt_frac :: "nat \<Rightarrow> nat \<Rightarrow> string" where
  "fmt_frac v prec =
     (let ds = rev (dropWhile (\<lambda>c. c = CHR ''0'') (rev (zero_pad prec (show_nat (v mod 10 ^ prec))))) in
      if prec = 0 \<or> ds = '''' then '''' else CHR ''.'' # ds)"

text \<open>\<open>Duration.String\<close>; the micro sign is two UTF-8 bytes.\<close>

definition micro_sign :: string where
  "micro_sign = map char_of [194::nat, 181]"

definition Duration_abs_String :: "nat \<Rightarrow> string" where
  "Duration_abs_String u =
     (if u = 0 then ''0s''
      else if u < 1000 then show_nat u @ ''ns''
      else if u < 1000000 then show_nat (u div 1000) @ fmt_frac u 3 @ micro_sign @ ''s''
      else if u < 1000000000 then show_nat (u div 1000000) @ fmt_frac u 6 @ ''ms''
      else
        let s = u div 1000000000; m = s div 60; h = m div 60;
            secs = show_nat (s mod 60) @ fmt_frac u 9 @ ''s'' in
        if m = 0 then secs
        else if h = 0 then show_nat (m mod 60) @ ''m'' @ secs
        else show_nat h @ ''h'' @ show_nat (m mod 60) @ ''m'' @ secs)"

definition Duration_String :: "int64 \<Rightarrow> string" where
  "Duration_String d =
     (if sint d < 0 then ''-'' @ Duration_abs_String (nat (- sint d)) else Duration_abs_String (nat (sint d)))"

section \<open>Message texts\<close>

text \<open>
  The literal parts of \<open>templates/order_paid.tmpl\<close> and \<open>templates/ship_assembled.tmpl\<close>, the UTF-8
  bytes between the fields \<open>OrderID\<close>, \<open>UserID\<close>, \<open>PaymentMethod\<close>, \<open>TransactionID\<close> and
  \<open>OrderID\<close>, \<open>UserID\<close>, \<open>BuildTime\<close>. Executing a template cannot fail: every field exists and a
  \<open>bytes.Buffer\<close> accepts every write.
\<close>

definition order_paid_tmpl :: "string list" where
  "order_paid_tmpl = [
     map char_of
     [240::nat, 159, 146, 179, 32, 42, 42, 208, 151, 208, 144, 208, 154, 208, 144, 208, 151, 32,
      208, 158, 208, 159, 208, 155, 208, 144, 208, 167, 208, 149, 208, 157, 33, 42, 42, 10, 10,
      240, 159, 167, 190, 32, 42, 42, 208, 161, 208, 190, 208, 177, 209, 139, 209, 130, 208, 184,
      208, 181, 58, 42, 42, 32, 208, 158, 208, 191, 208, 187, 208, 176, 209, 130, 208, 176, 32,
      208, 191, 208, 190, 208, 180, 209, 130, 208, 178, 208, 181, 209, 128, 208, 182, 208, 180,
      208, 181, 208, 189, 208, 176, 32, 32, 10, 240, 159, 147, 166, 32, 42, 42, 79, 114, 100,
      101, 114, 32, 73, 68, 58, 42, 42, 32],
     map char_of
     [10::nat, 240, 159, 145, 164, 32, 42, 42, 85, 115, 101, 114, 32, 73, 68, 58, 42, 42, 32],
     map char_of
     [10::nat, 10, 240, 159, 143, 166, 32, 42, 42, 208, 161, 208, 191, 208, 190, 209, 129, 208,
      190, 208, 177, 32, 208, 190, 208, 191, 208, 187, 208, 176, 209, 130, 209, 139, 58, 42, 42,
      32],
     map char_of
     [10::nat, 240, 159, 148, 129, 32, 42, 42, 84, 114, 97, 110, 115, 97, 99, 116, 105, 111, 110,
      32, 73, 68, 58, 42, 42, 32],
     map char_of
     [10::nat, 10, 240, 159, 159, 162, 32, 42, 42, 208, 161, 209, 130, 208, 176, 209, 130, 209,
      131, 209, 129, 58, 42, 42, 32, 208, 159, 208, 187, 208, 176, 209, 130, 209, 145, 208, 182,
      32, 208, 191, 209, 128, 208, 184, 208, 189, 209, 143, 209, 130, 44, 32, 208, 183, 208, 176,
      208, 186, 208, 176, 208, 183, 32, 208, 191, 208, 181, 209, 128, 208, 181, 208, 178, 208,
      181, 208, 180, 209, 145, 208, 189, 32, 208, 178, 32, 209, 128, 208, 176, 208, 177, 208,
      190, 209, 130, 209, 131, 46]]"

definition ship_assembled_tmpl :: "string list" where
  "ship_assembled_tmpl = [
     map char_of
     [240::nat, 159, 154, 128, 32, 42, 42, 208, 154, 208, 158, 208, 160, 208, 144, 208, 145, 208,
      155, 208, 172, 32, 208, 161, 208, 158, 208, 145, 208, 160, 208, 144, 208, 157, 32, 208,
      152, 32, 208, 147, 208, 158, 208, 162, 208, 158, 208, 146, 32, 208, 154, 32, 208, 161, 208,
      162, 208, 144, 208, 160, 208, 162, 208, 163, 33, 42, 42, 10, 10, 240, 159, 167, 190, 32,
      42, 42, 208, 161, 208, 190, 208, 177, 209, 139, 209, 130, 208, 184, 208, 181, 58, 42, 42,
      32, 208, 161, 208, 177, 208, 190, 209, 128, 208, 186, 208, 176, 32, 208, 183, 208, 176,
      208, 178, 208, 181, 209, 128, 209, 136, 208, 181, 208, 189, 208, 176, 32, 32, 10, 240, 159,
      147, 166, 32, 42, 42, 79, 114, 100, 101, 114, 32, 73, 68, 58, 42, 42, 32],
     map char_of
     [10::nat, 240, 159, 145, 164, 32, 42, 42, 85, 115, 101, 114, 32, 73, 68, 58, 42, 42, 32],
     map char_of
     [10::nat, 10, 226, 143, 177, 239, 184, 143, 32, 42, 42, 208, 146, 209, 128, 208, 181, 208,
      188, 209, 143, 32, 209, 129, 208, 177, 208, 190, 209, 128, 208, 186, 208, 184, 58, 42, 42,
      32],
     map char_of
     [10::nat, 10, 226, 156, 133, 32, 42, 42, 208, 161, 209, 130, 208, 176, 209, 130, 209, 131,
      209, 129, 58, 42, 42, 32, 208, 146, 209, 129, 208, 181, 32, 209, 129, 208, 184, 209, 129,
      209, 130, 208, 181, 208, 188, 209, 139, 32, 208, 191, 209, 128, 208, 190, 209, 136, 208,
      187, 208, 184, 32, 208, 191, 208, 181, 209, 128, 208, 178, 208, 184, 209, 135, 208, 189,
      209, 131, 209, 142, 32, 208, 191, 209, 128, 208, 190, 208, 178, 208, 181, 209, 128, 208,
      186, 209, 131, 44, 32, 208, 186, 208, 190, 209, 128, 208, 176, 208, 177, 208, 187, 209,
      140, 32, 208, 191, 208, 181, 209, 128, 208, 181, 208, 180, 208, 176, 208, 189, 32, 208,
      178, 32, 208, 176, 208, 189, 208, 179, 208, 176, 209, 128, 32, 208, 191, 208, 190, 208,
      180, 208, 179, 208, 190, 209, 130, 208, 190, 208, 178, 208, 186, 208, 184, 46]]"

text \<open>The texts around the fields alternate with the fields.\<close>

fun execute_template :: "string list \<Rightarrow> string list \<Rightarrow> string" where
  "execute_template (t # ts) (f # fs) = t @ f @ execute_template ts fs"
| "execute_template ts fs = concat ts"

definition BuildPaidOrder :: "uuid_lib \<Rightarrow> ntf_paid \<Rightarrow> (kerr, string) outcome" where
  "BuildPaidOrder U event =
     (let n = \<lparr>pdn_OrderID = uuid_String U (npo_OrderID event), pdn_UserID = uuid_String U (npo_UserID event),
               pdn_PaymentMethod = npo_PaymentMethod event,
               pdn_TransactionID = uuid_String U (npo_TransactionID event)\<rparr> in
      Ok (execute_template order_paid_tmpl
            [pdn_OrderID n, pdn_UserID n, pdn_PaymentMethod n, pdn_TransactionID n]))"

definition BuildShipAssembled :: "uuid_lib \<Rightarrow> ntf_ship \<Rightarrow> (kerr, string) outcome" where
  "BuildShipAssembled U event =
     (let n = \<lparr>shn_OrderID = uuid_String U (nsh_OrderID event), shn_UserID = uuid_String U (nsh_UserID event),
               shn_BuildTime = nsh_BuildTime event\<rparr> in
      Ok (execute_template ship_assembled_tmpl
            [shn_OrderID n, shn_UserID n, Duration_String (shn_BuildTime n)]))"

section \<open>The Telegram service\<close>

text \<open>
  \<open>storage\<close> is the set of chats that sent \<open>/start\<close>, a map that Go iterates in any order: \<open>range\<close>
  gives that order and may depend on the world. The read-write lock makes an iteration and an
  insertion atomic with respect to each other, so each is one step here.
\<close>

record 'w telegram =
  tg_SendMessage :: "int64 \<Rightarrow> string \<Rightarrow> ('w, kerr, unit) prog" \<comment> \<open>\<open>client.SendMessage\<close>\<close>
  tg_storage :: "'w \<Rightarrow> int64 set"
  tg_add :: "int64 \<Rightarrow> 'w \<Rightarrow> 'w" \<comment> \<open>\<open>storage[chatID] = struct{}{}\<close>\<close>
  tg_range :: "'w \<Rightarrow> int64 list"
  tg_uuids :: uuid_lib

fun notify_loop :: "(int64 \<Rightarrow> string \<Rightarrow> ('w, kerr, unit) prog) \<Rightarrow> string \<Rightarrow> int64 list \<Rightarrow> ('w, kerr, unit) prog" where
  "notify_loop send msg [] w = (w, Ok ())"
| "notify_loop send msg (c # cs) w =
     (case send c msg w of
        (w1, Ok _) \<Rightarrow> notify_loop send msg cs w1
      | (w1, Err e) \<Rightarrow> (w1, Err e)
      | (w1, Panic p) \<Rightarrow> (w1, Panic p))"

definition NotifyShipAssembled :: "'w telegram \<Rightarrow> ntf_ship \<Rightarrow> ('w, kerr, unit) prog" where
  "NotifyShipAssembled svc event =
     call (lift (BuildShipAssembled (tg_uuids svc) event)) id (\<lambda>msg w.
       notify_loop (tg_SendMessage svc) msg (tg_range svc w) w)"

definition NotifyPaidOrder :: "'w telegram \<Rightarrow> ntf_paid \<Rightarrow> ('w, kerr, unit) prog" where
  "NotifyPaidOrder svc event =
     call (lift (BuildPaidOrder (tg_uuids svc) event)) id (\<lambda>msg w.
       notify_loop (tg_SendMessage svc) msg (tg_range svc w) w)"

definition AddChatID :: "'w telegram \<Rightarrow> int64 \<Rightarrow> 'w \<Rightarrow> 'w" where
  "AddChatID svc chatID w = tg_add svc chatID w"

section \<open>The bot\<close>

text \<open>
  The greeting of \<open>initTelegramBot\<close> (\<open>notification/internal/app/app.go\<close>), as UTF-8 bytes, and the handler
  that the bot runs for a message whose text is exactly \<open>/start\<close>. A failed greeting is only logged; the
  log line reads the sender, which Telegram may leave out.
\<close>

definition startMsg :: string where
  "startMsg = map char_of [
     10::nat, 9, 240, 159, 145, 139, 32, 42, 42, 208, 159, 209, 128, 208, 184, 208, 178, 208,
     181, 209, 130, 33, 32, 208, 175, 32, 208, 177, 208, 190, 209, 130, 32, 209, 131, 208,
     178, 208, 181, 208, 180, 208, 190, 208, 188, 208, 187, 208, 181, 208, 189, 208, 184,
     208, 185, 32, 65, 115, 116, 114, 97, 68, 111, 99, 107, 46, 42, 42, 10, 9, 10, 9, 208,
     175, 32, 208, 191, 209, 128, 208, 184, 209, 129, 209, 139, 208, 187, 208, 176, 209, 142,
     32, 208, 178, 208, 176, 208, 182, 208, 189, 209, 139, 208, 181, 32, 209, 129, 208, 190,
     208, 177, 209, 139, 209, 130, 208, 184, 209, 143, 32, 208, 191, 208, 190, 32, 209, 130,
     208, 178, 208, 190, 208, 184, 208, 188, 32, 208, 183, 208, 176, 208, 186, 208, 176, 208,
     183, 208, 176, 208, 188, 58, 10, 9, 240, 159, 154, 128, 32, 209, 129, 208, 177, 208,
     190, 209, 128, 208, 186, 208, 176, 32, 208, 186, 208, 190, 209, 128, 208, 176, 208, 177,
     208, 187, 209, 143, 32, 208, 183, 208, 176, 208, 178, 208, 181, 209, 128, 209, 136, 208,
     181, 208, 189, 208, 176, 32, 32, 10, 9, 240, 159, 146, 179, 32, 208, 183, 208, 176, 208,
     186, 208, 176, 208, 183, 32, 209, 131, 209, 129, 208, 191, 208, 181, 209, 136, 208, 189,
     208, 190, 32, 208, 190, 208, 191, 208, 187, 208, 176, 209, 135, 208, 181, 208, 189, 32,
     32, 10, 9, 10, 9, 208, 167, 209, 130, 208, 190, 208, 177, 209, 139, 32, 208, 189, 208,
     176, 209, 135, 208, 176, 209, 130, 209, 140, 44, 32, 208, 191, 209, 128, 208, 190, 209,
     129, 209, 130, 208, 190, 32, 208, 190, 209, 132, 208, 190, 209, 128, 208, 188, 208, 184,
     32, 208, 183, 208, 176, 208, 186, 208, 176, 208, 183, 32, 208, 178, 32, 209, 129, 208,
     181, 209, 128, 208, 178, 208, 184, 209, 129, 208, 181, 32, 226, 128, 148, 32, 208, 176,
     32, 208, 180, 208, 176, 208, 187, 209, 140, 209, 136, 208, 181, 32, 209, 143, 32, 208,
     177, 209, 131, 208, 180, 209, 131, 32, 208, 180, 208, 181, 209, 128, 208, 182, 208, 176,
     209, 130, 209, 140, 32, 209, 130, 208, 181, 208, 177, 209, 143, 32, 208, 178, 32, 208,
     186, 209, 131, 209, 128, 209, 129, 208, 181, 46, 32, 32, 10, 9, 208, 149, 209, 129, 208,
     187, 208, 184, 32, 209, 131, 208, 178, 208, 181, 208, 180, 208, 190, 208, 188, 208, 187,
     208, 181, 208, 189, 208, 184, 209, 143, 32, 208, 191, 209, 128, 208, 184, 209, 133, 208,
     190, 208, 180, 209, 143, 209, 130, 32, 208, 189, 208, 181, 32, 209, 130, 209, 131, 208,
     180, 208, 176, 32, 226, 128, 148, 32, 208, 191, 209, 128, 208, 190, 208, 178, 208, 181,
     209, 128, 209, 140, 44, 32, 209, 135, 209, 130, 208, 190, 32, 209, 130, 209, 139, 32,
     208, 178, 208, 190, 209, 136, 209, 145, 208, 187, 32, 208, 191, 208, 190, 208, 180, 32,
     208, 189, 209, 131, 208, 182, 208, 189, 209, 139, 208, 188, 32, 208, 176, 208, 186, 208,
     186, 208, 176, 209, 131, 208, 189, 209, 130, 208, 190, 208, 188, 46, 10, 9]"

record tg_message =
  tm_From :: "string option" \<comment> \<open>the user name of the sender\<close>
  tm_ChatID :: int64
  tm_Text :: string

definition start_handler :: "'w telegram \<Rightarrow> tg_message \<Rightarrow> ('w, kerr, unit) prog" where
  "start_handler svc m w =
     (case tm_From m of
        None \<Rightarrow> (w, Panic nil_deref)
      | Some username \<Rightarrow>
          (case tg_SendMessage svc (tm_ChatID m) startMsg w of
             (w1, Panic p) \<Rightarrow> (w1, Panic p)
           | (w1, _) \<Rightarrow> (AddChatID svc (tm_ChatID m) w1, Ok ())))"

text \<open>\<open>RegisterHandler(HandlerTypeMessageText, "/start", MatchTypeExact, ...)\<close>\<close>

definition bot_update :: "'w telegram \<Rightarrow> tg_message \<Rightarrow> ('w, kerr, unit) prog" where
  "bot_update svc m = (if tm_Text m = ''/start'' then start_handler svc m else ok ())"

section \<open>Consumers\<close>

definition shipHandler :: "proto_lib \<Rightarrow> 'w telegram \<Rightarrow> ('w, kerr) message_handler" where
  "shipHandler P svc msg =
     call (lift (ntf_AssembledShipToModel P (tg_uuids svc) (km_Value msg)))
       (\<lambda>e. Wrapf ''converter assembled_ship_to_model error: '' e '''') (NotifyShipAssembled svc)"

definition paidHandler :: "proto_lib \<Rightarrow> 'w telegram \<Rightarrow> ('w, kerr) message_handler" where
  "paidHandler P svc msg =
     call (lift (ntf_PaidOrderToModel P (tg_uuids svc) (km_Value msg)))
       (\<lambda>e. Wrapf ''converter paid_order_to_model error: '' e '''') (NotifyPaidOrder svc)"

section \<open>Lemmas\<close>

lemma ntf_ship_decodes:
  assumes "uuid_codec U" and "Unmarshal_ship P data = Ok \<lparr>asr_EventUuid = uuid_String U e,
      asr_OrderUuid = uuid_String U i, asr_UserUuid = uuid_String U u, asr_BuildTimeSec = s\<rparr>"
  shows "ntf_AssembledShipToModel P U data =
    Ok \<lparr>nsh_EventID = e, nsh_OrderID = i, nsh_UserID = u, nsh_BuildTime = s\<rparr>"
  using assms(2) by (simp add: ntf_AssembledShipToModel_def uuid_codec.must_parse_string [OF assms(1)])

lemma ntf_paid_decodes:
  assumes "uuid_codec U" and "Unmarshal_paid P data = Ok \<lparr>por_EventUuid = uuid_String U e,
      por_OrderUuid = uuid_String U i, por_UserUuid = uuid_String U u, por_PayMethod = m,
      por_TransactionUuid = uuid_String U t\<rparr>"
  shows "ntf_PaidOrderToModel P U data = Ok \<lparr>npo_EventID = e, npo_OrderID = i, npo_UserID = u,
    npo_PaymentMethod = m, npo_TransactionID = t\<rparr>"
  using assms(2) by (simp add: ntf_PaidOrderToModel_def uuid_codec.must_parse_string [OF assms(1)])

text \<open>
  The environment: the storage is a set that \<open>AddChatID\<close> extends, an iteration visits each chat
  once, and a message that was sent without an error is the last entry of the log.
\<close>

locale telegram_env =
  fixes svc :: "'w telegram" and delivered :: "'w \<Rightarrow> (int64 \<times> string) list"
  assumes range_all: "distinct (tg_range svc w) \<and> set (tg_range svc w) = tg_storage svc w"
    and added: "tg_storage svc (tg_add svc c w) = insert c (tg_storage svc w) \<and>
      delivered (tg_add svc c w) = delivered w"
    and sent_ok: "tg_SendMessage svc c t w = (w', Ok ()) \<Longrightarrow> delivered w' = delivered w @ [(c, t)]"
    and sent_err: "tg_SendMessage svc c t w = (w', Err e) \<Longrightarrow> delivered w' = delivered w"
    and sent_no_panic: "tg_SendMessage svc c t w \<noteq> (w', Panic p)"
    and sent_storage: "tg_SendMessage svc c t w = (w', r) \<Longrightarrow> tg_storage svc w' = tg_storage svc w"
begin

text \<open>Whatever becomes of the greeting, the chat is registered.\<close>

lemma started:
  assumes "tm_Text m = ''/start''" "tm_From m \<noteq> None"
  shows "\<exists>w1 sent. bot_update svc m w = (w1, Ok ()) \<and> tg_storage svc w1 = insert (tm_ChatID m) (tg_storage svc w) \<and>
    sent \<in> {[], [(tm_ChatID m, startMsg)]} \<and> delivered w1 = delivered w @ sent"
proof -
  obtain w0 r where run: "tg_SendMessage svc (tm_ChatID m) startMsg w = (w0, r)" by fastforce
  show ?thesis
  proof (cases r)
    case (Ok u)
    with run assms added sent_storage [OF run] sent_ok [of "tm_ChatID m" startMsg w w0] show ?thesis
      by (auto simp: bot_update_def start_handler_def AddChatID_def)
  next
    case (Err e)
    with run assms added sent_storage [OF run] sent_err [of "tm_ChatID m" startMsg w w0] show ?thesis
      by (auto simp: bot_update_def start_handler_def AddChatID_def)
  qed (use run sent_no_panic in auto)
qed

lemma loop_ok:
  "notify_loop (tg_SendMessage svc) msg cs w = (w', Ok ()) \<Longrightarrow>
    delivered w' = delivered w @ map (\<lambda>c. (c, msg)) cs"
proof (induction cs arbitrary: w)
  case (Cons c cs)
  then show ?case
    by (cases "tg_SendMessage svc c msg w"; cases "snd (tg_SendMessage svc c msg w)")
      (auto dest!: sent_ok)
qed simp

text \<open>An error stops the loop: the chats before it have their message, the others have not.\<close>

lemma loop_err:
  "notify_loop (tg_SendMessage svc) msg cs w = (w', Err e) \<Longrightarrow>
    \<exists>done c rest. cs = done @ c # rest \<and> delivered w' = delivered w @ map (\<lambda>c. (c, msg)) done"
proof (induction cs arbitrary: w)
  case (Cons c cs)
  obtain w1 r where run: "tg_SendMessage svc c msg w = (w1, r)" by fastforce
  show ?case
  proof (cases r)
    case (Ok u)
    with Cons.prems run have "notify_loop (tg_SendMessage svc) msg cs w1 = (w', Err e)" by simp
    from Cons.IH [OF this] obtain dn c' rest where
      "cs = dn @ c' # rest" "delivered w' = delivered w1 @ map (\<lambda>c. (c, msg)) dn" by blast
    with Ok run show ?thesis
      by (intro exI [of _ "c # dn"]) (auto dest!: sent_ok)
  next
    case (Err e')
    with Cons.prems run show ?thesis
      by (intro exI [of _ "[]"]) (auto dest: sent_err)
  qed (use run sent_no_panic in auto)
qed simp

lemma notify_paid:
  assumes "NotifyPaidOrder svc event w = (w', Ok ())"
  shows "\<exists>text order. BuildPaidOrder (tg_uuids svc) event = Ok text \<and>
    distinct order \<and> set order = tg_storage svc w \<and>
    delivered w' = delivered w @ map (\<lambda>c. (c, text)) order"
  using assms range_all [of w] by (auto simp: NotifyPaidOrder_def go_elims dest!: loop_ok)

lemma notify_ship:
  assumes "NotifyShipAssembled svc event w = (w', Ok ())"
  shows "\<exists>text order. BuildShipAssembled (tg_uuids svc) event = Ok text \<and>
    distinct order \<and> set order = tg_storage svc w \<and>
    delivered w' = delivered w @ map (\<lambda>c. (c, text)) order"
  using assms range_all [of w] by (auto simp: NotifyShipAssembled_def go_elims dest!: loop_ok)

end

end
