(* ===== verification/System.thy ===== *)
theory System
  imports Order_Http Order_Events Order_Clients Order_Concurrency Inventory_Service Payment Assembly Notification
begin

text \<open>
  The services together. A remote call runs the handler of the other service and turns its status
  into an error of the caller; the two Kafka topics are logs that the producers append to. The
  wiring of the services (\<open>internal/app/di.go\<close>) is a group of definitions over their dependencies,
  and the record \<open>system\<close> is one world in which all of them run: the orders table, the parts
  collection, the topics, the clock and the chats. On it every contract is interpreted.
\<close>

section \<open>A component inside a larger world\<close>

definition zoom :: "('s \<Rightarrow> 'w) \<Rightarrow> ('w \<Rightarrow> 's \<Rightarrow> 's) \<Rightarrow> ('w, 'e, 'a) prog \<Rightarrow> ('s, 'e, 'a) prog" where
  "zoom get put m s = (case m (get s) of (w, r) \<Rightarrow> (put w s, r))"

lemma zoom_eq: "zoom get put m s = (s', r) \<longleftrightarrow> (\<exists>w. m (get s) = (w, r) \<and> s' = put w s)"
  by (auto simp: zoom_def split: prod.splits)

lemma keeps_zoom: "(\<And>w s. v (put w s) = v s) \<Longrightarrow> keeps v (zoom get put m)"
  by (rule keepsI) (auto simp: zoom_eq)

definition zoom_pg :: "('s \<Rightarrow> 'w) \<Rightarrow> ('w \<Rightarrow> 's \<Rightarrow> 's) \<Rightarrow> ('w, 'q) postgres \<Rightarrow> ('s, 'q) postgres" where
  "zoom_pg get put pg = \<lparr>ToSql = ToSql pg, QueryRow = (\<lambda>q. zoom get put (QueryRow pg q)),
     Exec = (\<lambda>q. zoom get put (Exec pg q))\<rparr>"

definition zoom_mongo :: "('s \<Rightarrow> 'w) \<Rightarrow> ('w \<Rightarrow> 's \<Rightarrow> 's) \<Rightarrow> 'w mongo_coll \<Rightarrow> 's mongo_coll" where
  "zoom_mongo get put m =
     \<lparr>FindOne = (\<lambda>q. zoom get put (FindOne m q)), Find = (\<lambda>q. zoom get put (Find m q)),
      InsertMany = (\<lambda>es. zoom get put (InsertMany m es)),
      time_Now = (\<lambda>s. case time_Now m (get s) of (w, t) \<Rightarrow> (put w s, t)), to_lower = to_lower m\<rparr>"

lemma orders_db_zoom:
  assumes db: "orders_db pg tbl" and lens: "\<And>w s. get (put w s) = w"
  shows "orders_db (zoom_pg get put pg) (\<lambda>s. tbl (get s))"
proof (unfold_locales, goal_cases)
  case (1 s p)
  show ?case by (simp add: zoom_pg_def orders_db.to_sql_no_panic [OF db])
next
  case (2 s e x)
  then show ?case using orders_db.to_sql_foreign [OF db] by (simp add: zoom_pg_def)
next
  case (3 q w w' e x)
  then show ?case using orders_db.query_foreign [OF db] by (fastforce simp: zoom_pg_def zoom_eq)
next
  case (4 q w w' p)
  show ?case using orders_db.query_no_panic [OF db] by (auto simp: zoom_pg_def zoom_eq)
next
  case (5 q w w' p)
  show ?case using orders_db.exec_no_panic [OF db] by (auto simp: zoom_pg_def zoom_eq)
next
  case (6 cols vals q w w' row)
  then obtain v where "QueryRow pg q (get w) = (v, Ok row)" "w' = put v w" by (auto simp: zoom_pg_def zoom_eq)
  with 6 orders_db.sql_insert [OF db, of cols vals q "get w" v row] show ?case by (simp add: zoom_pg_def lens)
next
  case (7 cols i q w w' row)
  then obtain v where "QueryRow pg q (get w) = (v, Ok row)" "w' = put v w" by (auto simp: zoom_pg_def zoom_eq)
  with 7 orders_db.sql_select [OF db, of cols i q "get w" v row] show ?case by (simp add: zoom_pg_def lens)
next
  case (8 cols i q w w' e)
  then obtain v where "QueryRow pg q (get w) = (v, Err e)" by (auto simp: zoom_pg_def zoom_eq)
  with 8 orders_db.select_no_rows [OF db, of cols i q "get w" v e] show ?case by (simp add: zoom_pg_def)
next
  case (9 q w w' e)
  then show ?case using orders_db.query_err [OF db] by (auto simp: zoom_pg_def zoom_eq lens)
next
  case (10 sets i q w w' n)
  then obtain v where "Exec pg q (get w) = (v, Ok n)" "w' = put v w" by (auto simp: zoom_pg_def zoom_eq)
  with 10 orders_db.sql_update [OF db, of sets i q "get w" v n] show ?case by (simp add: zoom_pg_def lens)
next
  case (11 q w w' e)
  then show ?case using orders_db.exec_err [OF db] by (auto simp: zoom_pg_def zoom_eq lens)
qed

lemma parts_coll_zoom:
  assumes coll: "parts_coll m docs stored" and lens: "\<And>w s. get (put w s) = w"
  shows "parts_coll (zoom_mongo get put m) (\<lambda>s. docs (get s)) stored"
proof (unfold_locales, goal_cases)
  case (1 q w w' ent)
  then show ?case using parts_coll.find_one_ok [OF coll] by (fastforce simp: zoom_mongo_def zoom_eq lens)
next
  case (2 q w w' e)
  then show ?case using parts_coll.find_one_err [OF coll] by (fastforce simp: zoom_mongo_def zoom_eq lens)
next
  case (3 q w w' e)
  then show ?case using parts_coll.find_one_none [OF coll] by (fastforce simp: zoom_mongo_def zoom_eq lens)
next
  case (4 q w w' e x)
  then show ?case using parts_coll.find_one_foreign [OF coll] by (fastforce simp: zoom_mongo_def zoom_eq lens)
next
  case (5 q w w' cur)
  then obtain v where "Find m q (get w) = (v, Ok cur)" "w' = put v w" by (auto simp: zoom_mongo_def zoom_eq)
  with parts_coll.find_ok [OF coll, of q "get w" v cur] show ?case by (simp add: zoom_mongo_def lens)
next
  case (6 q w w' e)
  then show ?case using parts_coll.find_err [OF coll] by (fastforce simp: zoom_mongo_def zoom_eq lens)
next
  case (7 q w w' e x)
  then show ?case using parts_coll.find_foreign [OF coll] by (fastforce simp: zoom_mongo_def zoom_eq lens)
next
  case (8 q w w' cur x)
  then show ?case using parts_coll.cursor_foreign [OF coll] by (fastforce simp: zoom_mongo_def zoom_eq lens)
next
  case (9 q w w' p)
  show ?case using parts_coll.no_panics [OF coll] by (fastforce simp: zoom_mongo_def zoom_eq lens)
next
  case (10 q w w' p)
  show ?case using parts_coll.no_panics [OF coll] by (fastforce simp: zoom_mongo_def zoom_eq lens)
next
  case (11 es w w' p)
  show ?case using parts_coll.no_panics [OF coll] by (fastforce simp: zoom_mongo_def zoom_eq lens)
next
  case (12 q w w' cur p)
  then show ?case using parts_coll.cursor_no_panic [OF coll] by (fastforce simp: zoom_mongo_def zoom_eq lens)
next
  case (13 es w w')
  then obtain v where "InsertMany m es (get w) = (v, Ok ())" "w' = put v w" by (auto simp: zoom_mongo_def zoom_eq)
  with parts_coll.insert_ok [OF coll, of es "get w" v] show ?case by (simp add: zoom_mongo_def lens)
next
  case (14 ent)
  show ?case using parts_coll.stored_id [OF coll] .
next
  case (15 ent)
  then show ?case using parts_coll.stored_ok [OF coll] by (simp add: zoom_mongo_def)
next
  case (16 w w' t)
  then show ?case using parts_coll.clock_frame [OF coll] by (auto simp: zoom_mongo_def lens split: prod.splits)
qed

section \<open>Remote calls\<close>

text \<open>
  What a gRPC stub of the order service returns: the response, the status as an error whose text is
  \<open>rpc error: code = ... desc = ...\<close>, or, when the server's process died in the handler, the
  \<open>Unavailable\<close> error of the broken connection.
\<close>

definition status_text :: "grpc_status \<Rightarrow> string" where
  "status_text st = ''rpc error: code = '' @ code_String (st_Code st) @ '' desc = '' @ st_Message st"

definition rpc :: "('req option \<Rightarrow> ('w, grpc_status, 'resp) prog) \<Rightarrow> 'req \<Rightarrow> ('w, oerr, 'resp) prog" where
  "rpc handler req w =
     (case handler (Some req) w of
        (w', Ok r) \<Rightarrow> (w', Ok r)
      | (w', Err st) \<Rightarrow> (w', Err (ErrText (status_text st)))
      | (w', Panic p) \<Rightarrow> (w', Err (ErrText ''rpc error: code = Unavailable desc = error reading from server: EOF'')))"

lemma rpc_Ok: "rpc h req w = (w', Ok r) \<longleftrightarrow> h (Some req) w = (w', Ok r)"
  by (auto simp: rpc_def split: prod.splits outcome.splits)

lemma keeps_rpc: "keeps v (h (Some req)) \<Longrightarrow> keeps v (rpc h req)"
  unfolding keeps_def rpc_def by (auto split: prod.splits outcome.splits) (metis fst_conv)+

section \<open>Wiring\<close>

text \<open>The order service over its database, the two remote services and the \<open>order.paid\<close> topic.\<close>

definition NewOrderService ::
  "('w, 'q) postgres \<Rightarrow> (list_parts_request \<Rightarrow> ('w, oerr, list_parts_response) prog) \<Rightarrow>
   (pay_order_pb_request \<Rightarrow> ('w, oerr, pay_order_pb_response) prog) \<Rightarrow>
   (string \<Rightarrow> bytes \<Rightarrow> bytes \<Rightarrow> ('w, oerr, int32 \<times> int64) prog) \<Rightarrow> ('w \<Rightarrow> 'w \<times> uuid) \<Rightarrow>
   uuid_lib \<Rightarrow> ts_lib \<Rightarrow> proto_lib \<Rightarrow> string \<Rightarrow> 'w order_deps" where
  "NewOrderService pg invc pay send newID U T P topic =
     \<lparr>repo_Create = pg_Create pg, repo_OrderByID = pg_OrderByID pg, repo_Update = pg_Update pg,
      inventory_ListParts = invclient_ListParts T invc,
      payment_PayOrder = pmtclient_PayOrder U pay,
      producer_SendOrderPaid = SendOrderPaid P U (producer_Send send topic),
      uuid_New = newID, uuids = U\<rparr>"

text \<open>The inventory server: the logging interceptor in front of the handler.\<close>

definition inventory_ListParts_endpoint ::
  "(log_line \<Rightarrow> 'w \<Rightarrow> 'w) \<Rightarrow> ts_lib \<Rightarrow> 'w mongo_coll \<Rightarrow> list_parts_request option \<Rightarrow>
   ('w, grpc_status, list_parts_response) prog" where
  "inventory_ListParts_endpoint emit T m =
     UnaryLogging emit ''/inventory.v1.InventoryService/ListParts'' (ListParts_handler T (mongo_parts m))"

definition inventory_GetPart_endpoint ::
  "(log_line \<Rightarrow> 'w \<Rightarrow> 'w) \<Rightarrow> ts_lib \<Rightarrow> 'w mongo_coll \<Rightarrow> get_part_request option \<Rightarrow>
   ('w, grpc_status, get_part_response) prog" where
  "inventory_GetPart_endpoint emit T m =
     UnaryLogging emit ''/inventory.v1.InventoryService/GetPart'' (GetPart_handler T (mongo_parts m))"

text \<open>The payment server: logging, then the rejection of nil requests, then the handler.\<close>

definition payment_PayOrder_endpoint ::
  "(log_line \<Rightarrow> 'w \<Rightarrow> 'w) \<Rightarrow> ('w \<Rightarrow> 'w \<times> string) \<Rightarrow> pay_order_pb_request option \<Rightarrow>
   ('w, grpc_status, pay_order_pb_response) prog" where
  "payment_PayOrder_endpoint emit newString =
     UnaryLogging emit ''/payment.v1.PaymentService/PayOrder''
       (RejectNilRequest (\<lambda>r. PayOrder_grpc_handler (payment_PayOrder_svc newString) (Some r)))"

text \<open>The consumers of the order service and of the assembly: both recover panics outermost, then log.\<close>

definition order_assembled_consumer ::
  "(string \<Rightarrow> 'w \<Rightarrow> 'w) \<Rightarrow> proto_lib \<Rightarrow> 'w order_deps \<Rightarrow> ('w, oerr) message_handler" where
  "order_assembled_consumer emit P svc =
     NewGroupHandler (shipAssembledHandler P (uuids svc) (Complete svc)) [Recovery emit, Logging emit]"

definition order_paid_consumer :: "(string \<Rightarrow> 'w \<Rightarrow> 'w) \<Rightarrow> 'w assembly_deps \<Rightarrow> ('w, kerr) message_handler" where
  "order_paid_consumer emit A =
     NewGroupHandler (paidOrderHandler A assemblyDelay) [Recovery emit, Logging emit]"

lemma wired_env:
  assumes db: "orders_db pg tbl"
    and invc: "\<And>r. keeps tbl (invc r)" and pay: "\<And>r. keeps tbl (pay r)"
    and send: "\<And>t k b. keeps tbl (send t k b)" and new: "\<And>w w' u. newID w = (w', u) \<Longrightarrow> tbl w' = tbl w"
  shows "order_service_env (NewOrderService pg invc pay send newID U T P topic) tbl"
proof -
  have repo: "order_repo_api (pg_Create pg) (pg_OrderByID pg) (pg_Update pg) tbl"
    using db by (rule orders_db.meets_repo_api)
  have "keeps tbl (producer_Send send topic k b)" for k b
    unfolding producer_Send_def by (intro keeps_call send keeps_ok)
  then have sends: "keeps tbl (SendOrderPaid P U (producer_Send send topic) e)" for e
    by (rule SendOrderPaid_frame)
  show ?thesis
    unfolding order_service_env_def order_service_env_axioms_def NewOrderService_def
    by (simp add: repo sends new invclient_ListParts_def pmtclient_PayOrder_def keeps_call invc pay)
qed

section \<open>One world for all services\<close>

record system =
  sys_orders :: orders_world
  sys_parts :: parts_world
  sys_paid :: "(bytes \<times> bytes) list" \<comment> \<open>the topic \<open>order.paid\<close>, oldest first\<close>
  sys_ships :: "(bytes \<times> bytes) list" \<comment> \<open>the topic \<open>order.assembled\<close>\<close>
  sys_uuid :: uuid \<comment> \<open>the next random identifier\<close>
  sys_txs :: "string list" \<comment> \<open>the transactions the payment service has made\<close>
  sys_log :: "string list"
  sys_clock :: gotime
  sys_shutdown :: bool
  sys_broker_up :: bool
  sys_paid_position :: int \<comment> \<open>where the assembly service reads on after a restart\<close>
  sys_ship_position :: int \<comment> \<open>where the order service does\<close>
  sys_chats :: "int64 list"
  sys_bot_up :: bool
  sys_delivered :: "(int64 \<times> string) list"

definition put_orders :: "orders_world \<Rightarrow> system \<Rightarrow> system" where
  "put_orders ow s = s\<lparr>sys_orders := ow\<rparr>"

definition put_parts :: "parts_world \<Rightarrow> system \<Rightarrow> system" where
  "put_parts p s = s\<lparr>sys_parts := p\<rparr>"

definition sys_rows :: "system \<Rightarrow> orders_table" where
  "sys_rows s = ow_rows (sys_orders s)"

definition sys_docs :: "system \<Rightarrow> part_entity list" where
  "sys_docs s = pw_docs (sys_parts s)"

definition sys_pg :: "(system, statement) postgres" where
  "sys_pg = zoom_pg sys_orders put_orders table_pg"

definition sys_mongo :: "system mongo_coll" where
  "sys_mongo = zoom_mongo sys_parts put_parts coll_mongo"

definition new_uuid :: "system \<Rightarrow> system \<times> uuid" where
  "new_uuid s = (s\<lparr>sys_uuid := sys_uuid s + 1\<rparr>, sys_uuid s)"

definition new_tx :: "system \<Rightarrow> system \<times> string" where
  "new_tx s = (let t = uuid_String canonical_uuid (sys_uuid s) in
     (s\<lparr>sys_uuid := sys_uuid s + 1, sys_txs := sys_txs s @ [t]\<rparr>, t))"

definition log_rpc :: "log_line \<Rightarrow> system \<Rightarrow> system" where
  "log_rpc l s = s\<lparr>sys_log := sys_log s @ [ll_Method l @ '' '' @ ll_Code l]\<rparr>"

definition log_text :: "string \<Rightarrow> system \<Rightarrow> system" where
  "log_text t s = s\<lparr>sys_log := sys_log s @ [t]\<rparr>"

text \<open>\<open>SyncProducer.SendMessage\<close> on either topic.\<close>

definition sys_send :: "string \<Rightarrow> bytes \<Rightarrow> bytes \<Rightarrow> (system, 's goerr, int32 \<times> int64) prog" where
  "sys_send topic key val s =
     (if \<not> sys_broker_up s then (s, Err (ErrText ''kafka: client has run out of available brokers''))
      else if topic = ''order.paid''
      then (s\<lparr>sys_paid := sys_paid s @ [(key, val)]\<rparr>, Ok (0, of_nat (length (sys_paid s))))
      else (s\<lparr>sys_ships := sys_ships s @ [(key, val)]\<rparr>, Ok (0, of_nat (length (sys_ships s)))))"

definition order_svc :: "system order_deps" where
  "order_svc = NewOrderService sys_pg
     (rpc (inventory_ListParts_endpoint log_rpc unix_ts sys_mongo))
     (rpc (payment_PayOrder_endpoint log_rpc new_tx))
     sys_send new_uuid canonical_uuid unix_ts wire_proto ''order.paid''"

definition assembly_svc :: "system assembly_deps" where
  "assembly_svc =
     \<lparr>asm_wait = (\<lambda>d s. if sys_shutdown s then (s, Some (Sentinel KafkaContextCanceled))
                        else (s\<lparr>sys_clock := sys_clock s + max 0 (sint d)\<rparr>, None)),
      asm_Now = (\<lambda>s. (s, sys_clock s)),
      asm_Send = producer_Send sys_send ''order.assembled'',
      asm_proto = wire_proto, asm_uuids = canonical_uuid\<rparr>"

definition telegram_svc :: "system telegram" where
  "telegram_svc =
     \<lparr>tg_SendMessage = (\<lambda>c t s. if sys_bot_up s then (s\<lparr>sys_delivered := sys_delivered s @ [(c, t)]\<rparr>, Ok ())
                                else (s, Err (ErrText ''bot: request failed''))),
      tg_storage = (\<lambda>s. set (sys_chats s)),
      tg_add = (\<lambda>c s. s\<lparr>sys_chats := sys_chats s @ [c]\<rparr>),
      tg_range = (\<lambda>s. remdups (sys_chats s)),
      tg_uuids = canonical_uuid\<rparr>"

definition mark_paid :: "sarama_message \<Rightarrow> system \<Rightarrow> system" where
  "mark_paid m s = s\<lparr>sys_paid_position := max (sys_paid_position s) (sint (sm_Offset m) + 1)\<rparr>"

definition mark_ship :: "sarama_message \<Rightarrow> system \<Rightarrow> system" where
  "mark_ship m s = s\<lparr>sys_ship_position := max (sys_ship_position s) (sint (sm_Offset m) + 1)\<rparr>"

lemma put_sel [simp]:
  "sys_orders (put_orders ow s) = ow" "sys_parts (put_orders ow s) = sys_parts s"
  "sys_parts (put_parts p s) = p" "sys_orders (put_parts p s) = sys_orders s"
  "sys_rows (put_parts p s) = sys_rows s" "sys_docs (put_orders ow s) = sys_docs s"
  by (simp_all add: put_orders_def put_parts_def sys_rows_def sys_docs_def)

section \<open>The contracts hold\<close>

interpretation sys_db: orders_db sys_pg sys_rows
  unfolding sys_pg_def sys_rows_def [abs_def]
  by (rule orders_db_zoom [OF table_db.orders_db_axioms]) simp

interpretation stock: parts_coll sys_mongo sys_docs bson_stored
  unfolding sys_mongo_def sys_docs_def [abs_def]
  by (rule parts_coll_zoom [OF coll_db.parts_coll_axioms]) simp

lemma keeps_send: "(\<And>s x. v (s\<lparr>sys_paid := x\<rparr>) = v s) \<Longrightarrow> (\<And>s x. v (s\<lparr>sys_ships := x\<rparr>) = v s) \<Longrightarrow>
    keeps v (sys_send t k b)"
  by (rule keepsI) (auto simp: sys_send_def split: if_splits)

lemma keeps_UnaryLogging: "(\<And>l w. v (emit l w) = v w) \<Longrightarrow> keeps v (h req) \<Longrightarrow> keeps v (UnaryLogging emit meth h req)"
  unfolding keeps_def by (metis UnaryLogging_transparent)

lemma keeps_mongo_list: "(\<And>p s. v (put_parts p s) = v s) \<Longrightarrow> keeps v (ListParts_handler T (mongo_parts sys_mongo) req)"
  unfolding ListParts_handler_def inventory_ListParts_svc_def mongo_parts_def
  by (auto intro!: keeps_call keeps_lift keeps_ok keeps_zoom split: option.split
      simp: mongo_List_def sys_mongo_def zoom_mongo_def)

lemma keeps_payment:
  "(\<And>s x y. v (s\<lparr>sys_uuid := x, sys_txs := y\<rparr>) = v s) \<Longrightarrow> keeps v (PayOrder_grpc_handler (payment_PayOrder_svc new_tx) req)"
  unfolding PayOrder_grpc_handler_def
  by (intro keeps_call keeps_lift keeps_ok)
    (auto intro!: keepsI simp: payment_PayOrder_svc_def new_tx_def Let_def split: option.splits)

interpretation deployed: order_service_env order_svc sys_rows
  unfolding order_svc_def
proof (rule wired_env [OF sys_db.orders_db_axioms])
  show "keeps sys_rows (rpc (inventory_ListParts_endpoint log_rpc unix_ts sys_mongo) r)" for r
    unfolding inventory_ListParts_endpoint_def
    by (intro keeps_rpc keeps_UnaryLogging keeps_mongo_list) (simp_all add: log_rpc_def sys_rows_def)
  show "keeps sys_rows (rpc (payment_PayOrder_endpoint log_rpc new_tx) r)" for r
    unfolding payment_PayOrder_endpoint_def RejectNilRequest_def
    by (intro keeps_rpc keeps_UnaryLogging) (auto simp: log_rpc_def sys_rows_def intro!: keeps_payment)
  show "keeps sys_rows (sys_send t k b)" for t k b
    by (intro keeps_send) (simp_all add: sys_rows_def)
  show "new_uuid s = (s', u) \<Longrightarrow> sys_rows s' = sys_rows s" for s s' u
    by (auto simp: new_uuid_def sys_rows_def)
qed

interpretation workshop: assembly_env assembly_svc sys_clock sys_ships
  by unfold_locales
    (auto simp: assembly_svc_def producer_Send_def sys_send_def go_elims canon.uuid_codec_axioms
      dest: wire_codec.paid_roundtrip wire_codec.ship_roundtrip split: if_splits)

interpretation bot: telegram_env telegram_svc sys_delivered
  by unfold_locales (auto simp: telegram_svc_def split: if_splits)

interpretation paid_session: offset_session mark_paid sys_paid_position
  by unfold_locales (simp add: mark_paid_def)

interpretation ship_session: offset_session mark_ship sys_ship_position
  by unfold_locales (simp add: mark_ship_def)

end
