(* ===== verification/System_Runs.thy ===== *)
theory System_Runs
  imports System
begin

text \<open>
  What the operations do on the assembled system when every part of it is up: each lemma gives the
  resulting world and result in closed form. They are the liveness side of the contracts of the
  earlier theories, which say what follows when an operation succeeds.
\<close>

section \<open>Steps\<close>

definition set_row :: "uuid \<Rightarrow> order \<Rightarrow> system \<Rightarrow> system" where
  "set_row i r s = s\<lparr>sys_orders := (sys_orders s)\<lparr>ow_rows := (ow_rows (sys_orders s))(i \<mapsto> r)\<rparr>\<rparr>"

definition all_up :: "system \<Rightarrow> bool" where
  "all_up s \<longleftrightarrow> ow_online (sys_orders s) \<and> pw_online (sys_parts s) \<and> sys_broker_up s"

lemma set_row_sel [simp]:
  "sys_rows (set_row i r s) = (sys_rows s)(i \<mapsto> r)" "sys_parts (set_row i r s) = sys_parts s"
  "sys_paid (set_row i r s) = sys_paid s" "sys_ships (set_row i r s) = sys_ships s"
  "sys_uuid (set_row i r s) = sys_uuid s" "sys_txs (set_row i r s) = sys_txs s"
  "all_up (set_row i r s) = all_up s" "sys_clock (set_row i r s) = sys_clock s"
  by (simp_all add: set_row_def sys_rows_def all_up_def)

lemma put_same [simp]: "put_orders (sys_orders s) s = s" "put_parts (sys_parts s) s = s"
  by (simp_all add: put_orders_def put_parts_def)

lemma sys_read:
  assumes "all_up s" and "sys_rows s i = Some r"
  shows "pg_OrderByID sys_pg i s = (s, Ok r)"
proof -
  have "table_query (SelectWhereId select_columns i) (sys_orders s) = (sys_orders s, Ok (map (col_value r) select_columns))"
    using assms by (simp add: all_up_def sys_rows_def)
  then show ?thesis
    by (simp add: pg_OrderByID_def sys_pg_def zoom_pg_def call_def lift_def zoom_def table_pg_def ok_def)
qed

lemma sys_read_missing:
  assumes "all_up s" and "sys_rows s i = None"
  shows "pg_OrderByID sys_pg i s = (s, Err (Sentinel ErrOrderNotFound))"
  using assms
  by (simp add: pg_OrderByID_def sys_pg_def zoom_pg_def call_def lift_def zoom_def table_pg_def
      all_up_def sys_rows_def)

lemma sys_update:
  assumes "all_up s" and "sys_rows s (ord_ID upd) = Some r" and "ord_ID upd \<noteq> uuid_Nil"
    and "row_check (merge_order upd r)" and "ord_Status upd \<noteq> ''''"
    and "ord_Status upd = StatusPaid \<Longrightarrow> ord_TransactionID upd \<noteq> None \<and> ord_PaymentMethod upd \<noteq> None"
  shows "pg_Update sys_pg upd s = (set_row (ord_ID upd) (merge_order upd r) s, Ok ())"
proof -
  have "table_exec (UpdateWhereId (set_map upd) (ord_ID upd)) (sys_orders s) =
      ((sys_orders s)\<lparr>ow_rows := (ow_rows (sys_orders s))(ord_ID upd \<mapsto> merge_order upd r)\<rparr>, Ok 1)"
    using assms by (simp add: all_up_def sys_rows_def fold_set_map)
  moreover have "set_map upd \<noteq> []" using assms(5) by (rule set_map_nonempty)
  ultimately show ?thesis
    using assms(3,6)
    by (auto simp: pg_Update_def sys_pg_def zoom_pg_def call_def lift_def zoom_def table_pg_def ok_def
        set_row_def put_orders_def)
qed

definition next_key :: "system \<Rightarrow> system" where
  "next_key s = s\<lparr>sys_orders := (sys_orders s)\<lparr>ow_next_id := ow_next_id (sys_orders s) + 1\<rparr>\<rparr>"

lemma next_key_sel [simp]: "sys_rows (next_key s) = sys_rows s" "all_up (next_key s) = all_up s"
  by (simp_all add: next_key_def sys_rows_def all_up_def)

lemma sys_create:
  assumes "all_up s" and i: "i = ow_next_id (sys_orders s)" and "i \<noteq> uuid_Nil" and "sys_rows s i = None"
    and "row_check (ord\<lparr>ord_ID := i\<rparr>)"
  shows "pg_Create sys_pg ord s = (set_row i (ord\<lparr>ord_ID := i\<rparr>) (next_key s), Ok i)"
proof -
  have "table_query (InsertReturningId insert_columns (insert_values ord)) (sys_orders s) =
      ((sys_orders s)\<lparr>ow_rows := (ow_rows (sys_orders s))(i \<mapsto> ord\<lparr>ord_ID := i\<rparr>), ow_next_id := i + 1\<rparr>, Ok [VUuid i])"
    using assms by (simp add: all_up_def sys_rows_def fold_insert Let_def)
  then show ?thesis
    by (simp add: pg_Create_def sys_pg_def zoom_pg_def call_def lift_def zoom_def table_pg_def ok_def
        set_row_def put_orders_def next_key_def i)
qed

lemma order_svc_sel [simp]:
  "repo_Create order_svc = pg_Create sys_pg" "repo_OrderByID order_svc = pg_OrderByID sys_pg"
  "repo_Update order_svc = pg_Update sys_pg" "uuid_New order_svc = new_uuid"
  "uuids order_svc = canonical_uuid"
  by (simp_all add: order_svc_def NewOrderService_def)

text \<open>A payment by one of the four methods goes through and takes the next identifier.\<close>

definition charged :: "system \<Rightarrow> system" where
  "charged s = s\<lparr>sys_uuid := sys_uuid s + 1, sys_txs := sys_txs s @ [uuid_String canonical_uuid (sys_uuid s)],
     sys_log := sys_log s @ [''PayOrder OK'']\<rparr>"

lemma known_method_supported: "m \<in> set known_methods \<Longrightarrow> paymentMethodToPB m \<in> set supported_methods"
  by (auto simp: known_methods_def supported_methods_def paymentMethodToPB_def payment_method_defs)

lemma sys_charge:
  assumes "pp_PaymentMethod params \<in> set known_methods"
  shows "pay_charge order_svc params ord s = (charged s, Ok (sys_uuid s))"
proof -
  let ?r = "PayOrderParamsToPB canonical_uuid (params\<lparr>pp_UserID := ord_UserID ord\<rparr>)"
  have "PayOrder_grpc_handler (payment_PayOrder_svc new_tx) (Some ?r) s =
      (case new_tx s of (w1, t) \<Rightarrow> (w1, Ok \<lparr>ppo_TransactionUuid = t\<rparr>))"
    using known_method_supported [OF assms] handler_supported [of ?r new_tx s]
    by (simp add: PayOrderParamsToPB_def)
  moreover have "path_Base ''/payment.v1.PaymentService/PayOrder'' = ''PayOrder''"
    by (simp add: path_Base_def)
  ultimately have "rpc (payment_PayOrder_endpoint log_rpc new_tx) ?r s =
      (charged s, Ok \<lparr>ppo_TransactionUuid = uuid_String canonical_uuid (sys_uuid s)\<rparr>)"
    by (simp add: rpc_def payment_PayOrder_endpoint_def UnaryLogging_def RejectNilRequest_def new_tx_def
        Let_def log_rpc_def charged_def)
  then show ?thesis
    by (simp add: pay_charge_def order_svc_def NewOrderService_def pmtclient_PayOrder_def call_def ok_def
        lift_def parse_uuid_def)
qed

text \<open>The event of a payment is the next entry of its topic.\<close>

definition paid_record :: "pay_params \<Rightarrow> order \<Rightarrow> uuid \<Rightarrow> uuid \<Rightarrow> paid_order_record" where
  "paid_record params ord tx event =
     \<lparr>por_EventUuid = uuid_String canonical_uuid event, por_OrderUuid = uuid_String canonical_uuid (ord_ID ord),
      por_UserUuid = uuid_String canonical_uuid (ord_UserID ord), por_PayMethod = pp_PaymentMethod params,
      por_TransactionUuid = uuid_String canonical_uuid tx\<rparr>"

definition announced :: "pay_params \<Rightarrow> order \<Rightarrow> uuid \<Rightarrow> system \<Rightarrow> system" where
  "announced params ord tx s =
     s\<lparr>sys_uuid := sys_uuid s + 1,
       sys_paid := sys_paid s @ [(uuid_bytes (ord_ID ord), wire_paid (paid_record params ord tx (sys_uuid s)))]\<rparr>"

lemma sys_announce:
  assumes "all_up s"
  shows "pay_send order_svc params ord tx s = (announced params ord tx s, Ok \<lparr>pr_TransactionID = tx\<rparr>)"
  using assms
  by (simp add: pay_send_def order_svc_def NewOrderService_def SendOrderPaid_def PaidOrderToModel_def
      paid_event_def new_uuid_def call_def lift_def ok_def producer_Send_def sys_send_def all_up_def
      announced_def paid_record_def wire_proto_def)

lemma steps_up [simp]:
  "all_up (charged s) = all_up s" "sys_rows (charged s) = sys_rows s"
  "sys_uuid (charged s) = sys_uuid s + 1"
  "all_up (announced params ord tx s) = all_up s" "sys_rows (announced params ord tx s) = sys_rows s"
  by (simp_all add: charged_def announced_def all_up_def sys_rows_def)

section \<open>Operations\<close>

lemma sys_pay:
  assumes up: "all_up s" and ok: "table_ok (sys_rows s)" and row: "sys_rows s (pp_ID params) = Some r"
    and st: "ord_Status r = StatusPendingPayment" and known: "pp_PaymentMethod params \<in> set known_methods"
  shows "Pay order_svc params s =
    (announced params r (sys_uuid s) (set_row (pp_ID params) (pay_paid order_svc params r (sys_uuid s)) (charged s)),
     Ok \<lparr>pr_TransactionID = sys_uuid s\<rparr>)"
proof -
  let ?p = "pay_paid order_svc params r (sys_uuid s)"
  from table_okD [OF ok row] have id: "ord_ID r = pp_ID params" "pp_ID params \<noteq> uuid_Nil" "row_check r" by auto
  have "row_check ?p" using id(3) by (simp add: pay_paid_def)
  have sel: "ord_TransactionID ?p = Some (sys_uuid s)" "ord_PaymentMethod ?p = Some (pp_PaymentMethod params)"
    by (simp_all add: pay_paid_def)
  with \<open>row_check ?p\<close> have upd: "pg_Update sys_pg ?p (charged s) = (set_row (pp_ID params) ?p (charged s), Ok ())"
    using sys_update [of "charged s" ?p r] up row id by (simp add: sel)
  show ?thesis
    by (simp add: Pay_def call_def sys_read [OF up row] st pay_guard_def sys_charge [OF known] upd
        sys_announce up)
qed

lemma sys_cancel:
  assumes up: "all_up s" and ok: "table_ok (sys_rows s)" and row: "sys_rows s i = Some r"
    and st: "ord_Status r = StatusPendingPayment"
  shows "Cancel order_svc i s = (set_row i (r\<lparr>ord_Status := StatusCancelled\<rparr>) s, Ok ())"
proof -
  let ?c = "r\<lparr>ord_Status := StatusCancelled\<rparr>"
  from table_okD [OF ok row] have id: "ord_ID r = i" "i \<noteq> uuid_Nil" "row_check r" by auto
  have "pg_Update sys_pg ?c s = (set_row i ?c s, Ok ())"
    using sys_update [of s ?c r] up row id by simp
  then show ?thesis by (simp add: Cancel_def call_def sys_read [OF up row] st cancel_guard_def ok_def)
qed

lemma sys_complete:
  assumes up: "all_up s" and ok: "table_ok (sys_rows s)" and row: "sys_rows s i = Some r"
  shows "Complete order_svc i s = (set_row i (r\<lparr>ord_Status := StatusCompleted\<rparr>) s, Ok ())"
proof -
  from table_okD [OF ok row] have id: "ord_ID r = i" "i \<noteq> uuid_Nil" "row_check r" by auto
  let ?u = "zero_order\<lparr>ord_ID := i, ord_Status := StatusCompleted\<rparr>"
  have "pg_Update sys_pg ?u s = (set_row i (r\<lparr>ord_Status := StatusCompleted\<rparr>) s, Ok ())"
    using sys_update [of s ?u r] up row id by simp
  then show ?thesis by (simp add: Complete_def call_def ok_def)
qed

section \<open>Parts through the wire\<close>

text \<open>A part of the inventory as the order service sees it after both conversions.\<close>

definition order_view :: "ts_lib \<Rightarrow> inv_part \<Rightarrow> part" where
  "order_view T p = partToModel T (Some (pb_of T p))"

lemma order_view_sel [simp]:
  "part_ID (order_view T p) = ip_ID p" "part_Name (order_view T p) = ip_Name p"
  "part_Description (order_view T p) = ip_Description p"
  "part_PriceCents (order_view T p) = ip_PriceCents p"
  "part_StockQuantity (order_view T p) = ip_StockQuantity p" "part_Tags (order_view T p) = ip_Tags p"
  by (simp_all add: order_view_def partToModel_def pb_of_def)

lemma category_view: "ip_Category p \<in> set [0, 1, 2, 3, 4] \<Longrightarrow> part_Category (order_view T p) = ip_Category p"
  by (auto simp: order_view_def partToModel_def pb_of_def categoriyFromModel_def inv_category_defs pb_category_defs)

lemma time_view:
  assumes "timestamps T"
  shows "ip_CreatedAt p = Some t \<Longrightarrow> time_in_range t \<Longrightarrow> part_CreatedAt (order_view T p) = Some t"
    and "ip_UpdatedAt p = Some t \<Longrightarrow> time_in_range t \<Longrightarrow> part_UpdatedAt (order_view T p) = Some t"
  by (simp_all add: order_view_def partToModel_def pb_of_def tsToTimePtr_def timestamps.as_time_new [OF assms])

text \<open>Of the metadata, strings, \<open>int64\<close>s, floats and booleans arrive; every other value is lost.\<close>

definition carried :: "goany \<Rightarrow> bool" where
  "carried v \<longleftrightarrow> (case v of AString _ \<Rightarrow> True | AInt64 _ \<Rightarrow> True | AFloat64 _ \<Rightarrow> True | ABool _ \<Rightarrow> True | _ \<Rightarrow> False)"

lemma metadata_view:
  assumes "ip_Metadata p = Some md"
  shows "part_Metadata (order_view T p) =
    Some (\<lambda>k. case md k of None \<Rightarrow> None | Some v \<Rightarrow> if carried v then Some v else None)"
proof -
  have "(case Option.bind (md k) (\<lambda>v. map_option (\<lambda>x. Some \<lparr>pbv_Value = Some x\<rparr>) (metadata_value v)) of
        Some (Some v) \<Rightarrow> map_option value_to_any (pbv_Value v) | _ \<Rightarrow> None) =
      (case md k of None \<Rightarrow> None | Some v \<Rightarrow> if carried v then Some v else None)" for k
  proof (cases "md k")
    case (Some v)
    then show ?thesis by (cases v) (simp_all add: carried_def)
  qed simp
  with assms show ?thesis
    by (simp add: order_view_def partToModel_def pb_of_def metadataFromModel_def metadataToModel_def)
qed

text \<open>The filter of the order service as the inventory reads it.\<close>

definition wire_filter :: "parts_filter \<Rightarrow> inv_filter" where
  "wire_filter f = PartsFilterToModel (Some (PartsFilterToPB f))"

lemma wire_filter_ids: "wire_filter (zero_filter\<lparr>pf_IDs := ids\<rparr>) = zero_inv_filter\<lparr>if_IDs := ids\<rparr>"
  by (simp add: wire_filter_def PartsFilterToModel_def PartsFilterToPB_def zero_filter_def
      zero_inv_filter_def categoriesToModel_def)

text \<open>The inventory client over the inventory server.\<close>

definition remote_ListParts ::
  "(log_line \<Rightarrow> 'w \<Rightarrow> 'w) \<Rightarrow> ts_lib \<Rightarrow> 'w mongo_coll \<Rightarrow> parts_filter \<Rightarrow> ('w, oerr, part list) prog" where
  "remote_ListParts emit T m = invclient_ListParts T (rpc (inventory_ListParts_endpoint emit T m))"

lemma remote_list:
  assumes coll: "parts_coll m docs stored" and good: "\<forall>ent \<in> set (docs w). entity_ok (to_lower m) ent"
    and run: "remote_ListParts emit T m f w = (w', Ok ps)"
  shows "mset ps = image_mset (order_view T)
    (mset (filter (part_selected (to_lower m) (wire_filter f)) (map EntityToModel (docs w))))"
proof -
  let ?req = "Some \<lparr>lpr_Filter = Some (PartsFilterToPB f)\<rparr>"
  from run obtain w1 resp where h: "ListParts_handler T (mongo_parts m) ?req w = (w1, Ok resp)"
    and ps: "ps = PartsListToModel T (lpo_Parts resp)"
    by (auto simp: remote_ListParts_def invclient_ListParts_def go_elims rpc_Ok
        inventory_ListParts_endpoint_def UnaryLogging_def split: prod.splits outcome.splits)
  have "mset (lpo_Parts resp) = image_mset (Some \<circ> pb_of T)
      (mset (filter (part_selected (to_lower m) (wire_filter f)) (map EntityToModel (docs w))))"
    using inventory_server.list_parts_ok [OF parts_coll.meets_server [OF coll] good h]
    by (simp add: wire_filter_def ListPartsRequest_GetFilter_def)
  from arg_cong [OF this, of "image_mset (partToModel T)"] show ?thesis
    by (simp add: ps PartsListToModel_def image_mset.compositionality comp_def order_view_def [abs_def])
qed

text \<open>Every listed part once: a list by identifiers has at most as many parts as there are identifiers.\<close>

lemma remote_list_ids:
  assumes coll: "parts_coll m docs stored" and good: "\<forall>ent \<in> set (docs w). entity_ok (to_lower m) ent"
    and dist: "distinct (map pe_ID (docs w))" and ne: "ids \<noteq> []"
    and run: "remote_ListParts emit T m (zero_filter\<lparr>pf_IDs := ids\<rparr>) w = (w', Ok ps)"
  shows "set (map part_ID ps) = set ids \<inter> pe_ID ` set (docs w) \<and> distinct (map part_ID ps)"
proof -
  let ?sel = "filter (part_selected (to_lower m) (zero_inv_filter\<lparr>if_IDs := ids\<rparr>)) (map EntityToModel (docs w))"
  have ms: "mset ps = image_mset (order_view T) (mset ?sel)"
    using remote_list [OF coll good run] by (simp add: wire_filter_ids)
  have eid: "ip_ID (EntityToModel e) = pe_ID e" for e by (simp add: EntityToModel_def)
  then have id: "ip_ID \<circ> EntityToModel = pe_ID" by (simp add: fun_eq_iff)
  have "mset (map part_ID ps) = mset (map ip_ID ?sel)"
    using arg_cong [OF ms, of "image_mset part_ID"]
    by (simp only: mset_map image_mset.compositionality comp_def order_view_sel)
  moreover have "distinct (map ip_ID ?sel)"
    using dist id by (intro distinct_map_filter) (simp add: comp_assoc [symmetric])
  moreover have "set (map ip_ID ?sel) = set ids \<inter> pe_ID ` set (docs w)"
    unfolding filter_map map_map id using ne by (auto simp: filter_ids eid)
  ultimately show ?thesis using mset_eq_imp_distinct_iff mset_eq_setD by metis
qed

lemma remote_no_panic: "remote_ListParts emit T m f w \<noteq> (w', Panic p)"
  by (auto simp: remote_ListParts_def invclient_ListParts_def go_elims rpc_def split: prod.splits outcome.splits)

section \<open>Overlapping requests\<close>

text \<open>Both payments read the pending order before either has stored its result.\<close>

lemma sched_steps:
  "run_schedule svc [] ts w = (ts, w)"
  "i < length ts \<Longrightarrow> thread_step svc (ts ! i) w = (w1, t1) \<Longrightarrow>
    run_schedule svc (i # sched) ts w = run_schedule svc sched (ts[i := t1]) w1"
  by (simp_all add: run_schedule_def sched_step_def)

lemma merge_second_payment:
  "merge_order (pay_paid svc p r t) (pay_paid svc q r u) = pay_paid svc p r t"
  by (simp add: merge_order_def pay_paid_def)

lemma pay_update_step:
  assumes up: "all_up s" and row: "sys_rows s (ord_ID r) = Some x" and "merge_order (pay_paid order_svc p r t) x = y"
    and "row_check y" and "ord_ID r \<noteq> uuid_Nil"
  shows "thread_step order_svc (PayUpdate p r t) s = (set_row (ord_ID r) y s, PaySend p r t)"
  using sys_update [of s "pay_paid order_svc p r t" x] assms by (simp add: pay_paid_def)

section \<open>From the payment to the finished ship\<close>

text \<open>The message that the assembly service receives for an entry of its topic.\<close>

definition message_of :: "bytes \<times> bytes \<Rightarrow> kafka_message" where
  "message_of kv = \<lparr>km_Headers = Map.empty, km_Timestamp = 0, km_BlockTimestamp = 0, km_Key = fst kv,
     km_Value = snd kv, km_Topic = '''', km_Partition = 0, km_Offset = 0\<rparr>"

lemma asm_reads_event:
  "asm_PaidOrderToModel wire_proto canonical_uuid (wire_paid (paid_record p r t e)) =
     Ok \<lparr>apo_EventID = e, apo_OrderID = ord_ID r, apo_UserID = ord_UserID r,
         apo_PaymentMethod = pp_PaymentMethod p, apo_TransactionID = t\<rparr>"
  by (rule asm_decodes [OF canon.uuid_codec_axioms], rule wire_codec.paid_roundtrip)
    (simp add: wire_proto_def paid_record_def)

definition built_record :: "uuid \<Rightarrow> order \<Rightarrow> assembled_ship_record" where
  "built_record e r = \<lparr>asr_EventUuid = uuid_String canonical_uuid e,
     asr_OrderUuid = uuid_String canonical_uuid (ord_ID r), asr_UserUuid = uuid_String canonical_uuid (ord_UserID r),
     asr_BuildTimeSec = 10\<rparr>"

definition built :: "uuid \<Rightarrow> order \<Rightarrow> system \<Rightarrow> system" where
  "built e r s = s\<lparr>sys_clock := sys_clock s + 10000000000,
     sys_ships := sys_ships s @ [(uuid_bytes (ord_ID r), wire_ship (built_record e r))]\<rparr>"

lemma sint_delay: "sint assemblyDelay = 10000000000"
  by (simp add: assemblyDelay_def duration_Second_def)

lemma ten_seconds: "go_quot (duration_Milliseconds (time_Sub (c + 10000000000) c)) 1000 = 10"
proof -
  have d: "sint (time_Sub (c + 10000000000) c) = 10000000000" using time_Sub_exact [of "c + 10000000000" c] by simp
  then have "sint (go_quot (duration_Milliseconds (time_Sub (c + 10000000000) c)) 1000) = sint (10 :: int64)"
    by (subst build_secs) simp_all
  then show ?thesis by (rule signed_word_eqI)
qed

lemma marshal_ship_wire: "Marshal_ship wire_proto m = Ok (wire_ship m)"
  by (simp add: wire_proto_def)

lemma sys_assemble:
  assumes "all_up s" and "\<not> sys_shutdown s" and "km_Value msg = wire_paid (paid_record p r t e)"
  shows "paidOrderHandler assembly_svc assemblyDelay msg s = (built e r s, Ok ())"
  using assms
  by (simp add: paidOrderHandler_def call_def lift_def asm_reads_event assembly_svc_def assemble_def
      sendAssembledShip_def AssembledShipToPayload_def sint_delay ten_seconds marshal_ship_wire
      producer_Send_def sys_send_def all_up_def ok_def built_def built_record_def)

lemma sys_ship_done:
  assumes "km_Value msg = wire_ship (built_record e r)"
  shows "shipAssembledHandler wire_proto canonical_uuid (Complete order_svc) msg s = Complete order_svc (ord_ID r) s"
proof -
  have "AssembledShipToModel wire_proto canonical_uuid (km_Value msg) =
      Ok \<lparr>as_EventID = e, as_OrderID = ord_ID r, as_UserID = ord_UserID r, as_BuildTime = 10\<rparr>"
    unfolding assms
    by (rule ship_decodes [OF canon.uuid_codec_axioms], rule wire_codec.ship_roundtrip)
      (simp add: wire_proto_def built_record_def)
  from decoded_ship [OF this] show ?thesis by simp
qed

end
