(* ===== verification/Closer.thy ===== *)
theory Closer
  imports Prelude "HOL-Library.Multiset"
begin

text \<open>
  Graceful shutdown (\<open>platform/closer/closer.go\<close>). \<open>CloseAll\<close> runs every registered function in its
  own goroutine; each goroutine sends its error into a buffered channel, one more goroutine closes
  the channel when all of them are done, and the caller reads the channel until it is closed or the
  context ends. The goroutines and the caller are a step relation, one step per channel operation,
  \<open>WaitGroup\<close> operation or return of a function, in any interleaving.
\<close>

section \<open>One run of CloseAll\<close>

text \<open>How a registered function ends.\<close>

datatype func_result = ReturnsNil | ReturnsErr string | Panics

text \<open>
  The phases of a goroutine: inside \<open>f\<close>, about to send an error, about to call \<open>wg.Done\<close>, gone. A
  panic is recovered first, so it sends as well.
\<close>

datatype worker = InFunc | Sending string | Leaving | Gone

datatype caller = Looping | ReturnedAll | ReturnedCtx

record closing =
  cg_workers :: "worker list"
  cg_buf :: "string list" \<comment> \<open>\<open>errCh\<close>, a channel with room for one error per function\<close>
  cg_closed :: bool
  cg_crashed :: bool \<comment> \<open>a send on the closed channel\<close>
  cg_logged :: "string list" \<comment> \<open>the errors that the caller has read and logged\<close>
  cg_result :: "string option"
  cg_caller :: caller

definition panic_error :: string where
  "panic_error = ''panic recovered in closer''"

fun error_of :: "func_result \<Rightarrow> string option" where
  "error_of ReturnsNil = None"
| "error_of (ReturnsErr e) = Some e"
| "error_of Panics = Some panic_error"

definition start_closing :: "func_result list \<Rightarrow> closing" where
  "start_closing fs = \<lparr>cg_workers = replicate (length fs) InFunc, cg_buf = [], cg_closed = False,
     cg_crashed = False, cg_logged = [], cg_result = None, cg_caller = Looping\<rparr>"

definition set_worker :: "nat \<Rightarrow> worker \<Rightarrow> closing \<Rightarrow> closing" where
  "set_worker i x s = s\<lparr>cg_workers := (cg_workers s)[i := x]\<rparr>"

text \<open>\<open>if result == nil { result = err }\<close>\<close>

definition first_error :: "string option \<Rightarrow> string \<Rightarrow> string option" where
  "first_error r e = (case r of None \<Rightarrow> Some e | Some x \<Rightarrow> Some x)"

text \<open>\<open>ctxErr\<close> is \<open>ctx.Err()\<close> once the context has ended, which can be at any time.\<close>

inductive closing_step :: "func_result list \<Rightarrow> string \<Rightarrow> closing \<Rightarrow> closing \<Rightarrow> bool"
  for fs :: "func_result list" and ctxErr :: string where
  returns_nil: "i < length (cg_workers s) \<Longrightarrow> cg_workers s ! i = InFunc \<Longrightarrow> error_of (fs ! i) = None \<Longrightarrow>
     closing_step fs ctxErr s (set_worker i Leaving s)"
| returns_err: "i < length (cg_workers s) \<Longrightarrow> cg_workers s ! i = InFunc \<Longrightarrow> error_of (fs ! i) = Some e \<Longrightarrow>
     closing_step fs ctxErr s (set_worker i (Sending e) s)"
| sends: "i < length (cg_workers s) \<Longrightarrow> cg_workers s ! i = Sending e \<Longrightarrow> \<not> cg_closed s \<Longrightarrow>
     length (cg_buf s) < length fs \<Longrightarrow>
     closing_step fs ctxErr s (set_worker i Leaving s\<lparr>cg_buf := cg_buf s @ [e]\<rparr>)"
| sends_closed: "i < length (cg_workers s) \<Longrightarrow> cg_workers s ! i = Sending e \<Longrightarrow> cg_closed s \<Longrightarrow>
     closing_step fs ctxErr s (s\<lparr>cg_crashed := True\<rparr>)"
| wg_done: "i < length (cg_workers s) \<Longrightarrow> cg_workers s ! i = Leaving \<Longrightarrow>
     closing_step fs ctxErr s (set_worker i Gone s)"
| closes: "\<forall>x \<in> set (cg_workers s). x = Gone \<Longrightarrow> \<not> cg_closed s \<Longrightarrow>
     closing_step fs ctxErr s (s\<lparr>cg_closed := True\<rparr>)"
| receives: "cg_caller s = Looping \<Longrightarrow> cg_buf s = e # es \<Longrightarrow>
     closing_step fs ctxErr s
       (s\<lparr>cg_buf := es, cg_logged := cg_logged s @ [e], cg_result := first_error (cg_result s) e\<rparr>)"
| receives_closed: "cg_caller s = Looping \<Longrightarrow> cg_buf s = [] \<Longrightarrow> cg_closed s \<Longrightarrow>
     closing_step fs ctxErr s (s\<lparr>cg_caller := ReturnedAll\<rparr>)"
| ctx_done: "cg_caller s = Looping \<Longrightarrow>
     closing_step fs ctxErr s (s\<lparr>cg_caller := ReturnedCtx, cg_result := first_error (cg_result s) ctxErr\<rparr>)"

inductive_cases closing_stepE: "closing_step fs ctxErr s s'"

inductive closing_run :: "func_result list \<Rightarrow> string \<Rightarrow> closing \<Rightarrow> bool"
  for fs :: "func_result list" and ctxErr :: string where
  run_start: "closing_run fs ctxErr (start_closing fs)"
| run_step: "closing_run fs ctxErr s \<Longrightarrow> closing_step fs ctxErr s s' \<Longrightarrow> closing_run fs ctxErr s'"

section \<open>The invariant\<close>

definition err_ms :: "func_result \<Rightarrow> string multiset" where
  "err_ms f = (case error_of f of None \<Rightarrow> {#} | Some e \<Rightarrow> {#e#})"

text \<open>What goroutine \<open>i\<close> has put into the channel so far.\<close>

definition put :: "func_result list \<Rightarrow> worker list \<Rightarrow> nat \<Rightarrow> string multiset" where
  "put fs ws i = (if ws ! i = Leaving \<or> ws ! i = Gone then err_ms (fs ! i) else {#})"

definition all_put :: "func_result list \<Rightarrow> worker list \<Rightarrow> string multiset" where
  "all_put fs ws = (\<Sum>i<length fs. put fs ws i)"

definition closing_ok :: "func_result list \<Rightarrow> string \<Rightarrow> closing \<Rightarrow> bool" where
  "closing_ok fs ctxErr s \<longleftrightarrow>
     length (cg_workers s) = length fs \<and> \<not> cg_crashed s \<and>
     (\<forall>i < length fs. \<forall>e. cg_workers s ! i = Sending e \<longrightarrow> error_of (fs ! i) = Some e) \<and>
     mset (cg_logged s) + mset (cg_buf s) = all_put fs (cg_workers s) \<and>
     (cg_closed s \<longrightarrow> (\<forall>x \<in> set (cg_workers s). x = Gone)) \<and>
     (cg_caller s = ReturnedAll \<longrightarrow> cg_closed s \<and> cg_buf s = []) \<and>
     cg_result s = (case cg_logged s of
        e # _ \<Rightarrow> Some e
      | [] \<Rightarrow> if cg_caller s = ReturnedCtx then Some ctxErr else None)"

lemma all_put_update:
  assumes i: "i < length fs" and len: "length ws = length fs"
  shows "all_put fs (ws[i := x]) + put fs ws i = all_put fs ws + put fs (ws[i := x]) i"
proof -
  have "(\<Sum>j \<in> {..<length fs} - {i}. put fs (ws[i := x]) j) = (\<Sum>j \<in> {..<length fs} - {i}. put fs ws j)"
    using len by (intro sum.cong) (auto simp: put_def)
  then show ?thesis
    using i by (simp add: all_put_def sum.remove [of "{..<length fs}" i] add_ac)
qed

lemma all_put_unchanged:
  "i < length fs \<Longrightarrow> length ws = length fs \<Longrightarrow> put fs (ws[i := x]) i = put fs ws i \<Longrightarrow>
    all_put fs (ws[i := x]) = all_put fs ws"
  using all_put_update [of i fs ws x] by simp

text \<open>A goroutine that still has to send leaves room in the channel.\<close>

lemma size_put: "size (put fs ws i) \<le> 1"
  by (auto simp: put_def err_ms_def split: option.splits)

lemma size_sum_ms: "finite A \<Longrightarrow> size (sum f A) = (\<Sum>i\<in>A. size (f i))"
  for f :: "nat \<Rightarrow> 'a multiset"
  by (induction A rule: finite_induct) auto

lemma size_all_put:
  assumes "i < length fs" and "ws ! i \<noteq> Leaving" and "ws ! i \<noteq> Gone"
  shows "size (all_put fs ws) < length fs"
proof -
  have "size (all_put fs ws) = (\<Sum>j<length fs. size (put fs ws j))"
    by (simp add: all_put_def size_sum_ms)
  also have "\<dots> = (\<Sum>j \<in> {..<length fs} - {i}. size (put fs ws j))"
    using assms by (simp add: sum.remove [of "{..<length fs}" i] put_def)
  also have "\<dots> \<le> (\<Sum>j \<in> {..<length fs} - {i}. 1)"
    by (intro sum_mono size_put)
  also have "\<dots> < length fs" using assms(1) by simp
  finally show ?thesis .
qed

lemma all_put_start: "all_put fs (replicate (length fs) InFunc) = {#}"
  by (simp add: all_put_def put_def)

lemma closing_ok_start: "closing_ok fs ctxErr (start_closing fs)"
  by (simp add: closing_ok_def start_closing_def all_put_start)

lemma set_worker_sel [simp]:
  "cg_workers (set_worker i x s) = (cg_workers s)[i := x]" "cg_buf (set_worker i x s) = cg_buf s"
  "cg_closed (set_worker i x s) = cg_closed s" "cg_crashed (set_worker i x s) = cg_crashed s"
  "cg_logged (set_worker i x s) = cg_logged s" "cg_result (set_worker i x s) = cg_result s"
  "cg_caller (set_worker i x s) = cg_caller s"
  by (simp_all add: set_worker_def)

lemma gone_not:
  "\<forall>x \<in> set ws. x = Gone \<Longrightarrow> i < length ws \<Longrightarrow> ws ! i \<noteq> y \<or> y = Gone"
  by (metis nth_mem)

lemma closing_ok_step:
  assumes "closing_step fs ctxErr s s'" and "closing_ok fs ctxErr s"
  shows "closing_ok fs ctxErr s'"
  using assms
proof (cases rule: closing_step.cases)
  case (returns_nil i)
  then have "\<not> cg_closed s" using assms(2) by (auto simp: closing_ok_def dest: gone_not)
  moreover have "all_put fs ((cg_workers s)[i := Leaving]) = all_put fs (cg_workers s)"
    using returns_nil assms(2) by (intro all_put_unchanged) (auto simp: closing_ok_def put_def err_ms_def)
  ultimately show ?thesis using returns_nil assms(2) by (auto simp: closing_ok_def nth_list_update)
next
  case (returns_err i e)
  then have "\<not> cg_closed s" using assms(2) by (auto simp: closing_ok_def dest: gone_not)
  moreover have "all_put fs ((cg_workers s)[i := Sending e]) = all_put fs (cg_workers s)"
    using returns_err assms(2) by (intro all_put_unchanged) (auto simp: closing_ok_def put_def)
  ultimately show ?thesis using returns_err assms(2) by (auto simp: closing_ok_def nth_list_update)
next
  case (sends i e)
  have ok: "i < length fs" "length (cg_workers s) = length fs" "error_of (fs ! i) = Some e"
    using sends assms(2) by (auto simp: closing_ok_def)
  have "all_put fs ((cg_workers s)[i := Leaving]) = all_put fs (cg_workers s) + {#e#}"
    using all_put_update [OF ok(1,2), of Leaving] sends ok by (simp add: put_def err_ms_def)
  then show ?thesis using sends assms(2) by (auto simp: closing_ok_def nth_list_update)
next
  case (sends_closed i e)
  then have False using assms(2) gone_not [of "cg_workers s" i "Sending e"] by (simp add: closing_ok_def)
  then show ?thesis ..
next
  case (wg_done i)
  have "all_put fs ((cg_workers s)[i := Gone]) = all_put fs (cg_workers s)"
    using wg_done assms(2) by (intro all_put_unchanged) (auto simp: closing_ok_def put_def)
  moreover have "\<not> cg_closed s" using wg_done assms(2) gone_not [of "cg_workers s" i Leaving]
    by (auto simp: closing_ok_def)
  ultimately show ?thesis using wg_done assms(2) by (auto simp: closing_ok_def nth_list_update)
next
  case closes
  then show ?thesis using assms(2) by (auto simp: closing_ok_def)
next
  case (receives e es)
  then show ?thesis using assms(2)
    by (auto simp: closing_ok_def first_error_def split: list.splits)
next
  case receives_closed
  then show ?thesis using assms(2) by (auto simp: closing_ok_def split: list.splits)
next
  case ctx_done
  then show ?thesis using assms(2) by (auto simp: closing_ok_def first_error_def split: list.splits)
qed

lemma closing_run_ok: "closing_run fs ctxErr s \<Longrightarrow> closing_ok fs ctxErr s"
  by (induction rule: closing_run.induct) (auto intro: closing_ok_start closing_ok_step)

section \<open>Consequences\<close>

text \<open>A send never blocks and never meets a closed channel.\<close>

lemma send_enabled:
  assumes "closing_run fs ctxErr s" and "i < length (cg_workers s)" and "cg_workers s ! i = Sending e"
  shows "\<not> cg_closed s \<and> length (cg_buf s) < length fs"
proof -
  have ok: "closing_ok fs ctxErr s" using closing_run_ok [OF assms(1)] .
  have "\<not> cg_closed s" using ok assms gone_not [of "cg_workers s" i "Sending e"] by (auto simp: closing_ok_def)
  moreover have "length (cg_buf s) \<le> size (all_put fs (cg_workers s))"
  proof -
    have "mset (cg_logged s) + mset (cg_buf s) = all_put fs (cg_workers s)"
      using ok unfolding closing_ok_def by blast
    from arg_cong [OF this, of size] show ?thesis by simp
  qed
  moreover have "size (all_put fs (cg_workers s)) < length fs"
    using ok assms by (intro size_all_put [of i]) (auto simp: closing_ok_def)
  ultimately show ?thesis by simp
qed

text \<open>Until the caller has returned, something can happen even if the context never ends.\<close>

lemma closing_progress:
  assumes run: "closing_run fs ctxErr s" and loop: "cg_caller s = Looping"
  shows "\<exists>s'. closing_step fs ctxErr s s' \<and> cg_caller s' \<noteq> ReturnedCtx"
proof -
  consider (busy) i where "i < length (cg_workers s)" "cg_workers s ! i \<noteq> Gone"
    | (gone) "\<forall>x \<in> set (cg_workers s). x = Gone" by (metis in_set_conv_nth)
  then show ?thesis
  proof cases
    case busy
    show ?thesis
    proof (cases "cg_workers s ! i")
      case InFunc
      then show ?thesis using busy loop returns_nil [of i s fs ctxErr] returns_err [of i s fs]
        by (cases "error_of (fs ! i)") (fastforce simp: loop)+
    next
      case (Sending e)
      then show ?thesis using busy loop sends [of i s e fs ctxErr] send_enabled [OF run] by fastforce
    next
      case Leaving
      then show ?thesis using busy loop wg_done [of i s fs ctxErr] by fastforce
    qed (use busy in simp)
  next
    case gone
    show ?thesis
    proof (cases "cg_closed s")
      case True
      then show ?thesis
        using loop receives [of s _ _ fs ctxErr] receives_closed [of s fs ctxErr]
        by (cases "cg_buf s") fastforce+
    next
      case False
      then show ?thesis using gone loop closes [of s fs ctxErr] by fastforce
    qed
  qed
qed

text \<open>Every step makes the run shorter, so that every run ends.\<close>

fun worker_left :: "worker \<Rightarrow> nat" where
  "worker_left InFunc = 4"
| "worker_left (Sending e) = 3"
| "worker_left Leaving = 1"
| "worker_left Gone = 0"

definition steps_left :: "closing \<Rightarrow> nat" where
  "steps_left s =
     (\<Sum>x\<leftarrow>cg_workers s. worker_left x) + length (cg_buf s) +
     (if cg_closed s then 0 else 1) + (if cg_caller s = Looping then 1 else 0)"

lemma sum_list_update_nat:
  "i < length xs \<Longrightarrow> (\<Sum>y\<leftarrow>xs[i := x]. f y) + f (xs ! i) = (\<Sum>y\<leftarrow>xs. f y) + (f x :: nat)"
  by (induction xs arbitrary: i) (auto split: nat.splits)

lemma closing_step_shorter:
  assumes "closing_run fs ctxErr s" and "closing_step fs ctxErr s s'"
  shows "steps_left s' < steps_left s"
  using assms(2)
proof (cases rule: closing_step.cases)
  case (returns_nil i)
  then show ?thesis using sum_list_update_nat [of i "cg_workers s" worker_left Leaving] by (simp add: steps_left_def)
next
  case (returns_err i e)
  then show ?thesis using sum_list_update_nat [of i "cg_workers s" worker_left "Sending e"]
    by (simp add: steps_left_def)
next
  case (sends i e)
  then show ?thesis using sum_list_update_nat [of i "cg_workers s" worker_left Leaving] by (simp add: steps_left_def)
next
  case (sends_closed i e)
  then show ?thesis using send_enabled [OF assms(1)] by auto
next
  case (wg_done i)
  then show ?thesis using sum_list_update_nat [of i "cg_workers s" worker_left Gone] by (simp add: steps_left_def)
qed (auto simp: steps_left_def)

lemma steps_left_start: "steps_left (start_closing fs) = 4 * length fs + 2"
  by (simp add: steps_left_def start_closing_def sum_list_replicate)

text \<open>What has been put when every goroutine is gone: every error.\<close>

lemma all_put_gone:
  assumes "\<forall>x \<in> set ws. x = Gone" and "length ws = length fs"
  shows "all_put fs ws = (\<Sum>i<length fs. err_ms (fs ! i))"
  unfolding all_put_def using assms by (intro sum.cong) (auto simp: put_def)

lemma sum_err_ms: "(\<Sum>i<length fs. err_ms (fs ! i)) = mset (List.map_filter error_of fs)"
proof (induction fs rule: rev_induct)
  case (snoc f fs)
  have "(\<Sum>i<length fs. err_ms ((fs @ [f]) ! i)) = (\<Sum>i<length fs. err_ms (fs ! i))"
    by (intro sum.cong) (auto simp: nth_append)
  with snoc show ?case
    by (cases "error_of f") (auto simp: err_ms_def map_filter_def)
qed (simp add: List.map_filter_simps)

lemma returned_all:
  assumes "closing_run fs ctxErr s" and "cg_caller s = ReturnedAll"
  shows "mset (cg_logged s) = mset (List.map_filter error_of fs) \<and>
    cg_result s = (case cg_logged s of [] \<Rightarrow> None | e # _ \<Rightarrow> Some e)"
proof -
  have ok: "closing_ok fs ctxErr s" using closing_run_ok [OF assms(1)] .
  with assms(2) have "mset (cg_logged s) = all_put fs (cg_workers s)" and "\<forall>x \<in> set (cg_workers s). x = Gone"
    by (auto simp: closing_ok_def)
  then show ?thesis
    using ok assms(2) all_put_gone [of "cg_workers s" fs]
    by (auto simp: closing_ok_def sum_err_ms split: list.splits)
qed

lemma map_filter_Nil: "List.map_filter f xs = [] \<longleftrightarrow> (\<forall>x \<in> set xs. f x = None)"
  by (induction xs) (auto simp: List.map_filter_simps split: option.splits)

lemma returned_result:
  assumes "closing_run fs ctxErr s" and "cg_caller s = ReturnedAll"
  shows "(cg_result s = None \<longleftrightarrow> (\<forall>f \<in> set fs. f = ReturnsNil)) \<and>
    (\<forall>e. cg_result s = Some e \<longrightarrow> (\<exists>f \<in> set fs. error_of f = Some e))"
proof -
  have nil: "error_of f = None \<longleftrightarrow> f = ReturnsNil" for f by (cases f) auto
  from returned_all [OF assms] have ms: "mset (cg_logged s) = mset (List.map_filter error_of fs)"
    and res: "cg_result s = (case cg_logged s of [] \<Rightarrow> None | e # _ \<Rightarrow> Some e)" by auto
  have "set (cg_logged s) = {e. \<exists>f \<in> set fs. error_of f = Some e}"
    using mset_eq_setD [OF ms] by (auto simp: map_filter_def image_iff) force
  then have found: "e \<in> set (cg_logged s) \<longleftrightarrow> (\<exists>f \<in> set fs. error_of f = Some e)" for e by blast
  show ?thesis
  proof (cases "cg_logged s")
    case Nil
    with found have "error_of f = None" if "f \<in> set fs" for f
      using that by (cases "error_of f") auto
    with Nil res nil show ?thesis by simp
  next
    case (Cons e es)
    with found [of e] obtain f where "f \<in> set fs" "error_of f = Some e" by auto
    moreover from this have "f \<noteq> ReturnsNil" by auto
    ultimately show ?thesis using Cons res by auto
  qed
qed

section \<open>The closer\<close>

text \<open>
  The state of a \<open>Closer\<close>: the registered functions, whether the \<open>sync.Once\<close> was used and whether
  \<open>done\<close> is closed. A function is what a call of it does. The mutex makes \<open>Add\<close> and the taking of
  the functions atomic.
\<close>

record closer =
  cl_funcs :: "func_result list"
  cl_once :: bool
  cl_done :: bool

definition NewCloser :: closer where
  "NewCloser = \<lparr>cl_funcs = [], cl_once = False, cl_done = False\<rparr>"

definition closer_Add :: "func_result list \<Rightarrow> closer \<Rightarrow> closer" where
  "closer_Add fs c = c\<lparr>cl_funcs := cl_funcs c @ fs\<rparr>"

text \<open>\<open>AddNamed\<close> registers a wrapper that logs the name and passes on what \<open>f\<close> does, panics included.\<close>

definition closer_AddNamed :: "string \<Rightarrow> func_result \<Rightarrow> closer \<Rightarrow> closer" where
  "closer_AddNamed name f c = closer_Add [f] c"

text \<open>\<open>CloseAll\<close> with its result (\<open>None\<close> is a nil error); the run of the functions is any run that returned.\<close>

inductive CloseAll :: "string \<Rightarrow> closer \<Rightarrow> closer \<Rightarrow> string option \<Rightarrow> bool" where
  close_again: "cl_once c \<Longrightarrow> CloseAll ctxErr c c None"
| close_none: "\<not> cl_once c \<Longrightarrow> cl_funcs c = [] \<Longrightarrow>
     CloseAll ctxErr c (c\<lparr>cl_once := True, cl_done := True\<rparr>) None"
| close_run: "\<not> cl_once c \<Longrightarrow> cl_funcs c \<noteq> [] \<Longrightarrow> closing_run (cl_funcs c) ctxErr s \<Longrightarrow>
     cg_caller s \<noteq> Looping \<Longrightarrow>
     CloseAll ctxErr c (c\<lparr>cl_funcs := [], cl_once := True, cl_done := True\<rparr>) (cg_result s)"

inductive_cases CloseAllE: "CloseAll ctxErr c c' r"

text \<open>The goroutine of \<open>handleSignals\<close>: it closes on a signal, or leaves once \<open>done\<close> is closed.\<close>

datatype signal_event = SignalReceived | DoneClosed

inductive handleSignals :: "string \<Rightarrow> signal_event \<Rightarrow> closer \<Rightarrow> closer \<Rightarrow> bool" where
  on_signal: "CloseAll ctxErr c c' r \<Longrightarrow> handleSignals ctxErr SignalReceived c c'"
| on_done: "cl_done c \<Longrightarrow> handleSignals ctxErr DoneClosed c c"

lemma CloseAll_once: "CloseAll ctxErr c c' r \<Longrightarrow> cl_once c' \<and> (cl_done c \<longrightarrow> cl_done c')"
  by (auto elim: CloseAllE)

text \<open>The second call does nothing and reports no error, whatever the first one reported.\<close>

lemma CloseAll_twice: "CloseAll e c c' r \<Longrightarrow> CloseAll e' c' c'' r' \<Longrightarrow> c'' = c' \<and> r' = None"
  using CloseAll_once [of e c c' r] by (auto elim: CloseAllE [of e' c' c'' r'])

text \<open>Once the caller has returned, the goroutines that are left do not change its result.\<close>

lemma returned_stable: "closing_run fs e s \<Longrightarrow> cg_caller s \<noteq> Looping \<Longrightarrow> closing_step fs e s s' \<Longrightarrow>
    cg_caller s' = cg_caller s \<and> cg_result s' = cg_result s"
  by (auto elim!: closing_stepE)

text \<open>Some run of any functions returns: the channel is closed once every goroutine is gone.\<close>

lemma closing_returns: "\<exists>s. closing_run fs e s \<and> cg_caller s = ReturnedAll"
proof -
  have "\<exists>s'. closing_run fs e s' \<and> cg_caller s' = ReturnedAll"
    if "closing_run fs e s" and "cg_caller s = Looping" for s
    using that
  proof (induction "steps_left s" arbitrary: s rule: less_induct)
    case less
    obtain s' where st: "closing_step fs e s s'" and no: "cg_caller s' \<noteq> ReturnedCtx"
      using closing_progress [OF less.prems] by blast
    have run: "closing_run fs e s'" using run_step [OF less.prems(1) st] .
    show ?case
    proof (cases "cg_caller s'")
      case Looping
      with less.hyps [OF closing_step_shorter [OF less.prems(1) st] run] show ?thesis by blast
    qed (use run no in auto)
  qed
  then show ?thesis using run_start [of fs e] by (simp add: start_closing_def)
qed

section \<open>The package\<close>

text \<open>
  A closer with its logger (\<open>None\<close> is nil, 0 stands for \<open>NoopLogger\<close>) and the goroutines of \<open>handleSignals\<close> that
  wait, each with the signals it asked for; the package has one of them. \<open>signal.Notify\<close> without signals
  asks for all of them.
\<close>

record closer_obj =
  co_Closer :: closer
  co_Logger :: "nat option"
  co_Listeners :: "string list list"

definition NewWithLogger :: "nat option \<Rightarrow> string list \<Rightarrow> closer_obj" where
  "NewWithLogger l signals =
     \<lparr>co_Closer = NewCloser, co_Logger = l, co_Listeners = (if signals \<noteq> [] then [signals] else [])\<rparr>"

text \<open>\<open>New\<close> takes the logger that \<open>logger.L\<close> gives.\<close>

definition closer_New :: "nat option \<Rightarrow> string list \<Rightarrow> closer_obj" where
  "closer_New L signals = NewWithLogger L signals"

definition closer_SetLogger :: "nat option \<Rightarrow> closer_obj \<Rightarrow> closer_obj" where
  "closer_SetLogger l c = c\<lparr>co_Logger := l\<rparr>"

definition globalCloser :: closer_obj where
  "globalCloser = NewWithLogger (Some 0) []"

definition pkg_AddNamed :: "string \<Rightarrow> func_result \<Rightarrow> closer_obj \<Rightarrow> closer_obj" where
  "pkg_AddNamed name f g = g\<lparr>co_Closer := closer_AddNamed name f (co_Closer g)\<rparr>"

definition pkg_Add :: "func_result list \<Rightarrow> closer_obj \<Rightarrow> closer_obj" where
  "pkg_Add fs g = g\<lparr>co_Closer := closer_Add fs (co_Closer g)\<rparr>"

definition pkg_SetLogger :: "nat option \<Rightarrow> closer_obj \<Rightarrow> closer_obj" where
  "pkg_SetLogger l g = closer_SetLogger l g"

definition Configure :: "string list \<Rightarrow> closer_obj \<Rightarrow> closer_obj" where
  "Configure signals g = g\<lparr>co_Listeners := co_Listeners g @ [signals]\<rparr>"

inductive pkg_CloseAll :: "string \<Rightarrow> closer_obj \<Rightarrow> closer_obj \<Rightarrow> string option \<Rightarrow> bool" where
  "CloseAll ctxErr (co_Closer g) c' r \<Longrightarrow> pkg_CloseAll ctxErr g (g\<lparr>co_Closer := c'\<rparr>) r"

definition asked_for :: "string list \<Rightarrow> string \<Rightarrow> bool" where
  "asked_for signals sig \<longleftrightarrow> signals = [] \<or> sig \<in> set signals"

text \<open>A waiting goroutine gets the signal, or sees that \<open>done\<close> is closed, and is gone afterwards.\<close>

inductive listener_step :: "string \<Rightarrow> closer_obj \<Rightarrow> closer_obj \<Rightarrow> bool" where
  gets_signal: "i < length (co_Listeners g) \<Longrightarrow> asked_for (co_Listeners g ! i) sig \<Longrightarrow>
     handleSignals ctxErr SignalReceived (co_Closer g) c' \<Longrightarrow>
     listener_step ctxErr g (g\<lparr>co_Closer := c', co_Listeners := take i (co_Listeners g) @ drop (Suc i) (co_Listeners g)\<rparr>)"
| sees_done: "i < length (co_Listeners g) \<Longrightarrow> handleSignals ctxErr DoneClosed (co_Closer g) c' \<Longrightarrow>
     listener_step ctxErr g (g\<lparr>co_Closer := c', co_Listeners := take i (co_Listeners g) @ drop (Suc i) (co_Listeners g)\<rparr>)"

inductive_cases handleSignalsE: "handleSignals e ev c c'"
inductive_cases listener_stepE: "listener_step e g g'"

text \<open>
  However many goroutines listen, and however often \<open>CloseAll\<close> is called besides, the functions run once:
  after the first time nothing changes but that listeners go, and functions added later never run.
\<close>

lemma closed_for_good: "CloseAll e c c' r \<Longrightarrow> cl_once c \<Longrightarrow> c' = c \<and> r = None"
  by (auto elim: CloseAllE)

lemma add_after_close:
  assumes "CloseAll e c c1 r" and "CloseAll e' (closer_Add fs c1) c2 r'"
  shows "c2 = closer_Add fs c1 \<and> r' = None"
  using closed_for_good [OF assms(2)] CloseAll_once [OF assms(1)] by (simp add: closer_Add_def)

lemma listeners_once:
  assumes "listener_step e g g'" and "cl_once (co_Closer g)"
  shows "co_Closer g' = co_Closer g \<and> length (co_Listeners g) = Suc (length (co_Listeners g'))"
  using assms by (auto elim!: listener_stepE handleSignalsE dest: closed_for_good)

lemma listeners_leave:
  assumes "cl_done (co_Closer g)" and "co_Listeners g \<noteq> []"
  shows "\<exists>g'. listener_step e g g'"
  using sees_done [of 0 g e "co_Closer g"] on_done assms by blast

end
