(* ===== verification/Demo.thy ===== *)
theory Demo
  imports System_Runs Closer
begin

text \<open>
  A small installation on which the properties are applied: one pending order, two parts on stock,
  all services up. The lemmas say that it satisfies the properties' hypotheses.
\<close>

definition demo_order :: order where
  "demo_order = \<lparr>ord_ID = 1, ord_UserID = 2, ord_PartIDs = [3], ord_TotalPrice = 200,
     ord_TransactionID = None, ord_PaymentMethod = None, ord_Status = StatusPendingPayment\<rparr>"

definition demo_doc :: "uuid \<Rightarrow> int64 \<Rightarrow> part_entity" where
  "demo_doc i cents = \<lparr>pe_ID = uuid_String canonical_uuid i, pe_Name = ''bolt'', pe_Description = '''',
     pe_PriceCents = cents, pe_StockQuantity = 8, pe_Category = InvCategoryWing, pe_Dimensions = None,
     pe_Manufacturer = None, pe_Tags = [], pe_Metadata = None, pe_CreatedAt = Some 5, pe_UpdatedAt = Some 5\<rparr>"

definition demo_docs :: "part_entity list" where
  "demo_docs = [demo_doc 3 200, demo_doc 5 300]"

definition demo_with :: "order \<Rightarrow> system" where
  "demo_with r = \<lparr>sys_orders = \<lparr>ow_rows = [1 \<mapsto> r], ow_next_id = 4, ow_online = True\<rparr>,
     sys_parts = \<lparr>pw_docs = demo_docs, pw_clock = 7, pw_online = True\<rparr>,
     sys_paid = [], sys_ships = [], sys_uuid = 9, sys_txs = [], sys_log = [], sys_clock = 0,
     sys_shutdown = False, sys_broker_up = True, sys_paid_position = 0, sys_ship_position = 0,
     sys_chats = [11, 12], sys_bot_up = True, sys_delivered = []\<rparr>"

definition demo :: system where
  "demo = demo_with demo_order"

definition demo_pay :: pay_params where
  "demo_pay = \<lparr>pp_ID = 1, pp_UserID = 0, pp_PaymentMethod = PaymentMethodCard\<rparr>"

definition demo_create :: create_params where
  "demo_create = \<lparr>cp_UserID = 2, cp_PartIDs = [3, 5]\<rparr>"

lemma demo_up [simp]: "all_up (demo_with r)" "\<not> sys_shutdown (demo_with r)" "sys_uuid (demo_with r) = 9"
  "sys_txs (demo_with r) = []" "sys_paid (demo_with r) = []" "sys_delivered (demo_with r) = []"
  by (simp_all add: demo_with_def all_up_def)

lemma demo_rows [simp]: "sys_rows (demo_with r) = [1 \<mapsto> r]"
  by (simp add: demo_with_def sys_rows_def)

lemma demo_table [simp]: "ord_ID r = 1 \<Longrightarrow> row_check r \<Longrightarrow> table_ok (sys_rows (demo_with r))"
  by (simp add: table_ok_def)

lemma demo_order_ok [simp]:
  "ord_ID demo_order = 1" "row_check demo_order" "ord_Status demo_order = StatusPendingPayment"
  "ord_TransactionID demo_order = None" "ord_PaymentMethod demo_order = None" "ord_PartIDs demo_order = [3]"
  by (simp_all add: demo_order_def row_check_def order_statuses_def)

lemma demo_next [simp]: "ow_next_id (sys_orders (demo_with r)) = 4"
  by (simp add: demo_with_def)

lemma demo_ok: "table_ok (sys_rows demo)"
  unfolding demo_def by (rule demo_table) simp_all

lemma demo_pay_sel [simp]: "pp_ID demo_pay = 1" "pp_PaymentMethod demo_pay \<in> set known_methods"
  by (simp_all add: demo_pay_def known_methods_def)

lemma demo_docs_ok [simp]: "sys_docs (demo_with r) = demo_docs" "to_lower sys_mongo = map ascii_lower"
  by (simp_all add: demo_with_def sys_docs_def sys_mongo_def zoom_mongo_def coll_mongo_def)

lemma demo_good: "\<forall>ent \<in> set (sys_docs demo). entity_ok (to_lower sys_mongo) ent"
  by (simp add: demo_def demo_docs_def demo_doc_def entity_ok_def)

lemma demo_distinct: "distinct (map pe_ID (sys_docs demo))"
  by (simp add: demo_def demo_docs_def demo_doc_def)

lemma demo_pays: "\<exists>w'. Pay order_svc demo_pay demo = (w', Ok \<lparr>pr_TransactionID = 9\<rparr>)"
  using sys_pay [of demo demo_pay demo_order] demo_ok by (simp add: demo_def)

lemma demo_creates: "\<exists>w'. Create order_svc demo_create demo = (w', Ok \<lparr>cr_ID = 4, cr_TotalPrice = 500\<rparr>)"
proof -
  have "snd (Create order_svc demo_create demo) = Ok \<lparr>cr_ID = 4, cr_TotalPrice = 500\<rparr>" by code_simp
  then show ?thesis by (metis prod.collapse)
qed

lemma inventory_is_remote: "inventory_ListParts order_svc = remote_ListParts log_rpc unix_ts sys_mongo"
  by (simp add: order_svc_def NewOrderService_def remote_ListParts_def)

end
