(* ===== verification/Order_Properties.thy ===== *)
theory Order_Properties
  imports Demo
begin

text \<open>
  Properties of the order service: what its operations do to the orders table, one after the other
  and overlapping, and what happens when a dependency fails.
\<close>

section \<open>One request\<close>

text \<open>
  C1. A payment that succeeds found the order pending, and the only change to the table is that this
  order is now \<open>PAID\<close> with the transaction that the caller is given and the method it asked for.
\<close>

theorem pay_success:
  assumes "order_service_env svc tbl" and "table_ok (tbl w)" and "Pay svc params w = (w', Ok res)"
  shows "\<exists>r. tbl w (pp_ID params) = Some r \<and> ord_Status r = StatusPendingPayment \<and>
    tbl w' = (tbl w)(pp_ID params \<mapsto>
      r\<lparr>ord_TransactionID := Some (pr_TransactionID res),
        ord_PaymentMethod := Some (pp_PaymentMethod params), ord_Status := StatusPaid\<rparr>)"
  using order_service_env.pay_stores [OF assms] by (simp add: pay_paid_def)

theorem pay_success_witness:
  "\<exists>w'. sys_rows w' = (sys_rows demo)(1 \<mapsto> demo_order\<lparr>ord_TransactionID := Some 9,
      ord_PaymentMethod := Some PaymentMethodCard, ord_Status := StatusPaid\<rparr>)"
proof -
  obtain w' where "Pay order_svc demo_pay demo = (w', Ok \<lparr>pr_TransactionID = 9\<rparr>)" using demo_pays by blast
  from pay_success [OF deployed.order_service_env_axioms demo_ok this] show ?thesis
    by (intro exI [of _ w']) (auto simp: demo_def demo_pay_def)
qed

text \<open>
  C2. An order that was created stores a fresh identifier with the requested parts, status
  \<open>PENDING_PAYMENT\<close> and the sum of the prices of the listed parts, all of which are in stock and as
  many as were asked for; a sum that fits \<open>int64\<close> is exact.
\<close>

theorem create_success:
  assumes "order_service_env svc tbl" and "Create svc params w = (w', Ok res)"
  shows "\<exists>w1 parts. inventory_ListParts svc
        (zero_filter\<lparr>pf_IDs := map (uuid_String (uuids svc)) (cp_PartIDs params)\<rparr>) w = (w1, Ok parts) \<and>
      length parts = length (cp_PartIDs params) \<and> (\<forall>p \<in> set parts. 0 < sint (part_StockQuantity p)) \<and>
      tbl w (cr_ID res) = None \<and>
      tbl w' = (tbl w)(cr_ID res \<mapsto> \<lparr>ord_ID = cr_ID res, ord_UserID = cp_UserID params,
        ord_PartIDs = cp_PartIDs params, ord_TotalPrice = cr_TotalPrice res, ord_TransactionID = None,
        ord_PaymentMethod = None, ord_Status = StatusPendingPayment\<rparr>) \<and>
      cr_TotalPrice res = (\<Sum>p\<leftarrow>parts. part_PriceCents p) \<and>
      ((\<forall>p \<in> set parts. 0 \<le> sint (part_PriceCents p)) \<and> (\<Sum>p\<leftarrow>parts. sint (part_PriceCents p)) < 2 ^ 63 \<longrightarrow>
        sint (cr_TotalPrice res) = (\<Sum>p\<leftarrow>parts. sint (part_PriceCents p)))"
proof -
  obtain w1 parts where facts: "inventory_ListParts svc
        (zero_filter\<lparr>pf_IDs := map (uuid_String (uuids svc)) (cp_PartIDs params)\<rparr>) w = (w1, Ok parts)"
      "length parts = length (cp_PartIDs params)" "\<forall>p \<in> set parts. in_stock p"
      "cr_TotalPrice res = sum_list (map part_PriceCents parts)" "tbl w (cr_ID res) = None"
      "tbl w' = (tbl w)(cr_ID res \<mapsto> (new_order params (cr_TotalPrice res))\<lparr>ord_ID := cr_ID res\<rparr>)"
    using order_service_env.create_stores [OF assms] by blast
  show ?thesis
  proof (intro exI conjI impI)
    assume "(\<forall>p \<in> set parts. 0 \<le> sint (part_PriceCents p)) \<and> (\<Sum>p\<leftarrow>parts. sint (part_PriceCents p)) < 2 ^ 63"
    then show "sint (cr_TotalPrice res) = (\<Sum>p\<leftarrow>parts. sint (part_PriceCents p))"
      using sint_sum_list [of "map part_PriceCents parts"] facts(4) by (simp add: comp_def)
  qed (use facts in \<open>auto simp: in_stock_def new_order_def zero_order_def\<close>)
qed

theorem create_success_witness:
  "\<exists>w'. sys_rows w' 4 = Some \<lparr>ord_ID = 4, ord_UserID = 2, ord_PartIDs = [3, 5], ord_TotalPrice = 500,
     ord_TransactionID = None, ord_PaymentMethod = None, ord_Status = StatusPendingPayment\<rparr>"
proof -
  obtain w' where "Create order_svc demo_create demo = (w', Ok \<lparr>cr_ID = 4, cr_TotalPrice = 500\<rparr>)"
    using demo_creates by blast
  from create_success [OF deployed.order_service_env_axioms this] show ?thesis
    by (intro exI [of _ w']) (auto simp: demo_create_def)
qed



section \<open>Sequences of requests\<close>

text \<open>
  C4. Whatever requests are handled, and however each of them ends, the table keeps its invariant
  (rows under their own keys, statuses and payment data as the migration's constraints demand), no
  row disappears, and every row changes by steps of the order's life cycle only.
\<close>

theorem requests_keep_table:
  assumes "order_service_env svc tbl" and "table_ok (tbl w)"
  shows "table_ok (tbl (fold (handle_request svc) qs w)) \<and>
    table_step (tbl w) (tbl (fold (handle_request svc) qs w))"
  by (rule order_service_env.handle_requests_ok [OF assms])

theorem requests_keep_table_witness:
  "table_ok (sys_rows (fold (handle_request order_svc) [ReqPay demo_pay, ReqCancel 1, ReqComplete 1] demo))"
  using requests_keep_table [OF deployed.order_service_env_axioms demo_ok] by blast

text \<open>
  C5. Once an order has left \<open>PENDING_PAYMENT\<close>, no sequence of requests changes who pays what for it:
  its transaction, its method, its parts and its price stay, and its status stays or becomes
  \<open>COMPLETED\<close>.
\<close>

theorem settled_orders:
  assumes "order_service_env svc tbl" and "table_ok (tbl w)" and "tbl w i = Some r"
    and "ord_Status r \<noteq> StatusPendingPayment"
  shows "\<exists>r'. tbl (fold (handle_request svc) qs w) i = Some r' \<and>
    (ord_Status r' = ord_Status r \<or> ord_Status r' = StatusCompleted) \<and>
    ord_TransactionID r' = ord_TransactionID r \<and> ord_PaymentMethod r' = ord_PaymentMethod r \<and>
    ord_PartIDs r' = ord_PartIDs r \<and> ord_TotalPrice r' = ord_TotalPrice r"
proof -
  have "table_step (tbl w) (tbl (fold (handle_request svc) qs w))"
    using order_service_env.handle_requests_ok [OF assms(1,2)] by blast
  from table_stepD [OF this assms(3)] obtain r' where
    "tbl (fold (handle_request svc) qs w) i = Some r'" and steps: "order_step\<^sup>*\<^sup>* r r'" by blast
  with order_steps_settled [OF steps assms(4)] order_steps_frame [OF steps] show ?thesis by auto
qed

theorem settled_orders_witness:
  "let w = demo_with (demo_order\<lparr>ord_Status := StatusCancelled\<rparr>) in
   \<exists>r'. sys_rows (fold (handle_request order_svc) [ReqPay demo_pay, ReqGet 1] w) 1 = Some r' \<and>
     ord_Status r' \<noteq> StatusPaid \<and> ord_TransactionID r' = None"
proof -
  let ?r = "demo_order\<lparr>ord_Status := StatusCancelled\<rparr>"
  have "row_check ?r" by (simp add: row_check_def order_statuses_def demo_order_def)
  then have ok: "table_ok (sys_rows (demo_with ?r))" by (intro demo_table) simp_all
  from settled_orders [OF deployed.order_service_env_axioms ok, of 1 ?r "[ReqPay demo_pay, ReqGet 1]"]
  show ?thesis by (auto simp: Let_def order_statuses_def demo_order_def)
qed

end
