(* ===== verification/System_Properties.thy ===== *)
theory System_Properties
  imports Demo
begin

text \<open>
  Properties that span requests or services: requests that overlap, the way of an order from its
  payment to the finished ship, and what the two services make of a list of parts together.
\<close>

section \<open>Requests that overlap\<close>

text \<open>
  C7. However the calls of concurrent payments, cancellations and completions interleave, the table
  keeps its invariant, no row disappears, and owner, parts and price of every order stay.
\<close>

theorem overlapping_requests:
  assumes "order_service_env svc tbl" and "table_ok (tbl w)" and "\<forall>t \<in> set ts. thread_ok (tbl w) t"
    and "run_schedule svc sched ts w = (ts', w')"
  shows "table_ok (tbl w') \<and> rows_kept (tbl w) (tbl w')"
  using order_service_env.run_schedule_ok [OF assms] by simp

theorem overlapping_requests_witness:
  "table_ok (sys_rows (snd (run_schedule order_svc [0, 1, 0, 2, 1, 0, 0]
     [PayStart demo_pay, CancelStart 1, CompleteStart 1] demo)))"
proof -
  have "\<forall>t \<in> set [PayStart demo_pay, CancelStart 1, CompleteStart 1]. thread_ok (sys_rows demo) t" by simp
  from overlapping_requests [OF deployed.order_service_env_axioms demo_ok this prod.collapse [symmetric]]
  show ?thesis by blast
qed


text \<open>
  Two payments of one order that overlap both succeed: the customer is charged twice, and the stored transaction is the one that was stored last.
\<close>

lemma overlapping_payments:
  assumes up: "all_up s" and ok: "table_ok (sys_rows s)" and row: "sys_rows s i = Some r"
    and st: "ord_Status r = StatusPendingPayment" and ids: "pp_ID p = i" "pp_ID q = i"
    and known: "pp_PaymentMethod p \<in> set known_methods" "pp_PaymentMethod q \<in> set known_methods"
  shows "\<exists>s'. run_schedule order_svc [0, 1, 0, 1, 0, 1, 0, 1] [PayStart p, PayStart q] s =
      ([Done (PayResult (Ok \<lparr>pr_TransactionID = sys_uuid s\<rparr>)),
        Done (PayResult (Ok \<lparr>pr_TransactionID = sys_uuid s + 1\<rparr>))], s') \<and>
    sys_txs s' = sys_txs s @ [uuid_String canonical_uuid (sys_uuid s), uuid_String canonical_uuid (sys_uuid s + 1)] \<and>
    sys_rows s' i = Some (pay_paid order_svc q r (sys_uuid s + 1))"
proof -
  from table_okD [OF ok row] have id: "ord_ID r = i" "i \<noteq> uuid_Nil" "row_check r" by auto
  define s1 where "s1 = charged (charged s)"
  let ?t = "sys_uuid s" and ?u = "sys_uuid s + 1"
  define s2 where "s2 = set_row i (pay_paid order_svc p r ?t) s1"
  define s3 where "s3 = set_row i (pay_paid order_svc q r ?u) s2"
  have chk: "row_check (pay_paid order_svc p r ?t)" "row_check (pay_paid order_svc q r ?u)"
    using id(3) by (simp_all add: pay_paid_def)
  have up1: "all_up s1" "sys_rows s1 i = Some r" using up row by (simp_all add: s1_def)
  have up2: "all_up s2" "sys_rows s2 i = Some (pay_paid order_svc p r ?t)" using up1 by (simp_all add: s2_def)
  have up3: "all_up s3" using up2 by (simp add: s3_def)
  have read: "thread_step order_svc (PayStart p) s = (s, PayCharge p r)"
      "thread_step order_svc (PayStart q) s = (s, PayCharge q r)"
    using sys_read [OF up row] ids st by (simp_all add: pay_guard_def)
  have charge: "thread_step order_svc (PayCharge p r) s = (charged s, PayUpdate p r ?t)"
      "thread_step order_svc (PayCharge q r) (charged s) = (s1, PayUpdate q r ?u)"
    using known by (simp_all add: sys_charge s1_def)
  have upd: "thread_step order_svc (PayUpdate p r ?t) s1 = (s2, PaySend p r ?t)"
      "thread_step order_svc (PayUpdate q r ?u) s2 = (s3, PaySend q r ?u)"
    using pay_update_step [OF up1(1), of r r p ?t] pay_update_step [OF up2(1), of r _ q ?u] up1 up2 id chk
    by (simp_all add: s2_def s3_def merge_second_payment)
  define s4 where "s4 = announced p r ?t s3"
  have send: "thread_step order_svc (PaySend p r ?t) s3 = (s4, Done (PayResult (Ok \<lparr>pr_TransactionID = ?t\<rparr>)))"
      "thread_step order_svc (PaySend q r ?u) s4 = (announced q r ?u s4, Done (PayResult (Ok \<lparr>pr_TransactionID = ?u\<rparr>)))"
    using up3 by (simp_all add: sys_announce s4_def)
  have "sys_rows (announced q r ?u s4) i = Some (pay_paid order_svc q r ?u)"
    by (simp add: s4_def s3_def)
  moreover have "sys_txs (announced q r ?u s4) = sys_txs s @ [uuid_String canonical_uuid ?t, uuid_String canonical_uuid ?u]"
    by (simp add: s4_def s3_def s2_def s1_def announced_def set_row_def charged_def)
  ultimately show ?thesis
    using read charge upd send
    by (simp add: sched_steps del: thread_step.simps order_svc_sel)
qed

text \<open>
  A cancellation that overlaps a payment can be stored after it: both succeed, and the order is
  \<open>CANCELLED\<close> although it was charged.
\<close>

lemma cancel_overtakes_payment:
  assumes up: "all_up s" and ok: "table_ok (sys_rows s)" and row: "sys_rows s i = Some r"
    and st: "ord_Status r = StatusPendingPayment" and unpaid: "ord_TransactionID r = None" "ord_PaymentMethod r = None"
    and ids: "pp_ID p = i" and known: "pp_PaymentMethod p \<in> set known_methods"
  shows "\<exists>s'. run_schedule order_svc [0, 1, 0, 0, 1, 0] [PayStart p, CancelStart i] s =
      ([Done (PayResult (Ok \<lparr>pr_TransactionID = sys_uuid s\<rparr>)), Done (CancelResult (Ok ()))], s') \<and>
    sys_txs s' = sys_txs s @ [uuid_String canonical_uuid (sys_uuid s)] \<and>
    sys_rows s' i = Some ((pay_paid order_svc p r (sys_uuid s))\<lparr>ord_Status := StatusCancelled\<rparr>)"
proof -
  from table_okD [OF ok row] have id: "ord_ID r = i" "i \<noteq> uuid_Nil" "row_check r" by auto
  let ?t = "sys_uuid s" and ?c = "r\<lparr>ord_Status := StatusCancelled\<rparr>"
  let ?p = "pay_paid order_svc p r ?t"
  define s2 where "s2 = set_row i ?p (charged s)"
  define s3 where "s3 = set_row i (?p\<lparr>ord_Status := StatusCancelled\<rparr>) s2"
  let ?x = "?p\<lparr>ord_Status := StatusCancelled\<rparr>"
  have chk: "row_check ?p" "row_check ?x"
    using id(3) by (simp_all add: pay_paid_def row_check_def order_statuses_def)
  have up1: "all_up (charged s)" "sys_rows (charged s) i = Some r" using up row by simp_all
  have up2: "all_up s2" "sys_rows s2 i = Some ?p" "all_up s3" using up by (simp_all add: s2_def s3_def)
  have merged: "merge_order ?c ?p = ?x"
    using unpaid by (simp add: merge_order_def pay_paid_def)
  have read: "thread_step order_svc (PayStart p) s = (s, PayCharge p r)"
      "thread_step order_svc (CancelStart i) s = (s, CancelUpdate r)"
    using sys_read [OF up row] ids st by (simp_all add: pay_guard_def cancel_guard_def)
  have charge: "thread_step order_svc (PayCharge p r) s = (charged s, PayUpdate p r ?t)"
    using known by (simp add: sys_charge)
  have upd: "thread_step order_svc (PayUpdate p r ?t) (charged s) = (s2, PaySend p r ?t)"
    using pay_update_step [OF up1(1), of r r p ?t] up1 id chk by (simp add: s2_def)
  have cancel: "thread_step order_svc (CancelUpdate r) s2 = (s3, Done (CancelResult (Ok ())))"
    using sys_update [of s2 ?c ?p] up2 id chk merged by (simp add: s3_def)
  have send: "thread_step order_svc (PaySend p r ?t) s3 =
      (announced p r ?t s3, Done (PayResult (Ok \<lparr>pr_TransactionID = ?t\<rparr>)))"
    using up2 by (simp add: sys_announce)
  have "sys_rows (announced p r ?t s3) i = Some ?x" by (simp add: s3_def)
  moreover have "sys_txs (announced p r ?t s3) = sys_txs s @ [uuid_String canonical_uuid ?t]"
    by (simp add: s3_def s2_def announced_def set_row_def charged_def)
  ultimately show ?thesis
    using read charge upd cancel send
    by (simp add: sched_steps del: thread_step.simps order_svc_sel)
qed

text \<open>
  C9. Requests for one pending order that overlap are not isolated. Two payments both succeed: the
  customer is charged twice, and the stored transaction is the one that was stored last. A
  cancellation can be stored after a payment: both succeed, and the order is \<open>CANCELLED\<close> although it
  was charged.
\<close>

theorem overlapping_not_isolated:
  assumes "all_up s" and "table_ok (sys_rows s)" and "sys_rows s i = Some r"
    and "ord_Status r = StatusPendingPayment" and "ord_TransactionID r = None" "ord_PaymentMethod r = None"
    and "pp_ID p = i" "pp_ID q = i"
    and "pp_PaymentMethod p \<in> set known_methods" "pp_PaymentMethod q \<in> set known_methods"
  shows "(\<exists>s'. run_schedule order_svc [0, 1, 0, 1, 0, 1, 0, 1] [PayStart p, PayStart q] s =
      ([Done (PayResult (Ok \<lparr>pr_TransactionID = sys_uuid s\<rparr>)),
        Done (PayResult (Ok \<lparr>pr_TransactionID = sys_uuid s + 1\<rparr>))], s') \<and>
    sys_txs s' = sys_txs s @ [uuid_String canonical_uuid (sys_uuid s), uuid_String canonical_uuid (sys_uuid s + 1)] \<and>
    sys_rows s' i = Some (pay_paid order_svc q r (sys_uuid s + 1))) \<and>
   (\<exists>s'. run_schedule order_svc [0, 1, 0, 0, 1, 0] [PayStart p, CancelStart i] s =
      ([Done (PayResult (Ok \<lparr>pr_TransactionID = sys_uuid s\<rparr>)), Done (CancelResult (Ok ()))], s') \<and>
    sys_txs s' = sys_txs s @ [uuid_String canonical_uuid (sys_uuid s)] \<and>
    sys_rows s' i = Some ((pay_paid order_svc p r (sys_uuid s))\<lparr>ord_Status := StatusCancelled\<rparr>))"
  using overlapping_payments [OF assms(1-4,7-10)] cancel_overtakes_payment [OF assms(1-7,9)] by blast

theorem overlapping_not_isolated_witness:
  "(\<exists>s'. sys_txs s' = [uuid_String canonical_uuid 9, uuid_String canonical_uuid 10] \<and>
     (\<exists>r. sys_rows s' 1 = Some r \<and> ord_TransactionID r = Some 10)) \<and>
   (\<exists>s'. sys_txs s' = [uuid_String canonical_uuid 9] \<and>
     (\<exists>r. sys_rows s' 1 = Some r \<and> ord_Status r = StatusCancelled \<and> ord_TransactionID r = Some 9))"
  using overlapping_not_isolated [of demo 1 demo_order demo_pay demo_pay] demo_ok
  by (auto simp: demo_def pay_paid_def)

section \<open>From the payment to the finished ship\<close>

text \<open>
  C11. On a system that is up, the payment of a pending order succeeds and publishes one message on
  \<open>order.paid\<close>; the assembly service turns that message into one message on \<open>order.assembled\<close>, and
  the order service turns that one into the order being \<open>COMPLETED\<close>, still with the transaction the
  caller was given.
\<close>

theorem payment_to_completion:
  assumes up: "all_up s" and run: "\<not> sys_shutdown s" and ok: "table_ok (sys_rows s)"
    and row: "sys_rows s (pp_ID params) = Some r" and st: "ord_Status r = StatusPendingPayment"
    and known: "pp_PaymentMethod params \<in> set known_methods"
  shows "\<exists>s1 paid s2 ship s3.
    Pay order_svc params s = (s1, Ok \<lparr>pr_TransactionID = sys_uuid s\<rparr>) \<and> sys_paid s1 = sys_paid s @ [paid] \<and>
    paidOrderHandler assembly_svc assemblyDelay (message_of paid) s1 = (s2, Ok ()) \<and>
    sys_ships s2 = sys_ships s @ [ship] \<and> sys_clock s2 = sys_clock s + 10000000000 \<and>
    shipAssembledHandler wire_proto canonical_uuid (Complete order_svc) (message_of ship) s2 = (s3, Ok ()) \<and>
    sys_rows s3 = (sys_rows s)(pp_ID params \<mapsto> r\<lparr>ord_TransactionID := Some (sys_uuid s),
      ord_PaymentMethod := Some (pp_PaymentMethod params), ord_Status := StatusCompleted\<rparr>)"
proof -
  let ?t = "sys_uuid s" and ?e = "sys_uuid s + 1" and ?i = "pp_ID params"
  from table_okD [OF ok row] have id: "ord_ID r = ?i" "?i \<noteq> uuid_Nil" "row_check r" by auto
  define p where "p = pay_paid order_svc params r ?t"
  define s1 where "s1 = announced params r ?t (set_row ?i p (charged s))"
  define s2 where "s2 = built ?e r s1"
  let ?paid = "(uuid_bytes (ord_ID r), wire_paid (paid_record params r ?t ?e))"
  let ?ship = "(uuid_bytes (ord_ID r), wire_ship (built_record ?e r))"
  have pay: "Pay order_svc params s = (s1, Ok \<lparr>pr_TransactionID = ?t\<rparr>)"
    using sys_pay [OF up ok row st known] by (simp add: s1_def p_def)
  have s1: "all_up s1" "\<not> sys_shutdown s1" "sys_rows s1 = (sys_rows s)(?i \<mapsto> p)"
      "sys_paid s1 = sys_paid s @ [?paid]" "sys_ships s1 = sys_ships s" "sys_clock s1 = sys_clock s"
    using up run by (simp_all add: s1_def announced_def set_row_def charged_def all_up_def sys_rows_def)
  have build: "paidOrderHandler assembly_svc assemblyDelay (message_of ?paid) s1 = (s2, Ok ())"
    unfolding s2_def by (rule sys_assemble [OF s1(1,2), where p = params and t = ?t]) (simp add: message_of_def)
  have s2: "all_up s2" "sys_rows s2 = sys_rows s1" "sys_ships s2 = sys_ships s @ [?ship]"
      "sys_clock s2 = sys_clock s + 10000000000"
    using s1 by (simp_all add: s2_def built_def all_up_def sys_rows_def)
  have pok: "row_check p" "ord_ID p = ?i" using id by (simp_all add: p_def pay_paid_def)
  have "table_ok (sys_rows s2)" using ok id pok s1 s2 by (simp add: table_ok_upd)
  then have complete: "Complete order_svc ?i s2 = (set_row ?i (p\<lparr>ord_Status := StatusCompleted\<rparr>) s2, Ok ())"
    using s1 s2 by (intro sys_complete) simp_all
  have "shipAssembledHandler wire_proto canonical_uuid (Complete order_svc) (message_of ?ship) s2 =
      Complete order_svc (ord_ID r) s2"
    by (rule sys_ship_done [where e = ?e]) (simp add: message_of_def)
  with complete id have stored: "shipAssembledHandler wire_proto canonical_uuid (Complete order_svc) (message_of ?ship) s2 =
      (set_row ?i (p\<lparr>ord_Status := StatusCompleted\<rparr>) s2, Ok ())"
    by simp
  have "sys_rows (set_row ?i (p\<lparr>ord_Status := StatusCompleted\<rparr>) s2) = (sys_rows s)(?i \<mapsto>
      r\<lparr>ord_TransactionID := Some ?t, ord_PaymentMethod := Some (pp_PaymentMethod params), ord_Status := StatusCompleted\<rparr>)"
    using s1 s2 by (simp add: p_def pay_paid_def)
  with pay s1(4) build s2(3,4) stored show ?thesis by blast
qed

theorem payment_to_completion_witness:
  "\<exists>s3. sys_rows s3 = [1 \<mapsto> demo_order\<lparr>ord_TransactionID := Some 9, ord_PaymentMethod := Some PaymentMethodCard,
     ord_Status := StatusCompleted\<rparr>]"
  using payment_to_completion [of demo demo_pay demo_order] demo_ok demo_pay_sel(2)
  by (auto simp: demo_def demo_pay_def)

text \<open>
  Completion looks at no status: the message of a finished ship completes a cancelled order,
  which nobody has paid.
\<close>

lemma cancelled_order_completed:
  assumes up: "all_up s" and ok: "table_ok (sys_rows s)" and row: "sys_rows s i = Some r"
    and "km_Value msg = wire_ship (built_record e (r\<lparr>ord_ID := i\<rparr>))"
  shows "\<exists>s'. shipAssembledHandler wire_proto canonical_uuid (Complete order_svc) msg s = (s', Ok ()) \<and>
    sys_rows s' = (sys_rows s)(i \<mapsto> r\<lparr>ord_Status := StatusCompleted\<rparr>)"
  using sys_ship_done [OF assms(4)] sys_complete [OF up ok row] by simp

lemma cancelled_order_completed_demo:
  "let r = demo_order\<lparr>ord_Status := StatusCancelled\<rparr> in
   \<exists>s'. sys_rows s' = [1 \<mapsto> r\<lparr>ord_Status := StatusCompleted\<rparr>] \<and> ord_TransactionID r = None"
proof -
  let ?r = "demo_order\<lparr>ord_Status := StatusCancelled\<rparr>"
  let ?msg = "message_of ([], wire_ship (built_record 8 (?r\<lparr>ord_ID := 1\<rparr>)))"
  have "row_check ?r" by (simp add: row_check_def order_statuses_def demo_order_def)
  then have ok: "table_ok (sys_rows (demo_with ?r))" by (intro demo_table) simp_all
  have "\<exists>s'. shipAssembledHandler wire_proto canonical_uuid (Complete order_svc) ?msg (demo_with ?r) = (s', Ok ()) \<and>
      sys_rows s' = (sys_rows (demo_with ?r))(1 \<mapsto> ?r\<lparr>ord_Status := StatusCompleted\<rparr>)"
    by (rule cancelled_order_completed [OF _ ok]) (simp_all add: message_of_def)
  then show ?thesis by (auto simp: Let_def)
qed

section \<open>Parts that the order service lists\<close>

text \<open>
  An order that names a part twice cannot be created: the inventory lists every part once, so the
  service counts a part as missing.
\<close>

lemma duplicate_parts_rejected:
  assumes coll: "parts_coll m docs stored" and good: "\<forall>ent \<in> set (docs w). entity_ok (to_lower m) ent"
    and dist: "distinct (map pe_ID (docs w))"
    and invc: "inventory_ListParts svc = remote_ListParts emit T m" and codec: "uuid_codec (uuids svc)"
    and dup: "\<not> distinct (cp_PartIDs params)" and user: "cp_UserID params \<noteq> uuid_Nil"
  shows "snd (Create svc params w) = Err (wrap op_Create (Sentinel ErrPartNotFound)) \<or>
    snd (Create svc params w) = Err (wrap op_Create (Sentinel ErrBadGateway))"
proof -
  let ?ids = "map (uuid_String (uuids svc)) (cp_PartIDs params)"
  have ne: "cp_PartIDs params \<noteq> []" using dup by auto
  obtain w1 r where run: "remote_ListParts emit T m (zero_filter\<lparr>pf_IDs := ?ids\<rparr>) w = (w1, r)" by fastforce
  show ?thesis
  proof (cases r)
    case (Ok ps)
    from remote_list_ids [OF coll good dist _ run [unfolded Ok]] ne
    have sub: "set (map part_ID ps) \<subseteq> set ?ids" and d: "distinct (map part_ID ps)" by auto
    have "length ps = card (set (map part_ID ps))" using distinct_card [OF d] by simp
    also have "\<dots> \<le> card (set ?ids)" using sub by (intro card_mono) auto
    also have "\<dots> < length ?ids"
      using dup codec card_length [of ?ids] card_distinct [of ?ids]
      by (auto simp: uuid_codec.distinct_strings [OF codec] order_less_le simp del: length_map)
    finally have "length ps \<noteq> length (cp_PartIDs params)" by simp
    then show ?thesis using run Ok ne user by (simp add: Create_def invc call_def fail_def)
  next
    case (Err e)
    then show ?thesis using run ne user by (simp add: Create_def invc call_def)
  next
    case (Panic x)
    with run remote_no_panic [of emit T m] show ?thesis by metis
  qed
qed



end
