(* ===== verification/Http_Properties.thy ===== *)
theory Http_Properties
  imports System_Properties Order_Http
begin

text \<open>
  Properties of the order service's two borders: the repository towards PostgreSQL, and the HTTP
  interface with its router, error responses and price text.
\<close>

section \<open>The repository\<close>

lemma create_then_read:
  assumes "orders_db pg tbl" and "pg_Create pg ord w = (w1, Ok i)" and "pg_OrderByID pg i w1 = (w2, res)"
  shows "res = Ok (ord\<lparr>ord_ID := i\<rparr>) \<or> (\<exists>e. res = Err e \<and> \<not> errors_Is e ErrOrderNotFound)"
proof -
  have api: "order_repo_api (pg_Create pg) (pg_OrderByID pg) (pg_Update pg) tbl"
    using assms(1) by (rule orders_db.meets_repo_api)
  have stored: "tbl w1 i = Some (ord\<lparr>ord_ID := i\<rparr>)"
    using order_repo_api.create_ok [OF api assms(2)] by simp
  show ?thesis
  proof (cases res)
    case (Ok r)
    with order_repo_api.by_id_ok [OF api, of i w1 w2 r] assms(3) stored show ?thesis by simp
  next
    case (Err e)
    with order_repo_api.by_id_not_found [OF api, of i w1 w2 e] assms(3) stored show ?thesis by auto
  qed (use assms(3) order_repo_api.repo_no_panic(2) [OF api] in simp)
qed

lemma update_contract:
  assumes db: "orders_db pg tbl" and run: "pg_Update pg upd w = (w', r)"
  shows "(r = Ok () \<and> tbl w' = (case tbl w (ord_ID upd) of None \<Rightarrow> tbl w
            | Some x \<Rightarrow> (tbl w)(ord_ID upd \<mapsto> merge_order upd x)) \<and>
          (set_map upd \<noteq> [] \<longrightarrow> tbl w (ord_ID upd) \<noteq> None) \<and> ord_ID upd \<noteq> uuid_Nil \<and>
          (ord_Status upd = StatusPaid \<longrightarrow> ord_TransactionID upd \<noteq> None \<and> ord_PaymentMethod upd \<noteq> None)) \<or>
    (\<exists>e. r = Err e \<and> tbl w' = tbl w)"
proof (cases r)
  case (Ok u)
  show ?thesis
  proof (cases "set_map upd = []")
    case True
    have "merge_order upd x = x" for x
      using arg_cong [OF True, of "\<lambda>l. fold set_col l x"] by (simp add: fold_set_map)
    with True Ok run show ?thesis
      by (auto simp: pg_Update_def fun_upd_idem split: if_splits option.splits)
  next
    case False
    with Ok run show ?thesis
      by (auto simp: pg_Update_def go_elims fold_set_map split: if_splits dest!: orders_db.update_some [OF db])
  qed
next
  case (Err e)
  with run order_repo_api.update_err [OF orders_db.meets_repo_api [OF db]] show ?thesis by blast
next
  case (Panic p)
  with run order_repo_api.repo_no_panic(3) [OF orders_db.meets_repo_api [OF db]] show ?thesis by blast
qed



section \<open>The router\<close>

text \<open>
  C17. The generated router calls the handler of an operation with the arguments \<open>as\<close> exactly for the
  operation's method and path with \<open>as\<close> filled in, where an argument is any text without a slash; and
  \<open>FindPath\<close> finds a route exactly where \<open>ServeHTTP\<close> calls a handler: the route of that operation with
  the same arguments, unescaped where the request had an escaped path.
\<close>

theorem router_exact:
  "(ServeHTTP norm pre meth u = HandleOp oper as esc \<longleftrightarrow>
     (\<exists>p. path_of oper as = Some p \<and> request_elem norm u = (pre @ p, esc) \<and> args_ok as \<and> meth = method_of oper)) \<and>
   FindPath norm unesc pre meth u =
     (case ServeHTTP norm pre meth u of
        HandleOp oper as _ \<Rightarrow> Some (unescape_args unesc u (route_of oper as))
      | _ \<Rightarrow> None)"
proof (intro conjI iffI)
  assume "ServeHTTP norm pre meth u = HandleOp oper as esc"
  from dispatch_sound [OF this] show "\<exists>p. path_of oper as = Some p \<and> request_elem norm u = (pre @ p, esc) \<and>
      args_ok as \<and> meth = method_of oper"
    by (simp only: prod_eq_iff fst_conv snd_conv) blast
next
  assume "\<exists>p. path_of oper as = Some p \<and> request_elem norm u = (pre @ p, esc) \<and> args_ok as \<and> meth = method_of oper"
  then show "ServeHTTP norm pre meth u = HandleOp oper as esc" using dispatch_complete by blast
qed (simp add: FindPath_dispatched dispatched_def)

section \<open>Error responses\<close>

lemma error_responses:
  "reply_status (encodeCreateOrderResponse (mapErrorToCreateOrderRes e)) = Some (create_status e) \<and>
   reply_status (encodePayOrderResponse (mapErrorToPayOrderRes e)) = Some (pay_status e) \<and>
   reply_status (encodeGetOrderByUUIDResponse (mapErrorToGetOrderRes e)) = Some (get_status e) \<and>
   reply_status (encodeCancelOrderResponse (mapErrorToCancelOrderRes e)) = Some (cancel_status e) \<and>
   body_code (mapErrorToCreateOrderRes e) = Some (if errors_Is e ErrValidation then 400 else of_nat (create_status e)) \<and>
   body_code (mapErrorToPayOrderRes e) = Some (if errors_Is e ErrValidation then 400 else of_nat (pay_status e)) \<and>
   body_code (mapErrorToGetOrderRes e) = Some (of_nat (get_status e)) \<and>
   body_code (mapErrorToCancelOrderRes e) = Some (of_nat (cancel_status e))"
  by (simp add: error_status error_body_code)

lemma settled_order_responses:
  assumes codec: "uuid_codec (uuids svc)" and read: "repo_OrderByID svc i w = (w', Ok r)"
    and st: "ord_Status r \<in> {StatusPaid, StatusCancelled, StatusCompleted}"
  shows "(\<exists>res. PayOrder_handler svc req i w = (w', Ok res) \<and>
      reply_status (encodePayOrderResponse res) = Some (if ord_Status r = StatusCompleted then 500 else 409)) \<and>
    (\<exists>res. CancelOrder_handler svc i w = (w', Ok res) \<and>
      reply_status (encodeCancelOrderResponse res) = Some (if ord_Status r = StatusCancelled then 500 else 409))"
  using st
  by (auto simp: PayOrder_handler_def CancelOrder_handler_def with_order_id_codec [OF codec] respond_def
      Pay_def Cancel_def PayOrderRequestToParams_def call_def read pay_guard_def cancel_guard_def fail_def
      error_status pay_status_def cancel_status_def)

text \<open>
  C19. Every error of the service has a response: the status is that of the sentinel it wraps, 500
  for any other error, and the code in the body is the status, except that a validation error says
  400 under the status 422. A payment or cancellation of an order that is no longer pending changes
  nothing: the response is 409 for the conflicts the service knows, but 500 where its switch has no
  case, paying a \<open>COMPLETED\<close> order and cancelling a \<open>CANCELLED\<close> one.
\<close>

theorem error_responses_exact:
  "(reply_status (encodeCreateOrderResponse (mapErrorToCreateOrderRes e)) = Some (create_status e) \<and>
      reply_status (encodePayOrderResponse (mapErrorToPayOrderRes e)) = Some (pay_status e) \<and>
      reply_status (encodeGetOrderByUUIDResponse (mapErrorToGetOrderRes e)) = Some (get_status e) \<and>
      reply_status (encodeCancelOrderResponse (mapErrorToCancelOrderRes e)) = Some (cancel_status e) \<and>
      body_code (mapErrorToCreateOrderRes e) = Some (if errors_Is e ErrValidation then 400 else of_nat (create_status e)) \<and>
      body_code (mapErrorToPayOrderRes e) = Some (if errors_Is e ErrValidation then 400 else of_nat (pay_status e)) \<and>
      body_code (mapErrorToGetOrderRes e) = Some (of_nat (get_status e)) \<and>
      body_code (mapErrorToCancelOrderRes e) = Some (of_nat (cancel_status e))) \<and>
    (uuid_codec (uuids svc) \<longrightarrow> repo_OrderByID svc i w = (w', Ok r) \<longrightarrow>
       ord_Status r \<in> {StatusPaid, StatusCancelled, StatusCompleted} \<longrightarrow>
    (\<exists>res. PayOrder_handler svc req i w = (w', Ok res) \<and>
      reply_status (encodePayOrderResponse res) = Some (if ord_Status r = StatusCompleted then 500 else 409)) \<and>
    (\<exists>res. CancelOrder_handler svc i w = (w', Ok res) \<and>
      reply_status (encodeCancelOrderResponse res) = Some (if ord_Status r = StatusCancelled then 500 else 409)))"
  using error_responses settled_order_responses [of svc i w w' r] by blast

theorem error_responses_exact_witness:
  "let s = demo_with (demo_order\<lparr>ord_Status := StatusCompleted\<rparr>) in
   \<exists>res. PayOrder_handler order_svc \<lparr>por_PaymentMethod = ''PAYMENT_METHOD_SBP''\<rparr> 1 s = (s, Ok res) \<and>
     reply_status (encodePayOrderResponse res) = Some 500"
proof -
  let ?r = "demo_order\<lparr>ord_Status := StatusCompleted\<rparr>"
  have "repo_OrderByID order_svc 1 (demo_with ?r) = (demo_with ?r, Ok ?r)"
    by (simp add: sys_read)
  with error_responses_exact [of _ order_svc 1 "demo_with ?r" "demo_with ?r" ?r] show ?thesis
    by (simp add: Let_def canon.uuid_codec_axioms)
qed

section \<open>Prices and stored orders\<close>

text \<open>
  C21. The text of a price says the price: it is optional sign, digits, point and two digits, as the
  response's validator demands, and reads back as the number of cents. The one exception among the
  64-bit numbers is the smallest.
\<close>

theorem price_text_faithful:
  "(sint c \<noteq> - (2 ^ 63) \<longrightarrow> price_pattern (formatCents c) \<and> read_price (formatCents c) = sint c) \<and>
   (sint c = - (2 ^ 63) \<longrightarrow> formatCents c = ''--92233720368547758.-8'' \<and> \<not> price_pattern (formatCents c))"
proof -
  have "c = word_of_int (- (2 ^ 63))" if "sint c = - (2 ^ 63)"
    using that by (intro signed_word_eqI) (simp add: signed_take_bit_int_eq_self sint_sbintrunc')
  then show ?thesis
    using formatCents_pattern [of c] read_formatCents [of c] formatCents_min formatCents_min_pattern by auto
qed

theorem price_text_faithful_witness:
  "price_pattern (formatCents 1205) \<and> read_price (formatCents 1205) = 1205"
  using price_text_faithful [of 1205] by simp



text \<open>
  The API lets a client ask for the method \<open>PAYMENT_METHOD_UNKNOWN\<close>. The payment service refuses it, so
  that the client's mistake is answered with 502 \<open>Bad Gateway\<close>.
\<close>

lemma unknown_method_bad_gateway:
  assumes up: "all_up s" and row: "sys_rows s i = Some r" and st: "ord_Status r = StatusPendingPayment"
    and m: "OAPIToPaymentMethod (por_PaymentMethod req) \<notin> set known_methods"
  shows "\<exists>s' res. PayOrder_handler order_svc req i s = (s', Ok res) \<and>
    reply_status (encodePayOrderResponse res) = Some 502 \<and> sys_rows s' = sys_rows s \<and>
    sys_txs s' = sys_txs s \<and> sys_paid s' = sys_paid s"
proof -
  let ?p = "PayOrderRequestToParams i req"
  let ?q = "PayOrderParamsToPB canonical_uuid (?p\<lparr>pp_UserID := ord_UserID r\<rparr>)"
  have "ppr_PaymentMethod ?q = PAYMENT_METHOD_UNKNOWN"
    using m by (simp add: PayOrderParamsToPB_def PayOrderRequestToParams_def paymentMethodToPB_unknown)
  moreover have "PAYMENT_METHOD_UNKNOWN \<notin> set supported_methods"
    by (simp add: supported_methods_def pb_method_defs)
  ultimately have refuse: "PayOrder_grpc_handler (payment_PayOrder_svc new_tx) (Some ?q) s =
      (s, Err (status_Error GrpcInvalidArgument ''payment_method unknown''))"
    by (simp add: handler_rejects_method)
  have "\<exists>l e. rpc (payment_PayOrder_endpoint log_rpc new_tx) ?q s = (s\<lparr>sys_log := l\<rparr>, Err e)"
    by (auto simp: rpc_def payment_PayOrder_endpoint_def UnaryLogging_def RejectNilRequest_def refuse
        log_rpc_def Let_def)
  then obtain l e where run: "rpc (payment_PayOrder_endpoint log_rpc new_tx) ?q s = (s\<lparr>sys_log := l\<rparr>, Err e)"
    by blast
  have "pay_charge order_svc ?p r s = (s\<lparr>sys_log := l\<rparr>, Err (wrap op_Pay (Sentinel ErrBadGateway)))"
    using run by (simp add: pay_charge_def order_svc_def NewOrderService_def pmtclient_PayOrder_def call_def)
  then have "Pay order_svc ?p s = (s\<lparr>sys_log := l\<rparr>, Err (wrap op_Pay (Sentinel ErrBadGateway)))"
    using st by (simp add: Pay_def PayOrderRequestToParams_def call_def sys_read [OF up row] pay_guard_def)
  then have "PayOrder_handler order_svc req i s =
      (s\<lparr>sys_log := l\<rparr>, Ok (mapErrorToPayOrderRes (wrap op_Pay (Sentinel ErrBadGateway))))"
    by (simp add: PayOrder_handler_def with_order_id_codec canon.uuid_codec_axioms respond_def)
  then show ?thesis by (simp add: error_status pay_status_def sys_rows_def)
qed



end
