(* ===== verification/Parts_Properties.thy ===== *)
theory Parts_Properties
  imports Demo
begin

text \<open>
  Properties of the inventory and the payment service: what the gRPC handlers answer, what a batch
  stores, how a filter is turned into a MongoDB query, and which payments are accepted.
\<close>

section \<open>The inventory's answers\<close>

text \<open>
  \<open>ListParts\<close> changes nothing and answers with exactly the stored parts that the filter
  selects, once per document, or with an internal error. The handler panics only where a stored part
  lacks one of its two times.
\<close>

lemma list_parts_exact:
  assumes "parts_coll m docs stored" and "\<forall>ent \<in> set (docs w). entity_ok (to_lower m) ent"
    and "ListParts_handler T (mongo_parts m) req w = (w', r)"
  shows "map EntityToModel (docs w') = map EntityToModel (docs w) \<and>
    (case r of
       Ok resp \<Rightarrow> mset (lpo_Parts resp) = image_mset (Some \<circ> pb_of T) (mset (filter
         (part_selected (to_lower m) (PartsFilterToModel (ListPartsRequest_GetFilter req))) (map EntityToModel (docs w))))
     | Err st \<Rightarrow> st = status_Error GrpcInternal ''internal error''
     | Panic _ \<Rightarrow> \<exists>ent \<in> set (docs w). \<not> timestamped (EntityToModel ent))"
proof -
  note server = parts_coll.meets_server [OF assms(1)]
  have "map EntityToModel (docs w') = map EntityToModel (docs w)"
    using inventory_server.list_parts_frame [OF server assms(3)] by simp
  moreover have "case r of
       Ok resp \<Rightarrow> mset (lpo_Parts resp) = image_mset (Some \<circ> pb_of T) (mset (filter
         (part_selected (to_lower m) (PartsFilterToModel (ListPartsRequest_GetFilter req))) (map EntityToModel (docs w))))
     | Err st \<Rightarrow> st = status_Error GrpcInternal ''internal error''
     | Panic _ \<Rightarrow> \<exists>ent \<in> set (docs w). \<not> timestamped (EntityToModel ent)"
  proof (cases r)
    case (Ok resp)
    with inventory_server.list_parts_ok [OF server assms(2)] assms(3) show ?thesis by simp
  next
    case (Err st)
    with inventory_server.list_parts_err [OF server] assms(3) show ?thesis by simp
  next
    case (Panic p)
    with inventory_server.list_parts_no_panic [OF server assms(2)] assms(3) show ?thesis by fastforce
  qed
  ultimately show ?thesis by simp
qed

text \<open>
  \<open>GetPart\<close> changes nothing. It answers with the stored part of the requested identifier,
  spaces around it dropped; it says \<open>InvalidArgument\<close> exactly for an identifier of spaces only, and
  \<open>NotFound\<close> only where no such part is stored.
\<close>

lemma get_part_exact:
  assumes "parts_coll m docs stored" and "GetPart_handler T (mongo_parts m) req w = (w', r)"
  shows "map EntityToModel (docs w') = map EntityToModel (docs w) \<and>
    (case r of
       Ok resp \<Rightarrow> \<exists>ent \<in> set (docs w). pe_ID ent = TrimSpace (GetPartRequest_GetUuid req) \<and>
         gpo_Part resp = Some (pb_of T (EntityToModel ent))
     | Err st \<Rightarrow> (st_Code st = GrpcInvalidArgument \<longleftrightarrow> TrimSpace (GetPartRequest_GetUuid req) = '''') \<and>
         (st_Code st = GrpcNotFound \<longrightarrow> TrimSpace (GetPartRequest_GetUuid req) \<notin> pe_ID ` set (docs w))
     | Panic _ \<Rightarrow> True)"
proof -
  note server = parts_coll.meets_server [OF assms(1)]
  have id: "ip_ID (EntityToModel e) = pe_ID e" for e by (simp add: EntityToModel_def)
  have "map EntityToModel (docs w') = map EntityToModel (docs w)"
    using inventory_server.get_part_frame [OF server assms(2)] by simp
  with assms(2) inventory_server.get_part_ok [OF server] inventory_server.get_part_err [OF server]
  show ?thesis by (cases r) (fastforce simp: id image_image)+
qed

text \<open>
  C24. Both queries change nothing. \<open>ListParts\<close> answers with exactly the stored parts that the filter
  selects, once per document, or with an internal error; it panics only where a stored part lacks
  one of its two times. \<open>GetPart\<close> answers with the stored part of the requested identifier, spaces
  around it dropped; it says \<open>InvalidArgument\<close> exactly for an identifier of spaces only, and
  \<open>NotFound\<close> only where no such part is stored.
\<close>

theorem inventory_answers_exact:
  assumes "parts_coll m docs stored" and "\<forall>ent \<in> set (docs w). entity_ok (to_lower m) ent"
    and "ListParts_handler T (mongo_parts m) lreq w = (w1, r1)"
    and "GetPart_handler T (mongo_parts m) greq w = (w2, r2)"
  shows "map EntityToModel (docs w1) = map EntityToModel (docs w) \<and>
    map EntityToModel (docs w2) = map EntityToModel (docs w) \<and>
    (case r1 of
       Ok resp \<Rightarrow> mset (lpo_Parts resp) = image_mset (Some \<circ> pb_of T) (mset (filter
         (part_selected (to_lower m) (PartsFilterToModel (ListPartsRequest_GetFilter lreq))) (map EntityToModel (docs w))))
     | Err st \<Rightarrow> st = status_Error GrpcInternal ''internal error''
     | Panic _ \<Rightarrow> \<exists>ent \<in> set (docs w). \<not> timestamped (EntityToModel ent)) \<and>
    (case r2 of
       Ok resp \<Rightarrow> \<exists>ent \<in> set (docs w). pe_ID ent = TrimSpace (GetPartRequest_GetUuid greq) \<and>
         gpo_Part resp = Some (pb_of T (EntityToModel ent))
     | Err st \<Rightarrow> (st_Code st = GrpcInvalidArgument \<longleftrightarrow> TrimSpace (GetPartRequest_GetUuid greq) = '''') \<and>
         (st_Code st = GrpcNotFound \<longrightarrow> TrimSpace (GetPartRequest_GetUuid greq) \<notin> pe_ID ` set (docs w))
     | Panic _ \<Rightarrow> True)"
  using list_parts_exact [OF assms(1-3)] get_part_exact [OF assms(1,4)] by blast

theorem inventory_answers_exact_witness:
  "\<exists>s r t st. ListParts_handler unix_ts (mongo_parts sys_mongo) None demo = (s, r) \<and>
     map EntityToModel (sys_docs s) = map EntityToModel demo_docs \<and>
     GetPart_handler unix_ts (mongo_parts sys_mongo) (Some \<lparr>gpr_Uuid = ''  ''\<rparr>) demo = (t, Err st) \<and>
     st_Code st = GrpcInvalidArgument"
proof -
  let ?req = "Some \<lparr>gpr_Uuid = ''  ''\<rparr>"
  obtain s r where list: "ListParts_handler unix_ts (mongo_parts sys_mongo) None demo = (s, r)" by fastforce
  have blank: "TrimSpace (GetPartRequest_GetUuid ?req) = ''''" by code_simp
  then have "snd (GetPart_handler unix_ts (mongo_parts sys_mongo) ?req demo) =
      Err (status_Error GrpcInvalidArgument ''invalid argument'')"
    by (simp add: GetPart_handler_def inventory_Part_def call_def fail_def inventory_mapError_def)
  then obtain t where get: "GetPart_handler unix_ts (mongo_parts sys_mongo) ?req demo =
      (t, Err (status_Error GrpcInvalidArgument ''invalid argument''))"
    by (metis prod.collapse)
  note both = inventory_answers_exact [OF stock.parts_coll_axioms demo_good list get]
  from both have "map EntityToModel (sys_docs s) = map EntityToModel demo_docs" by (simp add: demo_def)
  moreover from both blank have "st_Code (status_Error GrpcInvalidArgument ''invalid argument'') = GrpcInvalidArgument"
    by simp
  ultimately show ?thesis using list get by blast
qed

section \<open>Storing parts\<close>

lemma bootstrap_numbers_lost:
  "\<exists>md. pbp_Metadata (pb_of T (EntityToModel (bson_stored (EntityFromModel ulow (bootstrap_engine i now))))) = Some md \<and>
     md ''warranty_years'' = None \<and> md ''fuel_type'' = Some (Some \<lparr>pbv_Value = Some (Value_StringValue ''quantum-plasma'')\<rparr>) \<and>
     md ''military_grade'' = Some (Some \<lparr>pbv_Value = Some (Value_BoolValue True)\<rparr>)"
  by (simp add: pb_of_def EntityToModel_def bson_stored_def EntityFromModel_def bootstrap_engine_def
      metadataFromModel_def)



text \<open>
  C28. The MongoDB filter means what the service documents: a document matches it exactly when the
  part has one of the wanted values in every field that names any, countries compared without case
  and surrounding spaces. Documents and parts convert into each other without loss.
\<close>

theorem mongo_filter_refines:
  assumes "entity_ok ulow ent"
  shows "doc_matches (BuildMongoFilter ulow f) ent = part_selected ulow f (EntityToModel ent) \<and>
    EntityFromModel ulow (EntityToModel ent) = ent \<and> EntityToModel (EntityFromModel ulow p) = p"
  using filter_correct [OF assms] EntityFromModel_ToModel [OF assms] by simp

theorem mongo_filter_refines_witness:
  "doc_matches (BuildMongoFilter id (zero_inv_filter\<lparr>if_IDs := [pe_ID (demo_doc 3 200)]\<rparr>)) (demo_doc 3 200)"
proof -
  have ok: "entity_ok id (demo_doc 3 200)" by (simp add: entity_ok_def demo_doc_def)
  show ?thesis
    using mongo_filter_refines [OF ok, of "zero_inv_filter\<lparr>if_IDs := [pe_ID (demo_doc 3 200)]\<rparr>"]
    by (simp add: filter_ids EntityToModel_def)
qed

section \<open>Payments\<close>

text \<open>
  C29. A payment is accepted exactly for one of the four methods, with an order and a user; then the
  reply carries the fresh transaction and the world changed by drawing it only. An unknown method is
  an invalid argument, a missing identifier an \<^emph>\<open>internal\<close> error, since the text that
  \<open>isValidationError\<close> looks for is not the text of a wrapped validation error.
\<close>

theorem payment_decision:
  "PayOrder_grpc_handler (payment_PayOrder_svc newID) (Some r) w =
     (if ppr_PaymentMethod r \<notin> set supported_methods
      then (w, Err (status_Error GrpcInvalidArgument
        (if ppr_PaymentMethod r = PAYMENT_METHOD_UNKNOWN then ''payment_method unknown'' else ''payment_method unsupported'')))
      else if ppr_OrderUuid r = '''' \<or> ppr_UserUuid r = ''''
      then (w, Err (status_Error GrpcInternal ''internal error''))
      else (case newID w of (w1, t) \<Rightarrow> (w1, Ok \<lparr>ppo_TransactionUuid = t\<rparr>)))"
  using handler_rejects_method [of r "payment_PayOrder_svc newID" w] handler_supported [of r newID w] by simp

end
