(* ===== verification/Consumers.thy ===== *)
theory Consumers
  imports System
begin

text \<open>
  A consumer of \<open>platform/kafka/consumer\<close> as its callers make it, the four \<open>Run...Consume\<close> functions of the
  services that hand it their handlers, and what such a run amounts to over a group whose sessions
  bring one claim after the other: the messages of all sessions, each handled once and in order.
\<close>

section \<open>The consumer\<close>

text \<open>\<open>cs_Group\<close> is \<open>sarama.ConsumerGroup.Consume\<close>: topics and handler; it returns when a session ends.\<close>

record ('w, 'e) consumer =
  cs_Group :: "string list \<Rightarrow> ('w, 'e) message_handler \<Rightarrow> 'w \<Rightarrow> 'w \<times> kerr option"
  cs_Topics :: "string list"
  cs_Middlewares :: "('w, 'e) middleware list"

definition NewConsumer ::
  "(string list \<Rightarrow> ('w, 'e) message_handler \<Rightarrow> 'w \<Rightarrow> 'w \<times> kerr option) \<Rightarrow> string list \<Rightarrow> ('w, 'e) middleware list \<Rightarrow>
   ('w, 'e) consumer" where
  "NewConsumer grp topics mws = \<lparr>cs_Group = grp, cs_Topics = topics, cs_Middlewares = mws\<rparr>"

definition consumer_Consume ::
  "('w, 'e) consumer \<Rightarrow> ('w \<Rightarrow> kerr option) \<Rightarrow> ('w, 'e) message_handler \<Rightarrow> 'w \<Rightarrow> ('w \<times> kerr option) option" where
  "consumer_Consume c ctxErr handler = Consume (cs_Group c (cs_Topics c)) ctxErr (cs_Middlewares c) handler"

text \<open>\<open>if err := s.consumer.Consume(ctx, h); err != nil { log; return err }; return nil\<close>\<close>

definition run_consume ::
  "('w, 'e) consumer \<Rightarrow> ('w \<Rightarrow> kerr option) \<Rightarrow> ('w, 'e) message_handler \<Rightarrow> 'w \<Rightarrow> ('w \<times> kerr option) option" where
  "run_consume c ctxErr handler w =
     (case consumer_Consume c ctxErr handler w of
        None \<Rightarrow> None
      | Some (w1, Some err) \<Rightarrow> Some (w1, Some err)
      | Some (w1, None) \<Rightarrow> Some (w1, None))"

section \<open>The services' consumers\<close>

record 'w order_consumer =
  oc_Consumer :: "('w, oerr) consumer"
  oc_Conv :: "proto_lib \<times> uuid_lib" \<comment> \<open>what the converter works with\<close>
  oc_Complete :: "uuid \<Rightarrow> ('w, oerr, unit) prog"

definition NewOrderConsumer ::
  "('w, oerr) consumer \<Rightarrow> proto_lib \<times> uuid_lib \<Rightarrow> (uuid \<Rightarrow> ('w, oerr, unit) prog) \<Rightarrow> 'w order_consumer" where
  "NewOrderConsumer c conv complete = \<lparr>oc_Consumer = c, oc_Conv = conv, oc_Complete = complete\<rparr>"

definition RunShipAssembledConsume ::
  "'w order_consumer \<Rightarrow> ('w \<Rightarrow> kerr option) \<Rightarrow> 'w \<Rightarrow> ('w \<times> kerr option) option" where
  "RunShipAssembledConsume s ctxErr =
     run_consume (oc_Consumer s) ctxErr (shipAssembledHandler (fst (oc_Conv s)) (snd (oc_Conv s)) (oc_Complete s))"

record 'w assembly_service =
  av_Consumer :: "('w, kerr) consumer"
  av_Deps :: "'w assembly_deps"
  av_Delay :: int64

definition NewAssemblyService :: "('w, kerr) consumer \<Rightarrow> 'w assembly_deps \<Rightarrow> 'w assembly_service" where
  "NewAssemblyService c A = \<lparr>av_Consumer = c, av_Deps = A, av_Delay = assemblyDelay\<rparr>"

definition RunOrderPaidConsume :: "'w assembly_service \<Rightarrow> ('w \<Rightarrow> kerr option) \<Rightarrow> 'w \<Rightarrow> ('w \<times> kerr option) option" where
  "RunOrderPaidConsume s ctxErr = run_consume (av_Consumer s) ctxErr (paidOrderHandler (av_Deps s) (av_Delay s))"

record 'w notification_consumer =
  nc_Consumer :: "('w, kerr) consumer"
  nc_Conv :: proto_lib
  nc_Svc :: "'w telegram"

definition NewNotificationConsumer :: "('w, kerr) consumer \<Rightarrow> proto_lib \<Rightarrow> 'w telegram \<Rightarrow> 'w notification_consumer" where
  "NewNotificationConsumer c conv svc = \<lparr>nc_Consumer = c, nc_Conv = conv, nc_Svc = svc\<rparr>"

definition notification_RunOrderPaidConsume ::
  "'w notification_consumer \<Rightarrow> ('w \<Rightarrow> kerr option) \<Rightarrow> 'w \<Rightarrow> ('w \<times> kerr option) option" where
  "notification_RunOrderPaidConsume s ctxErr = run_consume (nc_Consumer s) ctxErr (paidHandler (nc_Conv s) (nc_Svc s))"

definition RunOrderAssembledConsume ::
  "'w notification_consumer \<Rightarrow> ('w \<Rightarrow> kerr option) \<Rightarrow> 'w \<Rightarrow> ('w \<times> kerr option) option" where
  "RunOrderAssembledConsume s ctxErr = run_consume (nc_Consumer s) ctxErr (shipHandler (nc_Conv s) (nc_Svc s))"

section \<open>A run over its sessions\<close>

text \<open>
  \<open>sessions_of grp ctxErr es ws\<close>: starting from the first of the worlds \<open>ws\<close>, each session brings one claim
  with the events \<open>es\<close> and leaves the next world; the context has ended after the last session only.
\<close>

fun sessions_of :: "('w \<Rightarrow> 'w \<times> kerr option) \<Rightarrow> ('w \<Rightarrow> kerr option) \<Rightarrow> (claim_event list \<Rightarrow> 'w \<Rightarrow> 'w) \<Rightarrow>
    claim_event list list \<Rightarrow> 'w \<Rightarrow> bool" where
  "sessions_of grp ctxErr claim [] w \<longleftrightarrow> False"
| "sessions_of grp ctxErr claim [es] w \<longleftrightarrow> grp w = (claim es w, None) \<and> ctxErr (claim es w) \<noteq> None"
| "sessions_of grp ctxErr claim (es # es' # ess) w \<longleftrightarrow> grp w = (claim es w, None) \<and> ctxErr (claim es w) = None \<and>
     sessions_of grp ctxErr claim (es' # ess) (claim es w)"

lemma Consume_loop_sessions:
  "sessions_of grp ctxErr claim ess w \<Longrightarrow>
     Consume_loop grp ctxErr w = Some (fold claim ess w, ctxErr (fold claim ess w))"
proof (induction grp ctxErr claim ess w rule: sessions_of.induct)
  case (2 grp ctxErr claim es w)
  then show ?case by (subst Consume_loop.simps) auto
next
  case (3 grp ctxErr claim es es' ess w)
  then show ?case by (subst Consume_loop.simps) auto
qed simp

text \<open>
  With \<open>Recovery\<close> outermost, a run is one pass over the messages of all sessions, and it ends with the
  error of the context.
\<close>

lemma recovered_run:
  fixes h :: "('w, 'e) message_handler" and mws :: "('w, 'e) middleware list" and emit :: "string \<Rightarrow> 'w \<Rightarrow> 'w"
  defines "H \<equiv> NewGroupHandler h (Recovery emit # mws)"
  assumes "sessions_of (grp topics H) ctxErr (\<lambda>es w. fst (ConsumeClaim H mark es w)) ess w"
  shows "run_consume (NewConsumer grp topics (Recovery emit # mws)) ctxErr h w =
    (let w' = fold (handle_one H mark) (concat (map claimed ess)) w in Some (w', ctxErr w'))"
proof -
  have one: "fst (ConsumeClaim H mark es w) = fold (handle_one H mark) (claimed es) w" for es w
    using ConsumeClaim_fold [of H mark es w] recovered_chain_no_panic [of h emit mws] unfolding H_def by simp
  have all: "fold (\<lambda>es w. fst (ConsumeClaim H mark es w)) ess w = fold (handle_one H mark) (concat (map claimed ess)) w" for ess w
    by (induction ess arbitrary: w) (simp_all add: one)
  from Consume_loop_sessions [OF assms(2)]
  have "consumer_Consume (NewConsumer grp topics (Recovery emit # mws)) ctxErr h w =
      Some (fold (handle_one H mark) (concat (map claimed ess)) w, ctxErr (fold (handle_one H mark) (concat (map claimed ess)) w))"
    by (simp add: consumer_Consume_def Consume_def NewConsumer_def all flip: H_def)
  then show ?thesis by (simp add: run_consume_def Let_def split: option.split)
qed

end
