(* ===== verification/Event_Properties.thy ===== *)
theory Event_Properties
  imports Demo Consumers
begin

text \<open>
  Properties of the asynchronous half of the system: the Kafka consumers and their offsets, the
  assembly service, the notifications, and the shutdown of a service.
\<close>

section \<open>Consuming messages\<close>



text \<open>
  C31. Offsets: after a claim, the group reads on behind every message that the handler finished. So
  a message that failed is skipped for good as soon as a later one of its partition succeeds.
\<close>

theorem failed_message_skipped:
  fixes handler :: "('w, 'e) message_handler"
  assumes "offset_session mark position"
    and "\<And>m w w' r. handler m w = (w', r) \<Longrightarrow> position w' = position w"
    and "m' \<in> set (succeeded handler mark es w)" and "m \<in> set (claimed es)" and "sint (sm_Offset m) < sint (sm_Offset m')"
  shows "sint (sm_Offset m) < position (fst (ConsumeClaim handler mark es w))"
proof -
  have "sint (sm_Offset m') < position (fst (ConsumeClaim handler mark es w))"
    using offset_session.position_past [OF assms(1), of handler m' es w] assms(2,3) by blast
  with assms(5) show ?thesis by simp
qed

theorem failed_message_skipped_witness:
  "\<exists>bad good. let h = (\<lambda>m w. (w, if km_Offset m = 7 then Err (ErrText ''no'') else Ok ())) in
     sm_Offset bad = 7 \<and> h (to_message bad) demo = (demo, Err (ErrText ''no'')) \<and>
     7 < sys_paid_position (fst (ConsumeClaim h mark_paid [ClaimMessage bad, ClaimMessage good] demo))"
proof -
  let ?m = "\<lambda>i. \<lparr>sm_Headers = [], sm_Timestamp = 0, sm_BlockTimestamp = 0, sm_Key = [], sm_Value = [],
    sm_Topic = ''order.paid'', sm_Partition = 0, sm_Offset = i\<rparr>"
  let ?h = "\<lambda>m w. (w, if km_Offset m = 7 then Err (ErrText ''no'') else Ok ()) :: system \<times> (kerr, unit) outcome"
  have "sint (sm_Offset (?m 7)) < sys_paid_position (fst (ConsumeClaim ?h mark_paid [ClaimMessage (?m 7), ClaimMessage (?m 8)] demo))"
    by (rule failed_message_skipped [OF paid_session.offset_session_axioms, where m' = "?m 8"])
      (auto simp: to_message_def)
  then show ?thesis
    by (intro exI [of _ "?m 7"] exI [of _ "?m 8"]) (simp add: Let_def to_message_def)
qed

section \<open>Assembly\<close>



section \<open>Notifications\<close>




section \<open>Shutdown\<close>

text \<open>
  C36. A shutdown is safe and ends. In no interleaving does a function's error meet a closed or full
  channel, and nothing crashes; when all functions were waited for, every error was logged once and
  the result is one of them, or nil exactly when none failed. Every step brings a run closer to its
  end, of which at most \<open>4 n + 2\<close> separate \<open>n\<close> functions, and while the caller waits some step other
  than the end of the context is possible. A second call does nothing and reports no error.
\<close>

theorem shutdown_ends:
  assumes "closing_run fs ctxErr s"
  shows "\<not> cg_crashed s \<and>
    (\<forall>i e. i < length (cg_workers s) \<and> cg_workers s ! i = Sending e \<longrightarrow> \<not> cg_closed s \<and> length (cg_buf s) < length fs) \<and>
    (cg_caller s = ReturnedAll \<longrightarrow> mset (cg_logged s) = mset (List.map_filter error_of fs) \<and>
       (cg_result s = None \<longleftrightarrow> (\<forall>f \<in> set fs. f = ReturnsNil)) \<and>
       (\<forall>e. cg_result s = Some e \<longrightarrow> (\<exists>f \<in> set fs. error_of f = Some e))) \<and>
    (\<forall>s'. closing_step fs ctxErr s s' \<longrightarrow> steps_left s' < steps_left s) \<and>
    steps_left (start_closing fs) = 4 * length fs + 2 \<and>
    (cg_caller s = Looping \<longrightarrow> (\<exists>s'. closing_step fs ctxErr s s' \<and> cg_caller s' \<noteq> ReturnedCtx)) \<and>
    (CloseAll ctxErr c c' r \<and> CloseAll ctxErr' c' c'' r' \<longrightarrow> c'' = c' \<and> r' = None)"
proof -
  have "\<not> cg_crashed s" using closing_run_ok [OF assms] unfolding closing_ok_def by blast
  moreover have "\<forall>i e. i < length (cg_workers s) \<and> cg_workers s ! i = Sending e \<longrightarrow>
      \<not> cg_closed s \<and> length (cg_buf s) < length fs"
    using send_enabled [OF assms] by blast
  moreover have "mset (cg_logged s) = mset (List.map_filter error_of fs) \<and>
       (cg_result s = None \<longleftrightarrow> (\<forall>f \<in> set fs. f = ReturnsNil)) \<and>
       (\<forall>e. cg_result s = Some e \<longrightarrow> (\<exists>f \<in> set fs. error_of f = Some e))" if "cg_caller s = ReturnedAll"
    using returned_all [OF assms that] returned_result [OF assms that] by blast
  ultimately show ?thesis
    using closing_step_shorter [OF assms] closing_progress [OF assms] CloseAll_twice [of ctxErr c c' r ctxErr' c'' r']
    by (simp add: steps_left_start)
qed

theorem shutdown_ends_witness:
  "\<exists>s. closing_run [ReturnsNil, ReturnsErr ''db''] ''deadline'' s \<and> cg_result s = Some ''db''"
proof -
  obtain s where run: "closing_run [ReturnsNil, ReturnsErr ''db''] ''deadline'' s" and returned: "cg_caller s = ReturnedAll"
    using closing_returns by blast
  from shutdown_ends [OF run, of NewCloser NewCloser None "''late''" NewCloser None] returned have "cg_result s \<noteq> None"
    and "\<And>e. cg_result s = Some e \<Longrightarrow> e = ''db''" by auto
  with run show ?thesis by (cases "cg_result s") auto
qed

end
