(* ===== verification/Json.thy ===== *)
theory Json
  imports Go_Text Uuid_Lib
begin

text \<open>
  JSON as the generated OpenAPI code uses it. The reader and writer (\<open>github.com/go-faster/jx\<close>) and
  the UUID helpers of \<open>github.com/ogen-go/ogen/json\<close> are not part of the repository: they are the
  parameter \<open>J\<close>, and the locale \<open>json_codec\<close> names what the generated code relies on. A value that
  was read is a \<open>json\<close> tree that keeps the order and the duplicates of an object's fields and the
  text of a number. The second half of the theory interprets the locale on a compact writer and a
  recursive-descent reader of the JSON grammar.
\<close>

section \<open>Values\<close>

datatype json =
    JNull
  | JBool bool
  | JNum string \<comment> \<open>the token\<close>
  | JStr string
  | JArr "json list"
  | JObj "(string \<times> json) list"

record json_lib =
  jx_Read :: "string \<Rightarrow> (json \<times> string) option" \<comment> \<open>the next value and the rest of the input\<close>
  jx_AtEOF :: "string \<Rightarrow> bool" \<comment> \<open>\<open>Skip() == io.EOF\<close> on the rest\<close>
  jx_Write :: "json \<Rightarrow> string"
  jx_Int32 :: "int32 \<Rightarrow> string" \<comment> \<open>the token \<open>Encoder.Int32\<close> writes\<close>
  jx_ReadInt32 :: "string \<Rightarrow> int32 option" \<comment> \<open>\<open>Decoder.Int32\<close> of a token\<close>
  json_EncodeUUID :: "uuid \<Rightarrow> json"
  json_DecodeUUID :: "json \<Rightarrow> uuid option"

section \<open>Well-formed values\<close>

text \<open>The number token of RFC 8259: an integer part without leading zeros, a fraction, an exponent.\<close>

definition all_digits :: "string \<Rightarrow> bool" where
  "all_digits s \<longleftrightarrow> s \<noteq> '''' \<and> list_all is_digit s"

definition int_part :: "string \<Rightarrow> bool" where
  "int_part s \<longleftrightarrow> all_digits s \<and> (length s = 1 \<or> hd s \<noteq> CHR ''0'')"

definition sign_then :: "string \<Rightarrow> string \<Rightarrow> string" where
  "sign_then signs s = (case s of c # r \<Rightarrow> if c \<in> set signs then r else s | [] \<Rightarrow> s)"

definition exp_part :: "string \<Rightarrow> bool" where
  "exp_part s \<longleftrightarrow> s = '''' \<or> (hd s \<in> set ''eE'' \<and> all_digits (sign_then ''+-'' (tl s)))"

definition frac_part :: "string \<Rightarrow> bool" where
  "frac_part s \<longleftrightarrow>
     (if s \<noteq> '''' \<and> hd s = CHR ''.''
      then all_digits (takeWhile is_digit (tl s)) \<and> exp_part (dropWhile is_digit (tl s))
      else exp_part s)"

definition json_number :: "string \<Rightarrow> bool" where
  "json_number s \<longleftrightarrow>
     (let t = sign_then ''-'' s in int_part (takeWhile is_digit t) \<and> frac_part (dropWhile is_digit t))"

text \<open>
  \<open>json_ok n v\<close>: the strings of \<open>v\<close> are ASCII, its numbers are number tokens and it is nested at
  most \<open>n\<close> deep. The library refuses texts that are not UTF-8 and bounds the nesting; what the
  services send is far inside.
\<close>

definition ascii :: "string \<Rightarrow> bool" where
  "ascii s \<longleftrightarrow> list_all is_ascii s"

fun json_ok :: "nat \<Rightarrow> json \<Rightarrow> bool" where
  "json_ok n JNull = True"
| "json_ok n (JBool b) = True"
| "json_ok n (JNum s) = json_number s"
| "json_ok n (JStr s) = ascii s"
| "json_ok 0 (JArr xs) = False"
| "json_ok (Suc n) (JArr xs) = (\<forall>x \<in> set xs. json_ok n x)"
| "json_ok 0 (JObj kvs) = False"
| "json_ok (Suc n) (JObj kvs) = (\<forall>(k, v) \<in> set kvs. ascii k \<and> json_ok n v)"

text \<open>The deepest values of the API: an object with an array of strings.\<close>

definition json_depth :: nat where
  "json_depth = 2"

locale json_codec =
  fixes J :: json_lib
  assumes read_write: "json_ok json_depth v \<Longrightarrow> \<exists>r. jx_Read J (jx_Write J v) = Some (v, r) \<and> jx_AtEOF J r"
    and write_nonempty: "json_ok json_depth v \<Longrightarrow> jx_Write J v \<noteq> ''''"
    and int32_token: "json_number (jx_Int32 J n)"
    and int32_read [simp]: "jx_ReadInt32 J (jx_Int32 J n) = Some n"
    and uuid_read [simp]: "json_DecodeUUID J (json_EncodeUUID J u) = Some u"
    and uuid_is_string: "\<exists>s. json_EncodeUUID J u = JStr s \<and> ascii s"
begin

lemma uuid_not_null [simp]: "json_EncodeUUID J u \<noteq> JNull"
  using uuid_is_string [of u] by auto

lemma uuid_ok [simp]: "json_ok n (json_EncodeUUID J u)"
  using uuid_is_string [of u] by auto

lemma int32_ok [simp]: "json_ok n (JNum (jx_Int32 J m))"
  using int32_token by simp

end

section \<open>A compact writer\<close>

abbreviation quote :: char where "quote \<equiv> CHR 0x22"
abbreviation backslash :: char where "backslash \<equiv> CHR 0x5C"

definition escape_char :: "char \<Rightarrow> string" where
  "escape_char c =
     (if c = quote \<or> c = backslash then [backslash, c]
      else if (of_char c :: nat) < 32 then backslash # CHR ''u'' # hex_fixed 4 (of_char c)
      else [c])"

definition write_string :: "string \<Rightarrow> string" where
  "write_string s = quote # concat (map escape_char s) @ [quote]"

fun commas :: "string list \<Rightarrow> string" where
  "commas [] = ''''"
| "commas [s] = s"
| "commas (s # t # ts) = s @ CHR '','' # commas (t # ts)"

fun write_json :: "json \<Rightarrow> string" where
  "write_json JNull = ''null''"
| "write_json (JBool b) = (if b then ''true'' else ''false'')"
| "write_json (JNum s) = s"
| "write_json (JStr s) = write_string s"
| "write_json (JArr xs) = CHR ''['' # commas (map write_json xs) @ '']''"
| "write_json (JObj kvs) =
     CHR ''{'' # commas (map (\<lambda>(k, v). write_string k @ CHR '':'' # write_json v) kvs) @ ''}''"

section \<open>A recursive-descent reader\<close>

definition is_ws :: "char \<Rightarrow> bool" where
  "is_ws c \<longleftrightarrow> (of_char c :: nat) \<in> {9, 10, 13, 32}"

definition skip_ws :: "string \<Rightarrow> string" where
  "skip_ws s = dropWhile is_ws s"

definition num_char :: "char \<Rightarrow> bool" where
  "num_char c \<longleftrightarrow> is_digit c \<or> c \<in> set ''+-.eE''"

definition unescape :: "char \<Rightarrow> char option" where
  "unescape c =
     map_of [(quote, quote), (backslash, backslash), (CHR ''/'', CHR ''/''), (CHR ''b'', CHR 0x08),
       (CHR ''f'', CHR 0x0C), (CHR ''n'', CHR 0x0A), (CHR ''r'', CHR 0x0D), (CHR ''t'', CHR 0x09)] c"

definition push :: "char \<Rightarrow> (string \<times> string) option \<Rightarrow> (string \<times> string) option" where
  "push c r = map_option (\<lambda>(s, rest). (c # s, rest)) r"

text \<open>The text after the opening quote; an escaped rune outside ASCII is refused.\<close>

fun read_string :: "string \<Rightarrow> (string \<times> string) option" where
  "read_string [] = None"
| "read_string (c # r) =
     (if c = quote then Some ('''', r)
      else if c = backslash then
        (case r of
           [] \<Rightarrow> None
         | e # r1 \<Rightarrow>
             if e = CHR ''u'' then
               (case unhex (take 4 r1) of
                  Some n \<Rightarrow> if 4 \<le> length r1 \<and> n < 128 then push (char_of n) (read_string (drop 4 r1)) else None
                | None \<Rightarrow> None)
             else (case unescape e of Some d \<Rightarrow> push d (read_string r1) | None \<Rightarrow> None))
      else if (of_char c :: nat) < 32 then None
      else push c (read_string r))"

declare read_string.simps(2) [simp del]

definition lit :: "string \<Rightarrow> json \<Rightarrow> string \<Rightarrow> (json \<times> string) option" where
  "lit word v s = (if take (length word) s = word then Some (v, drop (length word) s) else None)"

text \<open>
  \<open>read_elems\<close> and \<open>read_fields\<close> read the rest of an array or object after its bracket or a comma.
  Each call consumes at least one character, so the length of the input is enough fuel.
\<close>

fun read_value :: "nat \<Rightarrow> string \<Rightarrow> (json \<times> string) option"
  and read_elems :: "nat \<Rightarrow> string \<Rightarrow> (json list \<times> string) option"
  and read_fields :: "nat \<Rightarrow> string \<Rightarrow> ((string \<times> json) list \<times> string) option" where
  "read_value 0 s = None"
| "read_value (Suc f) s =
     (case skip_ws s of
        [] \<Rightarrow> None
      | c # r \<Rightarrow>
          if c = CHR ''n'' then lit ''ull'' JNull r
          else if c = CHR ''t'' then lit ''rue'' (JBool True) r
          else if c = CHR ''f'' then lit ''alse'' (JBool False) r
          else if c = quote then map_option (\<lambda>(t, rest). (JStr t, rest)) (read_string r)
          else if c = CHR ''['' then
            (case skip_ws r of
               d # r1 \<Rightarrow> if d = CHR '']'' then Some (JArr [], r1)
                         else map_option (\<lambda>(xs, rest). (JArr xs, rest)) (read_elems f r)
             | [] \<Rightarrow> None)
          else if c = CHR ''{'' then
            (case skip_ws r of
               d # r1 \<Rightarrow> if d = CHR ''}'' then Some (JObj [], r1)
                         else map_option (\<lambda>(kvs, rest). (JObj kvs, rest)) (read_fields f r)
             | [] \<Rightarrow> None)
          else if json_number (takeWhile num_char (c # r))
               then Some (JNum (takeWhile num_char (c # r)), dropWhile num_char (c # r))
          else None)"
| "read_elems 0 s = None"
| "read_elems (Suc f) s =
     (case read_value f s of
        None \<Rightarrow> None
      | Some (x, r) \<Rightarrow>
          (case skip_ws r of
             [] \<Rightarrow> None
           | c # r1 \<Rightarrow>
               if c = CHR '']'' then Some ([x], r1)
               else if c = CHR '','' then map_option (\<lambda>(xs, rest). (x # xs, rest)) (read_elems f r1)
               else None))"
| "read_fields 0 s = None"
| "read_fields (Suc f) s =
     (case skip_ws s of
        [] \<Rightarrow> None
      | c # r0 \<Rightarrow>
          if c \<noteq> quote then None
          else (case read_string r0 of
             None \<Rightarrow> None
           | Some (k, r1) \<Rightarrow>
               (case skip_ws r1 of
                  [] \<Rightarrow> None
                | d # r2 \<Rightarrow>
                    if d \<noteq> CHR '':'' then None
                    else (case read_value f r2 of
                       None \<Rightarrow> None
                     | Some (v, r3) \<Rightarrow>
                         (case skip_ws r3 of
                            [] \<Rightarrow> None
                          | e # r4 \<Rightarrow>
                              if e = CHR ''}'' then Some ([(k, v)], r4)
                              else if e = CHR '','' then
                                map_option (\<lambda>(kvs, rest). ((k, v) # kvs, rest)) (read_fields f r4)
                              else None)))))"

definition read_json :: "string \<Rightarrow> (json \<times> string) option" where
  "read_json s = read_value (Suc (length s)) s"

section \<open>The reader inverts the writer\<close>

lemma read_escaped:
  assumes "is_ascii c"
  shows "read_string (escape_char c @ t) = push c (read_string t)"
proof -
  let ?n = "of_char c :: nat"
  have n: "?n < 128" using assms by (simp add: is_ascii_def)
  consider (sp) "c = quote \<or> c = backslash" | (ctl) "?n < 32" | (plain) "c \<noteq> quote" "c \<noteq> backslash" "\<not> ?n < 32"
    by blast
  then show ?thesis
  proof cases
    case sp
    then show ?thesis by (auto simp: escape_char_def read_string.simps(2) unescape_def)
  next
    case ctl
    then have "c \<noteq> quote" "c \<noteq> backslash" by auto
    with ctl n show ?thesis
      by (simp add: escape_char_def read_string.simps(2) [of backslash] unhex_fixed)
  next
    case plain
    then show ?thesis by (simp add: escape_char_def read_string.simps(2))
  qed
qed

lemma read_write_string:
  "ascii s \<Longrightarrow> read_string (concat (map escape_char s) @ quote # rest) = Some (s, rest)"
  by (induction s) (simp_all add: ascii_def read_escaped push_def read_string.simps(2))

lemma digits_num: "list_all is_digit s \<Longrightarrow> list_all num_char s"
  by (auto simp: list_all_iff num_char_def)

lemma sign_then_num: "set signs \<subseteq> {CHR ''+'', CHR ''-''} \<Longrightarrow> list_all num_char (sign_then signs s) \<Longrightarrow> list_all num_char s"
  by (auto simp: sign_then_def num_char_def split: list.splits if_splits)

lemma exp_part_num: "exp_part s \<Longrightarrow> list_all num_char s"
  by (cases s) (auto simp: exp_part_def all_digits_def num_char_def dest!: digits_num sign_then_num [rotated])

lemma split_num: "list_all num_char (takeWhile P s) \<Longrightarrow> list_all num_char (dropWhile P s) \<Longrightarrow> list_all num_char s"
  by (metis list_all_append takeWhile_dropWhile_id)

lemma frac_part_num:
  assumes "frac_part s"
  shows "list_all num_char s"
proof (cases "s \<noteq> '''' \<and> hd s = CHR ''.''")
  case True
  then obtain t where s: "s = CHR ''.'' # t" by (cases s) auto
  have "list_all num_char t"
    using assms by (intro split_num [of is_digit t] digits_num exp_part_num) (simp_all add: s frac_part_def all_digits_def)
  then show ?thesis by (simp add: s num_char_def)
next
  case False
  with assms have "exp_part s" by (auto simp: frac_part_def split: if_splits)
  then show ?thesis by (rule exp_part_num)
qed

lemma json_number_num:
  assumes "json_number s"
  shows "list_all num_char s"
proof (rule sign_then_num [of "''-''"])
  let ?t = "sign_then ''-'' s"
  have "list_all is_digit (takeWhile is_digit ?t)" "frac_part (dropWhile is_digit ?t)"
    using assms by (simp_all add: json_number_def Let_def int_part_def all_digits_def)
  then show "list_all num_char ?t" by (rule split_num [OF digits_num frac_part_num])
qed simp

lemma json_number_head: "json_number s \<Longrightarrow> \<exists>c r. s = c # r \<and> (is_digit c \<or> c = CHR ''-'')"
  by (cases s) (auto simp: json_number_def sign_then_def int_part_def all_digits_def Let_def split: if_splits)

definition ends_token :: "string \<Rightarrow> bool" where
  "ends_token rest \<longleftrightarrow> rest = '''' \<or> \<not> num_char (hd rest)"

lemma take_token:
  assumes "list_all num_char s" "ends_token rest"
  shows "takeWhile num_char (s @ rest) = s" "dropWhile num_char (s @ rest) = rest"
proof -
  have s: "\<forall>c \<in> set s. num_char c" using assms by (simp add: list_all_iff)
  have rest: "takeWhile num_char rest = ''''" "dropWhile num_char rest = rest"
    using assms(2) by (cases rest; simp add: ends_token_def)+
  show "takeWhile num_char (s @ rest) = s" using s rest by (simp add: takeWhile_append2)
  show "dropWhile num_char (s @ rest) = rest" using s rest by (simp add: dropWhile_append2)
qed

lemma number_start:
  assumes "is_digit c \<or> c = CHR ''-''"
  shows "\<not> is_ws c" "c \<notin> {CHR ''n'', CHR ''t'', CHR ''f'', quote, CHR ''['', CHR ''{'', CHR '']''}"
  using assms by (auto simp: is_ws_def is_digit_def)

lemma write_head:
  assumes "json_ok n v"
  shows "\<exists>c r. write_json v = c # r \<and> \<not> is_ws c \<and> c \<noteq> CHR '']''"
proof (cases v)
  case (JNum s)
  with assms obtain c r where "s = c # r" "is_digit c \<or> c = CHR ''-''" using json_number_head [of s] by auto
  with JNum number_start [of c] show ?thesis by simp
qed (simp_all add: write_string_def is_ws_def)

lemma skip_ws_head [simp]: "\<not> is_ws c \<Longrightarrow> skip_ws (c # r) = c # r"
  by (simp add: skip_ws_def)

lemma not_ws [simp]:
  "\<not> is_ws CHR '',''" "\<not> is_ws CHR '']''" "\<not> is_ws CHR ''}''" "\<not> is_ws CHR '':''" "\<not> is_ws quote"
  by (simp_all add: is_ws_def)

lemma ends_token_simps [simp]:
  "ends_token ''''" "ends_token (CHR '','' # r)" "ends_token (CHR '']'' # r)" "ends_token (CHR ''}'' # r)"
  by (simp_all add: ends_token_def num_char_def is_digit_def)

text \<open>What the induction hypothesis says of one value.\<close>

definition reads_back :: "json \<Rightarrow> bool" where
  "reads_back v \<longleftrightarrow>
     (\<forall>f rest. ends_token rest \<longrightarrow> length (write_json v) \<le> f \<longrightarrow> read_value f (write_json v @ rest) = Some (v, rest))"

lemma commas_Cons: "commas (x # xs) = x @ (if xs = [] then '''' else CHR '','' # commas xs)"
  by (cases xs) simp_all

lemma read_elems_commas:
  "xs \<noteq> [] \<Longrightarrow> \<forall>x \<in> set xs. reads_back x \<Longrightarrow> length (commas (map write_json xs)) < f \<Longrightarrow>
   read_elems f (commas (map write_json xs) @ CHR '']'' # rest) = Some (xs, rest)"
proof (induction xs arbitrary: f)
  case (Cons x xs)
  obtain f' where f: "f = Suc f'" using Cons.prems by (cases f) auto
  have x: "read_value f' (write_json x @ r) = Some (x, r)" if "ends_token r" for r
    using Cons.prems that by (auto simp: f reads_back_def commas_Cons split: if_splits)
  show ?case
  proof (cases "xs = []")
    case True
    then show ?thesis by (simp add: f x)
  next
    case False
    then have "read_elems f' (commas (map write_json xs) @ CHR '']'' # rest) = Some (xs, rest)"
      using Cons by (simp add: f commas_Cons)
    with False show ?thesis by (simp add: f commas_Cons x)
  qed
qed simp

definition write_field :: "string \<times> json \<Rightarrow> string" where
  "write_field = (\<lambda>(k, v). write_string k @ CHR '':'' # write_json v)"

lemma read_fields_commas:
  "kvs \<noteq> [] \<Longrightarrow> \<forall>(k, v) \<in> set kvs. ascii k \<and> reads_back v \<Longrightarrow> length (commas (map write_field kvs)) < f \<Longrightarrow>
   read_fields f (commas (map write_field kvs) @ CHR ''}'' # rest) = Some (kvs, rest)"
proof (induction kvs arbitrary: f)
  case (Cons kv kvs)
  obtain f' where f: "f = Suc f'" using Cons.prems by (cases f) auto
  obtain k v where kv: "kv = (k, v)" by fastforce
  have v: "read_value f' (write_json v @ r) = Some (v, r)" if "ends_token r" for r
    using Cons.prems that by (auto simp: f kv reads_back_def commas_Cons write_field_def split: if_splits)
  have k: "read_string (concat (map escape_char k) @ quote # r) = Some (k, r)" for r
    using Cons.prems by (simp add: kv read_write_string)
  show ?case
  proof (cases "kvs = []")
    case True
    then show ?thesis by (simp add: f kv write_field_def write_string_def k v)
  next
    case False
    then have "read_fields f' (commas (map write_field kvs) @ CHR ''}'' # rest) = Some (kvs, rest)"
      using Cons by (simp add: f kv commas_Cons)
    with False show ?thesis by (simp add: f kv commas_Cons write_field_def write_string_def k v)
  qed
qed simp

lemma read_number:
  assumes "json_number s" "ends_token rest" "0 < f"
  shows "read_value f (s @ rest) = Some (JNum s, rest)"
proof -
  obtain c r where s: "s = c # r" and c: "is_digit c \<or> c = CHR ''-''" using json_number_head assms by blast
  note number_start [OF c]
  moreover note take_token [OF json_number_num [OF assms(1)] assms(2)]
  ultimately show ?thesis using assms by (cases f) (auto simp: s)
qed

lemma json_ok_reads_back: "json_ok n v \<Longrightarrow> reads_back v"
proof (induction n v rule: json_ok.induct)
  case (3 n s)
  then show ?case by (auto simp: reads_back_def intro!: read_number dest: json_number_head)
next
  case (4 n s)
  show ?case unfolding reads_back_def
  proof (intro allI impI)
    fix f rest assume "length (write_json (JStr s)) \<le> f"
    then obtain f' where "f = Suc f'" by (cases f) (auto simp: write_string_def)
    with 4 show "read_value f (write_json (JStr s) @ rest) = Some (JStr s, rest)"
      by (simp add: write_string_def read_write_string)
  qed
next
  case (6 n xs)
  have all: "\<forall>x \<in> set xs. reads_back x" using 6 by simp
  show ?case unfolding reads_back_def
  proof (intro allI impI)
    fix f rest assume len: "length (write_json (JArr xs)) \<le> f"
    then obtain f' where f: "f = Suc f'" by (cases f) auto
    show "read_value f (write_json (JArr xs) @ rest) = Some (JArr xs, rest)"
    proof (cases "xs = []")
      case False
      then obtain y ys where xs: "xs = y # ys" by (cases xs) auto
      with 6 obtain c r where "write_json y = c # r" "\<not> is_ws c" "c \<noteq> CHR '']''"
        using write_head [of n y] by auto
      moreover have "read_elems f' (commas (map write_json xs) @ CHR '']'' # rest) = Some (xs, rest)"
        using len by (intro read_elems_commas [OF False all]) (simp add: f)
      ultimately show ?thesis by (simp add: f xs commas_Cons is_ws_def)
    qed (simp add: f is_ws_def)
  qed
next
  case (8 n kvs)
  have all: "\<forall>(k, v) \<in> set kvs. ascii k \<and> reads_back v" using 8 by fastforce
  show ?case unfolding reads_back_def
  proof (intro allI impI)
    fix f rest assume len: "length (write_json (JObj kvs)) \<le> f"
    then obtain f' where f: "f = Suc f'" by (cases f) auto
    show "read_value f (write_json (JObj kvs) @ rest) = Some (JObj kvs, rest)"
    proof (cases "kvs = []")
      case False
      have "read_fields f' (commas (map write_field kvs) @ CHR ''}'' # rest) = Some (kvs, rest)"
        using len by (intro read_fields_commas [OF False all]) (simp add: f write_field_def)
      moreover obtain k v kvs' where "kvs = (k, v) # kvs'" using False by (cases kvs) auto
      ultimately show ?thesis
        by (simp add: f commas_Cons write_field_def write_string_def is_ws_def)
    qed (simp add: f is_ws_def)
  qed
next
  case (1 n)
  then show ?case by (auto simp: reads_back_def is_ws_def lit_def gr0_conv_Suc Suc_le_eq dest!: less_imp_Suc_add)
next
  case (2 n b)
  then show ?case by (cases b) (auto simp: reads_back_def is_ws_def lit_def Suc_le_eq dest!: less_imp_Suc_add)
qed simp_all

theorem read_write_json:
  assumes "json_ok n v"
  shows "read_json (write_json v) = Some (v, '''')"
proof -
  have "read_value (Suc (length (write_json v))) (write_json v @ '''') = Some (v, '''')"
    using json_ok_reads_back [OF assms] unfolding reads_back_def
    by (rule allE [of _ "Suc (length (write_json v))"]) (drule spec [of _ "''''"], simp)
  then show ?thesis by (simp add: read_json_def del: read_value.simps)
qed

section \<open>A library that satisfies the contract\<close>

definition read_int32 :: "string \<Rightarrow> int32 option" where
  "read_int32 s =
     (let t = sign_then ''-'' s; n = int (read_nat t); i = (if t = s then n else - n) in
      if int_part t \<and> - (2 ^ 31) \<le> i \<and> i < 2 ^ 31 then Some (word_of_int i) else None)"

definition compact_json :: "uuid_lib \<Rightarrow> json_lib" where
  "compact_json U =
     \<lparr>jx_Read = read_json, jx_AtEOF = (\<lambda>r. skip_ws r = ''''), jx_Write = write_json,
      jx_Int32 = (\<lambda>n. fmt_d (sint n)), jx_ReadInt32 = read_int32,
      json_EncodeUUID = (\<lambda>u. JStr (uuid_String U u)),
      json_DecodeUUID = (\<lambda>v. case v of JStr s \<Rightarrow> (case uuid_Parse U s of Ok u \<Rightarrow> Some u | _ \<Rightarrow> None) | _ \<Rightarrow> None)\<rparr>"

lemma show_nat_int_part: "int_part (show_nat n)"
proof (induction n rule: show_nat.induct)
  case (1 n)
  show ?case
  proof (cases "n < 10")
    case True
    then show ?thesis by (subst show_nat.simps) (simp add: int_part_def all_digits_def)
  next
    case False
    have "show_nat (n div 10) \<noteq> ''0''"
    proof
      assume "show_nat (n div 10) = ''0''"
      then have "read_nat (show_nat (n div 10)) = 0" by (simp add: read_nat_def digit_val_def)
      with False show False by simp
    qed
    moreover have "int_part (show_nat (n div 10))" using 1 False by simp
    ultimately show ?thesis using False
      by (subst show_nat.simps) (cases "show_nat (n div 10)", auto simp: int_part_def all_digits_def)
  qed
qed

lemma show_nat_head: "\<exists>c r. show_nat n = c # r \<and> c \<noteq> CHR ''-''"
  using show_nat_digits [of n] by (cases "show_nat n") (auto simp: is_digit_def)

lemma sign_then_show_nat [simp]: "sign_then ''-'' (show_nat n) = show_nat n"
  using show_nat_head [of n] by (auto simp: sign_then_def)

lemma sign_then_minus [simp]: "sign_then ''-'' (CHR ''-'' # s) = s"
  by (simp add: sign_then_def)

lemma int_part_number: "int_part s \<Longrightarrow> takeWhile is_digit s = s \<and> dropWhile is_digit s = ''''"
  by (simp add: int_part_def all_digits_def list_all_iff takeWhile_eq_all_conv dropWhile_eq_Nil_conv)

lemma show_nat_token [simp]:
  "takeWhile is_digit (show_nat n) = show_nat n" "dropWhile is_digit (show_nat n) = ''''"
  using int_part_number [OF show_nat_int_part] by blast+

lemma fmt_d_number: "json_number (fmt_d i)"
  by (simp add: show_nat_int_part Let_def show_nat_digits fmt_d_def json_number_def frac_part_def exp_part_def)

lemma read_fmt_d:
  fixes n :: int32
  shows "read_int32 (fmt_d (sint n)) = Some n"
proof -
  have range: "- (2 ^ 31) \<le> sint n" "sint n < 2 ^ 31"
    using sint_ge [of n] sint_lt [of n] by simp_all
  have "CHR ''-'' # s \<noteq> s" for s by simp
  then show ?thesis
    using range show_nat_int_part
    by (cases "sint n < 0") (simp_all add: read_int32_def fmt_d_def Let_def nat_le_iff nat_less_iff)
qed

lemma hex_digit_ascii: "d < 16 \<Longrightarrow> is_ascii (hex_digit d)"
  by (simp add: hex_digit_def is_ascii_def)

lemma hex_fixed_ascii: "list_all is_ascii (hex_fixed k n)"
  by (induction k arbitrary: n) (simp_all add: hex_digit_ascii)

lemma canon_String_ascii: "ascii (canon_String u)"
proof -
  have part: "list_all is_ascii (take k (drop m (hex_fixed 32 (unat u))))" for k m
    using hex_fixed_ascii [of 32 "unat u"] by (auto simp: list_all_iff dest: in_set_takeD in_set_dropD)
  have "list_all is_ascii (take 8 (hex_fixed 32 (unat u)))" "list_all is_ascii (drop 20 (hex_fixed 32 (unat u)))"
    using hex_fixed_ascii [of 32 "unat u"] by (auto simp: list_all_iff dest: in_set_takeD in_set_dropD)
  moreover have "is_ascii CHR ''-''" by (simp add: is_ascii_def)
  ultimately show ?thesis by (simp add: ascii_def canon_String_def Let_def part)
qed

interpretation compact: json_codec "compact_json canonical_uuid"
proof unfold_locales
  fix v assume "json_ok json_depth v"
  then show "\<exists>r. jx_Read (compact_json canonical_uuid) (jx_Write (compact_json canonical_uuid) v) = Some (v, r) \<and>
      jx_AtEOF (compact_json canonical_uuid) r"
    by (simp add: compact_json_def read_write_json skip_ws_def)
next
  fix v assume "json_ok json_depth v"
  then show "jx_Write (compact_json canonical_uuid) v \<noteq> ''''"
    using write_head by (fastforce simp: compact_json_def)
qed (simp_all add: compact_json_def fmt_d_number read_fmt_d canonical_uuid_def canon_roundtrip canon_String_ascii)

end
