(* ===== verification/Oapi_Json.thy ===== *)
theory Oapi_Json
  imports Oapi Json
begin

text \<open>
  \<open>oas_json_gen.go\<close>: the \<open>Encode\<close> and \<open>Decode\<close> methods of every schema type, over the \<open>json\<close> values of
  theory \<open>Json\<close>. A decoder walks the fields of an object in the order they come, a later duplicate
  overwrites an earlier one, an unknown field is skipped (an error in the error structs), and a bit
  set of the required fields that were seen is compared with a mask at the end. The lemmas show
  what that comparison computes, which objects are accepted, and that decoding inverts encoding.
\<close>

unbundle bit_operations_syntax

section \<open>Errors and the walk over an object\<close>

datatype json_error =
    LibError \<comment> \<open>an error of the library: not that type, not a UUID, not an int32\<close>
  | WrapErr string json_error \<comment> \<open>\<open>errors.Wrap\<close>\<close>
  | UnexpectedField string
  | FieldErrors "string list" \<comment> \<open>\<open>validate.Error\<close>: the names of the required fields that are missing\<close>

type_synonym 'a decoded = "(json_error, 'a) outcome"

definition of_lib :: "'a option \<Rightarrow> 'a decoded" where
  "of_lib r = (case r of Some a \<Rightarrow> Ok a | None \<Rightarrow> Err LibError)"

definition dec_Str :: "json \<Rightarrow> string decoded" where
  "dec_Str d = (case d of JStr s \<Rightarrow> Ok s | _ \<Rightarrow> Err LibError)"

definition dec_UUID :: "json_lib \<Rightarrow> json \<Rightarrow> uuid decoded" where
  "dec_UUID J d = of_lib (json_DecodeUUID J d)"

definition dec_Int32 :: "json_lib \<Rightarrow> json \<Rightarrow> int32 decoded" where
  "dec_Int32 J d = (case d of JNum t \<Rightarrow> of_lib (jx_ReadInt32 J t) | _ \<Rightarrow> Err LibError)"

text \<open>\<open>d.Arr(func ...)\<close> whose function appends the decoded element.\<close>

fun arr_loop :: "(json \<Rightarrow> 'a decoded) \<Rightarrow> json list \<Rightarrow> 'a list \<Rightarrow> 'a list decoded" where
  "arr_loop dec [] acc = Ok acc"
| "arr_loop dec (x # xs) acc = bind_out (dec x) (\<lambda>elem. arr_loop dec xs (acc @ [elem]))"

definition dec_Arr :: "(json \<Rightarrow> 'a decoded) \<Rightarrow> json \<Rightarrow> 'a list decoded" where
  "dec_Arr dec d = (case d of JArr xs \<Rightarrow> arr_loop dec xs [] | _ \<Rightarrow> Err LibError)"

text \<open>\<open>d.ObjBytes(func ...)\<close>: the function is called for each field with the state so far.\<close>

fun obj_loop :: "('s \<Rightarrow> string \<Rightarrow> json \<Rightarrow> 's decoded) \<Rightarrow> (string \<times> json) list \<Rightarrow> 's \<Rightarrow> 's decoded" where
  "obj_loop f [] s = Ok s"
| "obj_loop f ((k, v) # kvs) s = bind_out (f s k v) (obj_loop f kvs)"

definition ObjBytes :: "('s \<Rightarrow> string \<Rightarrow> json \<Rightarrow> 's decoded) \<Rightarrow> json \<Rightarrow> 's \<Rightarrow> 's decoded" where
  "ObjBytes f d s = (case d of JObj kvs \<Rightarrow> obj_loop f kvs s | _ \<Rightarrow> Err LibError)"

definition wrap_err :: "string \<Rightarrow> 'a decoded \<Rightarrow> 'a decoded" where
  "wrap_err m r = (case r of Ok a \<Rightarrow> Ok a | Err e \<Rightarrow> Err (WrapErr m e) | Panic p \<Rightarrow> Panic p)"

text \<open>One \<open>case\<close> of the switch over the field names.\<close>

definition field :: "string \<Rightarrow> 'a decoded \<Rightarrow> ('a \<Rightarrow> 's) \<Rightarrow> 's decoded" where
  "field name r upd = bind_out (wrap_err (''decode field '' @ quote # name @ [quote]) r) (\<lambda>v. Ok (upd v))"

section \<open>The required-field check\<close>

type_synonym uint8 = "8 word"

definition mark :: "nat \<Rightarrow> uint8 \<Rightarrow> uint8" where
  "mark i bits = bits OR push_bit i 1"

text \<open>\<open>bits.OnesCount8\<close> and \<open>bits.TrailingZeros8\<close>\<close>

definition OnesCount8 :: "uint8 \<Rightarrow> nat" where
  "OnesCount8 x = length (filter (bit x) [0..<8])"

definition TrailingZeros8 :: "uint8 \<Rightarrow> nat" where
  "TrailingZeros8 x = length (takeWhile (\<lambda>i. \<not> bit x i) [0..<8])"

definition field_name :: "string list \<Rightarrow> nat \<Rightarrow> string" where
  "field_name names fieldIdx = (if fieldIdx < length names then names ! fieldIdx else show_nat fieldIdx)"

fun missing_loop :: "string list \<Rightarrow> nat \<Rightarrow> nat \<Rightarrow> uint8 \<Rightarrow> string list \<Rightarrow> string list" where
  "missing_loop names i 0 result failures = failures"
| "missing_loop names i (Suc missed) result failures =
     (let bitIdx = TrailingZeros8 result in
      missing_loop names i missed (result AND NOT (push_bit bitIdx 1))
        (failures @ [field_name names (i * 8 + bitIdx)]))"

definition missing_fields :: "string list \<Rightarrow> uint8 \<Rightarrow> uint8 \<Rightarrow> string list" where
  "missing_fields names req bits =
     (let result = (bits AND req) XOR req in
      if result \<noteq> 0 then missing_loop names 0 (OnesCount8 result) result [] else [])"

definition check_required :: "string list \<Rightarrow> uint8 \<Rightarrow> 's \<times> uint8 \<Rightarrow> 's decoded" where
  "check_required names req r =
     (let failures = missing_fields names req (snd r) in
      if failures \<noteq> [] then Err (FieldErrors failures) else Ok (fst r))"

section \<open>Optional values and enumerations\<close>

text \<open>An optional value that is not set writes nothing (\<open>None\<close>).\<close>

definition OptInt32_Encode :: "json_lib \<Rightarrow> int32 option \<Rightarrow> json option" where
  "OptInt32_Encode J v = map_option (\<lambda>n. JNum (jx_Int32 J n)) v"

definition OptInt32_Decode :: "json_lib \<Rightarrow> json \<Rightarrow> int32 option decoded" where
  "OptInt32_Decode J d = bind_out (dec_Int32 J d) (\<lambda>v. Ok (Some v))"

definition OptString_Encode :: "string option \<Rightarrow> json option" where
  "OptString_Encode v = map_option JStr v"

definition OptString_Decode :: "json \<Rightarrow> string option decoded" where
  "OptString_Decode d = bind_out (dec_Str d) (\<lambda>v. Ok (Some v))"

definition OrderStatus_Encode :: "string \<Rightarrow> json" where
  "OrderStatus_Encode s = JStr s"

text \<open>The switch of the source assigns the constant or the text itself: the same string.\<close>

definition OrderStatus_Decode :: "json \<Rightarrow> string decoded" where
  "OrderStatus_Decode d = bind_out (dec_Str d) (\<lambda>v.
     if v = ''PENDING_PAYMENT'' then Ok ''PENDING_PAYMENT''
     else if v = ''PAID'' then Ok ''PAID''
     else if v = ''COMPLETED'' then Ok ''COMPLETED''
     else if v = ''CANCELLED'' then Ok ''CANCELLED''
     else Ok v)"

definition PaymentMethod_Encode :: "string \<Rightarrow> json" where
  "PaymentMethod_Encode s = JStr s"

definition PaymentMethod_Decode :: "json \<Rightarrow> string decoded" where
  "PaymentMethod_Decode d = bind_out (dec_Str d) (\<lambda>v.
     if v = ''PAYMENT_METHOD_UNKNOWN'' then Ok ''PAYMENT_METHOD_UNKNOWN''
     else if v = ''PAYMENT_METHOD_CARD'' then Ok ''PAYMENT_METHOD_CARD''
     else if v = ''PAYMENT_METHOD_SBP'' then Ok ''PAYMENT_METHOD_SBP''
     else if v = ''PAYMENT_METHOD_CREDIT_CARD'' then Ok ''PAYMENT_METHOD_CREDIT_CARD''
     else if v = ''PAYMENT_METHOD_INVESTOR_MONEY'' then Ok ''PAYMENT_METHOD_INVESTOR_MONEY''
     else Ok v)"

definition OptNilUUID_Encode :: "json_lib \<Rightarrow> uuid opt_nil \<Rightarrow> json option" where
  "OptNilUUID_Encode J v =
     (case v of Unset \<Rightarrow> None | SetNull \<Rightarrow> Some JNull | SetTo u \<Rightarrow> Some (json_EncodeUUID J u))"

definition OptNilUUID_Decode :: "json_lib \<Rightarrow> json \<Rightarrow> uuid opt_nil decoded" where
  "OptNilUUID_Decode J d =
     (if d = JNull then Ok SetNull else bind_out (dec_UUID J d) (\<lambda>v. Ok (SetTo v)))"

definition OptNilPaymentMethod_Encode :: "string opt_nil \<Rightarrow> json option" where
  "OptNilPaymentMethod_Encode v =
     (case v of Unset \<Rightarrow> None | SetNull \<Rightarrow> Some JNull | SetTo m \<Rightarrow> Some (PaymentMethod_Encode m))"

definition OptNilPaymentMethod_Decode :: "json \<Rightarrow> string opt_nil decoded" where
  "OptNilPaymentMethod_Decode d =
     (if d = JNull then Ok SetNull else bind_out (PaymentMethod_Decode d) (\<lambda>v. Ok (SetTo v)))"

text \<open>\<open>if s.X.Set { e.FieldStart(name); s.X.Encode(e) }\<close>\<close>

definition opt_field :: "string \<Rightarrow> json option \<Rightarrow> (string \<times> json) list" where
  "opt_field name v = (case v of Some d \<Rightarrow> [(name, d)] | None \<Rightarrow> [])"

text \<open>An array field: a nil slice is written as an empty array.\<close>

definition arr_of :: "('a \<Rightarrow> json) \<Rightarrow> 'a list option \<Rightarrow> json" where
  "arr_of enc v = JArr (case v of Some xs \<Rightarrow> map enc xs | None \<Rightarrow> [])"

section \<open>Error structs\<close>

definition zero_error :: "api_error_type \<Rightarrow> api_error" where
  "zero_error t = \<lparr>ae_Type = t, ae_Code = None, ae_Message = None, ae_Details = None\<rparr>"

definition error_fields :: "json_lib \<Rightarrow> api_error \<Rightarrow> (string \<times> json) list" where
  "error_fields J s =
     opt_field ''code'' (OptInt32_Encode J (ae_Code s)) @ opt_field ''message'' (OptString_Encode (ae_Message s))"

definition error_field :: "json_lib \<Rightarrow> api_error \<Rightarrow> string \<Rightarrow> json \<Rightarrow> api_error decoded" where
  "error_field J s k d =
     (if k = ''code'' then field ''code'' (OptInt32_Decode J d) (\<lambda>v. s\<lparr>ae_Code := v\<rparr>)
      else if k = ''message'' then field ''message'' (OptString_Decode d) (\<lambda>v. s\<lparr>ae_Message := v\<rparr>)
      else Err (UnexpectedField k))"

definition BadGatewayError_Encode :: "json_lib \<Rightarrow> api_error \<Rightarrow> json" where
  "BadGatewayError_Encode J s = JObj (error_fields J s)"

definition BadGatewayError_Decode :: "json_lib \<Rightarrow> api_error \<Rightarrow> json \<Rightarrow> api_error decoded" where
  "BadGatewayError_Decode J s d = wrap_err ''decode BadGatewayError'' (ObjBytes (error_field J) d s)"

definition BadRequestError_Encode :: "json_lib \<Rightarrow> api_error \<Rightarrow> json" where
  "BadRequestError_Encode J s = JObj (error_fields J s)"

definition BadRequestError_Decode :: "json_lib \<Rightarrow> api_error \<Rightarrow> json \<Rightarrow> api_error decoded" where
  "BadRequestError_Decode J s d = wrap_err ''decode BadRequestError'' (ObjBytes (error_field J) d s)"

definition ConflictError_Encode :: "json_lib \<Rightarrow> api_error \<Rightarrow> json" where
  "ConflictError_Encode J s = JObj (error_fields J s)"

definition ConflictError_Decode :: "json_lib \<Rightarrow> api_error \<Rightarrow> json \<Rightarrow> api_error decoded" where
  "ConflictError_Decode J s d = wrap_err ''decode ConflictError'' (ObjBytes (error_field J) d s)"

definition ForbiddenError_Encode :: "json_lib \<Rightarrow> api_error \<Rightarrow> json" where
  "ForbiddenError_Encode J s = JObj (error_fields J s)"

definition ForbiddenError_Decode :: "json_lib \<Rightarrow> api_error \<Rightarrow> json \<Rightarrow> api_error decoded" where
  "ForbiddenError_Decode J s d = wrap_err ''decode ForbiddenError'' (ObjBytes (error_field J) d s)"

definition InternalServerError_Encode :: "json_lib \<Rightarrow> api_error \<Rightarrow> json" where
  "InternalServerError_Encode J s = JObj (error_fields J s)"

definition InternalServerError_Decode :: "json_lib \<Rightarrow> api_error \<Rightarrow> json \<Rightarrow> api_error decoded" where
  "InternalServerError_Decode J s d = wrap_err ''decode InternalServerError'' (ObjBytes (error_field J) d s)"

definition NotFoundError_Encode :: "json_lib \<Rightarrow> api_error \<Rightarrow> json" where
  "NotFoundError_Encode J s = JObj (error_fields J s)"

definition NotFoundError_Decode :: "json_lib \<Rightarrow> api_error \<Rightarrow> json \<Rightarrow> api_error decoded" where
  "NotFoundError_Decode J s d = wrap_err ''decode NotFoundError'' (ObjBytes (error_field J) d s)"

definition RateLimitError_Encode :: "json_lib \<Rightarrow> api_error \<Rightarrow> json" where
  "RateLimitError_Encode J s = JObj (error_fields J s)"

definition RateLimitError_Decode :: "json_lib \<Rightarrow> api_error \<Rightarrow> json \<Rightarrow> api_error decoded" where
  "RateLimitError_Decode J s d = wrap_err ''decode RateLimitError'' (ObjBytes (error_field J) d s)"

definition ServiceUnavailableError_Encode :: "json_lib \<Rightarrow> api_error \<Rightarrow> json" where
  "ServiceUnavailableError_Encode J s = JObj (error_fields J s)"

definition ServiceUnavailableError_Decode :: "json_lib \<Rightarrow> api_error \<Rightarrow> json \<Rightarrow> api_error decoded" where
  "ServiceUnavailableError_Decode J s d = wrap_err ''decode ServiceUnavailableError'' (ObjBytes (error_field J) d s)"

definition UnauthorizedError_Encode :: "json_lib \<Rightarrow> api_error \<Rightarrow> json" where
  "UnauthorizedError_Encode J s = JObj (error_fields J s)"

definition UnauthorizedError_Decode :: "json_lib \<Rightarrow> api_error \<Rightarrow> json \<Rightarrow> api_error decoded" where
  "UnauthorizedError_Decode J s d = wrap_err ''decode UnauthorizedError'' (ObjBytes (error_field J) d s)"

definition ValidationError_Encode :: "json_lib \<Rightarrow> api_error \<Rightarrow> json" where
  "ValidationError_Encode J s =
     JObj (error_fields J s @
       (if ae_Details s \<noteq> None then [(''details'', arr_of JStr (ae_Details s))] else []))"

definition ValidationError_field :: "json_lib \<Rightarrow> api_error \<Rightarrow> string \<Rightarrow> json \<Rightarrow> api_error decoded" where
  "ValidationError_field J s k d =
     (if k = ''code'' then field ''code'' (OptInt32_Decode J d) (\<lambda>v. s\<lparr>ae_Code := v\<rparr>)
      else if k = ''message'' then field ''message'' (OptString_Decode d) (\<lambda>v. s\<lparr>ae_Message := v\<rparr>)
      else if k = ''details'' then field ''details'' (dec_Arr dec_Str d) (\<lambda>v. s\<lparr>ae_Details := Some v\<rparr>)
      else Err (UnexpectedField k))"

definition ValidationError_Decode :: "json_lib \<Rightarrow> api_error \<Rightarrow> json \<Rightarrow> api_error decoded" where
  "ValidationError_Decode J s d = wrap_err ''decode ValidationError'' (ObjBytes (ValidationError_field J) d s)"

text \<open>The method of the dynamic type, as an encoder of a response or a decoder of a status code picks it.\<close>

definition api_error_Encode :: "json_lib \<Rightarrow> api_error \<Rightarrow> json" where
  "api_error_Encode J s =
     (case ae_Type s of
        BadRequestError \<Rightarrow> BadRequestError_Encode J s
      | UnauthorizedError \<Rightarrow> UnauthorizedError_Encode J s
      | ForbiddenError \<Rightarrow> ForbiddenError_Encode J s
      | NotFoundError \<Rightarrow> NotFoundError_Encode J s
      | ConflictError \<Rightarrow> ConflictError_Encode J s
      | ValidationError \<Rightarrow> ValidationError_Encode J s
      | RateLimitError \<Rightarrow> RateLimitError_Encode J s
      | InternalServerError \<Rightarrow> InternalServerError_Encode J s
      | BadGatewayError \<Rightarrow> BadGatewayError_Encode J s
      | ServiceUnavailableError \<Rightarrow> ServiceUnavailableError_Encode J s)"

definition api_error_Decode :: "json_lib \<Rightarrow> api_error_type \<Rightarrow> json \<Rightarrow> api_error decoded" where
  "api_error_Decode J t d =
     (case t of
        BadRequestError \<Rightarrow> BadRequestError_Decode J (zero_error t) d
      | UnauthorizedError \<Rightarrow> UnauthorizedError_Decode J (zero_error t) d
      | ForbiddenError \<Rightarrow> ForbiddenError_Decode J (zero_error t) d
      | NotFoundError \<Rightarrow> NotFoundError_Decode J (zero_error t) d
      | ConflictError \<Rightarrow> ConflictError_Decode J (zero_error t) d
      | ValidationError \<Rightarrow> ValidationError_Decode J (zero_error t) d
      | RateLimitError \<Rightarrow> RateLimitError_Decode J (zero_error t) d
      | InternalServerError \<Rightarrow> InternalServerError_Decode J (zero_error t) d
      | BadGatewayError \<Rightarrow> BadGatewayError_Decode J (zero_error t) d
      | ServiceUnavailableError \<Rightarrow> ServiceUnavailableError_Decode J (zero_error t) d)"

section \<open>Requests, responses and orders\<close>

definition names_of_CreateOrderRequest :: "string list" where
  "names_of_CreateOrderRequest = [''user_uuid'', ''part_uuids'']"

definition zero_create_order_request :: create_order_request where
  "zero_create_order_request = \<lparr>cor_UserUUID = uuid_Nil, cor_PartUuids = None\<rparr>"

definition CreateOrderRequest_Encode :: "json_lib \<Rightarrow> create_order_request \<Rightarrow> json" where
  "CreateOrderRequest_Encode J s =
     JObj [(''user_uuid'', json_EncodeUUID J (cor_UserUUID s)),
           (''part_uuids'', arr_of (json_EncodeUUID J) (cor_PartUuids s))]"

definition CreateOrderRequest_field ::
  "json_lib \<Rightarrow> create_order_request \<times> uint8 \<Rightarrow> string \<Rightarrow> json \<Rightarrow> (create_order_request \<times> uint8) decoded" where
  "CreateOrderRequest_field J st k d =
     (case st of (s, bits) \<Rightarrow>
      if k = ''user_uuid'' then
        field ''user_uuid'' (dec_UUID J d) (\<lambda>v. (s\<lparr>cor_UserUUID := v\<rparr>, mark 0 bits))
      else if k = ''part_uuids'' then
        field ''part_uuids'' (dec_Arr (dec_UUID J) d) (\<lambda>v. (s\<lparr>cor_PartUuids := Some v\<rparr>, mark 1 bits))
      else Ok (s, bits))"

definition CreateOrderRequest_Decode :: "json_lib \<Rightarrow> create_order_request \<Rightarrow> json \<Rightarrow> create_order_request decoded" where
  "CreateOrderRequest_Decode J s d =
     bind_out (wrap_err ''decode CreateOrderRequest'' (ObjBytes (CreateOrderRequest_field J) d (s, 0)))
       (check_required names_of_CreateOrderRequest 0b11)"

definition names_of_CreateOrderResponse :: "string list" where
  "names_of_CreateOrderResponse = [''uuid'', ''total_price'']"

definition zero_create_order_response :: create_order_response where
  "zero_create_order_response = \<lparr>cos_UUID = uuid_Nil, cos_TotalPrice = ''''\<rparr>"

definition CreateOrderResponse_Encode :: "json_lib \<Rightarrow> create_order_response \<Rightarrow> json" where
  "CreateOrderResponse_Encode J s =
     JObj [(''uuid'', json_EncodeUUID J (cos_UUID s)), (''total_price'', JStr (cos_TotalPrice s))]"

definition CreateOrderResponse_field ::
  "json_lib \<Rightarrow> create_order_response \<times> uint8 \<Rightarrow> string \<Rightarrow> json \<Rightarrow> (create_order_response \<times> uint8) decoded" where
  "CreateOrderResponse_field J st k d =
     (case st of (s, bits) \<Rightarrow>
      if k = ''uuid'' then
        field ''uuid'' (dec_UUID J d) (\<lambda>v. (s\<lparr>cos_UUID := v\<rparr>, mark 0 bits))
      else if k = ''total_price'' then
        field ''total_price'' (dec_Str d) (\<lambda>v. (s\<lparr>cos_TotalPrice := v\<rparr>, mark 1 bits))
      else Ok (s, bits))"

definition CreateOrderResponse_Decode :: "json_lib \<Rightarrow> create_order_response \<Rightarrow> json \<Rightarrow> create_order_response decoded" where
  "CreateOrderResponse_Decode J s d =
     bind_out (wrap_err ''decode CreateOrderResponse'' (ObjBytes (CreateOrderResponse_field J) d (s, 0)))
       (check_required names_of_CreateOrderResponse 0b11)"

definition names_of_PayOrderRequest :: "string list" where
  "names_of_PayOrderRequest = [''payment_method'']"

definition zero_pay_order_request :: pay_order_request where
  "zero_pay_order_request = \<lparr>por_PaymentMethod = ''''\<rparr>"

definition PayOrderRequest_Encode :: "pay_order_request \<Rightarrow> json" where
  "PayOrderRequest_Encode s = JObj [(''payment_method'', PaymentMethod_Encode (por_PaymentMethod s))]"

definition PayOrderRequest_field ::
  "pay_order_request \<times> uint8 \<Rightarrow> string \<Rightarrow> json \<Rightarrow> (pay_order_request \<times> uint8) decoded" where
  "PayOrderRequest_field st k d =
     (case st of (s, bits) \<Rightarrow>
      if k = ''payment_method'' then
        field ''payment_method'' (PaymentMethod_Decode d) (\<lambda>v. (s\<lparr>por_PaymentMethod := v\<rparr>, mark 0 bits))
      else Ok (s, bits))"

definition PayOrderRequest_Decode :: "pay_order_request \<Rightarrow> json \<Rightarrow> pay_order_request decoded" where
  "PayOrderRequest_Decode s d =
     bind_out (wrap_err ''decode PayOrderRequest'' (ObjBytes PayOrderRequest_field d (s, 0)))
       (check_required names_of_PayOrderRequest 0b1)"

definition names_of_PayOrderResponse :: "string list" where
  "names_of_PayOrderResponse = [''transaction_uuid'']"

definition zero_pay_order_response :: pay_order_response where
  "zero_pay_order_response = \<lparr>pos_TransactionUUID = uuid_Nil\<rparr>"

definition PayOrderResponse_Encode :: "json_lib \<Rightarrow> pay_order_response \<Rightarrow> json" where
  "PayOrderResponse_Encode J s = JObj [(''transaction_uuid'', json_EncodeUUID J (pos_TransactionUUID s))]"

definition PayOrderResponse_field ::
  "json_lib \<Rightarrow> pay_order_response \<times> uint8 \<Rightarrow> string \<Rightarrow> json \<Rightarrow> (pay_order_response \<times> uint8) decoded" where
  "PayOrderResponse_field J st k d =
     (case st of (s, bits) \<Rightarrow>
      if k = ''transaction_uuid'' then
        field ''transaction_uuid'' (dec_UUID J d) (\<lambda>v. (s\<lparr>pos_TransactionUUID := v\<rparr>, mark 0 bits))
      else Ok (s, bits))"

definition PayOrderResponse_Decode :: "json_lib \<Rightarrow> pay_order_response \<Rightarrow> json \<Rightarrow> pay_order_response decoded" where
  "PayOrderResponse_Decode J s d =
     bind_out (wrap_err ''decode PayOrderResponse'' (ObjBytes (PayOrderResponse_field J) d (s, 0)))
       (check_required names_of_PayOrderResponse 0b1)"

definition names_of_Order :: "string list" where
  "names_of_Order =
     [''order_uuid'', ''user_uuid'', ''part_uuids'', ''total_price'', ''transaction_uuid'',
      ''payment_method'', ''status'']"

definition zero_api_order :: api_order where
  "zero_api_order =
     \<lparr>ao_OrderUUID = uuid_Nil, ao_UserUUID = uuid_Nil, ao_PartUuids = None, ao_TotalPrice = '''',
      ao_TransactionUUID = Unset, ao_PaymentMethod = Unset, ao_Status = ''''\<rparr>"

definition Order_Encode :: "json_lib \<Rightarrow> api_order \<Rightarrow> json" where
  "Order_Encode J s =
     JObj ([(''order_uuid'', json_EncodeUUID J (ao_OrderUUID s)),
            (''user_uuid'', json_EncodeUUID J (ao_UserUUID s)),
            (''part_uuids'', arr_of (json_EncodeUUID J) (ao_PartUuids s)),
            (''total_price'', JStr (ao_TotalPrice s))] @
           opt_field ''transaction_uuid'' (OptNilUUID_Encode J (ao_TransactionUUID s)) @
           opt_field ''payment_method'' (OptNilPaymentMethod_Encode (ao_PaymentMethod s)) @
           [(''status'', OrderStatus_Encode (ao_Status s))])"

definition Order_field :: "json_lib \<Rightarrow> api_order \<times> uint8 \<Rightarrow> string \<Rightarrow> json \<Rightarrow> (api_order \<times> uint8) decoded" where
  "Order_field J st k d =
     (case st of (s, bits) \<Rightarrow>
      if k = ''order_uuid'' then
        field ''order_uuid'' (dec_UUID J d) (\<lambda>v. (s\<lparr>ao_OrderUUID := v\<rparr>, mark 0 bits))
      else if k = ''user_uuid'' then
        field ''user_uuid'' (dec_UUID J d) (\<lambda>v. (s\<lparr>ao_UserUUID := v\<rparr>, mark 1 bits))
      else if k = ''part_uuids'' then
        field ''part_uuids'' (dec_Arr (dec_UUID J) d) (\<lambda>v. (s\<lparr>ao_PartUuids := Some v\<rparr>, mark 2 bits))
      else if k = ''total_price'' then
        field ''total_price'' (dec_Str d) (\<lambda>v. (s\<lparr>ao_TotalPrice := v\<rparr>, mark 3 bits))
      else if k = ''transaction_uuid'' then
        field ''transaction_uuid'' (OptNilUUID_Decode J d) (\<lambda>v. (s\<lparr>ao_TransactionUUID := v\<rparr>, bits))
      else if k = ''payment_method'' then
        field ''payment_method'' (OptNilPaymentMethod_Decode d) (\<lambda>v. (s\<lparr>ao_PaymentMethod := v\<rparr>, bits))
      else if k = ''status'' then
        field ''status'' (OrderStatus_Decode d) (\<lambda>v. (s\<lparr>ao_Status := v\<rparr>, mark 6 bits))
      else Ok (s, bits))"

definition Order_Decode :: "json_lib \<Rightarrow> api_order \<Rightarrow> json \<Rightarrow> api_order decoded" where
  "Order_Decode J s d =
     bind_out (wrap_err ''decode Order'' (ObjBytes (Order_field J) d (s, 0)))
       (check_required names_of_Order 0b01001111)"

section \<open>What the required-field check computes\<close>

lemma bit_mark [simp]: "bit (mark i bits) j \<longleftrightarrow> bit bits j \<or> (i = j \<and> j < 8)" for bits :: uint8
  by (auto simp: mark_def bit_simps)

lemma first_index:
  assumes "filter P [0..<n] = t # ts"
  shows "length (takeWhile (\<lambda>i. \<not> P i) [0..<n]) = t" and "filter (\<lambda>i. P i \<and> i \<noteq> t) [0..<n] = ts"
proof -
  obtain us vs where split: "[0..<n] = us @ t # vs" and us: "\<forall>u \<in> set us. \<not> P u" and t: "P t"
    and ts: "ts = filter P vs"
    using filter_eq_ConsD [OF assms] by blast
  have "length us < n" using arg_cong [OF split, of length] by simp
  then have "t = length us" using arg_cong [OF split, of "\<lambda>xs. xs ! length us"] by simp
  moreover have "takeWhile (\<lambda>i. \<not> P i) [0..<n] = us" using us t by (simp add: split)
  ultimately show "length (takeWhile (\<lambda>i. \<not> P i) [0..<n]) = t" by simp
  have "distinct (us @ t # vs)" by (simp flip: split)
  then have "t \<notin> set vs" by simp
  then have "filter (\<lambda>i. P i \<and> i \<noteq> t) vs = filter P vs" by (intro filter_cong) auto
  moreover have "filter (\<lambda>i. P i \<and> i \<noteq> t) us = []" using us by simp
  ultimately show "filter (\<lambda>i. P i \<and> i \<noteq> t) [0..<n] = ts" by (simp add: split ts)
qed

lemma missing_loop_eq:
  "OnesCount8 r = missed \<Longrightarrow>
   missing_loop names 0 missed r acc = acc @ map (field_name names) (filter (bit r) [0..<8])"
proof (induction missed arbitrary: r acc)
  case 0
  then show ?case by (simp add: OnesCount8_def del: upt_Suc upt_rec_numeral)
next
  case (Suc missed)
  then obtain t ts where f: "filter (bit r) [0..<8] = t # ts"
    unfolding OnesCount8_def by (cases "filter (bit r) [0..<8]") (auto simp del: upt_rec_numeral)
  define r' where "r' = r AND NOT (push_bit t 1)"
  have "filter (bit r') [0..<8] = filter (\<lambda>i. bit r i \<and> i \<noteq> t) [0..<8]"
    unfolding r'_def by (rule filter_cong) (auto simp: bit_simps)
  then have rest: "filter (bit r') [0..<8] = ts" using first_index(2) [OF f] by simp
  have "OnesCount8 r' = missed" using Suc.prems by (simp add: OnesCount8_def rest f del: upt_rec_numeral)
  moreover have "TrailingZeros8 r = t" using first_index(1) [OF f] by (simp add: TrailingZeros8_def)
  moreover have "r AND NOT (2 ^ t) = r'" by (simp add: r'_def)
  ultimately show ?case using Suc.IH [of r'] by (simp add: rest f Let_def del: upt_rec_numeral)
qed

lemma missing_fields_eq:
  "missing_fields names req bits =
     map (field_name names) (filter (\<lambda>i. bit req i \<and> \<not> bit bits i) [0..<8])"
proof -
  let ?r = "(bits AND req) XOR req"
  have f: "filter (bit ?r) [0..<8] = filter (\<lambda>i. bit req i \<and> \<not> bit bits i) [0..<8]"
    by (rule filter_cong) (auto simp: bit_simps)
  show ?thesis
  proof (cases "?r = 0")
    case True
    then have "filter (bit ?r) [0..<8] = []" by simp
    with True f show ?thesis by (simp add: missing_fields_def del: upt_rec_numeral)
  next
    case False
    then show ?thesis
      by (simp add: missing_fields_def Let_def missing_loop_eq f del: upt_rec_numeral)
  qed
qed

text \<open>
  \<open>tracks tbl f\<close>: whenever \<open>f\<close> accepts a field it marks the bit that the table gives to the
  field's name, and no other.
\<close>

definition tracks :: "(string \<times> nat) list \<Rightarrow> ('s \<times> uint8 \<Rightarrow> string \<Rightarrow> json \<Rightarrow> ('s \<times> uint8) decoded) \<Rightarrow> bool" where
  "tracks tbl f \<longleftrightarrow> (\<forall>s b k d s' b'. f (s, b) k d = Ok (s', b') \<longrightarrow>
     b' = (case map_of tbl k of Some i \<Rightarrow> mark i b | None \<Rightarrow> b))"

lemma tracks_loop:
  "tracks tbl f \<Longrightarrow> obj_loop f kvs (s, b) = Ok (s', b') \<Longrightarrow>
   bit b' i \<longleftrightarrow> bit b i \<or> (i < 8 \<and> (\<exists>k \<in> fst ` set kvs. map_of tbl k = Some i))"
proof (induction kvs arbitrary: s b)
  case (Cons kv kvs)
  obtain k v where kv: "kv = (k, v)" by fastforce
  with Cons.prems obtain s1 b1 where step: "f (s, b) k v = Ok (s1, b1)" and "obj_loop f kvs (s1, b1) = Ok (s', b')"
    by (auto simp: bind_out_Ok)
  moreover from step Cons.prems have "b1 = (case map_of tbl k of Some i \<Rightarrow> mark i b | None \<Rightarrow> b)"
    unfolding tracks_def by blast
  ultimately show ?case
    using Cons by (auto simp: kv split: option.splits)
qed simp

text \<open>The names of the required fields in the order of their bits, and those an object lacks.\<close>

definition required_names :: "string list \<Rightarrow> uint8 \<Rightarrow> string list" where
  "required_names names req = map (field_name names) (filter (bit req) [0..<8])"

definition lacking :: "string list \<Rightarrow> (string \<times> json) list \<Rightarrow> string list" where
  "lacking required kvs = filter (\<lambda>n. n \<notin> fst ` set kvs) required"

lemma check_required_eq:
  assumes "tracks tbl f" and "obj_loop f kvs (s, 0) = Ok (s', b')"
    and tbl: "\<And>i k. i < 8 \<Longrightarrow> bit req i \<Longrightarrow> map_of tbl k = Some i \<longleftrightarrow> k = field_name names i"
  shows "check_required names req (s', b') =
     (let ms = lacking (required_names names req) kvs in if ms \<noteq> [] then Err (FieldErrors ms) else Ok s')"
proof -
  have "bit b' i \<longleftrightarrow> field_name names i \<in> fst ` set kvs" if "i < 8" "bit req i" for i
    using tracks_loop [OF assms(1,2), of i] tbl [OF that] that by auto
  then have "filter (\<lambda>i. bit req i \<and> \<not> bit b' i) [0..<8] =
      filter (\<lambda>i. bit req i \<and> field_name names i \<notin> fst ` set kvs) [0..<8]"
    by (intro filter_cong) auto
  then have "missing_fields names req b' = lacking (required_names names req) kvs"
    by (simp add: missing_fields_eq lacking_def required_names_def filter_map comp_def conj_commute
        del: upt_rec_numeral)
  then show ?thesis by (simp add: check_required_def Let_def)
qed

text \<open>\<open>accept required r\<close>: the outcome of a decoder whose walk over the fields ended with \<open>r\<close>.\<close>

definition accept :: "string list \<Rightarrow> (string \<times> json) list \<Rightarrow> ('s \<times> uint8) decoded \<Rightarrow> 's decoded" where
  "accept required kvs r =
     bind_out r (\<lambda>(s, _). if lacking required kvs \<noteq> [] then Err (FieldErrors (lacking required kvs)) else Ok s)"

lemma required_walk:
  assumes "tracks tbl f"
    and "\<And>i k. i < 8 \<Longrightarrow> bit req i \<Longrightarrow> map_of tbl k = Some i \<longleftrightarrow> k = field_name names i"
  shows "bind_out (wrap_err m (ObjBytes f (JObj kvs) (s, 0))) (check_required names req) =
     accept (required_names names req) kvs (wrap_err m (obj_loop f kvs (s, 0)))"
  using check_required_eq [OF assms(1) _ assms(2)]
  by (cases "obj_loop f kvs (s, 0)")
    (auto simp: ObjBytes_def wrap_err_def accept_def Let_def)

lemma field_Ok: "field name r upd = Ok s \<longleftrightarrow> (\<exists>v. r = Ok v \<and> s = upd v)"
  by (cases r) (auto simp: field_def wrap_err_def)

lemma less_8_cases: "i < 8 \<Longrightarrow> i = 0 \<or> i = 1 \<or> i = 2 \<or> i = 3 \<or> i = 4 \<or> i = 5 \<or> i = 6 \<or> i = 7" for i :: nat
  by arith

lemma upt_8: "[0..<8] = [0, 1, 2, 3, 4, 5, 6, 7 :: nat]"
  by (simp add: upt_rec)

lemma CreateOrderRequest_required:
  "CreateOrderRequest_Decode J s (JObj kvs) =
     accept [''user_uuid'', ''part_uuids''] kvs
       (wrap_err ''decode CreateOrderRequest'' (obj_loop (CreateOrderRequest_field J) kvs (s, 0)))"
proof -
  let ?tbl = "[(''user_uuid'', 0), (''part_uuids'', 1)] :: (string \<times> nat) list"
  have names: "required_names names_of_CreateOrderRequest 0b11 = [''user_uuid'', ''part_uuids'']"
    by (simp add: required_names_def names_of_CreateOrderRequest_def field_name_def upt_8)
  have tracks: "tracks ?tbl (CreateOrderRequest_field J)"
    by (auto simp: tracks_def CreateOrderRequest_field_def field_Ok split: if_splits)
  have tbl: "map_of ?tbl k = Some i \<longleftrightarrow> k = field_name names_of_CreateOrderRequest i"
    if "i < 8" "bit (0b11 :: uint8) i" for i k
    using less_8_cases [OF that(1)] that(2)
    by (elim disjE) (auto simp: names_of_CreateOrderRequest_def field_name_def)
  show ?thesis
    unfolding CreateOrderRequest_Decode_def
    by (rule trans [OF required_walk [OF tracks tbl]]) (simp_all only: names)
qed

lemma CreateOrderResponse_required:
  "CreateOrderResponse_Decode J s (JObj kvs) =
     accept [''uuid'', ''total_price''] kvs
       (wrap_err ''decode CreateOrderResponse'' (obj_loop (CreateOrderResponse_field J) kvs (s, 0)))"
proof -
  let ?tbl = "[(''uuid'', 0), (''total_price'', 1)] :: (string \<times> nat) list"
  have names: "required_names names_of_CreateOrderResponse 0b11 = [''uuid'', ''total_price'']"
    by (simp add: required_names_def names_of_CreateOrderResponse_def field_name_def upt_8)
  have tracks: "tracks ?tbl (CreateOrderResponse_field J)"
    by (auto simp: tracks_def CreateOrderResponse_field_def field_Ok split: if_splits)
  have tbl: "map_of ?tbl k = Some i \<longleftrightarrow> k = field_name names_of_CreateOrderResponse i"
    if "i < 8" "bit (0b11 :: uint8) i" for i k
    using less_8_cases [OF that(1)] that(2)
    by (elim disjE) (auto simp: names_of_CreateOrderResponse_def field_name_def)
  show ?thesis
    unfolding CreateOrderResponse_Decode_def
    by (rule trans [OF required_walk [OF tracks tbl]]) (simp_all only: names)
qed

lemma PayOrderRequest_required:
  "PayOrderRequest_Decode s (JObj kvs) =
     accept [''payment_method''] kvs
       (wrap_err ''decode PayOrderRequest'' (obj_loop PayOrderRequest_field kvs (s, 0)))"
proof -
  let ?tbl = "[(''payment_method'', 0)] :: (string \<times> nat) list"
  have names: "required_names names_of_PayOrderRequest 0b1 = [''payment_method'']"
    by (simp add: required_names_def names_of_PayOrderRequest_def field_name_def upt_8)
  have tracks: "tracks ?tbl PayOrderRequest_field"
    by (auto simp: tracks_def PayOrderRequest_field_def field_Ok split: if_splits)
  have tbl: "map_of ?tbl k = Some i \<longleftrightarrow> k = field_name names_of_PayOrderRequest i"
    if "i < 8" "bit (0b1 :: uint8) i" for i k
    using less_8_cases [OF that(1)] that(2)
    by (elim disjE) (auto simp: names_of_PayOrderRequest_def field_name_def)
  show ?thesis
    unfolding PayOrderRequest_Decode_def
    by (rule trans [OF required_walk [OF tracks tbl]]) (simp_all only: names)
qed

lemma PayOrderResponse_required:
  "PayOrderResponse_Decode J s (JObj kvs) =
     accept [''transaction_uuid''] kvs
       (wrap_err ''decode PayOrderResponse'' (obj_loop (PayOrderResponse_field J) kvs (s, 0)))"
proof -
  let ?tbl = "[(''transaction_uuid'', 0)] :: (string \<times> nat) list"
  have names: "required_names names_of_PayOrderResponse 0b1 = [''transaction_uuid'']"
    by (simp add: required_names_def names_of_PayOrderResponse_def field_name_def upt_8)
  have tracks: "tracks ?tbl (PayOrderResponse_field J)"
    by (auto simp: tracks_def PayOrderResponse_field_def field_Ok split: if_splits)
  have tbl: "map_of ?tbl k = Some i \<longleftrightarrow> k = field_name names_of_PayOrderResponse i"
    if "i < 8" "bit (0b1 :: uint8) i" for i k
    using less_8_cases [OF that(1)] that(2)
    by (elim disjE) (auto simp: names_of_PayOrderResponse_def field_name_def)
  show ?thesis
    unfolding PayOrderResponse_Decode_def
    by (rule trans [OF required_walk [OF tracks tbl]]) (simp_all only: names)
qed

lemma Order_required:
  "Order_Decode J s (JObj kvs) =
     accept [''order_uuid'', ''user_uuid'', ''part_uuids'', ''total_price'', ''status''] kvs
       (wrap_err ''decode Order'' (obj_loop (Order_field J) kvs (s, 0)))"
proof -
  let ?tbl = "[(''order_uuid'', 0), (''user_uuid'', 1), (''part_uuids'', 2), (''total_price'', 3), (''status'', 6)] :: (string \<times> nat) list"
  have names: "required_names names_of_Order 0b01001111 = [''order_uuid'', ''user_uuid'', ''part_uuids'', ''total_price'', ''status'']"
    by (simp add: required_names_def names_of_Order_def field_name_def upt_8)
  have tracks: "tracks ?tbl (Order_field J)"
    by (auto simp: tracks_def Order_field_def field_Ok split: if_splits)
  have tbl: "map_of ?tbl k = Some i \<longleftrightarrow> k = field_name names_of_Order i"
    if "i < 8" "bit (0b01001111 :: uint8) i" for i k
    using less_8_cases [OF that(1)] that(2)
    by (elim disjE) (auto simp: names_of_Order_def field_name_def)
  show ?thesis
    unfolding Order_Decode_def
    by (rule trans [OF required_walk [OF tracks tbl]]) (simp_all only: names)
qed

section \<open>Which objects are accepted, and with what value\<close>

text \<open>
  The reference: every occurrence of a known field has the right type, no required field is
  missing, and each field has the value of its last occurrence.
\<close>

definition is_ok :: "'a decoded \<Rightarrow> bool" where
  "is_ok r = (case r of Ok _ \<Rightarrow> True | _ \<Rightarrow> False)"

definition last_or :: "'a \<Rightarrow> (json \<Rightarrow> 'a decoded) \<Rightarrow> string \<Rightarrow> (string \<times> json) list \<Rightarrow> 'a" where
  "last_or dflt dec k kvs =
     (case map_of (rev kvs) k of
        Some d \<Rightarrow> (case dec d of Ok v \<Rightarrow> v | _ \<Rightarrow> dflt)
      | None \<Rightarrow> dflt)"

definition typed :: "(json \<Rightarrow> 'a decoded) \<Rightarrow> string \<Rightarrow> (string \<times> json) list \<Rightarrow> bool" where
  "typed dec k kvs \<longleftrightarrow> (\<forall>d \<in> set (map snd (filter (\<lambda>kv. fst kv = k) kvs)). is_ok (dec d))"

definition reference :: "string list \<Rightarrow> ((string \<times> json) list \<Rightarrow> bool) \<Rightarrow> ((string \<times> json) list \<Rightarrow> 'a) \<Rightarrow> json \<Rightarrow> 'a option" where
  "reference required well_typed val d =
     (case d of
        JObj kvs \<Rightarrow> if well_typed kvs \<and> lacking required kvs = [] then Some (val kvs) else None
      | _ \<Rightarrow> None)"

fun success :: "'a decoded \<Rightarrow> 'a option" where
  "success (Ok a) = Some a"
| "success (Err e) = None"
| "success (Panic p) = None"

lemma success_eq: "success r = Some a \<longleftrightarrow> r = Ok a"
  by (cases r) auto

lemma obj_loop_snoc: "obj_loop f (kvs @ [(k, v)]) s = bind_out (obj_loop f kvs s) (\<lambda>s. f s k v)"
  by (induction kvs arbitrary: s)
    (auto simp: bind_out_def split: outcome.splits)

lemma last_or_snoc [simp]:
  "last_or dflt dec k (kvs @ [(k', v)]) =
     (if k' = k then (case dec v of Ok a \<Rightarrow> a | _ \<Rightarrow> dflt) else last_or dflt dec k kvs)"
  by (simp add: last_or_def)

lemma last_or_Nil [simp]: "last_or dflt dec k [] = dflt"
  by (simp add: last_or_def)

lemma typed_snoc [simp]:
  "typed dec k (kvs @ [(k', v)]) \<longleftrightarrow> typed dec k kvs \<and> (k' = k \<longrightarrow> is_ok (dec v))"
  by (auto simp: typed_def)

lemma typed_Nil [simp]: "typed dec k []"
  by (simp add: typed_def)

lemma success_field: "success (field name r upd) = map_option upd (success r)"
  by (cases r) (simp_all add: field_def wrap_err_def)

lemma is_ok_success: "is_ok r \<longleftrightarrow> success r \<noteq> None"
  by (cases r) (simp_all add: is_ok_def)

lemma success_bind: "success (bind_out r k) = Option.bind (success r) (\<lambda>a. success (k a))"
  by (cases r) simp_all

lemma case_success: "(case r of Ok a \<Rightarrow> f a | Err e \<Rightarrow> g | Panic p \<Rightarrow> g) = (case success r of Some a \<Rightarrow> f a | None \<Rightarrow> g)"
  by (cases r) simp_all

text \<open>A decoder is its reference if its walk over the fields ends with the reference's value.\<close>

lemma reference_walk:
  assumes walk: "\<And>kvs. map_option fst (success (obj_loop f kvs (s, 0))) = (if well_typed kvs then Some (val kvs) else None)"
    and dec: "\<And>kvs. dec (JObj kvs) = accept required kvs (wrap_err m (obj_loop f kvs (s, 0)))"
    and other: "\<And>d. (\<And>kvs. d \<noteq> JObj kvs) \<Longrightarrow> success (dec d) = None"
  shows "success (dec d) = reference required well_typed val d"
proof (cases "\<exists>kvs. d = JObj kvs")
  case True
  then obtain kvs where d: "d = JObj kvs" by blast
  show ?thesis
    using walk [of kvs]
    by (cases "obj_loop f kvs (s, 0)")
      (auto simp: d dec accept_def wrap_err_def reference_def split: if_splits)
next
  case False
  then show ?thesis using other [of d] by (cases d) (simp_all add: reference_def)
qed

definition dec_some :: "(json \<Rightarrow> 'a decoded) \<Rightarrow> json \<Rightarrow> 'a option decoded" where
  "dec_some dec d = bind_out (dec d) (\<lambda>v. Ok (Some v))"

lemma success_dec_some: "success (dec_some dec d) = map_option Some (success (dec d))"
  by (cases "dec d") (simp_all add: dec_some_def)

lemmas walk_simps =
  obj_loop_snoc success_bind success_field is_ok_success case_success success_dec_some

lemma accept_FieldErrors:
  "accept required kvs (wrap_err m r) = Err (FieldErrors ms) \<longleftrightarrow>
     success r \<noteq> None \<and> ms = lacking required kvs \<and> ms \<noteq> []"
  by (cases r) (auto simp: accept_def wrap_err_def split: if_splits)

lemma walk_success: "map_option f x = (if b then Some y else None) \<Longrightarrow> x \<noteq> None \<longleftrightarrow> b"
  by (cases x) (auto split: if_splits)

definition CreateOrderRequest_typed :: "json_lib \<Rightarrow> (string \<times> json) list \<Rightarrow> bool" where
  "CreateOrderRequest_typed J kvs \<longleftrightarrow>
     typed (dec_UUID J) ''user_uuid'' kvs \<and>
     typed (dec_Arr (dec_UUID J)) ''part_uuids'' kvs"

definition CreateOrderRequest_value :: "json_lib \<Rightarrow> (string \<times> json) list \<Rightarrow> create_order_request" where
  "CreateOrderRequest_value J kvs =
     \<lparr>cor_UserUUID = last_or uuid_Nil (dec_UUID J) ''user_uuid'' kvs,
      cor_PartUuids = last_or None (dec_some (dec_Arr (dec_UUID J))) ''part_uuids'' kvs\<rparr>"

definition CreateOrderRequest_reference :: "json_lib \<Rightarrow> json \<Rightarrow> create_order_request option" where
  "CreateOrderRequest_reference J =
     reference [''user_uuid'', ''part_uuids''] (CreateOrderRequest_typed J) (CreateOrderRequest_value J)"

lemma CreateOrderRequest_walk:
  "map_option fst (success (obj_loop (CreateOrderRequest_field J) kvs (zero_create_order_request, 0))) =
     (if CreateOrderRequest_typed J kvs then Some (CreateOrderRequest_value J kvs) else None)"
proof (induction kvs rule: rev_induct)
  case Nil
  then show ?case by (simp add: zero_create_order_request_def CreateOrderRequest_typed_def CreateOrderRequest_value_def)
next
  case (snoc kv kvs)
  obtain k v where kv: "kv = (k, v)" by fastforce
  show ?case
    using snoc
    by (cases "success (obj_loop (CreateOrderRequest_field J) kvs (zero_create_order_request, 0))")
      (auto simp: kv walk_simps CreateOrderRequest_field_def CreateOrderRequest_typed_def CreateOrderRequest_value_def
        split: if_splits option.splits prod.splits)
qed

lemma CreateOrderRequest_Decode_exact:
  "success (CreateOrderRequest_Decode J zero_create_order_request d) = CreateOrderRequest_reference J d"
  unfolding CreateOrderRequest_reference_def
  by (rule reference_walk [OF CreateOrderRequest_walk CreateOrderRequest_required])
    (auto simp: CreateOrderRequest_Decode_def ObjBytes_def wrap_err_def split: json.splits)

definition PayOrderRequest_typed :: "(string \<times> json) list \<Rightarrow> bool" where
  "PayOrderRequest_typed kvs \<longleftrightarrow>
     typed PaymentMethod_Decode ''payment_method'' kvs"

definition PayOrderRequest_value :: "(string \<times> json) list \<Rightarrow> pay_order_request" where
  "PayOrderRequest_value kvs =
     \<lparr>por_PaymentMethod = last_or '''' PaymentMethod_Decode ''payment_method'' kvs\<rparr>"

definition PayOrderRequest_reference :: "json \<Rightarrow> pay_order_request option" where
  "PayOrderRequest_reference =
     reference [''payment_method''] PayOrderRequest_typed PayOrderRequest_value"

lemma PayOrderRequest_walk:
  "map_option fst (success (obj_loop PayOrderRequest_field kvs (zero_pay_order_request, 0))) =
     (if PayOrderRequest_typed kvs then Some (PayOrderRequest_value kvs) else None)"
proof (induction kvs rule: rev_induct)
  case Nil
  then show ?case by (simp add: zero_pay_order_request_def PayOrderRequest_typed_def PayOrderRequest_value_def)
next
  case (snoc kv kvs)
  obtain k v where kv: "kv = (k, v)" by fastforce
  show ?case
    using snoc
    by (cases "success (obj_loop PayOrderRequest_field kvs (zero_pay_order_request, 0))")
      (auto simp: kv walk_simps PayOrderRequest_field_def PayOrderRequest_typed_def PayOrderRequest_value_def
        split: if_splits option.splits prod.splits)
qed

lemma PayOrderRequest_Decode_exact:
  "success (PayOrderRequest_Decode zero_pay_order_request d) = PayOrderRequest_reference d"
  unfolding PayOrderRequest_reference_def
  by (rule reference_walk [OF PayOrderRequest_walk PayOrderRequest_required])
    (auto simp: PayOrderRequest_Decode_def ObjBytes_def wrap_err_def split: json.splits)

definition CreateOrderResponse_typed :: "json_lib \<Rightarrow> (string \<times> json) list \<Rightarrow> bool" where
  "CreateOrderResponse_typed J kvs \<longleftrightarrow>
     typed (dec_UUID J) ''uuid'' kvs \<and>
     typed dec_Str ''total_price'' kvs"

definition CreateOrderResponse_value :: "json_lib \<Rightarrow> (string \<times> json) list \<Rightarrow> create_order_response" where
  "CreateOrderResponse_value J kvs =
     \<lparr>cos_UUID = last_or uuid_Nil (dec_UUID J) ''uuid'' kvs,
      cos_TotalPrice = last_or '''' dec_Str ''total_price'' kvs\<rparr>"

definition CreateOrderResponse_reference :: "json_lib \<Rightarrow> json \<Rightarrow> create_order_response option" where
  "CreateOrderResponse_reference J =
     reference [''uuid'', ''total_price''] (CreateOrderResponse_typed J) (CreateOrderResponse_value J)"

lemma CreateOrderResponse_walk:
  "map_option fst (success (obj_loop (CreateOrderResponse_field J) kvs (zero_create_order_response, 0))) =
     (if CreateOrderResponse_typed J kvs then Some (CreateOrderResponse_value J kvs) else None)"
proof (induction kvs rule: rev_induct)
  case Nil
  then show ?case by (simp add: zero_create_order_response_def CreateOrderResponse_typed_def CreateOrderResponse_value_def)
next
  case (snoc kv kvs)
  obtain k v where kv: "kv = (k, v)" by fastforce
  show ?case
    using snoc
    by (cases "success (obj_loop (CreateOrderResponse_field J) kvs (zero_create_order_response, 0))")
      (auto simp: kv walk_simps CreateOrderResponse_field_def CreateOrderResponse_typed_def CreateOrderResponse_value_def
        split: if_splits option.splits prod.splits)
qed

lemma CreateOrderResponse_Decode_exact:
  "success (CreateOrderResponse_Decode J zero_create_order_response d) = CreateOrderResponse_reference J d"
  unfolding CreateOrderResponse_reference_def
  by (rule reference_walk [OF CreateOrderResponse_walk CreateOrderResponse_required])
    (auto simp: CreateOrderResponse_Decode_def ObjBytes_def wrap_err_def split: json.splits)

definition PayOrderResponse_typed :: "json_lib \<Rightarrow> (string \<times> json) list \<Rightarrow> bool" where
  "PayOrderResponse_typed J kvs \<longleftrightarrow>
     typed (dec_UUID J) ''transaction_uuid'' kvs"

definition PayOrderResponse_value :: "json_lib \<Rightarrow> (string \<times> json) list \<Rightarrow> pay_order_response" where
  "PayOrderResponse_value J kvs =
     \<lparr>pos_TransactionUUID = last_or uuid_Nil (dec_UUID J) ''transaction_uuid'' kvs\<rparr>"

definition PayOrderResponse_reference :: "json_lib \<Rightarrow> json \<Rightarrow> pay_order_response option" where
  "PayOrderResponse_reference J =
     reference [''transaction_uuid''] (PayOrderResponse_typed J) (PayOrderResponse_value J)"

lemma PayOrderResponse_walk:
  "map_option fst (success (obj_loop (PayOrderResponse_field J) kvs (zero_pay_order_response, 0))) =
     (if PayOrderResponse_typed J kvs then Some (PayOrderResponse_value J kvs) else None)"
proof (induction kvs rule: rev_induct)
  case Nil
  then show ?case by (simp add: zero_pay_order_response_def PayOrderResponse_typed_def PayOrderResponse_value_def)
next
  case (snoc kv kvs)
  obtain k v where kv: "kv = (k, v)" by fastforce
  show ?case
    using snoc
    by (cases "success (obj_loop (PayOrderResponse_field J) kvs (zero_pay_order_response, 0))")
      (auto simp: kv walk_simps PayOrderResponse_field_def PayOrderResponse_typed_def PayOrderResponse_value_def
        split: if_splits option.splits prod.splits)
qed

lemma PayOrderResponse_Decode_exact:
  "success (PayOrderResponse_Decode J zero_pay_order_response d) = PayOrderResponse_reference J d"
  unfolding PayOrderResponse_reference_def
  by (rule reference_walk [OF PayOrderResponse_walk PayOrderResponse_required])
    (auto simp: PayOrderResponse_Decode_def ObjBytes_def wrap_err_def split: json.splits)

definition Order_typed :: "json_lib \<Rightarrow> (string \<times> json) list \<Rightarrow> bool" where
  "Order_typed J kvs \<longleftrightarrow>
     typed (dec_UUID J) ''order_uuid'' kvs \<and>
     typed (dec_UUID J) ''user_uuid'' kvs \<and>
     typed (dec_Arr (dec_UUID J)) ''part_uuids'' kvs \<and>
     typed dec_Str ''total_price'' kvs \<and>
     typed (OptNilUUID_Decode J) ''transaction_uuid'' kvs \<and>
     typed OptNilPaymentMethod_Decode ''payment_method'' kvs \<and>
     typed OrderStatus_Decode ''status'' kvs"

definition Order_value :: "json_lib \<Rightarrow> (string \<times> json) list \<Rightarrow> api_order" where
  "Order_value J kvs =
     \<lparr>ao_OrderUUID = last_or uuid_Nil (dec_UUID J) ''order_uuid'' kvs,
      ao_UserUUID = last_or uuid_Nil (dec_UUID J) ''user_uuid'' kvs,
      ao_PartUuids = last_or None (dec_some (dec_Arr (dec_UUID J))) ''part_uuids'' kvs,
      ao_TotalPrice = last_or '''' dec_Str ''total_price'' kvs,
      ao_TransactionUUID = last_or Unset (OptNilUUID_Decode J) ''transaction_uuid'' kvs,
      ao_PaymentMethod = last_or Unset OptNilPaymentMethod_Decode ''payment_method'' kvs,
      ao_Status = last_or '''' OrderStatus_Decode ''status'' kvs\<rparr>"

definition Order_reference :: "json_lib \<Rightarrow> json \<Rightarrow> api_order option" where
  "Order_reference J =
     reference [''order_uuid'', ''user_uuid'', ''part_uuids'', ''total_price'', ''status''] (Order_typed J) (Order_value J)"

lemma Order_walk:
  "map_option fst (success (obj_loop (Order_field J) kvs (zero_api_order, 0))) =
     (if Order_typed J kvs then Some (Order_value J kvs) else None)"
proof (induction kvs rule: rev_induct)
  case Nil
  then show ?case by (simp add: zero_api_order_def Order_typed_def Order_value_def)
next
  case (snoc kv kvs)
  obtain k v where kv: "kv = (k, v)" by fastforce
  show ?case
  proof (cases "success (obj_loop (Order_field J) kvs (zero_api_order, 0))")
    case None
    with snoc show ?thesis by (auto simp: kv walk_simps Order_typed_def split: if_splits)
  next
    case (Some st)
    then obtain b where st: "success (obj_loop (Order_field J) kvs (zero_api_order, 0)) = Some (Order_value J kvs, b)"
      and typed: "Order_typed J kvs"
      using snoc by (cases st) (auto split: if_splits)
    have run: "success (obj_loop (Order_field J) (kvs @ [kv]) (zero_api_order, 0)) =
        success (Order_field J (Order_value J kvs, b) k v)"
      by (simp add: kv walk_simps st)
    consider "k = ''order_uuid''" | "k = ''user_uuid''" | "k = ''part_uuids''" | "k = ''total_price''"
      | "k = ''transaction_uuid''" | "k = ''payment_method''" | "k = ''status''" | "k \<notin> set names_of_Order"
      by (auto simp: names_of_Order_def)
    then show ?thesis
      unfolding run using typed
      by cases
        (simp_all add: kv success_field is_ok_success case_success success_dec_some Order_field_def Order_typed_def
          Order_value_def names_of_Order_def split: option.split)
  qed
qed

lemma Order_Decode_exact:
  "success (Order_Decode J zero_api_order d) = Order_reference J d"
  unfolding Order_reference_def
  by (rule reference_walk [OF Order_walk Order_required])
    (auto simp: Order_Decode_def ObjBytes_def wrap_err_def split: json.splits)

section \<open>Decoding what was encoded\<close>

text \<open>A decoded slice is never nil: what a nil slice becomes on the wire and back.\<close>

definition made :: "'a list option \<Rightarrow> 'a list option" where
  "made v = Some (case v of Some xs \<Rightarrow> xs | None \<Rightarrow> [])"

definition made_request :: "create_order_request \<Rightarrow> create_order_request" where
  "made_request s = s\<lparr>cor_PartUuids := made (cor_PartUuids s)\<rparr>"

definition made_order :: "api_order \<Rightarrow> api_order" where
  "made_order s = s\<lparr>ao_PartUuids := made (ao_PartUuids s)\<rparr>"

text \<open>An error value as the handlers build it: only a \<open>ValidationError\<close> has details.\<close>

definition error_shape :: "api_error \<Rightarrow> bool" where
  "error_shape e \<longleftrightarrow> ae_Details e = None \<or> ae_Type e = ValidationError"

lemma arr_loop_map: "(\<And>x. x \<in> set xs \<Longrightarrow> dec (enc x) = Ok x) \<Longrightarrow> arr_loop dec (map enc xs) acc = Ok (acc @ xs)"
  by (induction xs arbitrary: acc) simp_all

lemma dec_Arr_arr_of: "(\<And>x. dec (enc x) = Ok x) \<Longrightarrow> dec_Arr dec (arr_of enc v) = Ok (the (made v))"
  by (auto simp: dec_Arr_def arr_of_def made_def arr_loop_map split: option.split)

lemma dec_Str_JStr [simp]: "dec_Str (JStr s) = Ok s"
  by (simp add: dec_Str_def)

lemma OrderStatus_roundtrip [simp]: "OrderStatus_Decode (OrderStatus_Encode s) = Ok s"
  by (simp add: OrderStatus_Decode_def OrderStatus_Encode_def)

lemma PaymentMethod_roundtrip [simp]: "PaymentMethod_Decode (PaymentMethod_Encode s) = Ok s"
  by (simp add: PaymentMethod_Decode_def PaymentMethod_Encode_def)

lemma OptNilPaymentMethod_roundtrip: "OptNilPaymentMethod_Encode v = Some d \<Longrightarrow> OptNilPaymentMethod_Decode d = Ok v"
  by (cases v) (auto simp: OptNilPaymentMethod_Encode_def OptNilPaymentMethod_Decode_def PaymentMethod_Encode_def
      PaymentMethod_Decode_def)

lemma lacking_Nil: "lacking req kvs = [] \<longleftrightarrow> set req \<subseteq> fst ` set kvs"
  by (auto simp: lacking_def filter_empty_conv)

lemmas error_codec_defs =
  BadRequestError_Encode_def BadRequestError_Decode_def
  UnauthorizedError_Encode_def UnauthorizedError_Decode_def
  ForbiddenError_Encode_def ForbiddenError_Decode_def
  NotFoundError_Encode_def NotFoundError_Decode_def
  ConflictError_Encode_def ConflictError_Decode_def
  ValidationError_Encode_def ValidationError_Decode_def
  RateLimitError_Encode_def RateLimitError_Decode_def
  InternalServerError_Encode_def InternalServerError_Decode_def
  BadGatewayError_Encode_def BadGatewayError_Decode_def
  ServiceUnavailableError_Encode_def ServiceUnavailableError_Decode_def

context json_codec
begin

lemma dec_UUID_Encode [simp]: "dec_UUID J (json_EncodeUUID J u) = Ok u"
  by (simp add: dec_UUID_def of_lib_def)

lemma dec_Arr_uuids [simp]:
  "dec_Arr (dec_UUID J) (arr_of (json_EncodeUUID J) v) = Ok (the (made v))"
  by (rule dec_Arr_arr_of) simp

lemma OptNilUUID_roundtrip: "OptNilUUID_Encode J v = Some d \<Longrightarrow> OptNilUUID_Decode J d = Ok v"
  by (cases v) (auto simp: OptNilUUID_Encode_def OptNilUUID_Decode_def)

lemma CreateOrderRequest_roundtrip:
  "CreateOrderRequest_Decode J zero_create_order_request (CreateOrderRequest_Encode J s) = Ok (made_request s)"
  unfolding CreateOrderRequest_Encode_def CreateOrderRequest_required
  by (cases s) (simp add: CreateOrderRequest_field_def field_def wrap_err_def accept_def lacking_Nil
      zero_create_order_request_def made_request_def made_def)

lemma CreateOrderResponse_roundtrip:
  "CreateOrderResponse_Decode J zero_create_order_response (CreateOrderResponse_Encode J s) = Ok s"
  unfolding CreateOrderResponse_Encode_def CreateOrderResponse_required
  by (cases s) (simp add: CreateOrderResponse_field_def field_def wrap_err_def accept_def lacking_Nil
      zero_create_order_response_def)

lemma PayOrderRequest_roundtrip:
  "PayOrderRequest_Decode zero_pay_order_request (PayOrderRequest_Encode s) = Ok s"
  unfolding PayOrderRequest_Encode_def PayOrderRequest_required
  by (cases s) (simp add: PayOrderRequest_field_def field_def wrap_err_def accept_def lacking_Nil
      zero_pay_order_request_def)

lemma PayOrderResponse_roundtrip:
  "PayOrderResponse_Decode J zero_pay_order_response (PayOrderResponse_Encode J s) = Ok s"
  unfolding PayOrderResponse_Encode_def PayOrderResponse_required
  by (cases s) (simp add: PayOrderResponse_field_def field_def wrap_err_def accept_def lacking_Nil
      zero_pay_order_response_def)

lemma Order_roundtrip: "Order_Decode J zero_api_order (Order_Encode J s) = Ok (made_order s)"
  unfolding Order_Encode_def Order_required
  using OptNilUUID_roundtrip [of "ao_TransactionUUID s"] OptNilPaymentMethod_roundtrip [of "ao_PaymentMethod s"]
  by (cases s; cases "OptNilUUID_Encode J (ao_TransactionUUID s)"; cases "OptNilPaymentMethod_Encode (ao_PaymentMethod s)")
    (simp_all add: Order_field_def field_def wrap_err_def accept_def lacking_Nil opt_field_def
      zero_api_order_def made_order_def made_def OptNilUUID_Encode_def OptNilPaymentMethod_Encode_def split: opt_nil.splits)

lemma dec_Int32_Encode [simp]: "dec_Int32 J (JNum (jx_Int32 J n)) = Ok n"
  by (simp add: dec_Int32_def of_lib_def)

lemma error_fields_roundtrip:
  "obj_loop (error_field J) (error_fields J e) (zero_error t) =
     Ok \<lparr>ae_Type = t, ae_Code = ae_Code e, ae_Message = ae_Message e, ae_Details = None\<rparr>"
  by (cases "ae_Code e"; cases "ae_Message e")
    (simp_all add: error_fields_def error_field_def opt_field_def OptInt32_Encode_def OptString_Encode_def
      OptInt32_Decode_def OptString_Decode_def field_def wrap_err_def zero_error_def)

lemma obj_loop_append: "obj_loop f (xs @ ys) s = bind_out (obj_loop f xs s) (obj_loop f ys)"
  by (induction xs arbitrary: s) (auto simp: bind_out_def split: outcome.splits)

lemma validation_fields_roundtrip:
  "obj_loop (ValidationError_field J) (error_fields J e @ (if ae_Details e \<noteq> None then [(''details'', arr_of JStr (ae_Details e))] else []))
     (zero_error ValidationError) =
   Ok \<lparr>ae_Type = ValidationError, ae_Code = ae_Code e, ae_Message = ae_Message e, ae_Details = ae_Details e\<rparr>"
proof -
  have "dec_Arr dec_Str (arr_of JStr v) = Ok (the (made v))" for v by (rule dec_Arr_arr_of) simp
  then show ?thesis
    by (cases "ae_Code e"; cases "ae_Message e"; cases "ae_Details e")
      (simp_all add: obj_loop_append error_fields_def ValidationError_field_def opt_field_def OptInt32_Encode_def
        OptString_Encode_def OptInt32_Decode_def OptString_Decode_def field_def wrap_err_def zero_error_def made_def)
qed

lemma api_error_roundtrip:
  assumes "error_shape e"
  shows "api_error_Decode J (ae_Type e) (api_error_Encode J e) = Ok e"
proof -
  have e: "e = \<lparr>ae_Type = ae_Type e, ae_Code = ae_Code e, ae_Message = ae_Message e, ae_Details = ae_Details e\<rparr>"
    by simp
  show ?thesis
    using assms validation_fields_roundtrip [of e]
    by (subst (3) e, cases "ae_Type e"; cases "ae_Details e")
      (simp_all add: api_error_Decode_def api_error_Encode_def error_codec_defs ObjBytes_def wrap_err_def
        error_fields_roundtrip error_shape_def)
qed

end

end
