(* ===== verification/Oapi_Server.thy ===== *)
theory Oapi_Server
  imports Oapi_Json
begin

text \<open>
  The server side of the generated API: decoding of path parameters
  (\<open>oas_parameters_gen.go\<close>) and bodies (\<open>oas_request_decoders_gen.go\<close>), the four \<open>handle...Request\<close>
  functions with their telemetry (\<open>oas_handlers_gen.go\<close>) and the way \<open>ServeHTTP\<close> reaches them.
  \<open>net/http\<close>, \<open>mime\<close> and the URI helpers of ogen are the parameter \<open>H\<close>; the handlers
  of the configuration for errors, unknown paths and methods are fields of the server. \<open>Middleware\<close> is nil, as in
  \<open>order/internal/app/app.go\<close>, which passes no option to \<open>NewServer\<close>; the other branch is in
  theory \<open>Oapi_Middleware\<close>.
\<close>

section \<open>Library functions\<close>

record http_lib =
  ParseMediaType :: "string \<Rightarrow> string option"
  NormalizeEscapedPath :: "string \<Rightarrow> string option"
  PathUnescape :: "string \<Rightarrow> string option"
  DecodePathValue :: "string \<Rightarrow> string option" \<comment> \<open>\<open>uri.NewPathDecoder(...).DecodeValue\<close>\<close>
  EncodePathValue :: "string \<Rightarrow> string option" \<comment> \<open>\<open>uri.NewPathEncoder(...).EncodeValue\<close>, \<open>Result\<close>\<close>
  ToUUID :: "string \<Rightarrow> uuid option"
  UUIDToString :: "uuid \<Rightarrow> string"
  AddPathParts :: "url \<Rightarrow> string list \<Rightarrow> url"

record http_request =
  rq_Method :: string
  rq_URL :: url
  rq_ContentType :: string \<comment> \<open>empty when the header is missing\<close>
  rq_ContentLength :: int
  rq_Body :: "string option" \<comment> \<open>what \<open>io.ReadAll\<close> gives; \<open>None\<close> when reading fails\<close>

section \<open>Parameters and bodies\<close>

datatype param_error = UnescapeError | FieldRequired | PathValueError | ParseUUIDError

text \<open>The closure of the three \<open>decode...Params\<close> functions; the field is called \<open>order_uuid\<close>.\<close>

definition order_uuid_param :: "http_lib \<Rightarrow> string \<Rightarrow> bool \<Rightarrow> (param_error, uuid) outcome" where
  "order_uuid_param H arg argsEscaped =
     (case (if argsEscaped then PathUnescape H arg else Some arg) of
        None \<Rightarrow> Err UnescapeError
      | Some param \<Rightarrow>
          if length param > 0 then
            (case DecodePathValue H param of
               None \<Rightarrow> Err PathValueError
             | Some val \<Rightarrow> (case ToUUID H val of None \<Rightarrow> Err ParseUUIDError | Some c \<Rightarrow> Ok c))
          else Err FieldRequired)"

definition decodeCancelOrderParams :: "http_lib \<Rightarrow> string \<Rightarrow> bool \<Rightarrow> (param_error, uuid) outcome" where
  "decodeCancelOrderParams H arg argsEscaped = order_uuid_param H arg argsEscaped"

definition decodeGetOrderByUUIDParams :: "http_lib \<Rightarrow> string \<Rightarrow> bool \<Rightarrow> (param_error, uuid) outcome" where
  "decodeGetOrderByUUIDParams H arg argsEscaped = order_uuid_param H arg argsEscaped"

definition decodePayOrderParams :: "http_lib \<Rightarrow> string \<Rightarrow> bool \<Rightarrow> (param_error, uuid) outcome" where
  "decodePayOrderParams H arg argsEscaped = order_uuid_param H arg argsEscaped"

datatype body_error = SyntaxError | JsonError json_error | TrailingData

text \<open>\<open>request.Decode(d)\<close> followed by \<open>d.Skip() != io.EOF\<close>.\<close>

definition decode_body :: "json_lib \<Rightarrow> (json \<Rightarrow> 'a decoded) \<Rightarrow> string \<Rightarrow> (body_error, 'a) outcome" where
  "decode_body J dec buf =
     (case jx_Read J buf of
        None \<Rightarrow> Err SyntaxError
      | Some (d, rest) \<Rightarrow>
          (case dec d of
             Ok a \<Rightarrow> if jx_AtEOF J rest then Ok a else Err TrailingData
           | Err e \<Rightarrow> Err (JsonError e)
           | Panic p \<Rightarrow> Panic p))"

datatype request_error =
    MediaTypeError
  | BodyRequired
  | ReadError
  | DecodeBodyError string body_error
  | ValidateError "string list"
  | InvalidContentType string

text \<open>
  The deferred close walks an empty list of closers, so it returns nil and adds nothing to the
  error.
\<close>

definition decodeCreateOrderRequest ::
  "http_lib \<Rightarrow> json_lib \<Rightarrow> http_request \<Rightarrow> (request_error, create_order_request) outcome" where
  "decodeCreateOrderRequest H J r =
     (case ParseMediaType H (rq_ContentType r) of
        None \<Rightarrow> Err MediaTypeError
      | Some ct \<Rightarrow>
          if ct = ''application/json'' then
            if rq_ContentLength r = 0 then Err BodyRequired
            else (case rq_Body r of
               None \<Rightarrow> Err ReadError
             | Some buf \<Rightarrow>
                 if length buf = 0 then Err BodyRequired
                 else (case decode_body J (CreateOrderRequest_Decode J zero_create_order_request) buf of
                    Err e \<Rightarrow> Err (DecodeBodyError ct e)
                  | Panic p \<Rightarrow> Panic p
                  | Ok request \<Rightarrow>
                      if CreateOrderRequest_Validate request \<noteq> []
                      then Err (ValidateError (CreateOrderRequest_Validate request))
                      else Ok request))
          else Err (InvalidContentType ct))"

definition decodePayOrderRequest ::
  "http_lib \<Rightarrow> json_lib \<Rightarrow> http_request \<Rightarrow> (request_error, pay_order_request) outcome" where
  "decodePayOrderRequest H J r =
     (case ParseMediaType H (rq_ContentType r) of
        None \<Rightarrow> Err MediaTypeError
      | Some ct \<Rightarrow>
          if ct = ''application/json'' then
            if rq_ContentLength r = 0 then Err BodyRequired
            else (case rq_Body r of
               None \<Rightarrow> Err ReadError
             | Some buf \<Rightarrow>
                 if length buf = 0 then Err BodyRequired
                 else (case decode_body J (PayOrderRequest_Decode zero_pay_order_request) buf of
                    Err e \<Rightarrow> Err (DecodeBodyError ct e)
                  | Panic p \<Rightarrow> Panic p
                  | Ok request \<Rightarrow>
                      if PayOrderRequest_Validate request \<noteq> []
                      then Err (ValidateError (PayOrderRequest_Validate request))
                      else Ok request))
          else Err (InvalidContentType ct))"

section \<open>The response writer and the telemetry\<close>

text \<open>
  \<open>codeRecorder\<close> wraps the connection's writer: it keeps the last status given to \<open>WriteHeader\<close>,
  while the connection sends the first one, with the header fields set until then.
\<close>

record response_writer =
  rw_Status :: nat \<comment> \<open>\<open>codeRecorder.status\<close>\<close>
  rw_Header :: "string \<rightharpoonup> string"
  rw_Sent :: "(nat \<times> (string \<rightharpoonup> string)) option"
  rw_Body :: string

definition new_writer :: response_writer where
  "new_writer = \<lparr>rw_Status = 0, rw_Header = Map.empty, rw_Sent = None, rw_Body = ''''\<rparr>"

definition set_header :: "string \<Rightarrow> string \<Rightarrow> response_writer \<Rightarrow> response_writer" where
  "set_header k v rw = rw\<lparr>rw_Header := (rw_Header rw)(k \<mapsto> v)\<rparr>"

definition WriteHeader :: "nat \<Rightarrow> response_writer \<Rightarrow> response_writer" where
  "WriteHeader status rw = rw\<lparr>rw_Status := status,
     rw_Sent := (case rw_Sent rw of None \<Rightarrow> Some (status, rw_Header rw) | Some s \<Rightarrow> Some s)\<rparr>"

definition write_body :: "string \<Rightarrow> response_writer \<Rightarrow> response_writer" where
  "write_body s rw = rw\<lparr>rw_Body := rw_Body rw @ s\<rparr>"

datatype server_error =
    DecodeParamsError string param_error \<comment> \<open>with the name of the operation\<close>
  | DecodeRequestError string request_error
  | InternalError string \<comment> \<open>the error of the handler\<close>
  | EncodeResponseError string

datatype telemetry =
    SpanStatus bool \<comment> \<open>\<open>codes.Ok\<close> or \<open>codes.Error\<close>\<close>
  | SpanRecordError server_error
  | ErrorsAdd nat \<comment> \<open>\<open>s.errors.Add(ctx, 1, ...)\<close> with the status, 0 if none was written\<close>
  | RequestsAdd nat

text \<open>\<open>recordError\<close>: it runs deferred, after the error handler has written its answer.\<close>

definition recordError :: "response_writer \<Rightarrow> server_error \<Rightarrow> telemetry list" where
  "recordError rw err =
     (let code = rw_Status rw in
      SpanRecordError err # (if code < 100 \<or> code \<ge> 500 then [SpanStatus False] else []) @ [ErrorsAdd code])"

section \<open>Handling a request\<close>

record 'w server =
  sv_Http :: http_lib
  sv_Json :: json_lib
  sv_Prefix :: string
  sv_ErrorHandler :: "server_error \<Rightarrow> response_writer \<Rightarrow> response_writer"
  sv_NotFound :: "response_writer \<Rightarrow> response_writer"
  sv_MethodNotAllowed :: "string \<Rightarrow> string \<Rightarrow> response_writer \<Rightarrow> response_writer" \<comment> \<open>method, allowed methods\<close>
  sv_CancelOrder :: "uuid \<Rightarrow> ('w, string, unit api_res) prog"
  sv_CreateOrder :: "create_order_request \<Rightarrow> ('w, string, create_order_response api_res) prog"
  sv_GetOrderByUUID :: "uuid \<Rightarrow> ('w, string, api_order api_res) prog"
  sv_PayOrder :: "pay_order_request \<Rightarrow> uuid \<Rightarrow> ('w, string, pay_order_response api_res) prog"

record handled =
  hd_Writer :: response_writer
  hd_Events :: "telemetry list"
  hd_Panic :: "string option"

text \<open>
  The three ways a request ends: the stopwatch's deferred function counts the request in each, with
  the status the recorder holds then.
\<close>

definition ends :: "response_writer \<Rightarrow> telemetry list \<Rightarrow> string option \<Rightarrow> handled" where
  "ends rw events p = \<lparr>hd_Writer = rw, hd_Events = events @ [RequestsAdd (rw_Status rw)], hd_Panic = p\<rparr>"

definition refuse :: "'w server \<Rightarrow> response_writer \<Rightarrow> telemetry list \<Rightarrow> server_error \<Rightarrow> handled" where
  "refuse S rw events err =
     (let rw1 = sv_ErrorHandler S err rw in ends rw1 (events @ recordError rw1 err) None)"

text \<open>
  \<open>encode...Response\<close> on the writer: header, status, span status, body. \<open>conn\<close> says whether the
  connection takes the body.
\<close>

definition send_reply ::
  "'w server \<Rightarrow> bool \<Rightarrow> ('a \<Rightarrow> json) \<Rightarrow> (string, 'a reply) outcome \<Rightarrow> response_writer \<Rightarrow> handled" where
  "send_reply S conn enc rep rw =
     (case rep of
        Err e \<Rightarrow> refuse S rw [] (EncodeResponseError e)
      | Panic p \<Rightarrow> ends rw [] (Some p)
      | Ok r \<Rightarrow>
          let rw1 = (case rp_ContentType r of Some ct \<Rightarrow> set_header ''Content-Type'' ct rw | None \<Rightarrow> rw);
              rw2 = WriteHeader (rp_Status r) rw1; events = [SpanStatus (rp_SpanOk r)] in
          (case rp_Body r of
             None \<Rightarrow> ends rw2 events None
           | Some v \<Rightarrow>
               if conn then ends (write_body (jx_Write (sv_Json S) (enc v)) rw2) events None
               else refuse S rw2 events (EncodeResponseError ''write'')))"

definition reply_with ::
  "'w server \<Rightarrow> bool \<Rightarrow> response_writer \<Rightarrow> ('b \<Rightarrow> (string, 'a reply) outcome) \<Rightarrow> ('a \<Rightarrow> json) \<Rightarrow>
   ('w, string, 'b) prog \<Rightarrow> 'w \<Rightarrow> 'w \<times> handled" where
  "reply_with S conn rw encodeResponse enc handler w =
     (case handler w of
        (w1, Ok response) \<Rightarrow> (w1, send_reply S conn enc (encodeResponse response) rw)
      | (w1, Err err) \<Rightarrow> (w1, refuse S rw [] (InternalError err))
      | (w1, Panic p) \<Rightarrow> (w1, ends rw [] (Some p)))"

text \<open>The \<open>Encode\<close> method of a response's dynamic type; \<open>CancelOrderNoContent\<close> has no body.\<close>

definition res_Encode :: "json_lib \<Rightarrow> ('a \<Rightarrow> json) \<Rightarrow> 'a api_res \<Rightarrow> json" where
  "res_Encode J enc res = (case res of ApiOk v \<Rightarrow> enc v | ApiErr e \<Rightarrow> api_error_Encode J e)"

definition handleCancelOrderRequest ::
  "'w server \<Rightarrow> bool \<Rightarrow> string \<Rightarrow> bool \<Rightarrow> http_request \<Rightarrow> 'w \<Rightarrow> 'w \<times> handled" where
  "handleCancelOrderRequest S conn arg argsEscaped r w =
     (let rw = new_writer; J = sv_Json S in
      case decodeCancelOrderParams (sv_Http S) arg argsEscaped of
        Err e \<Rightarrow> (w, refuse S rw [] (DecodeParamsError ''CancelOrder'' e))
      | Panic p \<Rightarrow> (w, ends rw [] (Some p))
      | Ok params \<Rightarrow>
          reply_with S conn rw encodeCancelOrderResponse (res_Encode J (\<lambda>_. JNull)) (sv_CancelOrder S params) w)"

definition handleCreateOrderRequest :: "'w server \<Rightarrow> bool \<Rightarrow> http_request \<Rightarrow> 'w \<Rightarrow> 'w \<times> handled" where
  "handleCreateOrderRequest S conn r w =
     (let rw = new_writer; J = sv_Json S in
      case decodeCreateOrderRequest (sv_Http S) J r of
        Err e \<Rightarrow> (w, refuse S rw [] (DecodeRequestError ''CreateOrder'' e))
      | Panic p \<Rightarrow> (w, ends rw [] (Some p))
      | Ok request \<Rightarrow>
          reply_with S conn rw encodeCreateOrderResponse (res_Encode J (CreateOrderResponse_Encode J))
            (sv_CreateOrder S request) w)"

definition handleGetOrderByUUIDRequest ::
  "'w server \<Rightarrow> bool \<Rightarrow> string \<Rightarrow> bool \<Rightarrow> http_request \<Rightarrow> 'w \<Rightarrow> 'w \<times> handled" where
  "handleGetOrderByUUIDRequest S conn arg argsEscaped r w =
     (let rw = new_writer; J = sv_Json S in
      case decodeGetOrderByUUIDParams (sv_Http S) arg argsEscaped of
        Err e \<Rightarrow> (w, refuse S rw [] (DecodeParamsError ''GetOrderByUUID'' e))
      | Panic p \<Rightarrow> (w, ends rw [] (Some p))
      | Ok params \<Rightarrow>
          reply_with S conn rw encodeGetOrderByUUIDResponse (res_Encode J (Order_Encode J))
            (sv_GetOrderByUUID S params) w)"

definition handlePayOrderRequest ::
  "'w server \<Rightarrow> bool \<Rightarrow> string \<Rightarrow> bool \<Rightarrow> http_request \<Rightarrow> 'w \<Rightarrow> 'w \<times> handled" where
  "handlePayOrderRequest S conn arg argsEscaped r w =
     (let rw = new_writer; J = sv_Json S in
      case decodePayOrderParams (sv_Http S) arg argsEscaped of
        Err e \<Rightarrow> (w, refuse S rw [] (DecodeParamsError ''PayOrder'' e))
      | Panic p \<Rightarrow> (w, ends rw [] (Some p))
      | Ok params \<Rightarrow>
          (case decodePayOrderRequest (sv_Http S) J r of
             Err e \<Rightarrow> (w, refuse S rw [] (DecodeRequestError ''PayOrder'' e))
           | Panic p \<Rightarrow> (w, ends rw [] (Some p))
           | Ok request \<Rightarrow>
               reply_with S conn rw encodePayOrderResponse (res_Encode J (PayOrderResponse_Encode J))
                 (sv_PayOrder S request params) w))"

section \<open>The whole server\<close>

text \<open>The default \<open>MethodNotAllowed\<close> of \<open>newServerConfig\<close>.\<close>

definition MethodNotAllowed :: "string \<Rightarrow> string \<Rightarrow> response_writer \<Rightarrow> response_writer" where
  "MethodNotAllowed meth allowed rw =
     (if meth = ''OPTIONS''
      then WriteHeader 204 (set_header ''Access-Control-Allow-Headers'' ''Content-Type''
             (set_header ''Access-Control-Allow-Methods'' allowed rw))
      else WriteHeader 405 (set_header ''Allow'' allowed rw))"

definition serve :: "'w server \<Rightarrow> bool \<Rightarrow> http_request \<Rightarrow> 'w \<Rightarrow> 'w \<times> handled" where
  "serve S conn r w =
     (case ServeHTTP (NormalizeEscapedPath (sv_Http S)) (sv_Prefix S) (rq_Method r) (rq_URL r) of
        NotFoundPage \<Rightarrow> (w, \<lparr>hd_Writer = sv_NotFound S new_writer, hd_Events = [], hd_Panic = None\<rparr>)
      | NotAllowed allowed \<Rightarrow>
          (w, \<lparr>hd_Writer = sv_MethodNotAllowed S (rq_Method r) allowed new_writer, hd_Events = [], hd_Panic = None\<rparr>)
      | HandleOp op args argsEscaped \<Rightarrow>
          (case op of
             CreateOrderOperation \<Rightarrow> handleCreateOrderRequest S conn r w
           | GetOrderByUUIDOperation \<Rightarrow> handleGetOrderByUUIDRequest S conn (hd args) argsEscaped r w
           | CancelOrderOperation \<Rightarrow> handleCancelOrderRequest S conn (hd args) argsEscaped r w
           | PayOrderOperation \<Rightarrow> handlePayOrderRequest S conn (hd args) argsEscaped r w))"

section \<open>What a request does\<close>

text \<open>The handler call a request stands for, or the error that its parameters or body give.\<close>

datatype api_call =
    CallCancel uuid
  | CallCreate create_order_request
  | CallGet uuid
  | CallPay pay_order_request uuid

definition with_error :: "('e \<Rightarrow> server_error) \<Rightarrow> ('e, 'a) outcome \<Rightarrow> ('a \<Rightarrow> (server_error, 'b) outcome) \<Rightarrow> (server_error, 'b) outcome" where
  "with_error f r k = (case r of Ok a \<Rightarrow> k a | Err e \<Rightarrow> Err (f e) | Panic p \<Rightarrow> Panic p)"

definition decoded_call :: "'w server \<Rightarrow> http_request \<Rightarrow> (server_error, api_call) outcome option" where
  "decoded_call S r =
     (let H = sv_Http S; J = sv_Json S in
      case ServeHTTP (NormalizeEscapedPath H) (sv_Prefix S) (rq_Method r) (rq_URL r) of
        HandleOp op args esc \<Rightarrow> Some (case op of
          CreateOrderOperation \<Rightarrow>
            with_error (DecodeRequestError ''CreateOrder'') (decodeCreateOrderRequest H J r) (\<lambda>q. Ok (CallCreate q))
        | GetOrderByUUIDOperation \<Rightarrow>
            with_error (DecodeParamsError ''GetOrderByUUID'') (decodeGetOrderByUUIDParams H (hd args) esc) (\<lambda>u. Ok (CallGet u))
        | CancelOrderOperation \<Rightarrow>
            with_error (DecodeParamsError ''CancelOrder'') (decodeCancelOrderParams H (hd args) esc) (\<lambda>u. Ok (CallCancel u))
        | PayOrderOperation \<Rightarrow>
            with_error (DecodeParamsError ''PayOrder'') (decodePayOrderParams H (hd args) esc) (\<lambda>u.
            with_error (DecodeRequestError ''PayOrder'') (decodePayOrderRequest H J r) (\<lambda>q. Ok (CallPay q u))))
      | _ \<Rightarrow> None)"

definition run_call :: "'w server \<Rightarrow> api_call \<Rightarrow> 'w \<Rightarrow> 'w" where
  "run_call S c w = (case c of
     CallCancel u \<Rightarrow> fst (sv_CancelOrder S u w)
   | CallCreate q \<Rightarrow> fst (sv_CreateOrder S q w)
   | CallGet u \<Rightarrow> fst (sv_GetOrderByUUID S u w)
   | CallPay q u \<Rightarrow> fst (sv_PayOrder S q u w))"

definition counted_requests :: "handled \<Rightarrow> nat" where
  "counted_requests h = length (filter (\<lambda>t. case t of RequestsAdd _ \<Rightarrow> True | _ \<Rightarrow> False) (hd_Events h))"

definition counted_errors :: "handled \<Rightarrow> nat" where
  "counted_errors h = length (filter (\<lambda>t. case t of ErrorsAdd _ \<Rightarrow> True | _ \<Rightarrow> False) (hd_Events h))"

definition refused_with :: "'w server \<Rightarrow> server_error \<Rightarrow> handled \<Rightarrow> bool" where
  "refused_with S e h \<longleftrightarrow> hd_Writer h = sv_ErrorHandler S e new_writer \<and> hd_Panic h = None \<and> counted_errors h = 1"

text \<open>Every way a request ends counts it once, and at most one error.\<close>

definition counts_once :: "handled \<Rightarrow> bool" where
  "counts_once h \<longleftrightarrow> counted_requests h = 1 \<and> counted_errors h \<le> 1"

lemma no_counts:
  assumes "\<forall>t \<in> set events. \<exists>b. t = SpanStatus b"
  shows "filter (\<lambda>t. case t of RequestsAdd _ \<Rightarrow> True | _ \<Rightarrow> False) events = []"
    and "filter (\<lambda>t. case t of ErrorsAdd _ \<Rightarrow> True | _ \<Rightarrow> False) events = []"
  using assms by (auto simp: filter_empty_conv)

lemma refuse_counts:
  assumes "\<forall>t \<in> set events. \<exists>b. t = SpanStatus b"
  shows "counts_once (refuse S rw events e)" "counted_errors (refuse S rw events e) = 1"
  using no_counts [OF assms]
  by (simp_all add: refuse_def ends_def recordError_def Let_def counts_once_def counted_requests_def counted_errors_def)

lemma ends_counts:
  assumes "\<forall>t \<in> set events. \<exists>b. t = SpanStatus b"
  shows "counts_once (ends rw events p)"
  using no_counts [OF assms] by (simp add: ends_def counts_once_def counted_requests_def counted_errors_def)

lemma send_reply_counts: "counts_once (send_reply S conn enc rep rw)"
  by (auto simp: send_reply_def Let_def intro!: refuse_counts ends_counts split: outcome.splits option.splits)

lemma reply_with_counts: "reply_with S conn rw encodeResponse enc handler w = (w1, h) \<Longrightarrow> counts_once h \<and> w1 = fst (handler w)"
  by (auto simp: reply_with_def intro!: refuse_counts ends_counts send_reply_counts split: prod.splits outcome.splits)

lemma refuse_refused: "refused_with S e (refuse S new_writer [] e)"
  using refuse_counts(2) [of "[]"] by (simp add: refused_with_def) (simp add: refuse_def ends_def Let_def)

lemmas handle_defs =
  handleCreateOrderRequest_def handleGetOrderByUUIDRequest_def handleCancelOrderRequest_def handlePayOrderRequest_def

lemma serve_call:
  assumes "serve S conn r w = (w1, h)"
  shows "case decoded_call S r of
      None \<Rightarrow> w1 = w \<and> hd_Events h = []
    | Some (Ok c) \<Rightarrow> w1 = run_call S c w \<and> counts_once h
    | Some (Err e) \<Rightarrow> w1 = w \<and> refused_with S e h \<and> counts_once h
    | Some (Panic p) \<Rightarrow> w1 = w \<and> hd_Panic h = Some p \<and> counts_once h"
  using assms refuse_counts(1) [of "[]"] ends_counts [of "[]"]
  by (auto simp: serve_def decoded_call_def handle_defs with_error_def run_call_def Let_def refuse_refused
      dest!: reply_with_counts split: dispatch.splits operation.splits outcome.splits)
    (auto simp: ends_def)

end
