(* ===== verification/Oapi_Client.thy ===== *)
theory Oapi_Client
  imports Oapi_Server
begin

text \<open>
  The generated client (\<open>oas_client_gen.go\<close>): it builds the URL, encodes the request
  (\<open>oas_request_encoders_gen.go\<close>), sends it and decodes the response by its status code
  (\<open>oas_response_decoders_gen.go\<close>). The HTTP client and ogen's request helpers are fields of the
  client.
\<close>

section \<open>Responses\<close>

record http_response =
  rs_StatusCode :: nat
  rs_ContentType :: string \<comment> \<open>empty when the header is missing\<close>
  rs_Body :: "string option" \<comment> \<open>\<open>None\<close> when reading it fails\<close>

datatype response_error =
    RespMediaType
  | RespRead
  | RespBody string body_error
  | RespValidate "string list"
  | RespContentType string
  | UnexpectedStatusCode nat

type_synonym 'a response_result = "(response_error, 'a) outcome"

text \<open>
  The block that every \<open>case\<close> of a response decoder repeats. \<open>val\<close> gives the fields that fail
  validation; it is \<open>no_validation\<close> where the source has no \<open>Validate response\<close> step.
\<close>

definition json_response ::
  "http_lib \<Rightarrow> json_lib \<Rightarrow> (json \<Rightarrow> 'a decoded) \<Rightarrow> ('a \<Rightarrow> string list) \<Rightarrow> http_response \<Rightarrow> 'a response_result" where
  "json_response H J dec val resp =
     (case ParseMediaType H (rs_ContentType resp) of
        None \<Rightarrow> Err RespMediaType
      | Some ct \<Rightarrow>
          if ct = ''application/json'' then
            (case rs_Body resp of
               None \<Rightarrow> Err RespRead
             | Some buf \<Rightarrow>
                 (case decode_body J dec buf of
                    Err e \<Rightarrow> Err (RespBody ct e)
                  | Panic p \<Rightarrow> Panic p
                  | Ok response \<Rightarrow>
                      if val response \<noteq> [] then Err (RespValidate (val response)) else Ok response))
          else Err (RespContentType ct))"

definition no_validation :: "'a \<Rightarrow> string list" where
  "no_validation x = []"

definition error_response ::
  "http_lib \<Rightarrow> json_lib \<Rightarrow> api_error_type \<Rightarrow> http_response \<Rightarrow> 'a api_res response_result" where
  "error_response H J t resp =
     bind_out (json_response H J (api_error_Decode J t) no_validation resp) (\<lambda>e. Ok (ApiErr e))"

text \<open>The cases of each decoder, in three parts: the cases up to 403, up to 429, and the last ones.\<close>

definition decodeCancelOrder_404_on ::
  "http_lib \<Rightarrow> json_lib \<Rightarrow> http_response \<Rightarrow> unit api_res response_result" where
  "decodeCancelOrder_404_on H J resp =
     (let code = rs_StatusCode resp in
      if code = 404 then error_response H J NotFoundError resp
      else if code = 409 then error_response H J ConflictError resp
      else if code = 429 then error_response H J RateLimitError resp
      else if code = 500 then error_response H J InternalServerError resp
      else Err (UnexpectedStatusCode code))"

definition decodeCancelOrderResponse ::
  "http_lib \<Rightarrow> json_lib \<Rightarrow> http_response \<Rightarrow> unit api_res response_result" where
  "decodeCancelOrderResponse H J resp =
     (let code = rs_StatusCode resp in
      if code = 204 then Ok (ApiOk ())
      else if code = 400 then error_response H J BadRequestError resp
      else if code = 401 then error_response H J UnauthorizedError resp
      else if code = 403 then error_response H J ForbiddenError resp
      else decodeCancelOrder_404_on H J resp)"

definition decodeCreateOrder_500_on ::
  "http_lib \<Rightarrow> json_lib \<Rightarrow> http_response \<Rightarrow> create_order_response api_res response_result" where
  "decodeCreateOrder_500_on H J resp =
     (let code = rs_StatusCode resp in
      if code = 500 then error_response H J InternalServerError resp
      else if code = 502 then error_response H J BadGatewayError resp
      else if code = 503 then error_response H J ServiceUnavailableError resp
      else Err (UnexpectedStatusCode code))"

definition decodeCreateOrder_404_on ::
  "http_lib \<Rightarrow> json_lib \<Rightarrow> http_response \<Rightarrow> create_order_response api_res response_result" where
  "decodeCreateOrder_404_on H J resp =
     (let code = rs_StatusCode resp in
      if code = 404 then error_response H J NotFoundError resp
      else if code = 422 then error_response H J ValidationError resp
      else if code = 429 then error_response H J RateLimitError resp
      else decodeCreateOrder_500_on H J resp)"

definition decodeCreateOrderResponse ::
  "http_lib \<Rightarrow> json_lib \<Rightarrow> http_response \<Rightarrow> create_order_response api_res response_result" where
  "decodeCreateOrderResponse H J resp =
     (let code = rs_StatusCode resp in
      if code = 201 then
        bind_out (json_response H J (CreateOrderResponse_Decode J zero_create_order_response)
            CreateOrderResponse_Validate resp) (\<lambda>v. Ok (ApiOk v))
      else if code = 400 then error_response H J BadRequestError resp
      else if code = 401 then error_response H J UnauthorizedError resp
      else if code = 403 then error_response H J ForbiddenError resp
      else decodeCreateOrder_404_on H J resp)"

definition decodeGetOrderByUUID_404_on ::
  "http_lib \<Rightarrow> json_lib \<Rightarrow> http_response \<Rightarrow> api_order api_res response_result" where
  "decodeGetOrderByUUID_404_on H J resp =
     (let code = rs_StatusCode resp in
      if code = 404 then error_response H J NotFoundError resp
      else if code = 429 then error_response H J RateLimitError resp
      else if code = 500 then error_response H J InternalServerError resp
      else Err (UnexpectedStatusCode code))"

definition decodeGetOrderByUUIDResponse ::
  "http_lib \<Rightarrow> json_lib \<Rightarrow> http_response \<Rightarrow> api_order api_res response_result" where
  "decodeGetOrderByUUIDResponse H J resp =
     (let code = rs_StatusCode resp in
      if code = 200 then
        bind_out (json_response H J (Order_Decode J zero_api_order) Order_Validate resp) (\<lambda>v. Ok (ApiOk v))
      else if code = 400 then error_response H J BadRequestError resp
      else if code = 401 then error_response H J UnauthorizedError resp
      else if code = 403 then error_response H J ForbiddenError resp
      else decodeGetOrderByUUID_404_on H J resp)"

definition decodePayOrder_500_on ::
  "http_lib \<Rightarrow> json_lib \<Rightarrow> http_response \<Rightarrow> pay_order_response api_res response_result" where
  "decodePayOrder_500_on H J resp =
     (let code = rs_StatusCode resp in
      if code = 500 then error_response H J InternalServerError resp
      else if code = 502 then error_response H J BadGatewayError resp
      else if code = 503 then error_response H J ServiceUnavailableError resp
      else Err (UnexpectedStatusCode code))"

definition decodePayOrder_404_on ::
  "http_lib \<Rightarrow> json_lib \<Rightarrow> http_response \<Rightarrow> pay_order_response api_res response_result" where
  "decodePayOrder_404_on H J resp =
     (let code = rs_StatusCode resp in
      if code = 404 then error_response H J NotFoundError resp
      else if code = 409 then error_response H J ConflictError resp
      else if code = 422 then error_response H J ValidationError resp
      else if code = 429 then error_response H J RateLimitError resp
      else decodePayOrder_500_on H J resp)"

definition decodePayOrderResponse ::
  "http_lib \<Rightarrow> json_lib \<Rightarrow> http_response \<Rightarrow> pay_order_response api_res response_result" where
  "decodePayOrderResponse H J resp =
     (let code = rs_StatusCode resp in
      if code = 200 then
        bind_out (json_response H J (PayOrderResponse_Decode J zero_pay_order_response) no_validation resp)
          (\<lambda>v. Ok (ApiOk v))
      else if code = 400 then error_response H J BadRequestError resp
      else if code = 401 then error_response H J UnauthorizedError resp
      else if code = 403 then error_response H J ForbiddenError resp
      else decodePayOrder_404_on H J resp)"

lemmas decode_rest_defs =
  decodeCancelOrder_404_on_def
  decodeCreateOrder_404_on_def
  decodeCreateOrder_500_on_def
  decodeGetOrderByUUID_404_on_def
  decodePayOrder_404_on_def
  decodePayOrder_500_on_def

section \<open>Requests\<close>

record 'w client =
  cl_Http :: http_lib
  cl_Json :: json_lib
  cl_ServerURL :: url
  cl_NewRequest :: "string \<Rightarrow> url \<Rightarrow> http_request option" \<comment> \<open>\<open>ht.NewRequest\<close>\<close>
  cl_SetBody :: "http_request \<Rightarrow> string \<Rightarrow> string \<Rightarrow> http_request" \<comment> \<open>\<open>ht.SetBody\<close>: body and content type\<close>
  cl_Do :: "http_request \<Rightarrow> ('w, string, http_response) prog"

text \<open>
  An error carries the stage it happened in. The telemetry of a call: one request, and for an
  error the span's status with the stage and one error.
\<close>

datatype client_cause =
    LibraryError string \<comment> \<open>the text \<open>errors.Wrap\<close> puts before it\<close>
  | DoError string
  | DecodeError response_error

record client_error =
  ce_Stage :: string
  ce_Cause :: client_cause

datatype client_telemetry = ClientRequestsAdd | ClientSpanError string | ClientErrorsAdd

definition at_stage :: "string \<Rightarrow> client_cause \<Rightarrow> client_error" where
  "at_stage stage cause = \<lparr>ce_Stage = stage, ce_Cause = cause\<rparr>"

definition client_events :: "(client_error, 'a) outcome \<Rightarrow> client_telemetry list" where
  "client_events res =
     ClientRequestsAdd #
       (case res of Err e \<Rightarrow> [ClientSpanError (ce_Stage e), ClientErrorsAdd] | _ \<Rightarrow> [])"

text \<open>\<open>strings.TrimRight(s, "/")\<close>\<close>

definition trim_right_slashes :: "string \<Rightarrow> string" where
  "trim_right_slashes s = rev (dropWhile (\<lambda>c. c = CHR ''/'') (rev s))"

definition trimTrailingSlashes :: "url \<Rightarrow> url" where
  "trimTrailingSlashes u =
     u\<lparr>url_Path := trim_right_slashes (url_Path u), url_RawPath := trim_right_slashes (url_RawPath u)\<rparr>"

definition encodeCreateOrderRequest :: "'w client \<Rightarrow> create_order_request \<Rightarrow> http_request \<Rightarrow> http_request" where
  "encodeCreateOrderRequest C req r =
     cl_SetBody C r (jx_Write (cl_Json C) (CreateOrderRequest_Encode (cl_Json C) req)) ''application/json''"

definition encodePayOrderRequest :: "'w client \<Rightarrow> pay_order_request \<Rightarrow> http_request \<Rightarrow> http_request" where
  "encodePayOrderRequest C req r =
     cl_SetBody C r (jx_Write (cl_Json C) (PayOrderRequest_Encode req)) ''application/json''"

text \<open>The stages \<open>SendRequest\<close> and \<open>DecodeResponse\<close>.\<close>

definition exchange ::
  "'w client \<Rightarrow> (http_response \<Rightarrow> 'a response_result) \<Rightarrow> http_request \<Rightarrow> ('w, client_error, 'a) prog" where
  "exchange C decodeResponse r =
     call (cl_Do C r) (\<lambda>e. at_stage ''SendRequest'' (DoError e)) (\<lambda>resp.
     call (lift (decodeResponse resp)) (\<lambda>e. at_stage ''DecodeResponse'' (DecodeError e)) ok)"

definition sendCancelOrder :: "'w client \<Rightarrow> uuid \<Rightarrow> ('w, client_error, unit api_res) prog" where
  "sendCancelOrder C params =
     (let H = cl_Http C in
      case EncodePathValue H (UUIDToString H params) of
        None \<Rightarrow> fail (at_stage ''BuildURL'' (LibraryError ''encode path''))
      | Some encoded \<Rightarrow>
          (case cl_NewRequest C ''POST'' (AddPathParts H (cl_ServerURL C) [''/api/v1/orders/'', encoded, ''/cancel'']) of
             None \<Rightarrow> fail (at_stage ''EncodeRequest'' (LibraryError ''create request''))
           | Some r \<Rightarrow> exchange C (decodeCancelOrderResponse H (cl_Json C)) r))"

definition sendCreateOrder ::
  "'w client \<Rightarrow> create_order_request \<Rightarrow> ('w, client_error, create_order_response api_res) prog" where
  "sendCreateOrder C request =
     (let H = cl_Http C in
      case cl_NewRequest C ''POST'' (AddPathParts H (cl_ServerURL C) [''/api/v1/orders'']) of
        None \<Rightarrow> fail (at_stage ''EncodeRequest'' (LibraryError ''create request''))
      | Some r \<Rightarrow> exchange C (decodeCreateOrderResponse H (cl_Json C)) (encodeCreateOrderRequest C request r))"

definition sendGetOrderByUUID :: "'w client \<Rightarrow> uuid \<Rightarrow> ('w, client_error, api_order api_res) prog" where
  "sendGetOrderByUUID C params =
     (let H = cl_Http C in
      case EncodePathValue H (UUIDToString H params) of
        None \<Rightarrow> fail (at_stage ''BuildURL'' (LibraryError ''encode path''))
      | Some encoded \<Rightarrow>
          (case cl_NewRequest C ''GET'' (AddPathParts H (cl_ServerURL C) [''/api/v1/orders/'', encoded]) of
             None \<Rightarrow> fail (at_stage ''EncodeRequest'' (LibraryError ''create request''))
           | Some r \<Rightarrow> exchange C (decodeGetOrderByUUIDResponse H (cl_Json C)) r))"

definition sendPayOrder ::
  "'w client \<Rightarrow> pay_order_request \<Rightarrow> uuid \<Rightarrow> ('w, client_error, pay_order_response api_res) prog" where
  "sendPayOrder C request params =
     (let H = cl_Http C in
      case EncodePathValue H (UUIDToString H params) of
        None \<Rightarrow> fail (at_stage ''BuildURL'' (LibraryError ''encode path''))
      | Some encoded \<Rightarrow>
          (case cl_NewRequest C ''POST'' (AddPathParts H (cl_ServerURL C) [''/api/v1/orders/'', encoded, ''/pay'']) of
             None \<Rightarrow> fail (at_stage ''EncodeRequest'' (LibraryError ''create request''))
           | Some r \<Rightarrow> exchange C (decodePayOrderResponse H (cl_Json C)) (encodePayOrderRequest C request r)))"

text \<open>\<open>NewClient\<close>: \<open>url.Parse\<close> is the parameter \<open>parse\<close>.\<close>

definition NewClient :: "(string \<Rightarrow> url option) \<Rightarrow> string \<Rightarrow> 'w client \<Rightarrow> 'w client option" where
  "NewClient parse serverURL cfg =
     map_option (\<lambda>u. cfg\<lparr>cl_ServerURL := trimTrailingSlashes u\<rparr>) (parse serverURL)"

end
