(* ===== verification/Oapi_Wire.thy ===== *)
theory Oapi_Wire
  imports Oapi_Client
begin

text \<open>
  The generated client against the generated server. \<open>http_wire\<close> names what both rely on in the
  HTTP libraries, \<open>api_session\<close> connects a client with a server. Inside the session each operation
  of the client is shown to reach its handler once, with the arguments the caller gave, and to
  return what the handler returned.
\<close>

section \<open>Values that can be sent\<close>

definition error_sendable :: "api_error \<Rightarrow> bool" where
  "error_sendable e \<longleftrightarrow>
     error_shape e \<and> (case ae_Message e of Some m \<Rightarrow> ascii m | None \<Rightarrow> True) \<and>
     (case ae_Details e of Some ds \<Rightarrow> list_all ascii ds | None \<Rightarrow> True)"

lemma price_pattern_ascii:
  assumes "price_pattern s"
  shows "ascii s"
proof -
  have digits: "list_all is_ascii t" if "list_all is_digit t" for t
    using that by (auto simp: list_all_iff is_digit_def is_ascii_def)
  define t where "t = (case s of c # r \<Rightarrow> if c = CHR ''-'' then r else s | [] \<Rightarrow> s)"
  define n where "n = length t - 3"
  have t: "4 \<le> length t" "list_all is_digit (take n t)" "t ! n = CHR ''.''" "list_all is_digit (drop (n + 1) t)"
    using assms by (simp_all add: price_pattern_def Let_def n_def t_def)
  have "t = take n t @ t ! n # drop (Suc n) t"
    using t(1) by (intro id_take_nth_drop) (simp add: n_def)
  moreover have "is_ascii CHR ''.''" by (simp add: is_ascii_def)
  ultimately have "list_all is_ascii t"
    using digits [OF t(2)] digits [of "drop (Suc n) t"] t by (metis Suc_eq_plus1 list.pred_inject(2) list_all_append)
  then show ?thesis
    by (auto simp: t_def ascii_def is_ascii_def split: list.splits if_splits)
qed

lemma enum_ascii:
  "PaymentMethod_Validate m \<Longrightarrow> ascii m"
  "OrderStatus_Validate s \<Longrightarrow> ascii s"
  by (auto simp: PaymentMethod_Validate_def OrderStatus_Validate_def ascii_def is_ascii_def)

lemma arr_of_ok: "(\<And>x. x \<in> set (the (made v)) \<Longrightarrow> json_ok n (enc x)) \<Longrightarrow> json_ok (Suc n) (arr_of enc v)"
  by (auto simp: arr_of_def made_def split: option.splits)

lemma depth_2: "json_depth = Suc (Suc 0)"
  by (simp add: json_depth_def)

lemma field_names_ascii [simp]:
  "ascii ''code''" "ascii ''message''" "ascii ''details''" "ascii ''user_uuid''" "ascii ''part_uuids''"
  "ascii ''uuid''" "ascii ''total_price''" "ascii ''payment_method''" "ascii ''transaction_uuid''"
  "ascii ''order_uuid''" "ascii ''status''"
  by (simp_all add: ascii_def is_ascii_def)

lemma failure_Nil [simp]: "failure n b = [] \<longleftrightarrow> b"
  by (simp add: failure_def)

context json_codec
begin

lemma CreateOrderRequest_ok: "json_ok json_depth (CreateOrderRequest_Encode J s)"
  by (simp add: CreateOrderRequest_Encode_def depth_2 arr_of_ok)

lemma PayOrderRequest_ok: "PayOrderRequest_Validate s = [] \<Longrightarrow> json_ok json_depth (PayOrderRequest_Encode s)"
  by (simp add: PayOrderRequest_Encode_def PayOrderRequest_Validate_def depth_2 PaymentMethod_Encode_def enum_ascii)

lemma CreateOrderResponse_ok:
  "CreateOrderResponse_Validate s = [] \<Longrightarrow> json_ok json_depth (CreateOrderResponse_Encode J s)"
  by (simp add: CreateOrderResponse_Encode_def CreateOrderResponse_Validate_def depth_2 price_pattern_ascii)

lemma PayOrderResponse_ok: "json_ok json_depth (PayOrderResponse_Encode J s)"
  by (simp add: PayOrderResponse_Encode_def depth_2)

lemma Order_ok:
  assumes "Order_Validate (made_order s) = []"
  shows "json_ok json_depth (Order_Encode J s)"
proof -
  have "json_ok (Suc 0) d" if "OptNilUUID_Encode J (ao_TransactionUUID s) = Some d" for d
    using that by (auto simp: OptNilUUID_Encode_def split: opt_nil.splits)
  moreover have "json_ok (Suc 0) d" if "OptNilPaymentMethod_Encode (ao_PaymentMethod s) = Some d" for d
    using that assms
    by (auto simp: OptNilPaymentMethod_Encode_def PaymentMethod_Encode_def Order_Validate_def made_order_def
        enum_ascii split: opt_nil.splits)
  ultimately show ?thesis
    using assms
    by (auto simp: Order_Encode_def Order_Validate_def made_order_def depth_2 price_pattern_ascii enum_ascii
        OrderStatus_Encode_def arr_of_ok opt_field_def split: option.splits)
qed

lemma error_fields_ok: "error_sendable e \<Longrightarrow> (k, v) \<in> set (error_fields J e) \<Longrightarrow> ascii k \<and> json_ok n v"
  by (auto simp: error_fields_def error_sendable_def opt_field_def OptInt32_Encode_def OptString_Encode_def int32_token
      split: option.splits)

lemma api_error_ok:
  assumes "error_sendable e"
  shows "json_ok json_depth (api_error_Encode J e)"
proof -
  have "json_ok (Suc 0) (arr_of JStr (ae_Details e))"
    using assms by (intro arr_of_ok) (auto simp: error_sendable_def made_def list_all_iff split: option.splits)
  then show ?thesis
    using error_fields_ok [OF assms]
    by (cases "ae_Type e") (auto simp: api_error_Encode_def error_codec_defs depth_2)
qed

text \<open>From a written value back to the value the decoder makes of it.\<close>

lemma decode_body_write:
  assumes "json_ok json_depth v" and "dec v = Ok a"
  shows "decode_body J dec (jx_Write J v) = Ok a"
  using read_write [OF assms(1)] assms(2) by (auto simp: decode_body_def)

end

section \<open>The connection\<close>

locale http_wire =
  fixes H :: http_lib
  assumes media_json [simp]: "ParseMediaType H ''application/json'' = Some ''application/json''"
    and media_utf8 [simp]: "ParseMediaType H json_utf8 = Some ''application/json''"
    and uuid_text: "UUIDToString H u \<noteq> ''''" "CHR ''/'' \<notin> set (UUIDToString H u)" "CHR ''%'' \<notin> set (UUIDToString H u)"
    and encode_uuid [simp]: "EncodePathValue H (UUIDToString H u) = Some (UUIDToString H u)"
    and decode_uuid [simp]: "DecodePathValue H (UUIDToString H u) = Some (UUIDToString H u)"
    and read_uuid [simp]: "ToUUID H (UUIDToString H u) = Some u"
    and plain_path: "CHR ''%'' \<notin> set p \<Longrightarrow> NormalizeEscapedPath H p = Some p"
    and add_parts: "url_RawPath b = '''' \<Longrightarrow> CHR ''%'' \<notin> set (url_Path b @ concat ps) \<Longrightarrow>
      url_Path (AddPathParts H b ps) = url_Path b @ concat ps \<and>
      url_RawPath (AddPathParts H b ps) \<in> {'''', url_Path b @ concat ps}"
begin

lemma order_uuid_param_uuid [simp]: "order_uuid_param H (UUIDToString H u) False = Ok u"
  using uuid_text(1) [of u] by (simp add: order_uuid_param_def)

lemma request_elem_parts:
  assumes "url_RawPath b = ''''" and "CHR ''%'' \<notin> set (url_Path b @ concat ps)"
  shows "request_elem (NormalizeEscapedPath H) (AddPathParts H b ps) = (url_Path b @ concat ps, False)"
  using add_parts [OF assms] plain_path [OF assms(2)] assms(2) by (auto simp: request_elem_def)

end

text \<open>What the client reads of a handled request; a panic tears the connection down.\<close>

definition wire_response :: "handled \<Rightarrow> http_response option" where
  "wire_response h =
     (if hd_Panic h \<noteq> None then None
      else Some (case rw_Sent (hd_Writer h) of
         Some (status, header) \<Rightarrow>
           \<lparr>rs_StatusCode = status,
            rs_ContentType = (case header ''Content-Type'' of Some ct \<Rightarrow> ct | None \<Rightarrow> ''''),
            rs_Body = Some (rw_Body (hd_Writer h))\<rparr>
       | None \<Rightarrow> \<lparr>rs_StatusCode = 200, rs_ContentType = '''', rs_Body = Some (rw_Body (hd_Writer h))\<rparr>))"

definition connect :: "'w server \<Rightarrow> http_request \<Rightarrow> ('w, string, http_response) prog" where
  "connect S r w =
     (case serve S True r w of
        (w1, h) \<Rightarrow> (w1, case wire_response h of Some resp \<Rightarrow> Ok resp | None \<Rightarrow> Err ''EOF''))"

definition plain_request :: "string \<Rightarrow> url \<Rightarrow> http_request" where
  "plain_request m u =
     \<lparr>rq_Method = m, rq_URL = u, rq_ContentType = '''', rq_ContentLength = 0, rq_Body = Some ''''\<rparr>"

definition with_body :: "http_request \<Rightarrow> string \<Rightarrow> string \<Rightarrow> http_request" where
  "with_body r s ct = r\<lparr>rq_ContentType := ct, rq_ContentLength := int (length s), rq_Body := Some s\<rparr>"

definition json_wire :: "json_lib \<Rightarrow> nat \<Rightarrow> json \<Rightarrow> http_response" where
  "json_wire J status v =
     \<lparr>rs_StatusCode = status, rs_ContentType = json_utf8, rs_Body = Some (jx_Write J v)\<rparr>"

lemma wire_json_reply:
  "wire_response (send_reply S True enc (json_reply status okay v) new_writer) = Some (json_wire (sv_Json S) status (enc v))"
  by (simp add: wire_response_def send_reply_def json_reply_def Let_def ends_def WriteHeader_def set_header_def
      write_body_def new_writer_def json_wire_def)

section \<open>A client and a server\<close>

text \<open>The responses that reach the client, and what it makes of them.\<close>

definition deliver_cancel :: "unit api_res \<Rightarrow> bool" where
  "deliver_cancel res \<longleftrightarrow> (case res of
     ApiOk _ \<Rightarrow> True
   | ApiErr e \<Rightarrow> error_sendable e \<and> ae_Type e \<notin> {ValidationError, BadGatewayError, ServiceUnavailableError})"

definition deliver_create :: "create_order_response api_res \<Rightarrow> bool" where
  "deliver_create res \<longleftrightarrow> (case res of
     ApiOk v \<Rightarrow> CreateOrderResponse_Validate v = []
   | ApiErr e \<Rightarrow> error_sendable e \<and> ae_Type e \<noteq> ConflictError)"

definition deliver_get :: "api_order api_res \<Rightarrow> bool" where
  "deliver_get res \<longleftrightarrow> (case res of
     ApiOk v \<Rightarrow> Order_Validate (made_order v) = []
   | ApiErr e \<Rightarrow> error_sendable e \<and>
       ae_Type e \<notin> {ConflictError, ValidationError, BadGatewayError, ServiceUnavailableError})"

definition deliver_pay :: "pay_order_response api_res \<Rightarrow> bool" where
  "deliver_pay res \<longleftrightarrow> (case res of ApiOk v \<Rightarrow> True | ApiErr e \<Rightarrow> error_sendable e)"

definition made_res :: "api_order api_res \<Rightarrow> api_order api_res" where
  "made_res res = (case res of ApiOk v \<Rightarrow> ApiOk (made_order v) | ApiErr e \<Rightarrow> ApiErr e)"

locale api_session = json_codec J + http_wire H for J :: json_lib and H :: http_lib +
  fixes C :: "'w client" and S :: "'w server"
  assumes client_libs [simp]: "cl_Http C = H" "cl_Json C = J"
    and server_libs [simp]: "sv_Http S = H" "sv_Json S = J"
    and new_request [simp]: "cl_NewRequest C m u = Some (plain_request m u)"
    and set_body [simp]: "cl_SetBody C r s ct = with_body r s ct"
    and connected [simp]: "cl_Do C = connect S"
    and base_path [simp]: "url_Path (cl_ServerURL C) = sv_Prefix S" "url_RawPath (cl_ServerURL C) = ''''"
    and plain_prefix: "CHR ''%'' \<notin> set (sv_Prefix S)"
begin

lemma error_response_wire:
  assumes "error_sendable e" and "ae_Type e = t"
  shows "error_response H J t (json_wire J status (api_error_Encode J e)) = Ok (ApiErr e)"
proof -
  have "api_error_Decode J t (api_error_Encode J e) = Ok e"
    using api_error_roundtrip [of e] assms by (simp add: error_sendable_def)
  then have "decode_body J (api_error_Decode J t) (jx_Write J (api_error_Encode J e)) = Ok e"
    by (rule decode_body_write [OF api_error_ok [OF assms(1)]])
  then show ?thesis by (simp add: error_response_def json_response_def json_wire_def no_validation_def)
qed

lemma json_response_wire:
  assumes "json_ok json_depth v" and "dec v = Ok a" and "val a = []"
  shows "json_response H J dec val (json_wire J status v) = Ok a"
  using decode_body_write [where dec = dec, OF assms(1,2)] assms(3) by (simp add: json_response_def json_wire_def)

lemma wire_simps [simp]: "rs_StatusCode (json_wire J status v) = status"
  by (simp add: json_wire_def)

lemma cancel_answer:
  assumes "deliver_cancel res"
  shows "\<exists>resp. wire_response (send_reply S True (res_Encode J (\<lambda>_. JNull)) (encodeCancelOrderResponse res) new_writer) = Some resp \<and>
    decodeCancelOrderResponse H J resp = Ok res"
proof (cases res)
  case (ApiOk u)
  then show ?thesis
    by (simp add: encodeCancelOrderResponse_def send_reply_def Let_def wire_response_def ends_def WriteHeader_def
        new_writer_def decodeCancelOrderResponse_def)
next
  case (ApiErr e)
  with assms show ?thesis
    by (cases "ae_Type e")
      (simp_all add: encodeCancelOrderResponse_def wire_json_reply res_Encode_def decodeCancelOrderResponse_def
        decode_rest_defs error_response_wire deliver_cancel_def)
qed

lemma create_answer:
  assumes "deliver_create res"
  shows "\<exists>resp. wire_response (send_reply S True (res_Encode J (CreateOrderResponse_Encode J)) (encodeCreateOrderResponse res) new_writer) = Some resp \<and>
    decodeCreateOrderResponse H J resp = Ok res"
proof (cases res)
  case (ApiOk v)
  with assms show ?thesis
    by (simp add: encodeCreateOrderResponse_def wire_json_reply res_Encode_def decodeCreateOrderResponse_def
        deliver_create_def json_response_wire [where dec = "CreateOrderResponse_Decode J zero_create_order_response", OF CreateOrderResponse_ok CreateOrderResponse_roundtrip])
next
  case (ApiErr e)
  with assms show ?thesis
    by (cases "ae_Type e")
      (simp_all add: encodeCreateOrderResponse_def wire_json_reply res_Encode_def decodeCreateOrderResponse_def
        decode_rest_defs error_response_wire deliver_create_def)
qed

lemma get_answer:
  assumes "deliver_get res"
  shows "\<exists>resp. wire_response (send_reply S True (res_Encode J (Order_Encode J)) (encodeGetOrderByUUIDResponse res) new_writer) = Some resp \<and>
    decodeGetOrderByUUIDResponse H J resp = Ok (made_res res)"
proof (cases res)
  case (ApiOk v)
  with assms show ?thesis
    by (simp add: encodeGetOrderByUUIDResponse_def wire_json_reply res_Encode_def decodeGetOrderByUUIDResponse_def
        deliver_get_def made_res_def json_response_wire [where dec = "Order_Decode J zero_api_order", OF Order_ok Order_roundtrip])
next
  case (ApiErr e)
  with assms show ?thesis
    by (cases "ae_Type e")
      (simp_all add: encodeGetOrderByUUIDResponse_def wire_json_reply res_Encode_def decodeGetOrderByUUIDResponse_def
        decode_rest_defs error_response_wire deliver_get_def made_res_def)
qed

lemma pay_answer:
  assumes "deliver_pay res"
  shows "\<exists>resp. wire_response (send_reply S True (res_Encode J (PayOrderResponse_Encode J)) (encodePayOrderResponse res) new_writer) = Some resp \<and>
    decodePayOrderResponse H J resp = Ok res"
proof (cases res)
  case (ApiOk v)
  with assms show ?thesis
    by (simp add: encodePayOrderResponse_def wire_json_reply res_Encode_def decodePayOrderResponse_def
        deliver_pay_def json_response_wire [where dec = "PayOrderResponse_Decode J zero_pay_order_response", OF PayOrderResponse_ok PayOrderResponse_roundtrip] no_validation_def)
next
  case (ApiErr e)
  with assms show ?thesis
    by (cases "ae_Type e")
      (simp_all add: encodePayOrderResponse_def wire_json_reply res_Encode_def decodePayOrderResponse_def
        decode_rest_defs error_response_wire deliver_pay_def)
qed

text \<open>The router picks the operation whose path the client built.\<close>

lemma routed:
  assumes "path_of oper as = Some (concat ps)" and "args_ok as" and "CHR ''%'' \<notin> set (concat ps)"
  shows "ServeHTTP (NormalizeEscapedPath H) (sv_Prefix S) (method_of oper) (AddPathParts H (cl_ServerURL C) ps) =
    HandleOp oper as False"
  using assms plain_prefix request_elem_parts [of "cl_ServerURL C" ps]
  by (intro dispatch_complete) auto

lemma uuid_args: "args_ok [UUIDToString H u]"
  using uuid_text(2) by (simp add: args_ok_def)

lemma exchange_ok:
  assumes "serve S True r w = (w1, h)" and "wire_response h = Some resp" and "decodeResponse resp = Ok res"
  shows "exchange C decodeResponse r w = (w1, Ok res)"
  using assms by (simp add: exchange_def call_def lift_def ok_def connect_def)

lemma create_request_read:
  "decodeCreateOrderRequest H J (encodeCreateOrderRequest C req (plain_request m u)) = Ok (made_request req)"
proof -
  have "CreateOrderRequest_Validate (made_request req) = []"
    by (simp add: CreateOrderRequest_Validate_def made_request_def made_def)
  then show ?thesis
    using decode_body_write [where dec = "CreateOrderRequest_Decode J zero_create_order_request", OF CreateOrderRequest_ok CreateOrderRequest_roundtrip [of req]] write_nonempty [OF CreateOrderRequest_ok]
    by (simp add: decodeCreateOrderRequest_def encodeCreateOrderRequest_def with_body_def)
qed

lemma pay_request_read:
  assumes "PayOrderRequest_Validate req = []"
  shows "decodePayOrderRequest H J (encodePayOrderRequest C req (plain_request m u)) = Ok req"
  using decode_body_write [where dec = "PayOrderRequest_Decode zero_pay_order_request", OF PayOrderRequest_ok [OF assms] PayOrderRequest_roundtrip] write_nonempty [OF PayOrderRequest_ok [OF assms]] assms
  by (simp add: decodePayOrderRequest_def encodePayOrderRequest_def with_body_def)

lemma send_cancel:
  assumes "sv_CancelOrder S u w = (w1, Ok res)" and "deliver_cancel res"
  shows "sendCancelOrder C u w = (w1, Ok res)"
proof -
  obtain resp where resp: "wire_response (send_reply S True (res_Encode J (\<lambda>_. JNull)) (encodeCancelOrderResponse res) new_writer) = Some resp"
    "decodeCancelOrderResponse H J resp = Ok res"
    using cancel_answer [OF assms(2)] by blast
  have route: "ServeHTTP (NormalizeEscapedPath H) (sv_Prefix S) ''POST''
      (AddPathParts H (cl_ServerURL C) [''/api/v1/orders/'', UUIDToString H u, ''/cancel'']) =
    HandleOp CancelOrderOperation [UUIDToString H u] False"
    using routed [of CancelOrderOperation "[UUIDToString H u]"
        "[''/api/v1/orders/'', UUIDToString H u, ''/cancel'']"] uuid_args uuid_text(3) [of u] by simp
  show ?thesis
    using resp assms(1)
    by (simp add: sendCancelOrder_def Let_def)
      (rule exchange_ok, simp_all add: serve_def plain_request_def route handleCancelOrderRequest_def
        decodeCancelOrderParams_def reply_with_def)
qed

lemma send_create:
  assumes "sv_CreateOrder S (made_request req) w = (w1, Ok res)" and "deliver_create res"
  shows "sendCreateOrder C req w = (w1, Ok res)"
proof -
  obtain resp where resp: "wire_response (send_reply S True (res_Encode J (CreateOrderResponse_Encode J))
      (encodeCreateOrderResponse res) new_writer) = Some resp"
    "decodeCreateOrderResponse H J resp = Ok res"
    using create_answer [OF assms(2)] by blast
  let ?u = "AddPathParts H (cl_ServerURL C) [''/api/v1/orders'']"
  have route: "ServeHTTP (NormalizeEscapedPath H) (sv_Prefix S) ''POST'' ?u = HandleOp CreateOrderOperation [] False"
    using routed [of CreateOrderOperation "[]" "[''/api/v1/orders'']"] by (simp add: args_ok_def)
  have "serve S True (encodeCreateOrderRequest C req (plain_request ''POST'' ?u)) w =
      handleCreateOrderRequest S True (encodeCreateOrderRequest C req (plain_request ''POST'' ?u)) w"
    by (simp add: serve_def encodeCreateOrderRequest_def with_body_def plain_request_def route)
  then show ?thesis
    using resp assms(1)
    by (simp add: sendCreateOrder_def Let_def)
      (rule exchange_ok, simp_all add: handleCreateOrderRequest_def create_request_read reply_with_def)
qed

lemma send_get:
  assumes "sv_GetOrderByUUID S u w = (w1, Ok res)" and "deliver_get res"
  shows "sendGetOrderByUUID C u w = (w1, Ok (made_res res))"
proof -
  obtain resp where resp: "wire_response (send_reply S True (res_Encode J (Order_Encode J))
      (encodeGetOrderByUUIDResponse res) new_writer) = Some resp"
    "decodeGetOrderByUUIDResponse H J resp = Ok (made_res res)"
    using get_answer [OF assms(2)] by blast
  have route: "ServeHTTP (NormalizeEscapedPath H) (sv_Prefix S) ''GET''
      (AddPathParts H (cl_ServerURL C) [''/api/v1/orders/'', UUIDToString H u]) =
    HandleOp GetOrderByUUIDOperation [UUIDToString H u] False"
    using routed [of GetOrderByUUIDOperation "[UUIDToString H u]"
        "[''/api/v1/orders/'', UUIDToString H u]"] uuid_args uuid_text(3) [of u] by simp
  show ?thesis
    using resp assms(1)
    by (simp add: sendGetOrderByUUID_def Let_def)
      (rule exchange_ok, simp_all add: serve_def plain_request_def route handleGetOrderByUUIDRequest_def
        decodeGetOrderByUUIDParams_def reply_with_def)
qed

lemma send_pay:
  assumes "sv_PayOrder S req u w = (w1, Ok res)" and "deliver_pay res" and "PayOrderRequest_Validate req = []"
  shows "sendPayOrder C req u w = (w1, Ok res)"
proof -
  obtain resp where resp: "wire_response (send_reply S True (res_Encode J (PayOrderResponse_Encode J))
      (encodePayOrderResponse res) new_writer) = Some resp"
    "decodePayOrderResponse H J resp = Ok res"
    using pay_answer [OF assms(2)] by blast
  let ?u = "AddPathParts H (cl_ServerURL C) [''/api/v1/orders/'', UUIDToString H u, ''/pay'']"
  have route: "ServeHTTP (NormalizeEscapedPath H) (sv_Prefix S) ''POST'' ?u =
    HandleOp PayOrderOperation [UUIDToString H u] False"
    using routed [of PayOrderOperation "[UUIDToString H u]"
        "[''/api/v1/orders/'', UUIDToString H u, ''/pay'']"] uuid_args uuid_text(3) [of u] by simp
  have "serve S True (encodePayOrderRequest C req (plain_request ''POST'' ?u)) w =
      handlePayOrderRequest S True (UUIDToString H u) False (encodePayOrderRequest C req (plain_request ''POST'' ?u)) w"
    by (simp add: serve_def encodePayOrderRequest_def with_body_def plain_request_def route)
  then show ?thesis
    using resp assms
    by (simp add: sendPayOrder_def Let_def)
      (rule exchange_ok, simp_all add: handlePayOrderRequest_def decodePayOrderParams_def pay_request_read reply_with_def)
qed

end

end
