(* ===== verification/Oapi_Schemas.thy ===== *)
theory Oapi_Schemas
  imports Oapi_Wire
begin

text \<open>
  The parts of \<open>oas_schemas_gen.go\<close> and \<open>oas_json_gen.go\<close> around the schema types: the structs behind
  the optional fields with their methods, the texts of the two enumerations, and \<open>MarshalJSON\<close> and
  \<open>UnmarshalJSON\<close>. The other theories use \<open>option\<close> and \<open>opt_nil\<close> for optional fields; here the structs
  are shown to implement them.
\<close>

section \<open>Optional values\<close>

text \<open>\<open>OptInt32\<close> and \<open>OptString\<close>; \<open>zero\<close> is what \<open>var v T\<close> declares.\<close>

record 'a opt_struct =
  op_Value :: 'a
  op_Set :: bool

definition opt_New :: "'a \<Rightarrow> 'a opt_struct" where
  "opt_New v = \<lparr>op_Value = v, op_Set = True\<rparr>"

definition opt_IsSet :: "'a opt_struct \<Rightarrow> bool" where
  "opt_IsSet s = op_Set s"

definition opt_Reset :: "'a \<Rightarrow> 'a opt_struct \<Rightarrow> 'a opt_struct" where
  "opt_Reset zero s = s\<lparr>op_Value := zero, op_Set := False\<rparr>"

definition opt_SetTo :: "'a \<Rightarrow> 'a opt_struct \<Rightarrow> 'a opt_struct" where
  "opt_SetTo v s = s\<lparr>op_Set := True, op_Value := v\<rparr>"

definition opt_Get :: "'a \<Rightarrow> 'a opt_struct \<Rightarrow> 'a \<times> bool" where
  "opt_Get zero s = (if \<not> op_Set s then (zero, False) else (op_Value s, True))"

definition opt_Or :: "'a \<Rightarrow> 'a \<Rightarrow> 'a opt_struct \<Rightarrow> 'a" where
  "opt_Or zero d s = (let (v, okay) = opt_Get zero s in if okay then v else d)"

text \<open>\<open>OptNilPaymentMethod\<close> and \<open>OptNilUUID\<close>.\<close>

record 'a opt_nil_struct =
  on_Value :: 'a
  on_Set :: bool
  on_Null :: bool

definition optnil_New :: "'a \<Rightarrow> 'a opt_nil_struct" where
  "optnil_New v = \<lparr>on_Value = v, on_Set = True, on_Null = False\<rparr>"

definition optnil_IsSet :: "'a opt_nil_struct \<Rightarrow> bool" where
  "optnil_IsSet s = on_Set s"

definition optnil_Reset :: "'a \<Rightarrow> 'a opt_nil_struct \<Rightarrow> 'a opt_nil_struct" where
  "optnil_Reset zero s = s\<lparr>on_Value := zero, on_Set := False, on_Null := False\<rparr>"

definition optnil_SetTo :: "'a \<Rightarrow> 'a opt_nil_struct \<Rightarrow> 'a opt_nil_struct" where
  "optnil_SetTo v s = s\<lparr>on_Set := True, on_Null := False, on_Value := v\<rparr>"

definition optnil_IsNull :: "'a opt_nil_struct \<Rightarrow> bool" where
  "optnil_IsNull s = on_Null s"

definition optnil_SetToNull :: "'a \<Rightarrow> 'a opt_nil_struct \<Rightarrow> 'a opt_nil_struct" where
  "optnil_SetToNull zero s = s\<lparr>on_Set := True, on_Null := True, on_Value := zero\<rparr>"

definition optnil_Get :: "'a \<Rightarrow> 'a opt_nil_struct \<Rightarrow> 'a \<times> bool" where
  "optnil_Get zero s =
     (if on_Null s then (zero, False) else if \<not> on_Set s then (zero, False) else (on_Value s, True))"

definition optnil_Or :: "'a \<Rightarrow> 'a \<Rightarrow> 'a opt_nil_struct \<Rightarrow> 'a" where
  "optnil_Or zero d s = (let (v, okay) = optnil_Get zero s in if okay then v else d)"

subsection \<open>The methods of a type and their contract\<close>

record ('o, 'v) opt_methods =
  om_New :: "'v \<Rightarrow> 'o"
  om_IsSet :: "'o \<Rightarrow> bool"
  om_Reset :: "'o \<Rightarrow> 'o"
  om_SetTo :: "'v \<Rightarrow> 'o \<Rightarrow> 'o"
  om_Get :: "'o \<Rightarrow> 'v \<times> bool"
  om_Or :: "'v \<Rightarrow> 'o \<Rightarrow> 'v"

definition opt_methods_of :: "'a \<Rightarrow> ('a opt_struct, 'a) opt_methods" where
  "opt_methods_of zero =
     \<lparr>om_New = opt_New, om_IsSet = opt_IsSet, om_Reset = opt_Reset zero, om_SetTo = opt_SetTo,
      om_Get = opt_Get zero, om_Or = opt_Or zero\<rparr>"

definition optnil_methods_of :: "'a \<Rightarrow> ('a opt_nil_struct, 'a) opt_methods" where
  "optnil_methods_of zero =
     \<lparr>om_New = optnil_New, om_IsSet = optnil_IsSet, om_Reset = optnil_Reset zero, om_SetTo = optnil_SetTo,
      om_Get = optnil_Get zero, om_Or = optnil_Or zero\<rparr>"

definition OptInt32 :: "(int32 opt_struct, int32) opt_methods" where
  "OptInt32 = opt_methods_of 0"

definition OptString :: "(string opt_struct, string) opt_methods" where
  "OptString = opt_methods_of ''''"

definition OptNilPaymentMethod :: "(string opt_nil_struct, string) opt_methods" where
  "OptNilPaymentMethod = optnil_methods_of ''''"

definition OptNilUUID :: "(uuid opt_nil_struct, uuid) opt_methods" where
  "OptNilUUID = optnil_methods_of 0"

text \<open>What a user of an optional field relies on: \<open>view\<close> is the value that the field holds.\<close>

locale optional_value =
  fixes M :: "('o, 'v) opt_methods" and view :: "'o \<Rightarrow> 'v option" and zero :: 'v
  assumes new: "view (om_New M v) = Some v"
    and set_to: "view (om_SetTo M v s) = Some v"
    and reset: "view (om_Reset M s) = None" "\<not> om_IsSet M (om_Reset M s)"
    and get: "om_Get M s = (case view s of Some v \<Rightarrow> (v, True) | None \<Rightarrow> (zero, False))"
    and or_get: "om_Or M d s = (let (v, okay) = om_Get M s in if okay then v else d)"
begin

lemma or_view: "om_Or M d s = (case view s of Some v \<Rightarrow> v | None \<Rightarrow> d)"
  by (simp add: or_get get split: option.split)

lemma get_after: "om_Get M (om_SetTo M v s) = (v, True)" "om_Get M (om_New M v) = (v, True)"
    "om_Get M (om_Reset M s) = (zero, False)"
  by (simp_all add: get new set_to reset)

lemma or_after: "om_Or M d (om_SetTo M v s) = v" "om_Or M d (om_Reset M s) = d"
  by (simp_all add: or_view set_to reset)

lemma same_view: "view s = view t \<Longrightarrow> om_Get M s = om_Get M t \<and> om_Or M d s = om_Or M d t"
  by (simp add: or_get get)

end

subsection \<open>The structs implement \<open>option\<close> and \<open>opt_nil\<close>\<close>

definition of_opt :: "'a opt_struct \<Rightarrow> 'a option" where
  "of_opt s = (if op_Set s then Some (op_Value s) else None)"

definition of_opt_nil :: "'a opt_nil_struct \<Rightarrow> 'a opt_nil" where
  "of_opt_nil s = (if \<not> on_Set s then Unset else if on_Null s then SetNull else SetTo (on_Value s))"

fun nil_view :: "'a opt_nil \<Rightarrow> 'a option" where
  "nil_view (SetTo v) = Some v"
| "nil_view _ = None"

lemmas opt_defs = opt_New_def opt_IsSet_def opt_Reset_def opt_SetTo_def opt_Get_def opt_Or_def opt_methods_of_def
lemmas optnil_defs = optnil_New_def optnil_IsSet_def optnil_Reset_def optnil_SetTo_def optnil_IsNull_def
  optnil_SetToNull_def optnil_Get_def optnil_Or_def optnil_methods_of_def

lemma opt_methods_optional: "optional_value (opt_methods_of zero) of_opt zero"
  by unfold_locales (simp_all add: opt_defs of_opt_def)

lemma optnil_methods_optional: "optional_value (optnil_methods_of zero) (nil_view \<circ> of_opt_nil) zero"
  by unfold_locales (simp_all add: optnil_defs of_opt_nil_def)

interpretation opt_int32: optional_value OptInt32 of_opt 0
  unfolding OptInt32_def by (rule opt_methods_optional)

interpretation opt_string: optional_value OptString of_opt "''''"
  unfolding OptString_def by (rule opt_methods_optional)

interpretation opt_nil_method: optional_value OptNilPaymentMethod "nil_view \<circ> of_opt_nil" "''''"
  unfolding OptNilPaymentMethod_def by (rule optnil_methods_optional)

interpretation opt_nil_uuid: optional_value OptNilUUID "nil_view \<circ> of_opt_nil" 0
  unfolding OptNilUUID_def by (rule optnil_methods_optional)

subsection \<open>Encode and Decode on the structs\<close>

text \<open>\<open>Decode\<close> writes through its receiver: on an error, the fields written so far stay written.\<close>

definition opt_EncodeFrom :: "('a \<Rightarrow> json) \<Rightarrow> 'a opt_struct \<Rightarrow> json option" where
  "opt_EncodeFrom enc s = (if \<not> op_Set s then None else Some (enc (op_Value s)))"

definition opt_DecodeTo :: "'a decoded \<Rightarrow> ('a opt_struct, json_error, unit) prog" where
  "opt_DecodeTo r s =
     (let s1 = s\<lparr>op_Set := True\<rparr> in
      case r of Ok v \<Rightarrow> (s1\<lparr>op_Value := v\<rparr>, Ok ()) | Err e \<Rightarrow> (s1, Err e) | Panic p \<Rightarrow> (s1, Panic p))"

definition optnil_EncodeFrom :: "('a \<Rightarrow> json) \<Rightarrow> 'a opt_nil_struct \<Rightarrow> json option" where
  "optnil_EncodeFrom enc s =
     (if \<not> on_Set s then None else if on_Null s then Some JNull else Some (enc (on_Value s)))"

definition optnil_DecodeTo ::
  "'a \<Rightarrow> (json \<Rightarrow> 'a decoded) \<Rightarrow> json \<Rightarrow> ('a opt_nil_struct, json_error, unit) prog" where
  "optnil_DecodeTo zero dec d s =
     (if d = JNull then (s\<lparr>on_Value := zero, on_Set := True, on_Null := True\<rparr>, Ok ())
      else let s1 = s\<lparr>on_Set := True, on_Null := False\<rparr> in
      case dec d of Ok v \<Rightarrow> (s1\<lparr>on_Value := v\<rparr>, Ok ()) | Err e \<Rightarrow> (s1, Err e) | Panic p \<Rightarrow> (s1, Panic p))"

definition OptInt32_EncodeFrom :: "json_lib \<Rightarrow> int32 opt_struct \<Rightarrow> json option" where
  "OptInt32_EncodeFrom J = opt_EncodeFrom (\<lambda>n. JNum (jx_Int32 J n))"

definition OptInt32_DecodeTo :: "json_lib \<Rightarrow> json \<Rightarrow> (int32 opt_struct, json_error, unit) prog" where
  "OptInt32_DecodeTo J d = opt_DecodeTo (dec_Int32 J d)"

definition OptString_EncodeFrom :: "string opt_struct \<Rightarrow> json option" where
  "OptString_EncodeFrom = opt_EncodeFrom JStr"

definition OptString_DecodeTo :: "json \<Rightarrow> (string opt_struct, json_error, unit) prog" where
  "OptString_DecodeTo d = opt_DecodeTo (dec_Str d)"

definition OptNilUUID_EncodeFrom :: "json_lib \<Rightarrow> uuid opt_nil_struct \<Rightarrow> json option" where
  "OptNilUUID_EncodeFrom J = optnil_EncodeFrom (json_EncodeUUID J)"

definition OptNilUUID_DecodeTo :: "json_lib \<Rightarrow> json \<Rightarrow> (uuid opt_nil_struct, json_error, unit) prog" where
  "OptNilUUID_DecodeTo J = optnil_DecodeTo 0 (dec_UUID J)"

definition OptNilPaymentMethod_EncodeFrom :: "string opt_nil_struct \<Rightarrow> json option" where
  "OptNilPaymentMethod_EncodeFrom = optnil_EncodeFrom PaymentMethod_Encode"

definition OptNilPaymentMethod_DecodeTo :: "json \<Rightarrow> (string opt_nil_struct, json_error, unit) prog" where
  "OptNilPaymentMethod_DecodeTo = optnil_DecodeTo '''' PaymentMethod_Decode"

lemmas opt_codec_defs = OptInt32_EncodeFrom_def OptInt32_DecodeTo_def OptString_EncodeFrom_def OptString_DecodeTo_def
  OptNilUUID_EncodeFrom_def OptNilUUID_DecodeTo_def OptNilPaymentMethod_EncodeFrom_def OptNilPaymentMethod_DecodeTo_def
  opt_EncodeFrom_def opt_DecodeTo_def optnil_EncodeFrom_def optnil_DecodeTo_def

lemma encode_from_struct:
  "OptInt32_EncodeFrom J i = OptInt32_Encode J (of_opt i)"
  "OptString_EncodeFrom s = OptString_Encode (of_opt s)"
  "OptNilUUID_EncodeFrom J u = OptNilUUID_Encode J (of_opt_nil u)"
  "OptNilPaymentMethod_EncodeFrom m = OptNilPaymentMethod_Encode (of_opt_nil m)"
  by (simp_all add: opt_codec_defs of_opt_def of_opt_nil_def OptInt32_Encode_def OptString_Encode_def
      OptNilUUID_Encode_def OptNilPaymentMethod_Encode_def)

text \<open>The outcome of a decoder together with what the field holds afterwards.\<close>

definition decoded_as :: "('s \<Rightarrow> 'v) \<Rightarrow> 's \<times> (json_error, unit) outcome \<Rightarrow> 'v decoded" where
  "decoded_as view r = bind_out (snd r) (\<lambda>_. Ok (view (fst r)))"

lemma decode_to_struct:
  "decoded_as of_opt (OptInt32_DecodeTo J d i) = OptInt32_Decode J d"
  "decoded_as of_opt (OptString_DecodeTo d s) = OptString_Decode d"
  "decoded_as of_opt_nil (OptNilUUID_DecodeTo J d u) = OptNilUUID_Decode J d"
  "decoded_as of_opt_nil (OptNilPaymentMethod_DecodeTo d m) = OptNilPaymentMethod_Decode d"
  by (auto simp: opt_codec_defs decoded_as_def of_opt_def of_opt_nil_def OptInt32_Decode_def OptString_Decode_def
      OptNilUUID_Decode_def OptNilPaymentMethod_Decode_def Let_def bind_out_simps split: outcome.split)

subsection \<open>Sequences of method calls\<close>

datatype 'a opt_call = CallReset | CallSetTo 'a | CallSetToNull | CallDecode json

fun call_struct :: "'a \<Rightarrow> (json \<Rightarrow> 'a decoded) \<Rightarrow> 'a opt_call \<Rightarrow> 'a opt_nil_struct \<Rightarrow> 'a opt_nil_struct" where
  "call_struct zero dec CallReset s = optnil_Reset zero s"
| "call_struct zero dec (CallSetTo v) s = optnil_SetTo v s"
| "call_struct zero dec CallSetToNull s = optnil_SetToNull zero s"
| "call_struct zero dec (CallDecode d) s = fst (optnil_DecodeTo zero dec d s)"

text \<open>A decoder that fails leaves the field set: to what it held, or to the zero value.\<close>

fun call_view :: "'a \<Rightarrow> (json \<Rightarrow> 'a decoded) \<Rightarrow> 'a opt_call \<Rightarrow> 'a opt_nil \<Rightarrow> 'a opt_nil" where
  "call_view zero dec CallReset x = Unset"
| "call_view zero dec (CallSetTo v) x = SetTo v"
| "call_view zero dec CallSetToNull x = SetNull"
| "call_view zero dec (CallDecode d) x =
     (if d = JNull then SetNull
      else case dec d of Ok v \<Rightarrow> SetTo v | _ \<Rightarrow> SetTo (case nil_view x of Some v \<Rightarrow> v | None \<Rightarrow> zero))"

definition zero_opt_nil :: "'a \<Rightarrow> 'a opt_nil_struct" where
  "zero_opt_nil zero = \<lparr>on_Value = zero, on_Set = False, on_Null = False\<rparr>"

definition optnil_ok :: "'a \<Rightarrow> 'a opt_nil_struct \<Rightarrow> bool" where
  "optnil_ok zero s \<longleftrightarrow> (on_Null s \<longrightarrow> on_Set s) \<and> (\<not> on_Set s \<or> on_Null s \<longrightarrow> on_Value s = zero)"

lemma call_struct_refines:
  assumes "optnil_ok zero s"
  shows "optnil_ok zero (call_struct zero dec c s) \<and>
    of_opt_nil (call_struct zero dec c s) = call_view zero dec c (of_opt_nil s)"
  using assms
  by (cases c) (auto simp: optnil_ok_def optnil_defs of_opt_nil_def optnil_DecodeTo_def Let_def split: outcome.splits)

lemma calls_refine:
  assumes "optnil_ok zero s"
  shows "optnil_ok zero (fold (call_struct zero dec) cs s) \<and>
    of_opt_nil (fold (call_struct zero dec) cs s) = fold (call_view zero dec) cs (of_opt_nil s)"
  using assms by (induction cs arbitrary: s) (simp_all add: call_struct_refines)

lemma zero_opt_nil_ok [simp]: "optnil_ok zero (zero_opt_nil zero)" "of_opt_nil (zero_opt_nil zero) = Unset"
  by (simp_all add: optnil_ok_def zero_opt_nil_def of_opt_nil_def)

text \<open>In a struct that the methods made, the three fields say no more than the value of \<open>opt_nil\<close>.\<close>

lemma optnil_canonical:
  assumes "optnil_ok zero s" "optnil_ok zero t"
  shows "of_opt_nil s = of_opt_nil t \<longleftrightarrow> s = t"
  using assms by (cases s; cases t) (auto simp: optnil_ok_def of_opt_nil_def split: if_splits)

lemma optnil_observed:
  assumes "optnil_ok zero s"
  shows "optnil_IsSet s \<longleftrightarrow> of_opt_nil s \<noteq> Unset" and "optnil_IsNull s \<longleftrightarrow> of_opt_nil s = SetNull"
  using assms by (auto simp: optnil_ok_def optnil_defs of_opt_nil_def)

section \<open>The texts of the enumerations\<close>

definition OrderStatus_AllValues :: "string list" where
  "OrderStatus_AllValues = [''PENDING_PAYMENT'', ''PAID'', ''COMPLETED'', ''CANCELLED'']"

definition PaymentMethod_AllValues :: "string list" where
  "PaymentMethod_AllValues =
     [''PAYMENT_METHOD_UNKNOWN'', ''PAYMENT_METHOD_CARD'', ''PAYMENT_METHOD_SBP'', ''PAYMENT_METHOD_CREDIT_CARD'',
      ''PAYMENT_METHOD_INVESTOR_MONEY'']"

text \<open>\<open>errors.Errorf("invalid value: %q", s)\<close>; \<open>Quote\<close> is \<open>strconv.Quote\<close>.\<close>

definition invalid_value :: "(string \<Rightarrow> string) \<Rightarrow> string \<Rightarrow> string" where
  "invalid_value Quote s = ''invalid value: '' @ Quote s"

definition OrderStatus_MarshalText :: "(string \<Rightarrow> string) \<Rightarrow> string \<Rightarrow> (string, bytes) outcome" where
  "OrderStatus_MarshalText Quote s =
     (if s = ''PENDING_PAYMENT'' then Ok s
      else if s = ''PAID'' then Ok s
      else if s = ''COMPLETED'' then Ok s
      else if s = ''CANCELLED'' then Ok s
      else Err (invalid_value Quote s))"

definition OrderStatus_UnmarshalText :: "(string \<Rightarrow> string) \<Rightarrow> bytes \<Rightarrow> (string, string, unit) prog" where
  "OrderStatus_UnmarshalText Quote data s =
     (if data = ''PENDING_PAYMENT'' then (''PENDING_PAYMENT'', Ok ())
      else if data = ''PAID'' then (''PAID'', Ok ())
      else if data = ''COMPLETED'' then (''COMPLETED'', Ok ())
      else if data = ''CANCELLED'' then (''CANCELLED'', Ok ())
      else (s, Err (invalid_value Quote data)))"

definition PaymentMethod_MarshalText :: "(string \<Rightarrow> string) \<Rightarrow> string \<Rightarrow> (string, bytes) outcome" where
  "PaymentMethod_MarshalText Quote s =
     (if s = ''PAYMENT_METHOD_UNKNOWN'' then Ok s
      else if s = ''PAYMENT_METHOD_CARD'' then Ok s
      else if s = ''PAYMENT_METHOD_SBP'' then Ok s
      else if s = ''PAYMENT_METHOD_CREDIT_CARD'' then Ok s
      else if s = ''PAYMENT_METHOD_INVESTOR_MONEY'' then Ok s
      else Err (invalid_value Quote s))"

definition PaymentMethod_UnmarshalText :: "(string \<Rightarrow> string) \<Rightarrow> bytes \<Rightarrow> (string, string, unit) prog" where
  "PaymentMethod_UnmarshalText Quote data s =
     (if data = ''PAYMENT_METHOD_UNKNOWN'' then (''PAYMENT_METHOD_UNKNOWN'', Ok ())
      else if data = ''PAYMENT_METHOD_CARD'' then (''PAYMENT_METHOD_CARD'', Ok ())
      else if data = ''PAYMENT_METHOD_SBP'' then (''PAYMENT_METHOD_SBP'', Ok ())
      else if data = ''PAYMENT_METHOD_CREDIT_CARD'' then (''PAYMENT_METHOD_CREDIT_CARD'', Ok ())
      else if data = ''PAYMENT_METHOD_INVESTOR_MONEY'' then (''PAYMENT_METHOD_INVESTOR_MONEY'', Ok ())
      else (s, Err (invalid_value Quote data)))"

text \<open>
  The text form takes exactly the listed values, which are those that the validator accepts; the
  JSON form (\<open>OrderStatus_Decode\<close>) takes any string and leaves it to the validator.
\<close>

lemma enum_values:
  "s \<in> set OrderStatus_AllValues \<longleftrightarrow> OrderStatus_Validate s" "distinct OrderStatus_AllValues"
  "m \<in> set PaymentMethod_AllValues \<longleftrightarrow> PaymentMethod_Validate m" "distinct PaymentMethod_AllValues"
  by (auto simp: OrderStatus_AllValues_def OrderStatus_Validate_def PaymentMethod_AllValues_def PaymentMethod_Validate_def)

lemma enum_marshal:
  "OrderStatus_MarshalText Q s = (if OrderStatus_Validate s then Ok s else Err (invalid_value Q s))"
  "PaymentMethod_MarshalText Q m = (if PaymentMethod_Validate m then Ok m else Err (invalid_value Q m))"
  by (auto simp: OrderStatus_MarshalText_def OrderStatus_Validate_def PaymentMethod_MarshalText_def PaymentMethod_Validate_def)

lemma enum_unmarshal:
  "OrderStatus_UnmarshalText Q b s = (if OrderStatus_Validate b then (b, Ok ()) else (s, Err (invalid_value Q b)))"
  "PaymentMethod_UnmarshalText Q b m = (if PaymentMethod_Validate b then (b, Ok ()) else (m, Err (invalid_value Q b)))"
  by (auto simp: OrderStatus_UnmarshalText_def OrderStatus_Validate_def PaymentMethod_UnmarshalText_def PaymentMethod_Validate_def)

section \<open>MarshalJSON and UnmarshalJSON\<close>

text \<open>An optional value that is not set writes nothing at all, so that its text is empty.\<close>

record 'a json_methods =
  jm_Marshal :: "'a \<Rightarrow> string"
  jm_Unmarshal :: "string \<Rightarrow> (body_error, 'a) outcome"

definition json_methods_of :: "json_lib \<Rightarrow> ('a \<Rightarrow> json option) \<Rightarrow> (json \<Rightarrow> 'a decoded) \<Rightarrow> 'a json_methods" where
  "json_methods_of J enc dec =
     \<lparr>jm_Marshal = (\<lambda>s. case enc s of Some v \<Rightarrow> jx_Write J v | None \<Rightarrow> ''''),
      jm_Unmarshal = (\<lambda>data. case jx_Read J data of
         None \<Rightarrow> Err SyntaxError
       | Some (d, _) \<Rightarrow> (case dec d of Ok a \<Rightarrow> Ok a | Err e \<Rightarrow> Err (JsonError e) | Panic p \<Rightarrow> Panic p))\<rparr>"

definition CreateOrderRequest_JSON :: "json_lib \<Rightarrow> create_order_request json_methods" where
  "CreateOrderRequest_JSON J = json_methods_of J (Some \<circ> CreateOrderRequest_Encode J) (CreateOrderRequest_Decode J zero_create_order_request)"

definition CreateOrderResponse_JSON :: "json_lib \<Rightarrow> create_order_response json_methods" where
  "CreateOrderResponse_JSON J = json_methods_of J (Some \<circ> CreateOrderResponse_Encode J) (CreateOrderResponse_Decode J zero_create_order_response)"

definition Order_JSON :: "json_lib \<Rightarrow> api_order json_methods" where
  "Order_JSON J = json_methods_of J (Some \<circ> Order_Encode J) (Order_Decode J zero_api_order)"

definition PayOrderRequest_JSON :: "json_lib \<Rightarrow> pay_order_request json_methods" where
  "PayOrderRequest_JSON J = json_methods_of J (Some \<circ> PayOrderRequest_Encode) (PayOrderRequest_Decode zero_pay_order_request)"

definition PayOrderResponse_JSON :: "json_lib \<Rightarrow> pay_order_response json_methods" where
  "PayOrderResponse_JSON J = json_methods_of J (Some \<circ> PayOrderResponse_Encode J) (PayOrderResponse_Decode J zero_pay_order_response)"

definition BadGatewayError_JSON :: "json_lib \<Rightarrow> api_error json_methods" where
  "BadGatewayError_JSON J = json_methods_of J (Some \<circ> BadGatewayError_Encode J) (BadGatewayError_Decode J (zero_error BadGatewayError))"

definition BadRequestError_JSON :: "json_lib \<Rightarrow> api_error json_methods" where
  "BadRequestError_JSON J = json_methods_of J (Some \<circ> BadRequestError_Encode J) (BadRequestError_Decode J (zero_error BadRequestError))"

definition ConflictError_JSON :: "json_lib \<Rightarrow> api_error json_methods" where
  "ConflictError_JSON J = json_methods_of J (Some \<circ> ConflictError_Encode J) (ConflictError_Decode J (zero_error ConflictError))"

definition ForbiddenError_JSON :: "json_lib \<Rightarrow> api_error json_methods" where
  "ForbiddenError_JSON J = json_methods_of J (Some \<circ> ForbiddenError_Encode J) (ForbiddenError_Decode J (zero_error ForbiddenError))"

definition InternalServerError_JSON :: "json_lib \<Rightarrow> api_error json_methods" where
  "InternalServerError_JSON J = json_methods_of J (Some \<circ> InternalServerError_Encode J) (InternalServerError_Decode J (zero_error InternalServerError))"

definition NotFoundError_JSON :: "json_lib \<Rightarrow> api_error json_methods" where
  "NotFoundError_JSON J = json_methods_of J (Some \<circ> NotFoundError_Encode J) (NotFoundError_Decode J (zero_error NotFoundError))"

definition RateLimitError_JSON :: "json_lib \<Rightarrow> api_error json_methods" where
  "RateLimitError_JSON J = json_methods_of J (Some \<circ> RateLimitError_Encode J) (RateLimitError_Decode J (zero_error RateLimitError))"

definition ServiceUnavailableError_JSON :: "json_lib \<Rightarrow> api_error json_methods" where
  "ServiceUnavailableError_JSON J = json_methods_of J (Some \<circ> ServiceUnavailableError_Encode J) (ServiceUnavailableError_Decode J (zero_error ServiceUnavailableError))"

definition UnauthorizedError_JSON :: "json_lib \<Rightarrow> api_error json_methods" where
  "UnauthorizedError_JSON J = json_methods_of J (Some \<circ> UnauthorizedError_Encode J) (UnauthorizedError_Decode J (zero_error UnauthorizedError))"

definition ValidationError_JSON :: "json_lib \<Rightarrow> api_error json_methods" where
  "ValidationError_JSON J = json_methods_of J (Some \<circ> ValidationError_Encode J) (ValidationError_Decode J (zero_error ValidationError))"

definition OrderStatus_JSON :: "json_lib \<Rightarrow> string json_methods" where
  "OrderStatus_JSON J = json_methods_of J (Some \<circ> OrderStatus_Encode) OrderStatus_Decode"

definition PaymentMethod_JSON :: "json_lib \<Rightarrow> string json_methods" where
  "PaymentMethod_JSON J = json_methods_of J (Some \<circ> PaymentMethod_Encode) PaymentMethod_Decode"

definition OptInt32_JSON :: "json_lib \<Rightarrow> int32 option json_methods" where
  "OptInt32_JSON J = json_methods_of J (OptInt32_Encode J) (OptInt32_Decode J)"

definition OptString_JSON :: "json_lib \<Rightarrow> string option json_methods" where
  "OptString_JSON J = json_methods_of J OptString_Encode OptString_Decode"

definition OptNilUUID_JSON :: "json_lib \<Rightarrow> uuid opt_nil json_methods" where
  "OptNilUUID_JSON J = json_methods_of J (OptNilUUID_Encode J) (OptNilUUID_Decode J)"

definition OptNilPaymentMethod_JSON :: "json_lib \<Rightarrow> string opt_nil json_methods" where
  "OptNilPaymentMethod_JSON J = json_methods_of J OptNilPaymentMethod_Encode OptNilPaymentMethod_Decode"


text \<open>\<open>UnmarshalJSON\<close> takes what the body decoders take, and what follows the value as well.\<close>

lemma unmarshal_body:
  "jm_Unmarshal (json_methods_of J enc dec) data = Ok a \<longleftrightarrow>
     decode_body J dec data = Ok a \<or>
     decode_body J dec data = Err TrailingData \<and> (\<exists>d rest. jx_Read J data = Some (d, rest) \<and> dec d = Ok a)"
  by (auto simp: json_methods_of_def decode_body_def split: option.splits outcome.splits if_splits prod.splits)

context json_codec begin

lemma unmarshal_marshal:
  assumes "enc s = Some v" "json_ok json_depth v" "dec v = Ok a"
  shows "jm_Unmarshal (json_methods_of J enc dec) (jm_Marshal (json_methods_of J enc dec) s) = Ok a"
  using read_write [OF assms(2)] assms by (auto simp: json_methods_of_def)

lemma marshal_some:
  assumes "json_ok json_depth (enc s)" "dec (enc s) = Ok a"
  shows "jm_Unmarshal (json_methods_of J (Some \<circ> enc) dec) (jm_Marshal (json_methods_of J (Some \<circ> enc) dec) s) = Ok a"
  using assms by (auto intro!: unmarshal_marshal)

lemma order_json_roundtrip:
  "Order_Validate (made_order r) = [] \<Longrightarrow> jm_Unmarshal (Order_JSON J) (jm_Marshal (Order_JSON J) r) = Ok (made_order r)"
  unfolding Order_JSON_def by (rule marshal_some) (simp_all add: Order_ok Order_roundtrip)

lemma request_json_roundtrip:
  "jm_Unmarshal (CreateOrderRequest_JSON J) (jm_Marshal (CreateOrderRequest_JSON J) q) = Ok (made_request q)"
  "PayOrderRequest_Validate p = [] \<Longrightarrow> jm_Unmarshal (PayOrderRequest_JSON J) (jm_Marshal (PayOrderRequest_JSON J) p) = Ok p"
  unfolding CreateOrderRequest_JSON_def PayOrderRequest_JSON_def
   apply (rule marshal_some; simp add: CreateOrderRequest_ok CreateOrderRequest_roundtrip)
  apply (rule marshal_some; simp add: PayOrderRequest_ok PayOrderRequest_roundtrip)
  done

lemma response_json_roundtrip:
  "CreateOrderResponse_Validate c = [] \<Longrightarrow> jm_Unmarshal (CreateOrderResponse_JSON J) (jm_Marshal (CreateOrderResponse_JSON J) c) = Ok c"
  "jm_Unmarshal (PayOrderResponse_JSON J) (jm_Marshal (PayOrderResponse_JSON J) t) = Ok t"
  unfolding CreateOrderResponse_JSON_def PayOrderResponse_JSON_def
   apply (rule marshal_some; simp add: CreateOrderResponse_ok CreateOrderResponse_roundtrip)
  apply (rule marshal_some; simp add: PayOrderResponse_ok PayOrderResponse_roundtrip)
  done

lemma set_optional_json_roundtrip:
  "jm_Unmarshal (OptInt32_JSON J) (jm_Marshal (OptInt32_JSON J) (Some n)) = Ok (Some n)"
  "u \<noteq> Unset \<Longrightarrow> jm_Unmarshal (OptNilUUID_JSON J) (jm_Marshal (OptNilUUID_JSON J) u) = Ok u"
proof -
  show "jm_Unmarshal (OptInt32_JSON J) (jm_Marshal (OptInt32_JSON J) (Some n)) = Ok (Some n)"
    unfolding OptInt32_JSON_def
    by (rule unmarshal_marshal [where v = "JNum (jx_Int32 J n)"])
      (simp_all add: OptInt32_Encode_def OptInt32_Decode_def dec_Int32_def of_lib_def int32_token)
  assume "u \<noteq> Unset"
  then obtain v where "OptNilUUID_Encode J u = Some v" "json_ok json_depth v"
    by (cases u) (auto simp: OptNilUUID_Encode_def)
  then show "jm_Unmarshal (OptNilUUID_JSON J) (jm_Marshal (OptNilUUID_JSON J) u) = Ok u"
    unfolding OptNilUUID_JSON_def using OptNilUUID_roundtrip by (auto intro: unmarshal_marshal)
qed

text \<open>Why the writers test \<open>Set\<close> before they call: the text of an unset value is not JSON.\<close>

lemma unset_writes_nothing: "jm_Marshal (OptInt32_JSON J) None = ''''" "jm_Marshal (OptNilUUID_JSON J) Unset = ''''"
  by (simp_all add: OptInt32_JSON_def OptNilUUID_JSON_def json_methods_of_def OptInt32_Encode_def OptNilUUID_Encode_def)

end

section \<open>What the users of the optional fields see\<close>

text \<open>A field that was changed by method calls only, against the value of \<open>opt_nil\<close> that the calls stand for.\<close>

definition shown_as :: "'a \<Rightarrow> ('a opt_nil_struct, 'a) opt_methods \<Rightarrow> 'a opt_nil_struct \<Rightarrow> 'a opt_nil \<Rightarrow> bool" where
  "shown_as zero M s x \<longleftrightarrow>
     of_opt_nil s = x \<and> (om_IsSet M s \<longleftrightarrow> x \<noteq> Unset) \<and> (optnil_IsNull s \<longleftrightarrow> x = SetNull) \<and>
     om_Get M s = (case nil_view x of Some v \<Rightarrow> (v, True) | None \<Rightarrow> (zero, False)) \<and>
     (\<lambda>d. om_Or M d s) = (\<lambda>d. case nil_view x of Some v \<Rightarrow> v | None \<Rightarrow> d)"

lemma calls_shown:
  assumes "optional_value (optnil_methods_of zero) (nil_view \<circ> of_opt_nil) zero"
  shows "shown_as zero (optnil_methods_of zero) (fold (call_struct zero dec) cs (zero_opt_nil zero))
    (fold (call_view zero dec) cs Unset)"
proof -
  let ?s = "fold (call_struct zero dec) cs (zero_opt_nil zero)"
  have s: "optnil_ok zero ?s" "of_opt_nil ?s = fold (call_view zero dec) cs Unset"
    using calls_refine [OF zero_opt_nil_ok(1), of zero dec cs] by simp_all
  have "om_IsSet (optnil_methods_of zero) ?s = optnil_IsSet ?s" by (simp add: optnil_methods_of_def)
  with s show ?thesis
    using optnil_observed [OF s(1)] optional_value.get [OF assms, of ?s] optional_value.or_view [OF assms, of _ ?s]
    by (simp add: shown_as_def fun_eq_iff)
qed

end
