(* ===== verification/Order_Api.thy ===== *)
theory Order_Api
  imports Order_Http Oapi_Wire
begin

text \<open>
  The order service behind the generated server, as \<open>order/internal/app/app.go\<close> builds it:
  \<open>orderv1.NewServer(handler)\<close> mounted at the root. The lemmas show that every response of its
  handlers can be delivered, and that a generated client connected to it is an \<open>api_session\<close>. The
  HTTP contract is interpreted on plain functions.
\<close>

definition order_server ::
  "http_lib \<Rightarrow> json_lib \<Rightarrow> (server_error \<Rightarrow> response_writer \<Rightarrow> response_writer) \<Rightarrow>
   (response_writer \<Rightarrow> response_writer) \<Rightarrow> 'w order_deps \<Rightarrow> 'w server" where
  "order_server H J onError notFound svc =
     \<lparr>sv_Http = H, sv_Json = J, sv_Prefix = '''', sv_ErrorHandler = onError, sv_NotFound = notFound,
      sv_MethodNotAllowed = MethodNotAllowed,
      sv_CancelOrder = CancelOrder_handler svc, sv_CreateOrder = CreateOrder_handler svc,
      sv_GetOrderByUUID = GetOrderByUUID_handler svc, sv_PayOrder = PayOrder_handler svc\<rparr>"

text \<open>A client whose HTTP library hands every request to one server.\<close>

definition local_client :: "'w server \<Rightarrow> 'w client" where
  "local_client S =
     \<lparr>cl_Http = sv_Http S, cl_Json = sv_Json S, cl_ServerURL = \<lparr>url_Path = sv_Prefix S, url_RawPath = ''''\<rparr>,
      cl_NewRequest = (\<lambda>m u. Some (plain_request m u)), cl_SetBody = with_body, cl_Do = connect S\<rparr>"

lemma local_session:
  assumes "json_codec J" "http_wire H" "sv_Http S = H" "sv_Json S = J" "CHR ''%'' \<notin> set (sv_Prefix S)"
  shows "api_session J H (local_client S) S"
  using assms by (intro api_session.intro api_session_axioms.intro) (simp_all add: local_client_def)

section \<open>What the handlers return can be delivered\<close>

text \<open>The message of an error is sent as it is; the hypothesis of the JSON contract is that it is ASCII.\<close>

definition sendable_error :: "oerr \<Rightarrow> bool" where
  "sendable_error e \<longleftrightarrow> ascii (error_msg order_err_text e)"

lemma api_error_sendable:
  "sendable_error e \<Longrightarrow>
     error_sendable \<lparr>ae_Type = t, ae_Code = c, ae_Message = Some (error_msg order_err_text e), ae_Details = None\<rparr>"
  by (simp add: error_sendable_def error_shape_def sendable_error_def)

lemma errors_delivered:
  assumes "sendable_error e"
  shows "deliver_create (mapErrorToCreateOrderRes e)" and "deliver_pay (mapErrorToPayOrderRes e)"
    and "deliver_get (mapErrorToGetOrderRes e)" and "deliver_cancel (mapErrorToCancelOrderRes e)"
  using api_error_sendable [OF assms]
  by (simp_all add: error_mapping_defs api_error_of_def deliver_create_def deliver_pay_def deliver_get_def deliver_cancel_def)

lemma create_delivered: "sint (cr_TotalPrice r) \<noteq> - (2 ^ 63) \<Longrightarrow> deliver_create (ApiOk (CreateOrderResultToResponse r))"
  by (simp add: deliver_create_def CreateOrderResponse_Validate_def CreateOrderResultToResponse_def formatCents_pattern)

lemma order_delivered:
  assumes "row_check r" and "\<forall>m. ord_PaymentMethod r = Some m \<longrightarrow> PaymentMethod_Validate m"
  shows "deliver_get (ApiOk (OrderToOAPI r))"
proof -
  have "price_pattern (formatCents (ord_TotalPrice r))"
    using assms(1) by (intro formatCents_pattern) (auto simp: row_check_def)
  moreover have "OrderStatus_Validate (orderStatusToOAPI (ord_Status r))"
    by (auto simp: orderStatusToOAPI_def OrderStatus_Validate_def)
  ultimately show ?thesis
    using assms(2)
    by (auto simp: deliver_get_def Order_Validate_def made_order_def made_def OrderToOAPI_def paymentMethodToOptNil_def
        split: option.splits)
qed

section \<open>An HTTP library that satisfies the contract\<close>

definition plain :: "string \<Rightarrow> string option" where
  "plain s = (if CHR ''%'' \<in> set s then None else Some s)"

definition plain_http :: "uuid_lib \<Rightarrow> http_lib" where
  "plain_http U =
     \<lparr>ParseMediaType = (\<lambda>s. if s = '''' then None else Some (takeWhile (\<lambda>c. c \<noteq> CHR '';'') s)),
      NormalizeEscapedPath = plain, PathUnescape = plain, DecodePathValue = Some, EncodePathValue = plain,
      ToUUID = (\<lambda>s. success (case uuid_Parse U s of Ok u \<Rightarrow> Ok u | _ \<Rightarrow> Err LibError)), UUIDToString = uuid_String U,
      AddPathParts = (\<lambda>b ps. b\<lparr>url_Path := url_Path b @ concat ps\<rparr>)\<rparr>"

lemma hex_fixed_chars: "c \<in> set (hex_fixed k n) \<Longrightarrow> \<exists>d < 16. c = hex_digit d"
proof (induction k arbitrary: n)
  case (Suc k)
  have "n mod 16 < 16" by simp
  with Suc show ?case by (auto simp del: mod_less_divisor)
qed simp

lemma canon_String_chars:
  assumes "c \<in> set (canon_String u)"
  shows "c = CHR ''-'' \<or> (\<exists>d < 16. c = hex_digit d)"
proof -
  have part: "\<exists>d < 16. c = hex_digit d" if "c \<in> set (take k (drop m (hex_fixed 32 (unat u))))" for k m
    using that by (auto dest!: in_set_takeD in_set_dropD intro: hex_fixed_chars)
  have ends: "\<exists>d < 16. c = hex_digit d"
    if "c \<in> set (take 8 (hex_fixed 32 (unat u))) \<or> c \<in> set (drop 20 (hex_fixed 32 (unat u)))"
    using that by (auto dest!: in_set_takeD in_set_dropD intro: hex_fixed_chars)
  show ?thesis
    using assms part ends by (auto simp: canon_String_def Let_def simp del: hex_fixed.simps)
qed

lemma hex_digit_plain:
  assumes "d < 16"
  shows "hex_digit d \<noteq> CHR ''/''" and "hex_digit d \<noteq> CHR ''%''"
proof -
  have "48 \<le> (of_char (hex_digit d) :: nat)" using assms by (simp add: hex_digit_def)
  then show "hex_digit d \<noteq> CHR ''/''" and "hex_digit d \<noteq> CHR ''%''" by auto
qed

lemma canon_String_plain: "CHR ''/'' \<notin> set (canon_String u)" "CHR ''%'' \<notin> set (canon_String u)"
proof -
  have "CHR ''/'' \<noteq> CHR ''-''" "CHR ''%'' \<noteq> CHR ''-''" by simp_all
  then show "CHR ''/'' \<notin> set (canon_String u)" "CHR ''%'' \<notin> set (canon_String u)"
    using canon_String_chars [of _ u] hex_digit_plain by metis+
qed

interpretation plain: http_wire "plain_http canonical_uuid"
proof unfold_locales
  fix u :: uuid
  show "CHR ''/'' \<notin> set (UUIDToString (plain_http canonical_uuid) u)"
    and "CHR ''%'' \<notin> set (UUIDToString (plain_http canonical_uuid) u)"
    and "EncodePathValue (plain_http canonical_uuid) (UUIDToString (plain_http canonical_uuid) u) =
      Some (UUIDToString (plain_http canonical_uuid) u)"
    by (simp_all add: plain_http_def canonical_uuid_def plain_def canon_String_plain)
qed (auto simp: plain_http_def canonical_uuid_def canon_nonempty canon_roundtrip plain_def json_utf8_def)

section \<open>The order service and a client\<close>

interpretation order_api: api_session "compact_json canonical_uuid" "plain_http canonical_uuid"
  "local_client (order_server (plain_http canonical_uuid) (compact_json canonical_uuid) onError notFound svc)"
  "order_server (plain_http canonical_uuid) (compact_json canonical_uuid) onError notFound svc"
  for onError notFound svc
  by (rule local_session [OF compact.json_codec_axioms plain.http_wire_axioms]) (simp_all add: order_server_def)

section \<open>Through the client\<close>

definition api_client ::
  "http_lib \<Rightarrow> json_lib \<Rightarrow> (server_error \<Rightarrow> response_writer \<Rightarrow> response_writer) \<Rightarrow>
   (response_writer \<Rightarrow> response_writer) \<Rightarrow> 'w order_deps \<Rightarrow> 'w client" where
  "api_client H J onError notFound svc = local_client (order_server H J onError notFound svc)"

lemma api_client_session:
  "json_codec J \<Longrightarrow> http_wire H \<Longrightarrow>
     api_session J H (api_client H J onError notFound svc) (order_server H J onError notFound svc)"
  unfolding api_client_def by (rule local_session) (simp_all add: order_server_def)

lemma order_server_handlers [simp]:
  "sv_CancelOrder (order_server H J onError notFound svc) = CancelOrder_handler svc"
  "sv_CreateOrder (order_server H J onError notFound svc) = CreateOrder_handler svc"
  "sv_GetOrderByUUID (order_server H J onError notFound svc) = GetOrderByUUID_handler svc"
  "sv_PayOrder (order_server H J onError notFound svc) = PayOrder_handler svc"
  by (simp_all add: order_server_def)

text \<open>A request made of a nil slice becomes one of an empty slice, which the service treats alike.\<close>

lemma made_request_params: "CreateOrderRequestToParams (made_request req) = CreateOrderRequestToParams req"
  by (simp add: CreateOrderRequestToParams_def made_request_def made_def split: option.splits)

text \<open>\<open>PayOrderRequest\<close> and \<open>Order\<close> responses of the service, seen by a client.\<close>

lemma client_create:
  assumes "json_codec J" "http_wire H"
  shows "Create svc (CreateOrderRequestToParams req) w = (w1, Ok res) \<Longrightarrow> sint (cr_TotalPrice res) \<noteq> - (2 ^ 63) \<Longrightarrow>
      sendCreateOrder (api_client H J onError notFound svc) req w = (w1, Ok (ApiOk (CreateOrderResultToResponse res)))"
    and "Create svc (CreateOrderRequestToParams req) w = (w1, Err e) \<Longrightarrow> sendable_error e \<Longrightarrow>
      sendCreateOrder (api_client H J onError notFound svc) req w = (w1, Ok (mapErrorToCreateOrderRes e))"
  by (rule api_session.send_create [OF api_client_session [OF assms]];
      simp add: CreateOrder_handler_def respond_def made_request_params create_delivered errors_delivered)+

lemma client_pay:
  assumes "json_codec J" "http_wire H" "uuid_codec (uuids svc)" "PayOrderRequest_Validate req = []"
  shows "Pay svc (PayOrderRequestToParams u req) w = (w1, Ok res) \<Longrightarrow>
      sendPayOrder (api_client H J onError notFound svc) req u w = (w1, Ok (ApiOk (PayOrderResultToResponse res)))"
    and "Pay svc (PayOrderRequestToParams u req) w = (w1, Err e) \<Longrightarrow> sendable_error e \<Longrightarrow>
      sendPayOrder (api_client H J onError notFound svc) req u w = (w1, Ok (mapErrorToPayOrderRes e))"
  by (rule api_session.send_pay [OF api_client_session [OF assms(1,2)]];
      simp add: PayOrder_handler_def respond_def with_order_id_codec deliver_pay_def errors_delivered
        errors_delivered(2) [unfolded deliver_pay_def] assms)+

lemma client_get:
  assumes "json_codec J" "http_wire H" "uuid_codec (uuids svc)"
  shows "OrderByID svc u w = (w1, Ok r) \<Longrightarrow> row_check r \<Longrightarrow>
      \<forall>m. ord_PaymentMethod r = Some m \<longrightarrow> PaymentMethod_Validate m \<Longrightarrow>
      sendGetOrderByUUID (api_client H J onError notFound svc) u w = (w1, Ok (ApiOk (made_order (OrderToOAPI r))))"
    and "OrderByID svc u w = (w1, Err e) \<Longrightarrow> sendable_error e \<Longrightarrow>
      sendGetOrderByUUID (api_client H J onError notFound svc) u w = (w1, Ok (mapErrorToGetOrderRes e))"
proof -
  have "made_res (mapErrorToGetOrderRes e) = mapErrorToGetOrderRes e"
    by (simp add: mapErrorToGetOrderRes_def api_error_of_def made_res_def)
  moreover note send = api_session.send_get [OF api_client_session [OF assms(1,2)], of onError notFound svc u w w1]
  ultimately show "OrderByID svc u w = (w1, Err e) \<Longrightarrow> sendable_error e \<Longrightarrow>
      sendGetOrderByUUID (api_client H J onError notFound svc) u w = (w1, Ok (mapErrorToGetOrderRes e))"
    using send [of "mapErrorToGetOrderRes e"]
    by (simp add: GetOrderByUUID_handler_def respond_def with_order_id_codec assms errors_delivered)
  show "OrderByID svc u w = (w1, Ok r) \<Longrightarrow> row_check r \<Longrightarrow>
      \<forall>m. ord_PaymentMethod r = Some m \<longrightarrow> PaymentMethod_Validate m \<Longrightarrow>
      sendGetOrderByUUID (api_client H J onError notFound svc) u w = (w1, Ok (ApiOk (made_order (OrderToOAPI r))))"
    using send [of "ApiOk (OrderToOAPI r)"] order_delivered [of r]
    by (simp add: GetOrderByUUID_handler_def respond_def with_order_id_codec assms made_res_def)
qed

lemma client_cancel:
  assumes "json_codec J" "http_wire H" "uuid_codec (uuids svc)"
  shows "Cancel svc u w = (w1, Ok ()) \<Longrightarrow>
      sendCancelOrder (api_client H J onError notFound svc) u w = (w1, Ok (ApiOk ()))"
    and "Cancel svc u w = (w1, Err e) \<Longrightarrow> sendable_error e \<Longrightarrow>
      sendCancelOrder (api_client H J onError notFound svc) u w = (w1, Ok (mapErrorToCancelOrderRes e))"
  by (rule api_session.send_cancel [OF api_client_session [OF assms(1,2)]];
      simp add: CancelOrder_handler_def respond_def with_order_id_codec deliver_cancel_def
        errors_delivered(4) [unfolded deliver_cancel_def] assms)+

end
