(* ===== verification/Oapi_Config.thy ===== *)
theory Oapi_Config
  imports Order_Api
begin

text \<open>
  \<open>oas_cfg_gen.go\<close> and \<open>NewServer\<close>: the options of the generated server and client, their defaults and
  what a server is made of. OpenTelemetry, \<open>http.NotFound\<close>, the default error handler of ogen and
  \<open>middleware.ChainMiddlewares\<close> are parameters; a nil interface or function is \<open>None\<close>. The lemmas say
  what a sequence of options amounts to, and that a path prefix only moves the API.
\<close>

section \<open>Telemetry\<close>

text \<open>Providers are told apart by an identity.\<close>

datatype tracer_provider = TracerProvider nat

datatype meter_provider = MeterProvider nat

datatype tracer = Tracer tracer_provider

datatype meter = Meter meter_provider

record otel_lib =
  GetTracerProvider :: tracer_provider
  GetMeterProvider :: meter_provider
  ServerInstrument :: "meter \<Rightarrow> string \<Rightarrow> (string, unit) outcome" \<comment> \<open>the constructors of \<open>otelogen\<close>\<close>
  ClientInstrument :: "meter \<Rightarrow> string \<Rightarrow> (string, unit) outcome"

record otel_config =
  otel_TracerProvider :: "tracer_provider option"
  otel_Tracer :: "tracer option"
  otel_MeterProvider :: "meter_provider option"
  otel_Meter :: "meter option"
  otel_Attributes :: "(string \<times> string) list"

definition zero_otel_config :: otel_config where
  "zero_otel_config =
     \<lparr>otel_TracerProvider = None, otel_Tracer = None, otel_MeterProvider = None, otel_Meter = None,
      otel_Attributes = []\<rparr>"

definition initOTEL :: "otel_lib \<Rightarrow> otel_config \<Rightarrow> otel_config" where
  "initOTEL L cfg =
     (let tp = (case otel_TracerProvider cfg of None \<Rightarrow> GetTracerProvider L | Some p \<Rightarrow> p);
          mp = (case otel_MeterProvider cfg of None \<Rightarrow> GetMeterProvider L | Some p \<Rightarrow> p) in
      cfg\<lparr>otel_TracerProvider := Some tp, otel_MeterProvider := Some mp,
          otel_Tracer := Some (Tracer tp), otel_Meter := Some (Meter mp)\<rparr>)"

type_synonym otel_option = "otel_config \<Rightarrow> otel_config"

definition WithTracerProvider :: "tracer_provider option \<Rightarrow> otel_option" where
  "WithTracerProvider provider cfg = (if provider \<noteq> None then cfg\<lparr>otel_TracerProvider := provider\<rparr> else cfg)"

definition WithMeterProvider :: "meter_provider option \<Rightarrow> otel_option" where
  "WithMeterProvider provider cfg = (if provider \<noteq> None then cfg\<lparr>otel_MeterProvider := provider\<rparr> else cfg)"

definition WithAttributes :: "(string \<times> string) list \<Rightarrow> otel_option" where
  "WithAttributes attributes cfg = cfg\<lparr>otel_Attributes := attributes\<rparr>"

section \<open>The server\<close>

type_synonym not_allowed = "string \<Rightarrow> string \<Rightarrow> response_writer \<Rightarrow> response_writer"
type_synonym error_handler = "server_error \<Rightarrow> response_writer \<Rightarrow> response_writer"
type_synonym not_found = "response_writer \<Rightarrow> response_writer"

record 'x server_config =
  sc_Otel :: otel_config
  sc_NotFound :: not_found
  sc_MethodNotAllowed :: not_allowed
  sc_ErrorHandler :: error_handler
  sc_Prefix :: string
  sc_Middleware :: "'x option"
  sc_MaxMultipartMemory :: int64

type_synonym 'x server_option = "'x server_config \<Rightarrow> 'x server_config"

text \<open>\<open>otelOptionFunc.applyServer\<close>\<close>

definition otel_applyServer :: "otel_option \<Rightarrow> 'x server_option" where
  "otel_applyServer opt c = c\<lparr>sc_Otel := opt (sc_Otel c)\<rparr>"

definition WithNotFound :: "not_found option \<Rightarrow> 'x server_option" where
  "WithNotFound notFound cfg = (case notFound of Some h \<Rightarrow> cfg\<lparr>sc_NotFound := h\<rparr> | None \<Rightarrow> cfg)"

definition WithMethodNotAllowed :: "not_allowed option \<Rightarrow> 'x server_option" where
  "WithMethodNotAllowed methodNotAllowed cfg =
     (case methodNotAllowed of Some h \<Rightarrow> cfg\<lparr>sc_MethodNotAllowed := h\<rparr> | None \<Rightarrow> cfg)"

definition WithErrorHandler :: "error_handler option \<Rightarrow> 'x server_option" where
  "WithErrorHandler handler cfg = (case handler of Some h \<Rightarrow> cfg\<lparr>sc_ErrorHandler := h\<rparr> | None \<Rightarrow> cfg)"

definition WithPathPrefix :: "string \<Rightarrow> 'x server_option" where
  "WithPathPrefix pre cfg = cfg\<lparr>sc_Prefix := pre\<rparr>"

definition WithMiddleware :: "('x list \<Rightarrow> 'x) \<Rightarrow> 'x list \<Rightarrow> 'x server_option" where
  "WithMiddleware chain m cfg =
     (case m of
        [] \<Rightarrow> cfg\<lparr>sc_Middleware := None\<rparr>
      | [x] \<Rightarrow> cfg\<lparr>sc_Middleware := Some x\<rparr>
      | _ \<Rightarrow> cfg\<lparr>sc_Middleware := Some (chain m)\<rparr>)"

definition WithMaxMultipartMemory :: "int64 \<Rightarrow> 'x server_option" where
  "WithMaxMultipartMemory limit cfg = (if 0 < sint limit then cfg\<lparr>sc_MaxMultipartMemory := limit\<rparr> else cfg)"

text \<open>\<open>http.NotFound\<close> and \<open>ogenerrors.DefaultErrorHandler\<close>.\<close>

record net_lib =
  http_NotFound :: not_found
  DefaultErrorHandler :: error_handler

definition default_config :: "net_lib \<Rightarrow> 'x server_config" where
  "default_config N =
     \<lparr>sc_Otel = zero_otel_config, sc_NotFound = http_NotFound N, sc_MethodNotAllowed = MethodNotAllowed,
      sc_ErrorHandler = DefaultErrorHandler N, sc_Prefix = '''', sc_Middleware = None,
      sc_MaxMultipartMemory = push_bit 20 32\<rparr>"

text \<open>\<open>for _, opt := range opts { opt.applyServer(&cfg) }\<close>\<close>

fun apply_options :: "('c \<Rightarrow> 'c) list \<Rightarrow> 'c \<Rightarrow> 'c" where
  "apply_options [] cfg = cfg"
| "apply_options (opt # opts) cfg = apply_options opts (opt cfg)"

definition newServerConfig :: "net_lib \<Rightarrow> otel_lib \<Rightarrow> 'x server_option list \<Rightarrow> 'x server_config" where
  "newServerConfig N L opts =
     (let cfg = apply_options opts (default_config N) in cfg\<lparr>sc_Otel := initOTEL L (sc_Otel cfg)\<rparr>)"

text \<open>The three instruments are made in turn; \<open>o.Meter\<close> was set by \<open>initOTEL\<close>.\<close>

definition instruments :: "(meter \<Rightarrow> string \<Rightarrow> (string, unit) outcome) \<Rightarrow> otel_config \<Rightarrow> (string, unit) outcome" where
  "instruments new cfg =
     (case otel_Meter cfg of
        None \<Rightarrow> Panic ''nil pointer''
      | Some m \<Rightarrow> bind_out (new m ''request_count'') (\<lambda>_. bind_out (new m ''errors_count'') (\<lambda>_. new m ''duration'')))"

definition baseServer :: "otel_lib \<Rightarrow> 'x server_config \<Rightarrow> (string, 'x server_config) outcome" where
  "baseServer L cfg = bind_out (instruments (ServerInstrument L) (sc_Otel cfg)) (\<lambda>_. Ok cfg)"

text \<open>The interface \<open>Handler\<close>.\<close>

record 'w api_handler =
  ah_CancelOrder :: "uuid \<Rightarrow> ('w, string, unit api_res) prog"
  ah_CreateOrder :: "create_order_request \<Rightarrow> ('w, string, create_order_response api_res) prog"
  ah_GetOrderByUUID :: "uuid \<Rightarrow> ('w, string, api_order api_res) prog"
  ah_PayOrder :: "pay_order_request \<Rightarrow> uuid \<Rightarrow> ('w, string, pay_order_response api_res) prog"

text \<open>
  The server that handles requests as theory \<open>Oapi_Server\<close> says, and the middleware that would stand
  in front of its handlers.
\<close>

definition server_of :: "http_lib \<Rightarrow> json_lib \<Rightarrow> 'w api_handler \<Rightarrow> 'x server_config \<Rightarrow> 'w server" where
  "server_of H J h cfg =
     \<lparr>sv_Http = H, sv_Json = J, sv_Prefix = sc_Prefix cfg, sv_ErrorHandler = sc_ErrorHandler cfg,
      sv_NotFound = sc_NotFound cfg, sv_MethodNotAllowed = sc_MethodNotAllowed cfg,
      sv_CancelOrder = ah_CancelOrder h, sv_CreateOrder = ah_CreateOrder h,
      sv_GetOrderByUUID = ah_GetOrderByUUID h, sv_PayOrder = ah_PayOrder h\<rparr>"

definition NewServer ::
  "net_lib \<Rightarrow> otel_lib \<Rightarrow> http_lib \<Rightarrow> json_lib \<Rightarrow> 'w api_handler \<Rightarrow> 'x server_option list \<Rightarrow>
   (string, 'w server \<times> 'x option) outcome" where
  "NewServer N L H J h opts =
     bind_out (baseServer L (newServerConfig N L opts)) (\<lambda>cfg. Ok (server_of H J h cfg, sc_Middleware cfg))"

text \<open>\<open>UnimplementedHandler\<close>; \<open>notImplemented\<close> is the text of \<open>ht.ErrNotImplemented\<close>.\<close>

definition UnimplementedHandler :: "string \<Rightarrow> 'w api_handler" where
  "UnimplementedHandler notImplemented =
     \<lparr>ah_CancelOrder = (\<lambda>_. fail notImplemented), ah_CreateOrder = (\<lambda>_. fail notImplemented),
      ah_GetOrderByUUID = (\<lambda>_. fail notImplemented), ah_PayOrder = (\<lambda>_ _. fail notImplemented)\<rparr>"

section \<open>The client\<close>

record 'c client_config =
  cc_Otel :: otel_config
  cc_Client :: 'c

type_synonym 'c client_option = "'c client_config \<Rightarrow> 'c client_config"

definition otel_applyClient :: "otel_option \<Rightarrow> 'c client_option" where
  "otel_applyClient opt c = c\<lparr>cc_Otel := opt (cc_Otel c)\<rparr>"

definition WithClient :: "'c option \<Rightarrow> 'c client_option" where
  "WithClient client cfg = (case client of Some c \<Rightarrow> cfg\<lparr>cc_Client := c\<rparr> | None \<Rightarrow> cfg)"

definition newClientConfig :: "'c \<Rightarrow> otel_lib \<Rightarrow> 'c client_option list \<Rightarrow> 'c client_config" where
  "newClientConfig defaultClient L opts =
     (let cfg = apply_options opts \<lparr>cc_Otel = zero_otel_config, cc_Client = defaultClient\<rparr> in
      cfg\<lparr>cc_Otel := initOTEL L (cc_Otel cfg)\<rparr>)"

definition baseClient :: "otel_lib \<Rightarrow> 'c client_config \<Rightarrow> (string, 'c client_config) outcome" where
  "baseClient L cfg = bind_out (instruments (ClientInstrument L) (cc_Otel cfg)) (\<lambda>_. Ok cfg)"

section \<open>What options amount to\<close>

lemma apply_options_append [simp]: "apply_options (xs @ ys) c = apply_options ys (apply_options xs c)"
  by (induction xs arbitrary: c) simp_all

text \<open>A nil argument changes nothing, and of two options for one field the last one counts.\<close>

lemma nil_options [simp]:
  "WithNotFound None cfg = cfg" "WithMethodNotAllowed None cfg = cfg" "WithErrorHandler None cfg = cfg"
  "otel_applyServer (WithTracerProvider None) cfg = cfg" "otel_applyServer (WithMeterProvider None) cfg = cfg"
  by (simp_all add: WithNotFound_def WithMethodNotAllowed_def WithErrorHandler_def otel_applyServer_def
      WithTracerProvider_def WithMeterProvider_def)

lemma last_option:
  "WithPathPrefix q (WithPathPrefix p cfg) = WithPathPrefix q cfg"
  "WithErrorHandler (Some g) (WithErrorHandler f cfg) = WithErrorHandler (Some g) cfg"
  "WithMiddleware chain ms (WithMiddleware chain ks cfg) = WithMiddleware chain ms cfg"
  by (simp_all add: WithPathPrefix_def WithErrorHandler_def WithMiddleware_def split: option.split list.split)

text \<open>Every other option leaves the prefix alone, so that it may stand anywhere.\<close>

lemma prefix_commutes:
  "WithPathPrefix p (WithNotFound f cfg) = WithNotFound f (WithPathPrefix p cfg)"
  "WithPathPrefix p (WithMethodNotAllowed g cfg) = WithMethodNotAllowed g (WithPathPrefix p cfg)"
  "WithPathPrefix p (WithErrorHandler h cfg) = WithErrorHandler h (WithPathPrefix p cfg)"
  "WithPathPrefix p (WithMaxMultipartMemory n cfg) = WithMaxMultipartMemory n (WithPathPrefix p cfg)"
  "WithPathPrefix p (otel_applyServer opt cfg) = otel_applyServer opt (WithPathPrefix p cfg)"
  by (simp_all add: WithPathPrefix_def WithNotFound_def WithMethodNotAllowed_def WithErrorHandler_def
      WithMaxMultipartMemory_def otel_applyServer_def split: option.split)

text \<open>\<open>NewServer\<close> fails only when an instrument cannot be made: there always is a meter.\<close>

lemma new_server_meter:
  "otel_Meter (sc_Otel (newServerConfig N L opts)) \<noteq> None" "otel_Tracer (sc_Otel (newServerConfig N L opts)) \<noteq> None"
  by (simp_all add: newServerConfig_def Let_def initOTEL_def)

lemma new_server_runs:
  assumes "\<And>m n. ServerInstrument L m n = Ok ()"
  shows "NewServer N L H J h opts =
    Ok (server_of H J h (newServerConfig N L opts), sc_Middleware (newServerConfig N L opts))"
  using assms new_server_meter(1) [of N L opts]
  by (auto simp: NewServer_def baseServer_def instruments_def bind_out_simps split: option.split)

lemma prefix_added:
  assumes "NewServer N L H J h opts = Ok (S, m)"
  shows "NewServer N L H J h (opts @ [WithPathPrefix p]) = Ok (S\<lparr>sv_Prefix := p\<rparr>, m)"
proof -
  let ?c = "newServerConfig N L opts" and ?d = "newServerConfig N L (opts @ [WithPathPrefix p])"
  have d: "?d = ?c\<lparr>sc_Prefix := p\<rparr>"
    by (simp add: newServerConfig_def WithPathPrefix_def Let_def)
  have "instruments (ServerInstrument L) (sc_Otel ?c) = Ok ()" and "S = server_of H J h ?c" "m = sc_Middleware ?c"
    using assms by (auto simp: NewServer_def baseServer_def bind_out_Ok)
  then show ?thesis
    by (simp add: NewServer_def baseServer_def bind_out_simps d server_of_def)
qed

section \<open>A prefix moves the API\<close>

text \<open>The handlers read neither the prefix of the server nor the URL of the request.\<close>

lemma refuse_alike [simp]: "refuse (S\<lparr>sv_Prefix := p\<rparr>) = refuse S"
  by (simp add: fun_eq_iff refuse_def)

lemma reply_with_alike [simp]: "reply_with (S\<lparr>sv_Prefix := p\<rparr>) = reply_with S"
  by (simp add: fun_eq_iff reply_with_def send_reply_def Let_def split: outcome.split option.split prod.split)

lemma decoders_alike [simp]:
  "decodeCreateOrderRequest H J (r\<lparr>rq_URL := u\<rparr>) = decodeCreateOrderRequest H J r"
  "decodePayOrderRequest H J (r\<lparr>rq_URL := u\<rparr>) = decodePayOrderRequest H J r"
  by (simp_all add: decodeCreateOrderRequest_def decodePayOrderRequest_def split: option.split)

lemma handled_alike [simp]:
  "handleCancelOrderRequest (S\<lparr>sv_Prefix := p\<rparr>) conn arg esc (r\<lparr>rq_URL := u\<rparr>) w = handleCancelOrderRequest S conn arg esc r w"
  "handleCreateOrderRequest (S\<lparr>sv_Prefix := p\<rparr>) conn (r\<lparr>rq_URL := u\<rparr>) w = handleCreateOrderRequest S conn r w"
  "handleGetOrderByUUIDRequest (S\<lparr>sv_Prefix := p\<rparr>) conn arg esc (r\<lparr>rq_URL := u\<rparr>) w = handleGetOrderByUUIDRequest S conn arg esc r w"
  "handlePayOrderRequest (S\<lparr>sv_Prefix := p\<rparr>) conn arg esc (r\<lparr>rq_URL := u\<rparr>) w = handlePayOrderRequest S conn arg esc r w"
  by (simp_all add: handleCancelOrderRequest_def handleCreateOrderRequest_def handleGetOrderByUUIDRequest_def
      handlePayOrderRequest_def Let_def split: outcome.split)

lemma ServeHTTP_prefix:
  assumes "request_elem norm u = (e, esc)" and "request_elem norm u' = (p @ e, esc)"
  shows "ServeHTTP norm p meth u' = ServeHTTP norm '''' meth u"
proof -
  have "cutPrefix p (p @ e) = Some e" "cutPrefix '''' e = Some e" by (simp_all add: cutPrefix_Some)
  then show ?thesis unfolding ServeHTTP_def assms by (simp only: Let_def prod.case option.case)
qed

lemma serve_prefix:
  assumes "request_elem (NormalizeEscapedPath (sv_Http S)) u = (e, esc)"
    and "request_elem (NormalizeEscapedPath (sv_Http S)) u' = (p @ e, esc)"
  shows "serve (S\<lparr>sv_Prefix := p\<rparr>) conn (r\<lparr>rq_URL := u'\<rparr>) = serve (S\<lparr>sv_Prefix := ''''\<rparr>) conn (r\<lparr>rq_URL := u\<rparr>)"
  using ServeHTTP_prefix [OF assms]
  by (simp add: fun_eq_iff serve_def split: dispatch.split operation.split)

lemma serve_outside:
  assumes "\<And>e. fst (request_elem (NormalizeEscapedPath (sv_Http S)) (rq_URL r)) \<noteq> sv_Prefix S @ e"
  shows "serve S conn r w = (w, \<lparr>hd_Writer = sv_NotFound S new_writer, hd_Events = [], hd_Panic = None\<rparr>)"
proof -
  obtain elem esc where elem: "request_elem (NormalizeEscapedPath (sv_Http S)) (rq_URL r) = (elem, esc)" by fastforce
  with assms have "cutPrefix (sv_Prefix S) elem = None"
    by (cases "cutPrefix (sv_Prefix S) elem") (simp_all add: cutPrefix_Some)
  then show ?thesis by (simp add: serve_def ServeHTTP_def elem)
qed

section \<open>The server of the order service\<close>

definition order_handler :: "'w order_deps \<Rightarrow> 'w api_handler" where
  "order_handler svc =
     \<lparr>ah_CancelOrder = CancelOrder_handler svc, ah_CreateOrder = CreateOrder_handler svc,
      ah_GetOrderByUUID = GetOrderByUUID_handler svc, ah_PayOrder = PayOrder_handler svc\<rparr>"

lemma order_server_new:
  "NewServer N L H J (order_handler svc) [] =
     bind_out (instruments (ServerInstrument L) (initOTEL L zero_otel_config))
       (\<lambda>_. Ok (order_server H J (DefaultErrorHandler N) (http_NotFound N) svc, None))"
  by (simp add: NewServer_def baseServer_def newServerConfig_def default_config_def Let_def order_server_def
      server_of_def order_handler_def bind_out_def split: outcome.split)

text \<open>With the handler of the generated code that implements nothing, no request has an effect.\<close>

lemma unimplemented_serves:
  assumes "sv_CancelOrder S = ah_CancelOrder (UnimplementedHandler t)" "sv_CreateOrder S = ah_CreateOrder (UnimplementedHandler t)"
    "sv_GetOrderByUUID S = ah_GetOrderByUUID (UnimplementedHandler t)" "sv_PayOrder S = ah_PayOrder (UnimplementedHandler t)"
  shows "fst (serve S conn r w) = w"
  using assms
  by (simp add: serve_def handleCancelOrderRequest_def handleCreateOrderRequest_def handleGetOrderByUUIDRequest_def
      handlePayOrderRequest_def reply_with_def UnimplementedHandler_def fail_def Let_def
      split: dispatch.split operation.split outcome.split)

end
