(* ===== verification/Oapi_Middleware.thy ===== *)
theory Oapi_Middleware
  imports Oapi_Config
begin

text \<open>
  What the generated code does with the configured middleware (the other branch of the four
  \<open>handle...Request\<close> functions, \<open>oas_handlers_gen.go\<close>, and the \<open>unpack...Params\<close> functions,
  \<open>oas_parameters_gen.go\<close>), with the labeler that a handler finds in its context
  (\<open>oas_labeler_gen.go\<close>), and with the server URL that a caller can put into the context of the client
  (\<open>oas_client_gen.go\<close>). ogen's \<open>HookMiddleware\<close>, applied to the configured middleware, is the record
  \<open>hooks\<close>, one field for each type that the generated code uses it at.
\<close>

section \<open>Packed parameters\<close>

text \<open>\<open>middleware.Parameters\<close> maps the name and the place of a parameter to a value of type \<open>any\<close>.\<close>

datatype param_value = UUIDValue uuid | OtherValue

type_synonym mw_parameters = "(string \<times> string) \<rightharpoonup> param_value"

definition interface_conversion :: string where
  "interface_conversion = ''interface conversion: interface {} is not uuid.UUID''"

definition unpack_order_uuid :: "mw_parameters \<Rightarrow> (string, uuid) outcome" where
  "unpack_order_uuid packed =
     (case packed (''order_uuid'', ''path'') of
        Some (UUIDValue u) \<Rightarrow> Ok u | _ \<Rightarrow> Panic interface_conversion)"

definition unpackCancelOrderParams :: "mw_parameters \<Rightarrow> (string, uuid) outcome" where
  "unpackCancelOrderParams packed = unpack_order_uuid packed"

definition unpackGetOrderByUUIDParams :: "mw_parameters \<Rightarrow> (string, uuid) outcome" where
  "unpackGetOrderByUUIDParams packed = unpack_order_uuid packed"

definition unpackPayOrderParams :: "mw_parameters \<Rightarrow> (string, uuid) outcome" where
  "unpackPayOrderParams packed = unpack_order_uuid packed"

lemmas unpack_defs = unpackCancelOrderParams_def unpackGetOrderByUUIDParams_def unpackPayOrderParams_def
  unpack_order_uuid_def

section \<open>The middleware branch\<close>

datatype mw_body = NoBody | CreateBody create_order_request | PayBody pay_order_request

record mw_request =
  mr_OperationName :: operation
  mr_OperationSummary :: string
  mr_OperationID :: string
  mr_Body :: mw_body
  mr_RawBody :: string \<comment> \<open>the bytes that the request decoder read\<close>
  mr_Params :: mw_parameters
  mr_Raw :: http_request

text \<open>
  \<open>HookMiddleware[Request, Params, Response](m, mreq, unpack, cb)\<close>, \<open>unpack\<close> may be nil.
\<close>

type_synonym ('w, 'req, 'ps, 'res) hook =
  "mw_request \<Rightarrow> (mw_parameters \<Rightarrow> (string, 'ps) outcome) option \<Rightarrow>
   ('req \<Rightarrow> 'ps \<Rightarrow> ('w, string, 'res) prog) \<Rightarrow> ('w, string, 'res) prog"

record 'w hooks =
  hk_CancelOrder :: "('w, unit, uuid, unit api_res) hook"
  hk_CreateOrder :: "('w, create_order_request, unit, create_order_response api_res) hook"
  hk_GetOrderByUUID :: "('w, unit, uuid, api_order api_res) hook"
  hk_PayOrder :: "('w, pay_order_request, uuid, pay_order_response api_res) hook"

definition raw_body :: "http_request \<Rightarrow> string" where
  "raw_body r = (case rq_Body r of Some buf \<Rightarrow> buf | None \<Rightarrow> '''')"

definition CancelOrder_stage ::
  "'w hooks option \<Rightarrow> http_request \<Rightarrow> (uuid \<Rightarrow> ('w, string, unit api_res) prog) \<Rightarrow> uuid \<Rightarrow> ('w, string, unit api_res) prog" where
  "CancelOrder_stage m r h params =
     (case m of
        Some k \<Rightarrow> hk_CancelOrder k
          \<lparr>mr_OperationName = CancelOrderOperation, mr_OperationSummary = ''Cancel an order'', mr_OperationID = ''CancelOrder'',
           mr_Body = NoBody, mr_RawBody = '''', mr_Params = [(''order_uuid'', ''path'') \<mapsto> UUIDValue params], mr_Raw = r\<rparr>
          (Some unpackCancelOrderParams) (\<lambda>request params. h params)
      | None \<Rightarrow> h params)"

definition CreateOrder_stage ::
  "'w hooks option \<Rightarrow> http_request \<Rightarrow> (create_order_request \<Rightarrow> ('w, string, create_order_response api_res) prog) \<Rightarrow>
   create_order_request \<Rightarrow> ('w, string, create_order_response api_res) prog" where
  "CreateOrder_stage m r h request =
     (case m of
        Some k \<Rightarrow> hk_CreateOrder k
          \<lparr>mr_OperationName = CreateOrderOperation, mr_OperationSummary = ''Create an order'', mr_OperationID = ''CreateOrder'',
           mr_Body = CreateBody request, mr_RawBody = raw_body r, mr_Params = Map.empty, mr_Raw = r\<rparr>
          None (\<lambda>request params. h request)
      | None \<Rightarrow> h request)"

definition GetOrderByUUID_stage ::
  "'w hooks option \<Rightarrow> http_request \<Rightarrow> (uuid \<Rightarrow> ('w, string, api_order api_res) prog) \<Rightarrow> uuid \<Rightarrow> ('w, string, api_order api_res) prog" where
  "GetOrderByUUID_stage m r h params =
     (case m of
        Some k \<Rightarrow> hk_GetOrderByUUID k
          \<lparr>mr_OperationName = GetOrderByUUIDOperation, mr_OperationSummary = ''Get order by UUID'', mr_OperationID = ''GetOrderByUUID'',
           mr_Body = NoBody, mr_RawBody = '''', mr_Params = [(''order_uuid'', ''path'') \<mapsto> UUIDValue params], mr_Raw = r\<rparr>
          (Some unpackGetOrderByUUIDParams) (\<lambda>request params. h params)
      | None \<Rightarrow> h params)"

definition PayOrder_stage ::
  "'w hooks option \<Rightarrow> http_request \<Rightarrow> (pay_order_request \<Rightarrow> uuid \<Rightarrow> ('w, string, pay_order_response api_res) prog) \<Rightarrow>
   pay_order_request \<Rightarrow> uuid \<Rightarrow> ('w, string, pay_order_response api_res) prog" where
  "PayOrder_stage m r h request params =
     (case m of
        Some k \<Rightarrow> hk_PayOrder k
          \<lparr>mr_OperationName = PayOrderOperation, mr_OperationSummary = ''Pay for an order'', mr_OperationID = ''PayOrder'',
           mr_Body = PayBody request, mr_RawBody = raw_body r, mr_Params = [(''order_uuid'', ''path'') \<mapsto> UUIDValue params], mr_Raw = r\<rparr>
          (Some unpackPayOrderParams) (\<lambda>request params. h request params)
      | None \<Rightarrow> h request params)"

lemmas stage_defs = CancelOrder_stage_def CreateOrder_stage_def GetOrderByUUID_stage_def PayOrder_stage_def

text \<open>
  The middleware stands where the four functions call the handler, between the decoded request and
  the encoded response, and its error goes the way of the handler's error.
\<close>

definition hooked :: "'w hooks option \<Rightarrow> http_request \<Rightarrow> 'w server \<Rightarrow> 'w server" where
  "hooked m r S = S\<lparr>sv_CancelOrder := CancelOrder_stage m r (sv_CancelOrder S),
     sv_CreateOrder := CreateOrder_stage m r (sv_CreateOrder S),
     sv_GetOrderByUUID := GetOrderByUUID_stage m r (sv_GetOrderByUUID S),
     sv_PayOrder := PayOrder_stage m r (sv_PayOrder S)\<rparr>"

definition serve_with :: "'w hooks option \<Rightarrow> 'w server \<Rightarrow> bool \<Rightarrow> http_request \<Rightarrow> 'w \<Rightarrow> 'w \<times> handled" where
  "serve_with m S conn r = serve (hooked m r S) conn r"

lemma no_stages:
  "CancelOrder_stage None r h = h" "CreateOrder_stage None r h' = h'"
  "GetOrderByUUID_stage None r h'' = h''" "PayOrder_stage None r h3 = h3"
  by (simp_all add: fun_eq_iff stage_defs)

lemma serve_without: "serve_with None S = serve S"
  by (simp add: fun_eq_iff serve_with_def hooked_def no_stages)

section \<open>Middlewares that pass requests on\<close>

text \<open>
  What \<open>HookMiddleware\<close> does where every middleware calls the next one with its request and returns the
  response that it is given: the callback gets the body and the unpacked parameters.
\<close>

locale passing_hooks =
  fixes k :: "'w hooks"
  assumes cancel: "hk_CancelOrder k q (Some unpack) cb w =
      (case unpack (mr_Params q) of Ok ps \<Rightarrow> cb () ps w | Err e \<Rightarrow> (w, Err e) | Panic p \<Rightarrow> (w, Panic p))"
    and create: "mr_Body q = CreateBody req \<Longrightarrow> hk_CreateOrder k q None cb' w = cb' req () w"
    and get: "hk_GetOrderByUUID k q (Some unpack) cb'' w =
      (case unpack (mr_Params q) of Ok ps \<Rightarrow> cb'' () ps w | Err e \<Rightarrow> (w, Err e) | Panic p \<Rightarrow> (w, Panic p))"
    and pay: "mr_Body q = PayBody preq \<Longrightarrow> hk_PayOrder k q (Some unpack) cb3 w =
      (case unpack (mr_Params q) of Ok ps \<Rightarrow> cb3 preq ps w | Err e \<Rightarrow> (w, Err e) | Panic p \<Rightarrow> (w, Panic p))"
begin

lemma stages:
  "CancelOrder_stage (Some k) r h = h" "CreateOrder_stage (Some k) r h' = h'"
  "GetOrderByUUID_stage (Some k) r h'' = h''" "PayOrder_stage (Some k) r h3 = h3"
  by (simp_all add: fun_eq_iff stage_defs cancel create get pay unpack_defs)

lemma serve_passing: "serve_with (Some k) S = serve S"
  by (simp add: fun_eq_iff serve_with_def hooked_def stages)

end

text \<open>The hooks of a middleware that only calls the next one.\<close>

definition unpacked :: "(mw_parameters \<Rightarrow> (string, 'ps) outcome) option \<Rightarrow> 'ps \<Rightarrow> mw_request \<Rightarrow> (string, 'ps) outcome" where
  "unpacked unpack zero q = (case unpack of Some f \<Rightarrow> f (mr_Params q) | None \<Rightarrow> Ok zero)"

definition plain_hooks :: "'w hooks" where
  "plain_hooks = \<lparr>
     hk_CancelOrder = (\<lambda>q unpack cb. call (lift (unpacked unpack 0 q)) id (\<lambda>ps. cb () ps)),
     hk_CreateOrder = (\<lambda>q unpack cb. call (lift (unpacked unpack () q)) id (\<lambda>ps.
       cb (case mr_Body q of CreateBody req \<Rightarrow> req | _ \<Rightarrow> zero_create_order_request) ps)),
     hk_GetOrderByUUID = (\<lambda>q unpack cb. call (lift (unpacked unpack 0 q)) id (\<lambda>ps. cb () ps)),
     hk_PayOrder = (\<lambda>q unpack cb. call (lift (unpacked unpack 0 q)) id (\<lambda>ps.
       cb (case mr_Body q of PayBody req \<Rightarrow> req | _ \<Rightarrow> zero_pay_order_request) ps))\<rparr>"

interpretation plain: passing_hooks plain_hooks
  by unfold_locales (simp_all add: plain_hooks_def unpacked_def call_def lift_def split: outcome.splits)

text \<open>
  A middleware that refuses: what it answers for all operations, without calling the next one. No
  handler runs, and the request is counted and answered as one whose handler failed.
\<close>

definition refusing_hooks :: "string \<Rightarrow> 'w hooks" where
  "refusing_hooks e = \<lparr>hk_CancelOrder = (\<lambda>_ _ _. fail e), hk_CreateOrder = (\<lambda>_ _ _. fail e),
     hk_GetOrderByUUID = (\<lambda>_ _ _. fail e), hk_PayOrder = (\<lambda>_ _ _. fail e)\<rparr>"

lemma serve_refusing:
  assumes "decoded_call S r = Some (Ok c)"
  shows "serve_with (Some (refusing_hooks e)) S conn r w = (w, refuse S new_writer [] (InternalError e))"
proof -
  have "refuse (hooked m r S) = refuse S" for m by (simp add: fun_eq_iff refuse_def hooked_def)
  then show ?thesis
    using assms
    by (auto simp: serve_with_def serve_def decoded_call_def with_error_def Let_def handle_defs reply_with_def
        hooked_def stage_defs refusing_hooks_def fail_def split: dispatch.splits operation.splits outcome.splits)
qed

section \<open>Contexts\<close>

text \<open>
  The labeler is a pointer: the stopwatch of the request and the handler, which takes it out of the
  context, share it. \<open>heap\<close> has the attributes behind each pointer.
\<close>

type_synonym attribute_kv = "string \<times> string"

record oas_ctx =
  cx_Labeler :: "nat option"
  cx_ServerURL :: "url option"

definition Labeler_Add :: "nat \<Rightarrow> attribute_kv list \<Rightarrow> (nat \<rightharpoonup> attribute_kv list) \<Rightarrow> (nat \<rightharpoonup> attribute_kv list)" where
  "Labeler_Add l attrs heap = (case heap l of Some kvs \<Rightarrow> heap(l \<mapsto> kvs @ attrs) | None \<Rightarrow> heap)"

text \<open>\<open>attribute.NewSet\<close> keeps the last value of a key.\<close>

definition AttributeSet :: "nat \<Rightarrow> (nat \<rightharpoonup> attribute_kv list) \<Rightarrow> string \<rightharpoonup> string" where
  "AttributeSet l heap = map_of (rev (case heap l of Some kvs \<Rightarrow> kvs | None \<Rightarrow> []))"

definition contextWithLabeler :: "oas_ctx \<Rightarrow> nat \<Rightarrow> oas_ctx" where
  "contextWithLabeler ctx l = ctx\<lparr>cx_Labeler := Some l\<rparr>"

text \<open>\<open>fresh\<close> is where the new, empty labeler is allocated.\<close>

definition LabelerFromContext ::
  "nat \<Rightarrow> oas_ctx \<Rightarrow> (nat \<rightharpoonup> attribute_kv list) \<Rightarrow> (nat \<rightharpoonup> attribute_kv list) \<times> nat \<times> bool" where
  "LabelerFromContext fresh ctx heap =
     (case cx_Labeler ctx of Some l \<Rightarrow> (heap, l, True) | None \<Rightarrow> (heap(fresh \<mapsto> []), fresh, False))"

text \<open>What a handler adds reaches the counters of its own request, and of no other.\<close>

lemma labels_reach_request:
  assumes "heap l = Some kvs" and "LabelerFromContext fresh (contextWithLabeler ctx l) heap = (heap1, l1, found)"
  shows "found \<and> AttributeSet l (Labeler_Add l1 attrs heap1) = map_of (rev (kvs @ attrs))"
    and "l' \<noteq> l \<Longrightarrow> AttributeSet l' (Labeler_Add l1 attrs heap1) = AttributeSet l' heap"
  using assms by (auto simp: LabelerFromContext_def contextWithLabeler_def Labeler_Add_def AttributeSet_def)

lemma labels_without_labeler:
  assumes "cx_Labeler ctx = None" and "LabelerFromContext fresh ctx heap = (heap1, l1, found)" and "l \<noteq> fresh"
  shows "\<not> found \<and> AttributeSet l (Labeler_Add l1 attrs heap1) = AttributeSet l heap"
  using assms by (auto simp: LabelerFromContext_def Labeler_Add_def AttributeSet_def)

section \<open>The client's methods\<close>

definition WithServerURL :: "oas_ctx \<Rightarrow> url \<Rightarrow> oas_ctx" where
  "WithServerURL ctx u = ctx\<lparr>cx_ServerURL := Some u\<rparr>"

definition requestURL :: "'w client \<Rightarrow> oas_ctx \<Rightarrow> url" where
  "requestURL C ctx = (case cx_ServerURL ctx of None \<Rightarrow> cl_ServerURL C | Some u \<Rightarrow> u)"

definition at_server :: "oas_ctx \<Rightarrow> 'w client \<Rightarrow> 'w client" where
  "at_server ctx C = C\<lparr>cl_ServerURL := requestURL C ctx\<rparr>"

definition client_CancelOrder :: "'w client \<Rightarrow> oas_ctx \<Rightarrow> uuid \<Rightarrow> ('w, client_error, unit api_res) prog" where
  "client_CancelOrder C ctx params = sendCancelOrder (at_server ctx C) params"

definition client_CreateOrder ::
  "'w client \<Rightarrow> oas_ctx \<Rightarrow> create_order_request \<Rightarrow> ('w, client_error, create_order_response api_res) prog" where
  "client_CreateOrder C ctx request = sendCreateOrder (at_server ctx C) request"

definition client_GetOrderByUUID :: "'w client \<Rightarrow> oas_ctx \<Rightarrow> uuid \<Rightarrow> ('w, client_error, api_order api_res) prog" where
  "client_GetOrderByUUID C ctx params = sendGetOrderByUUID (at_server ctx C) params"

definition client_PayOrder ::
  "'w client \<Rightarrow> oas_ctx \<Rightarrow> pay_order_request \<Rightarrow> uuid \<Rightarrow> ('w, client_error, pay_order_response api_res) prog" where
  "client_PayOrder C ctx request params = sendPayOrder (at_server ctx C) request params"

lemma at_server_plain: "cx_ServerURL ctx = None \<Longrightarrow> at_server ctx C = C"
  by (simp add: at_server_def requestURL_def)

text \<open>
  \<open>NewClient\<close> trims the slashes at the end of its URL; \<open>WithServerURL\<close> takes the URL as it is, so that the
  two agree exactly on URLs without a slash at the end.
\<close>

lemma server_url_not_trimmed:
  "requestURL C (WithServerURL ctx u) = trimTrailingSlashes u \<longleftrightarrow> u = trimTrailingSlashes u"
  by (simp add: requestURL_def WithServerURL_def)

end
