(* ===== verification/Api_Properties.thy ===== *)
theory Api_Properties
  imports Oapi_Schemas Oapi_Middleware Demo
begin

text \<open>
  The properties of the generated JSON code, server and client: what a decoder accepts and which
  fields it reports missing, that a value survives the trip over the wire, that a client of the
  generated API sees what the order service computed, what the server does with a request it
  cannot read, that the structs of optional fields are the values the model uses, and what the options
  of a server amount to.
\<close>

text \<open>
  C37. The generated decoders, which walk an object once, mark each required field in a bit set and
  read the missing ones out of the mask bit by bit, accept exactly the objects in which every
  occurrence of a known field has the right type and no required field is missing; unknown fields
  are skipped and of duplicate fields the last one counts. When only required fields are missing,
  the error names exactly those, in the order of the schema.
\<close>

theorem decoders_exact:
  "success (CreateOrderRequest_Decode J zero_create_order_request d) = CreateOrderRequest_reference J d \<and>
   success (PayOrderRequest_Decode zero_pay_order_request d) = PayOrderRequest_reference d \<and>
   success (Order_Decode J zero_api_order d) = Order_reference J d \<and>
   (CreateOrderRequest_Decode J zero_create_order_request (JObj kvs) = Err (FieldErrors ms) \<longleftrightarrow>
      CreateOrderRequest_typed J kvs \<and> ms = lacking [''user_uuid'', ''part_uuids''] kvs \<and> ms \<noteq> []) \<and>
   (Order_Decode J zero_api_order (JObj kvs) = Err (FieldErrors ms) \<longleftrightarrow>
      Order_typed J kvs \<and>
      ms = lacking [''order_uuid'', ''user_uuid'', ''part_uuids'', ''total_price'', ''status''] kvs \<and> ms \<noteq> [])"
  using walk_success [OF CreateOrderRequest_walk] walk_success [OF Order_walk]
  by (simp add: CreateOrderRequest_Decode_exact PayOrderRequest_Decode_exact Order_Decode_exact
      CreateOrderRequest_required Order_required accept_FieldErrors)

text \<open>
  C38. Over the text on the wire: what one side of the API encodes, the other decodes to the same
  value, for both requests, the three success responses and all ten error structs. The one change
  is that a nil \<open>part_uuids\<close> arrives as an empty slice.
\<close>

theorem wire_roundtrip:
  assumes "json_codec J"
  shows "decode_body J (CreateOrderRequest_Decode J zero_create_order_request)
      (jx_Write J (CreateOrderRequest_Encode J q)) = Ok (made_request q) \<and>
    (PayOrderRequest_Validate p = [] \<longrightarrow>
      decode_body J (PayOrderRequest_Decode zero_pay_order_request) (jx_Write J (PayOrderRequest_Encode p)) = Ok p) \<and>
    (CreateOrderResponse_Validate c = [] \<longrightarrow>
      decode_body J (CreateOrderResponse_Decode J zero_create_order_response)
        (jx_Write J (CreateOrderResponse_Encode J c)) = Ok c) \<and>
    decode_body J (PayOrderResponse_Decode J zero_pay_order_response)
      (jx_Write J (PayOrderResponse_Encode J t)) = Ok t \<and>
    (Order_Validate (made_order r) = [] \<longrightarrow>
      decode_body J (Order_Decode J zero_api_order) (jx_Write J (Order_Encode J r)) = Ok (made_order r)) \<and>
    (error_sendable e \<longrightarrow>
      decode_body J (api_error_Decode J (ae_Type e)) (jx_Write J (api_error_Encode J e)) = Ok e)"
  using assms
  by (simp_all add: json_codec.decode_body_write json_codec.CreateOrderRequest_ok json_codec.PayOrderRequest_ok
      json_codec.CreateOrderResponse_ok json_codec.PayOrderResponse_ok json_codec.Order_ok json_codec.api_error_ok
      json_codec.CreateOrderRequest_roundtrip json_codec.PayOrderRequest_roundtrip
      json_codec.CreateOrderResponse_roundtrip json_codec.PayOrderResponse_roundtrip json_codec.Order_roundtrip
      json_codec.api_error_roundtrip error_sendable_def)

theorem wire_roundtrip_witness:
  "let J = compact_json canonical_uuid; q = \<lparr>cor_UserUUID = 2, cor_PartUuids = None\<rparr>;
       p = \<lparr>por_PaymentMethod = ''PAYMENT_METHOD_SBP''\<rparr>;
       e = \<lparr>ae_Type = ValidationError, ae_Code = Some 400, ae_Message = None, ae_Details = Some [''user'']\<rparr> in
   decode_body J (CreateOrderRequest_Decode J zero_create_order_request) (jx_Write J (CreateOrderRequest_Encode J q)) =
     Ok \<lparr>cor_UserUUID = 2, cor_PartUuids = Some []\<rparr> \<and>
   decode_body J (PayOrderRequest_Decode zero_pay_order_request) (jx_Write J (PayOrderRequest_Encode p)) = Ok p \<and>
   decode_body J (api_error_Decode J ValidationError) (jx_Write J (api_error_Encode J e)) = Ok e"
proof -
  let ?p = "\<lparr>por_PaymentMethod = ''PAYMENT_METHOD_SBP''\<rparr>"
  let ?e = "\<lparr>ae_Type = ValidationError, ae_Code = Some 400, ae_Message = None, ae_Details = Some [''user'']\<rparr>"
  have "PayOrderRequest_Validate ?p = []" "error_sendable ?e"
    by (simp_all add: PayOrderRequest_Validate_def PaymentMethod_Validate_def error_sendable_def error_shape_def
        ascii_def is_ascii_def)
  then show ?thesis
    using wire_roundtrip [OF compact.json_codec_axioms, where q = "\<lparr>cor_UserUUID = 2, cor_PartUuids = None\<rparr>"
        and p = ?p and e = ?e]
    by (simp add: made_request_def made_def Let_def)
qed

text \<open>
  C39. A program that calls the order service through the generated client, over the generated
  server, gets exactly what the service computed, and the service runs once on the arguments the
  caller gave: the value of a success and the mapped error of a failure, for all four operations.
\<close>

theorem client_sees_service:
  assumes "json_codec J" and "http_wire H" and "uuid_codec (uuids svc)"
    and "C = api_client H J onError notFound svc"
  shows
    "(case Create svc (CreateOrderRequestToParams q) w of
        (w1, Ok res) \<Rightarrow> sint (cr_TotalPrice res) \<noteq> - (2 ^ 63) \<longrightarrow>
          sendCreateOrder C q w = (w1, Ok (ApiOk (CreateOrderResultToResponse res)))
      | (w1, Err e) \<Rightarrow> sendable_error e \<longrightarrow> sendCreateOrder C q w = (w1, Ok (mapErrorToCreateOrderRes e))
      | _ \<Rightarrow> True) \<and>
     (case Pay svc (PayOrderRequestToParams u p) w of
        (w1, Ok res) \<Rightarrow> PayOrderRequest_Validate p = [] \<longrightarrow>
          sendPayOrder C p u w = (w1, Ok (ApiOk (PayOrderResultToResponse res)))
      | (w1, Err e) \<Rightarrow> PayOrderRequest_Validate p = [] \<and> sendable_error e \<longrightarrow>
          sendPayOrder C p u w = (w1, Ok (mapErrorToPayOrderRes e))
      | _ \<Rightarrow> True) \<and>
     (case OrderByID svc u w of
        (w1, Ok r) \<Rightarrow> row_check r \<and> list_all PaymentMethod_Validate (case ord_PaymentMethod r of Some m \<Rightarrow> [m] | None \<Rightarrow> []) \<longrightarrow>
          sendGetOrderByUUID C u w = (w1, Ok (ApiOk (made_order (OrderToOAPI r))))
      | (w1, Err e) \<Rightarrow> sendable_error e \<longrightarrow> sendGetOrderByUUID C u w = (w1, Ok (mapErrorToGetOrderRes e))
      | _ \<Rightarrow> True) \<and>
     (case Cancel svc u w of
        (w1, Ok x) \<Rightarrow> sendCancelOrder C u w = (w1, Ok (ApiOk x))
      | (w1, Err e) \<Rightarrow> sendable_error e \<longrightarrow> sendCancelOrder C u w = (w1, Ok (mapErrorToCancelOrderRes e))
      | _ \<Rightarrow> True)"
  unfolding assms(4)
  by (intro conjI; auto split: prod.splits outcome.splits
      intro!: client_create client_pay client_get client_cancel assms(1-3))

theorem client_sees_service_witness:
  "\<exists>s. sendPayOrder (api_client (plain_http canonical_uuid) (compact_json canonical_uuid) (\<lambda>_ rw. rw) id order_svc)
     \<lparr>por_PaymentMethod = ''PAYMENT_METHOD_CARD''\<rparr> 1 demo = (s, Ok (ApiOk \<lparr>pos_TransactionUUID = 9\<rparr>))"
proof -
  let ?p = "\<lparr>por_PaymentMethod = ''PAYMENT_METHOD_CARD''\<rparr>"
  have params: "PayOrderRequestToParams 1 ?p = demo_pay"
    by (simp add: PayOrderRequestToParams_def demo_pay_def OAPIToPaymentMethod_def payment_method_defs)
  obtain s where run: "Pay order_svc demo_pay demo = (s, Ok \<lparr>pr_TransactionID = 9\<rparr>)"
    using demo_pays by blast
  have "uuid_codec (uuids order_svc)" by (simp add: canon.uuid_codec_axioms)
  from client_sees_service [OF compact.json_codec_axioms plain.http_wire_axioms this refl,
      where w = demo and u = 1 and p = ?p and onError = "\<lambda>_ rw. rw" and notFound = id] run
  show ?thesis
    by (auto simp: params PayOrderResultToResponse_def PayOrderRequest_Validate_def PaymentMethod_Validate_def)
qed

text \<open>
  C40. Whatever is sent to the server: a request that no operation matches, or whose path parameter
  or body cannot be decoded or fails validation, changes nothing and, if an operation was meant, is
  answered by the error handler alone; any other request runs its handler once on the decoded
  arguments. Every handled request is counted exactly once in the request metric, at most once in
  the error metric, and a panic of a handler does not lose the count.
\<close>

theorem server_exact:
  "case serve S conn r w of (w1, h) \<Rightarrow>
     (case decoded_call S r of
        None \<Rightarrow> w1 = w \<and> hd_Events h = []
      | Some (Ok c) \<Rightarrow> w1 = run_call S c w \<and> counts_once h
      | Some (Err e) \<Rightarrow> w1 = w \<and> refused_with S e h \<and> counts_once h
      | Some (Panic p) \<Rightarrow> w1 = w \<and> hd_Panic h = Some p \<and> counts_once h)"
  using serve_call by (cases "serve S conn r w") fastforce

text \<open>
  C16. The structs behind optional fields (\<open>Value\<close>, \<open>Set\<close>, \<open>Null\<close>) implement the values that the API
  describes: after any sequence of \<open>Reset\<close>, \<open>SetTo\<close>, \<open>SetToNull\<close> and \<open>Decode\<close>, failed ones included, all
  methods show one value, absent, null or set, and \<open>Encode\<close> and \<open>Decode\<close> write and read that value. The
  text form of the two enumerations is defined exactly on the values that the validator accepts, and a
  text that is refused leaves the value as it was.
\<close>

theorem optional_fields:
  "shown_as 0 OptNilUUID (fold (call_struct 0 (dec_UUID J)) cs (zero_opt_nil 0)) (fold (call_view 0 (dec_UUID J)) cs Unset) \<and>
   shown_as [] OptNilPaymentMethod (fold (call_struct [] PaymentMethod_Decode) ks (zero_opt_nil []))
     (fold (call_view [] PaymentMethod_Decode) ks Unset) \<and>
   OptNilUUID_EncodeFrom J u = OptNilUUID_Encode J (of_opt_nil u) \<and>
   decoded_as of_opt_nil (OptNilUUID_DecodeTo J d u) = OptNilUUID_Decode J d \<and>
   OptNilPaymentMethod_EncodeFrom m = OptNilPaymentMethod_Encode (of_opt_nil m) \<and>
   decoded_as of_opt_nil (OptNilPaymentMethod_DecodeTo d m) = OptNilPaymentMethod_Decode d \<and>
   OptInt32_EncodeFrom J i = OptInt32_Encode J (of_opt i) \<and>
   decoded_as of_opt (OptInt32_DecodeTo J d i) = OptInt32_Decode J d \<and>
   OptString_EncodeFrom t = OptString_Encode (of_opt t) \<and>
   decoded_as of_opt (OptString_DecodeTo d t) = OptString_Decode d \<and>
   OrderStatus_MarshalText Q v = (if OrderStatus_Validate v then Ok v else Err (invalid_value Q v)) \<and>
   OrderStatus_UnmarshalText Q b v = (if OrderStatus_Validate b then (b, Ok ()) else (v, Err (invalid_value Q b))) \<and>
   PaymentMethod_MarshalText Q v = (if PaymentMethod_Validate v then Ok v else Err (invalid_value Q v)) \<and>
   PaymentMethod_UnmarshalText Q b v = (if PaymentMethod_Validate b then (b, Ok ()) else (v, Err (invalid_value Q b)))"
  unfolding OptNilUUID_def OptNilPaymentMethod_def
  by (intro conjI calls_shown optnil_methods_optional encode_from_struct decode_to_struct enum_marshal enum_unmarshal)

text \<open>
  C20. A path prefix moves the API and changes nothing else: the server made with \<open>WithPathPrefix\<close> after
  any options is the server made with those options under the new prefix; on a path that starts with it,
  it does what the server without a prefix does on the rest, and every other path is not found, without
  effect. Without options, \<open>NewServer\<close> on the handlers of the order service gives the server of the other
  properties. Middlewares that pass requests on change nothing, whatever the request; one that refuses is
  seen by the client as a failed handler, which did not run.
\<close>

theorem options_keep_api:
  assumes "NewServer N L H J h opts = Ok (S, m)" and "passing_hooks k"
  shows "NewServer N L H J h (opts @ [WithPathPrefix p]) = Ok (S\<lparr>sv_Prefix := p\<rparr>, m) \<and>
    (request_elem (NormalizeEscapedPath H) u = (e, esc) \<and> request_elem (NormalizeEscapedPath H) u' = (p @ e, esc) \<longrightarrow>
      serve (S\<lparr>sv_Prefix := p\<rparr>) conn (r\<lparr>rq_URL := u'\<rparr>) w = serve (S\<lparr>sv_Prefix := []\<rparr>) conn (r\<lparr>rq_URL := u\<rparr>) w) \<and>
    ((\<nexists>e. fst (request_elem (NormalizeEscapedPath H) (rq_URL r)) = p @ e) \<longrightarrow>
      serve (S\<lparr>sv_Prefix := p\<rparr>) conn r w = (w, \<lparr>hd_Writer = sv_NotFound S new_writer, hd_Events = [], hd_Panic = None\<rparr>)) \<and>
    (instruments (ServerInstrument L) (initOTEL L zero_otel_config) = Ok () \<longrightarrow>
      NewServer N L H J (order_handler svc) [] = Ok (order_server H J (DefaultErrorHandler N) (http_NotFound N) svc, None)) \<and>
    serve_with (Some k) S conn r w = serve_with None S conn r w \<and> serve_with None S conn r w = serve S conn r w \<and>
    (decoded_call S r = Some (Ok c) \<longrightarrow>
      serve_with (Some (refusing_hooks t)) S conn r w = (w, refuse S new_writer [] (InternalError t)))"
proof -
  have H: "sv_Http S = H"
    using assms(1) by (auto simp: NewServer_def baseServer_def bind_out_Ok server_of_def)
  show ?thesis
    using prefix_added [OF assms(1)] passing_hooks.serve_passing [OF assms(2)] serve_refusing [of S r c t conn w] serve_prefix [of S u e esc u' p conn r] serve_outside [of "S\<lparr>sv_Prefix := p\<rparr>" r conn w]
    by (simp add: H order_server_new bind_out_simps serve_without)
qed

definition demo_net :: net_lib where
  "demo_net = \<lparr>http_NotFound = WriteHeader 404, DefaultErrorHandler = (\<lambda>_. WriteHeader 400)\<rparr>"

definition demo_otel :: otel_lib where
  "demo_otel = \<lparr>GetTracerProvider = TracerProvider 0, GetMeterProvider = MeterProvider 0,
     ServerInstrument = (\<lambda>_ _. Ok ()), ClientInstrument = (\<lambda>_ _. Ok ())\<rparr>"

theorem options_keep_api_witness:
  "let H = plain_http canonical_uuid; J = compact_json canonical_uuid;
       r = plain_request ''POST'' \<lparr>url_Path = ''/api/v1/orders'', url_RawPath = ''''\<rparr> in
   \<exists>S S'. NewServer demo_net demo_otel H J (order_handler order_svc) [] = Ok (S, None :: unit option) \<and>
     NewServer demo_net demo_otel H J (order_handler order_svc) [WithPathPrefix ''/rocket''] = Ok (S', None :: unit option) \<and>
     serve S' True (r\<lparr>rq_URL := \<lparr>url_Path = ''/rocket/api/v1/orders'', url_RawPath = ''''\<rparr>\<rparr>) demo = serve S True r demo \<and>
     fst (serve S' True r demo) = demo"
proof -
  let ?H = "plain_http canonical_uuid" and ?J = "compact_json canonical_uuid"
  let ?S = "order_server ?H ?J (DefaultErrorHandler demo_net) (http_NotFound demo_net) order_svc"
  let ?u = "\<lparr>url_Path = ''/api/v1/orders'', url_RawPath = ''''\<rparr>"
  let ?r = "plain_request ''POST'' ?u" and ?u' = "\<lparr>url_Path = ''/rocket/api/v1/orders'', url_RawPath = ''''\<rparr>"
  have S: "NewServer demo_net demo_otel ?H ?J (order_handler order_svc) [] = Ok (?S, None :: unit option)"
    by (simp add: order_server_new demo_otel_def instruments_def initOTEL_def zero_otel_config_def Let_def bind_out_simps)
  have plain: "?S\<lparr>sv_Prefix := []\<rparr> = ?S" "?r\<lparr>rq_URL := ?u\<rparr> = ?r"
    by (simp_all add: order_server_def plain_request_def)
  have elem: "request_elem n ?u = (''/api/v1/orders'', False)" "request_elem n ?u' = (''/rocket'' @ ''/api/v1/orders'', False)"
    "rq_URL ?r = ?u" for n
    by (simp_all add: request_elem_def plain_request_def)
  have "\<nexists>e. fst (request_elem (NormalizeEscapedPath ?H) (rq_URL ?r)) = ''/rocket'' @ e"
    unfolding elem by simp
  with options_keep_api [OF S plain.passing_hooks_axioms, of "''/rocket''" ?u "''/api/v1/orders''" False ?u' True ?r demo order_svc "CallGet 1" "''denied''"] elem(1,2)
  have "NewServer demo_net demo_otel ?H ?J (order_handler order_svc) [WithPathPrefix ''/rocket''] =
      Ok (?S\<lparr>sv_Prefix := ''/rocket''\<rparr>, None :: unit option)"
    and "serve (?S\<lparr>sv_Prefix := ''/rocket''\<rparr>) True (?r\<lparr>rq_URL := ?u'\<rparr>) demo = serve ?S True ?r demo"
    and "fst (serve (?S\<lparr>sv_Prefix := ''/rocket''\<rparr>) True ?r demo) = demo"
    by (simp_all only: plain append_Nil simp_thms) (elim conjE, assumption, elim conjE, assumption, elim conjE, simp only: fst_conv)
  with S show ?thesis unfolding Let_def by blast
qed

end
