(* ===== verification/Containers.thy ===== *)
theory Containers
  imports Prelude
begin

text \<open>
  The lazy dependency containers of the five services (\<open>internal/app/di.go\<close>). Every accessor builds
  its object on the first call and keeps it; what opens a connection registers a function with the
  process-wide closer, and what cannot be opened panics. An opened resource is a handle, its
  position in the list of what was opened; an object is what it was built from. The constructors of
  the libraries are the parameter \<open>E\<close>, which says whether opening a resource fails.
\<close>

section \<open>Building and registering\<close>

record 'd boot =
  bt_di :: 'd
  bt_opened :: "string list" \<comment> \<open>the resources, in the order they were opened\<close>
  bt_closers :: "(string \<times> nat) list" \<comment> \<open>\<open>closer.AddNamed\<close>: a name and the handle its function closes\<close>
  bt_logger :: bool \<comment> \<open>\<open>logger.Init\<close> has set the global logger\<close>

type_synonym handle = nat

text \<open>\<open>E name\<close> is the error of opening, \<open>None\<close> when it works.\<close>

type_synonym boot_env = "string \<Rightarrow> string option"

type_synonym ('d, 'a) access = "('d boot, string, 'a) prog"

text \<open>\<open>if d.x == nil { ... }; return d.x\<close>, and the assignment of fields\<close>

definition reuse :: "('d \<Rightarrow> 'a option) \<Rightarrow> ('d, 'a) access \<Rightarrow> ('d, 'a) access" where
  "reuse get m w = (case get (bt_di w) of Some x \<Rightarrow> (w, Ok x) | None \<Rightarrow> m w)"

definition assign :: "('d \<Rightarrow> 'd) \<Rightarrow> ('d, unit) access" where
  "assign f w = (w\<lparr>bt_di := f (bt_di w)\<rparr>, Ok ())"

definition lazily :: "('d \<Rightarrow> 'a option) \<Rightarrow> ('a \<Rightarrow> 'd \<Rightarrow> 'd) \<Rightarrow> ('d, 'a) access \<Rightarrow> ('d, 'a) access" where
  "lazily get put build = reuse get (call build id (\<lambda>x. call (assign (put x)) id (\<lambda>_. ok x)))"

definition open_resource :: "boot_env \<Rightarrow> string \<Rightarrow> ('d, handle) access" where
  "open_resource E name w =
     (case E name of
        Some err \<Rightarrow> (w, Panic (name @ '': '' @ err))
      | None \<Rightarrow> (w\<lparr>bt_opened := bt_opened w @ [name]\<rparr>, Ok (length (bt_opened w))))"

definition AddNamed :: "string \<Rightarrow> handle \<Rightarrow> ('d, unit) access" where
  "AddNamed name h w = (w\<lparr>bt_closers := bt_closers w @ [(name, h)]\<rparr>, Ok ())"

text \<open>
  Open, panic on an error, register the closing function. The text of a panic is abbreviated to the
  name of the resource and the error.
\<close>

definition open_named :: "boot_env \<Rightarrow> string \<Rightarrow> ('d, handle) access" where
  "open_named E name =
     call (open_resource E name) id (\<lambda>h. call (AddNamed name h) id (\<lambda>_. ok h))"

text \<open>A check of what was opened and registered (a ping, an index) that panics when it fails.\<close>

definition must :: "boot_env \<Rightarrow> string \<Rightarrow> ('d, unit) access" where
  "must E name = (case E name of Some err \<Rightarrow> panic (name @ '': '' @ err) | None \<Rightarrow> ok ())"

section \<open>Order service\<close>

text \<open>The service holds its repository (over a pool), both clients and the producer.\<close>

record order_parts =
  op_repository :: handle
  op_inventory :: handle
  op_payment :: handle
  op_producer :: handle

record order_di =
  od_inventoryClient :: "handle option"
  od_paymentClient :: "handle option"
  od_dbPool :: "handle option"
  od_migrator :: "handle option"
  od_repository :: "handle option"
  od_consumerGroup :: "handle option"
  od_orderAssembledConsumer :: "handle option"
  od_orderConsumer :: "(handle \<times> order_parts) option"
  od_syncProducer :: "handle option"
  od_orderPaidProducer :: "handle option"
  od_orderProducer :: "handle option"
  od_conv :: "unit option"
  od_service :: "order_parts option"
  od_handler :: "order_parts option"
  od_router :: "unit option"

definition NewDI_order :: order_di where
  "NewDI_order = \<lparr>od_inventoryClient = None, od_paymentClient = None, od_dbPool = None, od_migrator = None,
     od_repository = None, od_consumerGroup = None, od_orderAssembledConsumer = None, od_orderConsumer = None,
     od_syncProducer = None, od_orderPaidProducer = None, od_orderProducer = None, od_conv = None,
     od_service = None, od_handler = None, od_router = None\<rparr>"

definition order_InventoryClient :: "boot_env \<Rightarrow> ('x order_di_scheme, handle) access" where
  "order_InventoryClient E =
     lazily od_inventoryClient (\<lambda>x d. d\<lparr>od_inventoryClient := Some x\<rparr>) (open_named E ''Inventory Service'')"

definition order_PaymentClient :: "boot_env \<Rightarrow> ('x order_di_scheme, handle) access" where
  "order_PaymentClient E =
     lazily od_paymentClient (\<lambda>x d. d\<lparr>od_paymentClient := Some x\<rparr>) (open_named E ''Payment Service'')"

definition order_DBPool :: "boot_env \<Rightarrow> ('x order_di_scheme, handle) access" where
  "order_DBPool E =
     lazily od_dbPool (\<lambda>x d. d\<lparr>od_dbPool := Some x\<rparr>)
       (call (open_named E ''PGX Pool'') id (\<lambda>pool. call (must E ''ping db'') id (\<lambda>_. ok pool)))"

text \<open>The migrator works on a \<open>sql.DB\<close> over the pool, which its closing function closes.\<close>

definition order_Migrator :: "boot_env \<Rightarrow> ('x order_di_scheme, handle) access" where
  "order_Migrator E =
     lazily od_migrator (\<lambda>x d. d\<lparr>od_migrator := Some x\<rparr>)
       (call (order_DBPool E) id (\<lambda>pool. open_named (\<lambda>_. None) ''Migrator''))"

definition order_OrderRepository :: "boot_env \<Rightarrow> ('x order_di_scheme, handle) access" where
  "order_OrderRepository E =
     lazily od_repository (\<lambda>x d. d\<lparr>od_repository := Some x\<rparr>) (order_DBPool E)"

definition order_KafkaConverter :: "boot_env \<Rightarrow> ('x order_di_scheme, unit) access" where
  "order_KafkaConverter E = lazily od_conv (\<lambda>x d. d\<lparr>od_conv := Some x\<rparr>) (ok ())"

definition order_ConsumerGroup :: "boot_env \<Rightarrow> ('x order_di_scheme, handle) access" where
  "order_ConsumerGroup E =
     lazily od_consumerGroup (\<lambda>x d. d\<lparr>od_consumerGroup := Some x\<rparr>) (open_named E ''Kafka consumer group'')"

definition order_OrderAssembledConsumer :: "boot_env \<Rightarrow> ('x order_di_scheme, handle) access" where
  "order_OrderAssembledConsumer E =
     lazily od_orderAssembledConsumer (\<lambda>x d. d\<lparr>od_orderAssembledConsumer := Some x\<rparr>) (order_ConsumerGroup E)"

definition order_SyncProducer :: "boot_env \<Rightarrow> ('x order_di_scheme, handle) access" where
  "order_SyncProducer E =
     lazily od_syncProducer (\<lambda>x d. d\<lparr>od_syncProducer := Some x\<rparr>) (open_named E ''Kafka sync producer'')"

definition order_OrderPaidProducer :: "boot_env \<Rightarrow> ('x order_di_scheme, handle) access" where
  "order_OrderPaidProducer E =
     lazily od_orderPaidProducer (\<lambda>x d. d\<lparr>od_orderPaidProducer := Some x\<rparr>) (order_SyncProducer E)"

definition order_OrderProducer :: "boot_env \<Rightarrow> ('x order_di_scheme, handle) access" where
  "order_OrderProducer E =
     lazily od_orderProducer (\<lambda>x d. d\<lparr>od_orderProducer := Some x\<rparr>)
       (call (order_OrderPaidProducer E) id (\<lambda>p. call (order_KafkaConverter E) id (\<lambda>_. ok p)))"

definition order_OrderService :: "boot_env \<Rightarrow> ('x order_di_scheme, order_parts) access" where
  "order_OrderService E =
     lazily od_service (\<lambda>x d. d\<lparr>od_service := Some x\<rparr>)
       (call (order_OrderRepository E) id (\<lambda>repo.
        call (order_InventoryClient E) id (\<lambda>inv.
        call (order_PaymentClient E) id (\<lambda>pay.
        call (order_OrderProducer E) id (\<lambda>prod.
        ok \<lparr>op_repository = repo, op_inventory = inv, op_payment = pay, op_producer = prod\<rparr>)))))"

definition order_OrderConsumer :: "boot_env \<Rightarrow> ('x order_di_scheme, handle \<times> order_parts) access" where
  "order_OrderConsumer E =
     lazily od_orderConsumer (\<lambda>x d. d\<lparr>od_orderConsumer := Some x\<rparr>)
       (call (order_OrderAssembledConsumer E) id (\<lambda>c.
        call (order_KafkaConverter E) id (\<lambda>_.
        call (order_OrderService E) id (\<lambda>svc. ok (c, svc)))))"

definition order_OrderHandler :: "boot_env \<Rightarrow> ('x order_di_scheme, order_parts) access" where
  "order_OrderHandler E =
     lazily od_handler (\<lambda>x d. d\<lparr>od_handler := Some x\<rparr>) (order_OrderService E)"

definition order_Router :: "boot_env \<Rightarrow> ('x order_di_scheme, unit) access" where
  "order_Router E = lazily od_router (\<lambda>x d. d\<lparr>od_router := Some x\<rparr>) (ok ())"

section \<open>Inventory service\<close>

record inventory_di =
  id_mongo :: "handle option"
  id_collection :: "handle option"
  id_repository :: "handle option"
  id_service :: "handle option"
  id_handler :: "handle option"
  id_server :: "handle option option" \<comment> \<open>a server, and the handler that is registered on it\<close>

definition NewDI_inventory :: inventory_di where
  "NewDI_inventory = \<lparr>id_mongo = None, id_collection = None, id_repository = None, id_service = None,
     id_handler = None, id_server = None\<rparr>"

definition inventory_MongoDB :: "boot_env \<Rightarrow> ('x inventory_di_scheme, handle) access" where
  "inventory_MongoDB E =
     lazily id_mongo (\<lambda>x d. d\<lparr>id_mongo := Some x\<rparr>)
       (call (open_named E ''Mongo Client'') id (\<lambda>m. call (must E ''ping database'') id (\<lambda>_. ok m)))"

text \<open>The field is assigned before the indexes are made, so it is set when that panics.\<close>

definition inventory_PartsCollection :: "boot_env \<Rightarrow> ('x inventory_di_scheme, handle) access" where
  "inventory_PartsCollection E =
     reuse id_collection
       (call (inventory_MongoDB E) id (\<lambda>m.
        call (assign (\<lambda>d. d\<lparr>id_collection := Some m\<rparr>)) id (\<lambda>_.
        call (must E ''ensure indexes'') id (\<lambda>_. ok m))))"

definition inventory_PartsRepository :: "boot_env \<Rightarrow> ('x inventory_di_scheme, handle) access" where
  "inventory_PartsRepository E =
     lazily id_repository (\<lambda>x d. d\<lparr>id_repository := Some x\<rparr>) (inventory_PartsCollection E)"

definition inventory_InventoryService :: "boot_env \<Rightarrow> ('x inventory_di_scheme, handle) access" where
  "inventory_InventoryService E =
     lazily id_service (\<lambda>x d. d\<lparr>id_service := Some x\<rparr>) (inventory_PartsRepository E)"

definition inventory_InventoryHandler :: "boot_env \<Rightarrow> ('x inventory_di_scheme, handle) access" where
  "inventory_InventoryHandler E =
     lazily id_handler (\<lambda>x d. d\<lparr>id_handler := Some x\<rparr>) (inventory_InventoryService E)"

text \<open>The server is assigned first; the handler is registered on it.\<close>

definition inventory_Server :: "boot_env \<Rightarrow> ('x inventory_di_scheme, handle option) access" where
  "inventory_Server E =
     reuse id_server
       (call (assign (\<lambda>d. d\<lparr>id_server := Some None\<rparr>)) id (\<lambda>_.
        call (inventory_InventoryHandler E) id (\<lambda>h.
        call (assign (\<lambda>d. d\<lparr>id_server := Some (Some h)\<rparr>)) id (\<lambda>_. ok (Some h)))))"

section \<open>Payment service\<close>

record payment_di =
  pd_service :: "unit option"
  pd_handler :: "unit option"
  pd_server :: "unit option"

definition NewDI_payment :: payment_di where
  "NewDI_payment = \<lparr>pd_service = None, pd_handler = None, pd_server = None\<rparr>"

definition payment_PaymentService :: "boot_env \<Rightarrow> ('x payment_di_scheme, unit) access" where
  "payment_PaymentService E = lazily pd_service (\<lambda>x d. d\<lparr>pd_service := Some x\<rparr>) (ok ())"

definition payment_PaymentHandler :: "boot_env \<Rightarrow> ('x payment_di_scheme, unit) access" where
  "payment_PaymentHandler E = lazily pd_handler (\<lambda>x d. d\<lparr>pd_handler := Some x\<rparr>) (payment_PaymentService E)"

definition payment_Server :: "boot_env \<Rightarrow> ('x payment_di_scheme, unit) access" where
  "payment_Server E = lazily pd_server (\<lambda>x d. d\<lparr>pd_server := Some x\<rparr>) (payment_PaymentHandler E)"

section \<open>Assembly service\<close>

record assembly_di =
  ad_consumerGroup :: "handle option"
  ad_orderPaidConsumer :: "handle option"
  ad_syncProducer :: "handle option"
  ad_orderAssembledProducer :: "handle option"
  ad_conv :: "unit option"
  ad_service :: "(handle \<times> handle) option" \<comment> \<open>its consumer and its producer\<close>

definition NewDI_assembly :: assembly_di where
  "NewDI_assembly = \<lparr>ad_consumerGroup = None, ad_orderPaidConsumer = None, ad_syncProducer = None,
     ad_orderAssembledProducer = None, ad_conv = None, ad_service = None\<rparr>"

definition assembly_ConsumerGroup :: "boot_env \<Rightarrow> (assembly_di, handle) access" where
  "assembly_ConsumerGroup E =
     lazily ad_consumerGroup (\<lambda>x d. d\<lparr>ad_consumerGroup := Some x\<rparr>) (open_named E ''Kafka consumer group'')"

definition assembly_OrderPaidConsumer :: "boot_env \<Rightarrow> (assembly_di, handle) access" where
  "assembly_OrderPaidConsumer E =
     lazily ad_orderPaidConsumer (\<lambda>x d. d\<lparr>ad_orderPaidConsumer := Some x\<rparr>) (assembly_ConsumerGroup E)"

definition assembly_SyncProducer :: "boot_env \<Rightarrow> (assembly_di, handle) access" where
  "assembly_SyncProducer E =
     lazily ad_syncProducer (\<lambda>x d. d\<lparr>ad_syncProducer := Some x\<rparr>) (open_named E ''Kafka sync producer'')"

definition assembly_OrderAssembledProducer :: "boot_env \<Rightarrow> (assembly_di, handle) access" where
  "assembly_OrderAssembledProducer E =
     lazily ad_orderAssembledProducer (\<lambda>x d. d\<lparr>ad_orderAssembledProducer := Some x\<rparr>) (assembly_SyncProducer E)"

definition assembly_KafkaConverter :: "boot_env \<Rightarrow> (assembly_di, unit) access" where
  "assembly_KafkaConverter E = lazily ad_conv (\<lambda>x d. d\<lparr>ad_conv := Some x\<rparr>) (ok ())"

text \<open>The test is on \<open>d.consumerGroup\<close>, not on \<open>d.service\<close>; the result is the field, nil or not.\<close>

definition assembly_AssemblyService :: "boot_env \<Rightarrow> (assembly_di, (handle \<times> handle) option) access" where
  "assembly_AssemblyService E w =
     (if ad_consumerGroup (bt_di w) = None then
        call (assembly_OrderPaidConsumer E) id (\<lambda>c.
        call (assembly_OrderAssembledProducer E) id (\<lambda>p.
        call (assembly_KafkaConverter E) id (\<lambda>_.
        call (assign (\<lambda>d. d\<lparr>ad_service := Some (c, p)\<rparr>)) id (\<lambda>_. ok (Some (c, p)))))) w
      else (w, Ok (ad_service (bt_di w))))"

section \<open>Notification service\<close>

record notification_di =
  nd_converter :: "unit option"
  nd_orderPaidConsumerGroup :: "handle option"
  nd_orderPaidKafkaConsumer :: "handle option"
  nd_orderPaidConsumer :: "(handle \<times> handle) option" \<comment> \<open>its Kafka consumer and its bot\<close>
  nd_orderAssembledConsumerGroup :: "handle option"
  nd_orderAssembledKafkaConsumer :: "handle option"
  nd_orderAssembledConsumer :: "(handle \<times> handle) option"
  nd_tgBot :: "handle option"
  nd_tgClient :: "handle option"
  nd_tgService :: "handle option"

definition NewDI_notification :: notification_di where
  "NewDI_notification = \<lparr>nd_converter = None, nd_orderPaidConsumerGroup = None, nd_orderPaidKafkaConsumer = None,
     nd_orderPaidConsumer = None, nd_orderAssembledConsumerGroup = None, nd_orderAssembledKafkaConsumer = None,
     nd_orderAssembledConsumer = None, nd_tgBot = None, nd_tgClient = None, nd_tgService = None\<rparr>"

definition notification_KafkaConverter :: "boot_env \<Rightarrow> (notification_di, unit) access" where
  "notification_KafkaConverter E = lazily nd_converter (\<lambda>x d. d\<lparr>nd_converter := Some x\<rparr>) (ok ())"

definition notification_TelegramBot :: "boot_env \<Rightarrow> (notification_di, handle) access" where
  "notification_TelegramBot E =
     lazily nd_tgBot (\<lambda>x d. d\<lparr>nd_tgBot := Some x\<rparr>) (open_named E ''Telegram Bot'')"

definition notification_TelegramClient :: "boot_env \<Rightarrow> (notification_di, handle) access" where
  "notification_TelegramClient E =
     lazily nd_tgClient (\<lambda>x d. d\<lparr>nd_tgClient := Some x\<rparr>) (notification_TelegramBot E)"

definition notification_TelegramService :: "boot_env \<Rightarrow> (notification_di, handle) access" where
  "notification_TelegramService E =
     lazily nd_tgService (\<lambda>x d. d\<lparr>nd_tgService := Some x\<rparr>) (notification_TelegramClient E)"

definition notification_OrderPaidConsumerGroup :: "boot_env \<Rightarrow> (notification_di, handle) access" where
  "notification_OrderPaidConsumerGroup E =
     lazily nd_orderPaidConsumerGroup (\<lambda>x d. d\<lparr>nd_orderPaidConsumerGroup := Some x\<rparr>)
       (open_named E ''Kafka order.paid consumer group'')"

definition notification_OrderPaidKafkaConsumer :: "boot_env \<Rightarrow> (notification_di, handle) access" where
  "notification_OrderPaidKafkaConsumer E =
     lazily nd_orderPaidKafkaConsumer (\<lambda>x d. d\<lparr>nd_orderPaidKafkaConsumer := Some x\<rparr>)
       (notification_OrderPaidConsumerGroup E)"

definition notification_OrderPaidConsumer :: "boot_env \<Rightarrow> (notification_di, handle \<times> handle) access" where
  "notification_OrderPaidConsumer E =
     lazily nd_orderPaidConsumer (\<lambda>x d. d\<lparr>nd_orderPaidConsumer := Some x\<rparr>)
       (call (notification_OrderPaidKafkaConsumer E) id (\<lambda>c.
        call (notification_KafkaConverter E) id (\<lambda>_.
        call (notification_TelegramService E) id (\<lambda>t. ok (c, t)))))"

definition notification_OrderAssembledConsumerGroup :: "boot_env \<Rightarrow> (notification_di, handle) access" where
  "notification_OrderAssembledConsumerGroup E =
     lazily nd_orderAssembledConsumerGroup (\<lambda>x d. d\<lparr>nd_orderAssembledConsumerGroup := Some x\<rparr>)
       (open_named E ''Kafka order.assembled consumer group'')"

definition notification_OrderAssembledKafkaConsumer :: "boot_env \<Rightarrow> (notification_di, handle) access" where
  "notification_OrderAssembledKafkaConsumer E =
     lazily nd_orderAssembledKafkaConsumer (\<lambda>x d. d\<lparr>nd_orderAssembledKafkaConsumer := Some x\<rparr>)
       (notification_OrderAssembledConsumerGroup E)"

definition notification_OrderAssembledConsumer :: "boot_env \<Rightarrow> (notification_di, handle \<times> handle) access" where
  "notification_OrderAssembledConsumer E =
     lazily nd_orderAssembledConsumer (\<lambda>x d. d\<lparr>nd_orderAssembledConsumer := Some x\<rparr>)
       (call (notification_OrderAssembledKafkaConsumer E) id (\<lambda>c.
        call (notification_KafkaConverter E) id (\<lambda>_.
        call (notification_TelegramService E) id (\<lambda>t. ok (c, t)))))"

section \<open>Every resource is registered, and opened once\<close>

definition registered :: "'d boot \<Rightarrow> bool" where
  "registered w \<longleftrightarrow> bt_closers w = zip (bt_opened w) [0..<length (bt_opened w)] \<and> distinct (bt_opened w)"

lemma registered_di [simp]: "registered (w\<lparr>bt_di := d\<rparr>) = registered w"
  by (simp add: registered_def)

text \<open>
  The fields that hold an opened resource, with its name. What the accessors keep: of these
  resources, exactly those of the fields that are set have been opened, and a field holds the handle
  of its own.
\<close>

type_synonym 'd slot = "string \<times> ('d \<Rightarrow> handle option) \<times> (handle \<Rightarrow> 'd \<Rightarrow> 'd)"

definition booted :: "'d slot list \<Rightarrow> 'd boot \<Rightarrow> bool" where
  "booted slots w \<longleftrightarrow> registered w \<and>
     (\<forall>n \<in> set (bt_opened w). \<forall>g p. (n, g, p) \<in> set slots \<longrightarrow> g (bt_di w) \<noteq> None) \<and>
     (\<forall>(n, g, p) \<in> set slots. \<forall>h. g (bt_di w) = Some h \<longrightarrow> h < length (bt_opened w) \<and> bt_opened w ! h = n)"

definition boots :: "'d slot list \<Rightarrow> ('d, 'a) access \<Rightarrow> bool" where
  "boots slots m \<longleftrightarrow> (\<forall>w w' r. booted slots w \<longrightarrow> m w = (w', r) \<longrightarrow>
     registered w' \<and> ((\<forall>p. r \<noteq> Panic p) \<longrightarrow> booted slots w'))"

lemma bootsI:
  "(\<And>w w' r. booted slots w \<Longrightarrow> m w = (w', r) \<Longrightarrow> registered w' \<and> ((\<forall>p. r \<noteq> Panic p) \<longrightarrow> booted slots w')) \<Longrightarrow>
    boots slots m"
  by (simp add: boots_def)

lemma booted_registered: "booted slots w \<Longrightarrow> registered w"
  by (simp add: booted_def)

lemma boots_ok [intro, simp]: "boots slots (ok a)"
  by (auto simp: boots_def ok_def booted_registered)

lemma boots_fail [intro, simp]: "boots slots (fail e)"
  by (auto simp: boots_def fail_def booted_registered)

lemma boots_panic [intro, simp]: "boots slots (panic p)"
  by (auto simp: boots_def booted_registered)

lemma boots_must [intro, simp]: "boots slots (must E n)"
  by (simp add: must_def split: option.split)

lemma boots_call [intro]:
  assumes "boots slots m" and "\<And>a. boots slots (k a)"
  shows "boots slots (call m h k)"
proof (rule bootsI)
  fix w w' r
  assume start: "booted slots w" and run: "call m h k w = (w', r)"
  obtain w1 r1 where m: "m w = (w1, r1)" by fastforce
  with start assms(1) have "registered w1" and "(\<And>p. r1 \<noteq> Panic p) \<Longrightarrow> booted slots w1"
    unfolding boots_def by blast+
  then show "registered w' \<and> ((\<forall>p. r \<noteq> Panic p) \<longrightarrow> booted slots w')"
    using run m assms(2) unfolding boots_def by (cases r1) (auto simp: call_evals)
qed

text \<open>A field that holds no resource of its own.\<close>

lemma booted_cong:
  assumes "bt_opened w' = bt_opened w" and "bt_closers w' = bt_closers w"
    and "\<And>n g p. (n, g, p) \<in> set slots \<Longrightarrow> g (bt_di w') = g (bt_di w)" and "booted slots w"
  shows "booted slots w'"
  unfolding booted_def
proof (intro conjI ballI)
  show "registered w'" using assms(1,2,4) by (simp add: booted_def registered_def)
next
  fix n assume "n \<in> set (bt_opened w')"
  then have "n \<in> set (bt_opened w)" using assms(1) by simp
  show "\<forall>g p. (n, g, p) \<in> set slots \<longrightarrow> g (bt_di w') \<noteq> None"
  proof (intro allI impI)
    fix g p assume slot: "(n, g, p) \<in> set slots"
    then have "g (bt_di w) \<noteq> None" using assms(4) \<open>n \<in> set (bt_opened w)\<close> unfolding booted_def by blast
    then show "g (bt_di w') \<noteq> None" using assms(3) [OF slot] by simp
  qed
next
  fix x assume "x \<in> set slots"
  moreover obtain n g p where x: "x = (n, g, p)" by (metis prod.exhaust)
  ultimately have "g (bt_di w') = g (bt_di w)" and
    "\<forall>h. g (bt_di w) = Some h \<longrightarrow> h < length (bt_opened w) \<and> bt_opened w ! h = n"
    using assms(3,4) unfolding booted_def by blast+
  then show "case x of (n, g, p) \<Rightarrow> \<forall>h. g (bt_di w') = Some h \<longrightarrow> h < length (bt_opened w') \<and> bt_opened w' ! h = n"
    using assms(1) x by simp
qed

lemma boots_update:
  assumes "\<And>n g p d. (n, g, p) \<in> set slots \<Longrightarrow> g (f d) = g d" and "booted slots w"
  shows "booted slots (w\<lparr>bt_di := f (bt_di w)\<rparr>)"
  using assms by (auto intro: booted_cong [of _ w])

lemma boots_assign:
  assumes "\<And>n g p d. (n, g, p) \<in> set slots \<Longrightarrow> g (f d) = g d"
  shows "boots slots (assign f)"
  using boots_update [of slots f, OF assms] by (auto simp: boots_def assign_def booted_registered)

lemma boots_reuse: "boots slots m \<Longrightarrow> boots slots (reuse g m)"
  by (auto simp: boots_def reuse_def booted_registered split: option.splits)

lemma boots_lazily:
  assumes "boots slots m" and "\<And>n g' p d x. (n, g', p) \<in> set slots \<Longrightarrow> g' (put x d) = g' d"
  shows "boots slots (lazily g put m)"
  unfolding lazily_def using assms by (intro boots_reuse boots_call boots_assign boots_ok)

lemma call_okI: "call (ok a) h k = k a"
  by (simp add: fun_eq_iff call_def ok_def)

lemma call_ok_id: "call m id (\<lambda>x. ok x) = m"
  by (auto simp: fun_eq_iff call_def ok_def split: prod.split outcome.split)

text \<open>
  The interface of the fields that hold resources: different names, and assigning one field changes
  no other.
\<close>

locale slotted =
  fixes slots :: "'d slot list"
  assumes put_get: "(n, g, p) \<in> set slots \<Longrightarrow> g (p x d) = Some x"
    and put_other: "(n, g, p) \<in> set slots \<Longrightarrow> (n', g', p') \<in> set slots \<Longrightarrow> n \<noteq> n' \<Longrightarrow> g' (p x d) = g' d"
    and slot_name: "(n, g, p) \<in> set slots \<Longrightarrow> (n, g', p') \<in> set slots \<Longrightarrow> g = g' \<and> p = p'"
begin

lemma unset_unopened: "booted slots w \<Longrightarrow> (n, g, p) \<in> set slots \<Longrightarrow> g (bt_di w) = None \<Longrightarrow> n \<notin> set (bt_opened w)"
  unfolding booted_def using slot_name by fastforce

lemma registered_open:
  "booted slots w \<Longrightarrow> (n, g, p) \<in> set slots \<Longrightarrow> g (bt_di w) = None \<Longrightarrow>
    registered (w\<lparr>bt_opened := bt_opened w @ [n], bt_closers := bt_closers w @ [(n, length (bt_opened w))]\<rparr>)"
  using unset_unopened by (auto simp: registered_def dest: booted_registered)

lemma booted_open:
  assumes "booted slots w" and slot: "(n, g, p) \<in> set slots" and "g (bt_di w) = None"
  shows "booted slots (w\<lparr>bt_opened := bt_opened w @ [n], bt_closers := bt_closers w @ [(n, length (bt_opened w))],
    bt_di := p (length (bt_opened w)) (bt_di w)\<rparr>)"
    (is "booted slots ?w")
proof -
  let ?h = "length (bt_opened w)"
  have "registered ?w" using registered_open [OF assms] by (simp add: registered_def)
  moreover have "\<forall>m \<in> set (bt_opened ?w). \<forall>g' p'. (m, g', p') \<in> set slots \<longrightarrow> g' (bt_di ?w) \<noteq> None"
  proof (intro ballI allI impI)
    fix m g' p'
    assume m: "m \<in> set (bt_opened ?w)" and other: "(m, g', p') \<in> set slots"
    show "g' (bt_di ?w) \<noteq> None"
    proof (cases "m = n")
      case True
      then show ?thesis using slot_name [OF slot] other put_get [OF slot] by simp
    next
      case False
      then have "g' (bt_di w) \<noteq> None" using m other assms(1) unfolding booted_def by auto
      then show ?thesis using False put_other [OF slot other] by simp
    qed
  qed
  moreover have "\<forall>(m, g', p') \<in> set slots. \<forall>h. g' (bt_di ?w) = Some h \<longrightarrow>
      h < length (bt_opened ?w) \<and> bt_opened ?w ! h = m"
  proof (clarify)
    fix m g' p' h
    assume other: "(m, g', p') \<in> set slots" and val: "g' (bt_di ?w) = Some h"
    show "h < length (bt_opened ?w) \<and> bt_opened ?w ! h = m"
    proof (cases "m = n")
      case True
      then have "h = ?h" using slot_name [OF slot] other val put_get [OF slot] by simp
      then show ?thesis using True by simp
    next
      case False
      then have "g' (bt_di w) = Some h" using put_other [OF slot other] val by simp
      then have "h < ?h \<and> bt_opened w ! h = m" using assms(1) other unfolding booted_def by fastforce
      then show ?thesis by (simp add: nth_append)
    qed
  qed
  ultimately show ?thesis by (simp add: booted_def)
qed

text \<open>
  A field with a resource of its own: other accessors, which leave the field alone, then the opening,
  then a check.
\<close>

lemma boots_resource:
  assumes slot: "(n, g, p) \<in> set slots" and pre: "boots slots m" "keeps (g \<circ> bt_di) m"
  shows "boots slots (lazily g p (call m id (\<lambda>_. call (open_named E n) id (\<lambda>h. call (must E' c) id (\<lambda>_. ok h)))))"
    (is "boots slots (lazily g p ?build)")
proof (rule bootsI)
  fix w w' r
  assume start: "booted slots w" and run: "lazily g p ?build w = (w', r)"
  show "registered w' \<and> ((\<forall>q. r \<noteq> Panic q) \<longrightarrow> booted slots w')"
  proof (cases "g (bt_di w)")
    case (Some h)
    then show ?thesis using start run by (auto simp: lazily_def reuse_def booted_registered)
  next
    case None
    obtain w1 r1 where m: "m w = (w1, r1)" by fastforce
    have g1: "g (bt_di w1) = None" using keepsD [OF pre(2) m] None by simp
    have m': "registered w1" "(\<And>q. r1 \<noteq> Panic q) \<Longrightarrow> booted slots w1"
      using pre(1) start m unfolding boots_def by blast+
    have opened: "booted slots w1 \<Longrightarrow> registered (w1\<lparr>bt_opened := bt_opened w1 @ [n],
        bt_closers := bt_closers w1 @ [(n, length (bt_opened w1))]\<rparr>)"
      using registered_open [OF _ slot g1] .
    have assigned: "booted slots w1 \<Longrightarrow> booted slots (w1\<lparr>bt_opened := bt_opened w1 @ [n],
        bt_closers := bt_closers w1 @ [(n, length (bt_opened w1))], bt_di := p (length (bt_opened w1)) (bt_di w1)\<rparr>)"
      using booted_open [OF _ slot g1] .
    show ?thesis
      using run m None m' opened assigned
      by (cases r1; cases "E n"; cases "E' c")
        (auto simp: lazily_def reuse_def assign_def call_def open_named_def open_resource_def AddNamed_def must_def ok_def panic_def
          booted_registered)
  qed
qed

lemma boots_checked:
  "(n, g, p) \<in> set slots \<Longrightarrow>
    boots slots (lazily g p (call (open_named E n) id (\<lambda>h. call (must E' c) id (\<lambda>_. ok h))))"
  using boots_resource [of n g p "ok ()" E E' c] by (simp add: call_okI)

lemma boots_after:
  "(n, g, p) \<in> set slots \<Longrightarrow> boots slots m \<Longrightarrow> keeps (g \<circ> bt_di) m \<Longrightarrow>
    boots slots (lazily g p (call m id (\<lambda>_. open_named E n)))"
  using boots_resource [of n g p m E "\<lambda>_. None"] by (simp add: must_def call_okI call_ok_id)

lemma boots_open: "(n, g, p) \<in> set slots \<Longrightarrow> boots slots (lazily g p (open_named E n))"
  using boots_after [of n g p "ok ()" E] by (simp add: call_okI)

end

section \<open>The containers of the services\<close>

definition order_slots :: "'x order_di_scheme slot list" where
  "order_slots =
     [(''Inventory Service'', od_inventoryClient, \<lambda>x d. d\<lparr>od_inventoryClient := Some x\<rparr>),
      (''Payment Service'', od_paymentClient, \<lambda>x d. d\<lparr>od_paymentClient := Some x\<rparr>),
      (''PGX Pool'', od_dbPool, \<lambda>x d. d\<lparr>od_dbPool := Some x\<rparr>),
      (''Migrator'', od_migrator, \<lambda>x d. d\<lparr>od_migrator := Some x\<rparr>),
      (''Kafka consumer group'', od_consumerGroup, \<lambda>x d. d\<lparr>od_consumerGroup := Some x\<rparr>),
      (''Kafka sync producer'', od_syncProducer, \<lambda>x d. d\<lparr>od_syncProducer := Some x\<rparr>)]"

definition inventory_slots :: "'x inventory_di_scheme slot list" where
  "inventory_slots = [(''Mongo Client'', id_mongo, \<lambda>x d. d\<lparr>id_mongo := Some x\<rparr>)]"

definition assembly_slots :: "assembly_di slot list" where
  "assembly_slots =
     [(''Kafka consumer group'', ad_consumerGroup, \<lambda>x d. d\<lparr>ad_consumerGroup := Some x\<rparr>),
      (''Kafka sync producer'', ad_syncProducer, \<lambda>x d. d\<lparr>ad_syncProducer := Some x\<rparr>)]"

definition notification_slots :: "notification_di slot list" where
  "notification_slots =
     [(''Telegram Bot'', nd_tgBot, \<lambda>x d. d\<lparr>nd_tgBot := Some x\<rparr>),
      (''Kafka order.paid consumer group'', nd_orderPaidConsumerGroup, \<lambda>x d. d\<lparr>nd_orderPaidConsumerGroup := Some x\<rparr>),
      (''Kafka order.assembled consumer group'', nd_orderAssembledConsumerGroup,
        \<lambda>x d. d\<lparr>nd_orderAssembledConsumerGroup := Some x\<rparr>)]"

lemma order_slot:
  "(n, g, p) \<in> set order_slots \<Longrightarrow>
    g \<in> {od_inventoryClient, od_paymentClient, od_dbPool, od_migrator, od_consumerGroup, od_syncProducer}"
  by (auto simp: order_slots_def)

lemma inventory_slot: "(n, g, p) \<in> set inventory_slots \<Longrightarrow> g = id_mongo"
  by (simp add: inventory_slots_def)

lemma assembly_slot: "(n, g, p) \<in> set assembly_slots \<Longrightarrow> g \<in> {ad_consumerGroup, ad_syncProducer}"
  by (auto simp: assembly_slots_def)

lemma notification_slot:
  "(n, g, p) \<in> set notification_slots \<Longrightarrow>
    g \<in> {nd_tgBot, nd_orderPaidConsumerGroup, nd_orderAssembledConsumerGroup}"
  by (auto simp: notification_slots_def)

interpretation ord: slotted order_slots
  by unfold_locales (unfold order_slots_def list.set insert_iff empty_iff prod.inject, (elim disjE conjE; simp)+)

interpretation inv: slotted inventory_slots
  by unfold_locales (auto simp: inventory_slots_def)

interpretation asm: slotted assembly_slots
  by unfold_locales (auto simp: assembly_slots_def)

interpretation ntf: slotted notification_slots
  by unfold_locales (auto simp: notification_slots_def)

named_theorems accessor_boots "the accessors keep the invariant of their container"

lemma order_leaves_boot [accessor_boots]:
  "boots order_slots (order_InventoryClient E)" "boots order_slots (order_PaymentClient E)"
  "boots order_slots (order_ConsumerGroup E)" "boots order_slots (order_SyncProducer E)"
  unfolding order_InventoryClient_def order_PaymentClient_def order_ConsumerGroup_def order_SyncProducer_def
  by (rule ord.boots_open, simp add: order_slots_def)+

lemma order_DBPool_boots [accessor_boots]: "boots order_slots (order_DBPool E)"
  unfolding order_DBPool_def
  by (rule ord.boots_checked) (simp add: order_slots_def)

lemma keeps_assign: "(\<And>d. g (f d) = g d) \<Longrightarrow> keeps (g \<circ> bt_di) (assign f)"
  by (simp add: keeps_def assign_def)

lemma keeps_lazily:
  assumes "keeps (g \<circ> bt_di) m" and "\<And>x d. g (put x d) = g d"
  shows "keeps (g \<circ> bt_di) (lazily get put m)"
proof -
  have "keeps (g \<circ> bt_di) (call m id (\<lambda>x. call (assign (put x)) id (\<lambda>_. ok x)))"
    using assms by (intro keeps_call keeps_assign keeps_ok)
  then show ?thesis by (auto simp: lazily_def reuse_def keeps_def split: option.split)
qed

lemma keeps_open_named: "keeps (g \<circ> bt_di) (open_named E n)"
  by (auto simp: keeps_def open_named_def open_resource_def AddNamed_def call_def ok_def split: option.split)

lemma keeps_must: "keeps v (must E n)"
  by (auto simp: must_def split: option.split)

lemma order_DBPool_keeps_migrator: "keeps (od_migrator \<circ> bt_di) (order_DBPool E)"
  unfolding order_DBPool_def by (intro keeps_lazily keeps_call keeps_open_named keeps_must keeps_ok) simp_all

lemma order_Migrator_boots [accessor_boots]: "boots order_slots (order_Migrator E)"
  unfolding order_Migrator_def
  by (rule ord.boots_after [OF _ order_DBPool_boots order_DBPool_keeps_migrator]) (simp add: order_slots_def)

text \<open>The other accessors: their parts, and an assignment of a field without a resource of its own.\<close>

lemmas boots_parts = boots_lazily boots_reuse boots_call boots_assign boots_ok boots_must

lemma order_accessors_boot [accessor_boots]:
  "boots order_slots (order_OrderRepository E)" "boots order_slots (order_KafkaConverter E)"
  "boots order_slots (order_OrderAssembledConsumer E)" "boots order_slots (order_OrderPaidProducer E)"
  "boots order_slots (order_Router E)"
  unfolding order_OrderRepository_def order_KafkaConverter_def order_OrderAssembledConsumer_def
    order_OrderPaidProducer_def order_Router_def
  by (intro boots_parts accessor_boots; auto dest!: order_slot)+

lemma order_OrderProducer_boots [accessor_boots]: "boots order_slots (order_OrderProducer E)"
  unfolding order_OrderProducer_def by (intro boots_parts accessor_boots; auto dest!: order_slot)

lemma order_OrderService_boots [accessor_boots]: "boots order_slots (order_OrderService E)"
  unfolding order_OrderService_def by (intro boots_parts accessor_boots; auto dest!: order_slot)

lemma order_roots_boot [accessor_boots]:
  "boots order_slots (order_OrderConsumer E)" "boots order_slots (order_OrderHandler E)"
  unfolding order_OrderConsumer_def order_OrderHandler_def
  by (intro boots_parts accessor_boots; auto dest!: order_slot)+

lemma inventory_MongoDB_boots [accessor_boots]: "boots inventory_slots (inventory_MongoDB E)"
  unfolding inventory_MongoDB_def
  by (rule inv.boots_checked) (simp add: inventory_slots_def)

lemma inventory_PartsCollection_boots [accessor_boots]: "boots inventory_slots (inventory_PartsCollection E)"
  unfolding inventory_PartsCollection_def by (intro boots_parts accessor_boots; auto dest!: inventory_slot)

lemma inventory_PartsRepository_boots [accessor_boots]: "boots inventory_slots (inventory_PartsRepository E)"
  unfolding inventory_PartsRepository_def by (intro boots_parts accessor_boots; auto dest!: inventory_slot)

lemma inventory_InventoryService_boots [accessor_boots]: "boots inventory_slots (inventory_InventoryService E)"
  unfolding inventory_InventoryService_def by (intro boots_parts accessor_boots; auto dest!: inventory_slot)

lemma inventory_InventoryHandler_boots [accessor_boots]: "boots inventory_slots (inventory_InventoryHandler E)"
  unfolding inventory_InventoryHandler_def by (intro boots_parts accessor_boots; auto dest!: inventory_slot)

lemma inventory_Server_boots [accessor_boots]: "boots inventory_slots (inventory_Server E)"
  unfolding inventory_Server_def by (intro boots_parts accessor_boots; auto dest!: inventory_slot)

lemma assembly_leaves_boot [accessor_boots]:
  "boots assembly_slots (assembly_ConsumerGroup E)" "boots assembly_slots (assembly_SyncProducer E)"
  unfolding assembly_ConsumerGroup_def assembly_SyncProducer_def
  by (rule asm.boots_open, simp add: assembly_slots_def)+

lemma assembly_accessors_boot [accessor_boots]:
  "boots assembly_slots (assembly_OrderPaidConsumer E)" "boots assembly_slots (assembly_OrderAssembledProducer E)"
  "boots assembly_slots (assembly_KafkaConverter E)"
  unfolding assembly_OrderPaidConsumer_def assembly_OrderAssembledProducer_def assembly_KafkaConverter_def
  by (intro boots_parts accessor_boots; auto dest!: assembly_slot)+

lemma boots_if: "boots slots m \<Longrightarrow> boots slots (\<lambda>w. if c w then m w else (w, Ok (f w)))"
  by (auto simp: boots_def booted_registered)

lemma assembly_AssemblyService_boots [accessor_boots]: "boots assembly_slots (assembly_AssemblyService E)"
  unfolding assembly_AssemblyService_def [abs_def]
  by (intro boots_if boots_parts accessor_boots; auto dest!: assembly_slot)

lemma notification_leaves_boot [accessor_boots]:
  "boots notification_slots (notification_TelegramBot E)"
  "boots notification_slots (notification_OrderPaidConsumerGroup E)"
  "boots notification_slots (notification_OrderAssembledConsumerGroup E)"
  unfolding notification_TelegramBot_def notification_OrderPaidConsumerGroup_def
    notification_OrderAssembledConsumerGroup_def
  by (rule ntf.boots_open, simp add: notification_slots_def)+

lemma notification_inner_boot [accessor_boots]:
  "boots notification_slots (notification_KafkaConverter E)"
  "boots notification_slots (notification_TelegramClient E)"
  "boots notification_slots (notification_OrderPaidKafkaConsumer E)"
  "boots notification_slots (notification_OrderAssembledKafkaConsumer E)"
  unfolding notification_KafkaConverter_def notification_TelegramClient_def
    notification_OrderPaidKafkaConsumer_def notification_OrderAssembledKafkaConsumer_def
  by (intro boots_parts accessor_boots; auto dest!: notification_slot)+

lemma notification_TelegramService_boots [accessor_boots]:
  "boots notification_slots (notification_TelegramService E)"
  unfolding notification_TelegramService_def by (intro boots_parts accessor_boots; auto dest!: notification_slot)

lemma notification_consumers_boot [accessor_boots]:
  "boots notification_slots (notification_OrderPaidConsumer E)"
  "boots notification_slots (notification_OrderAssembledConsumer E)"
  unfolding notification_OrderPaidConsumer_def notification_OrderAssembledConsumer_def
  by (intro boots_parts accessor_boots; auto dest!: notification_slot)+

end
