(* ===== verification/App_Start.thy ===== *)
theory App_Start
  imports Containers
begin

text \<open>
  The start of the five services (\<open>cmd/*/main.go\<close> and \<open>init\<close> of \<open>internal/app/app.go\<close>): the list of
  initialisation functions, stopped at the first error, and the accessors that \<open>run\<close> calls. A file
  of configuration, a migration and everything else that can fail outside the repository fails where
  the environment \<open>E\<close> says so.
\<close>

section \<open>Initialisation\<close>

fun run_inits :: "('d, unit) access list \<Rightarrow> ('d, unit) access" where
  "run_inits [] = ok ()"
| "run_inits (f # fs) = call f id (\<lambda>_. run_inits fs)"

text \<open>A call of a library that returns an error.\<close>

definition check :: "boot_env \<Rightarrow> string \<Rightarrow> ('d, unit) access" where
  "check E name = (case E name of Some err \<Rightarrow> fail err | None \<Rightarrow> ok ())"

definition initConfig :: "boot_env \<Rightarrow> ('d, unit) access" where
  "initConfig E = check E ''config''"

text \<open>\<open>logger.Init\<close> returns no error.\<close>

definition initLogger :: "('d, unit) access" where
  "initLogger w = (w\<lparr>bt_logger := True\<rparr>, Ok ())"

definition initCloser :: "('d, unit) access" where
  "initCloser = ok ()"

text \<open>
  \<open>logger.Error\<close> calls a method of the global logger, which reads a field of it: with no logger this
  dereferences nil.
\<close>

definition nil_dereference :: string where
  "nil_dereference = ''invalid memory address or nil pointer dereference''"

definition logger_Error :: "('d, unit) access" where
  "logger_Error w = (if bt_logger w then (w, Ok ()) else (w, Panic nil_dereference))"

text \<open>
  \<open>main\<close>: where \<open>app.New\<close> fails, the error is logged and the process ends; otherwise \<open>Run\<close> is called.
  The outcome of \<open>Run\<close>'s accessors is that of \<open>run\<close>; \<open>Ended\<close> is the early return.
\<close>

datatype 'a main_end = Ended | Ran 'a

definition main :: "('d, unit) access \<Rightarrow> ('d, 'a) access \<Rightarrow> ('d, 'a main_end) access" where
  "main init run w =
     (case init w of
        (w1, Err e) \<Rightarrow> call logger_Error id (\<lambda>_. ok Ended) w1
      | (w1, Panic p) \<Rightarrow> (w1, Panic p)
      | (w1, Ok _) \<Rightarrow> call run id (\<lambda>x. ok (Ran x)) w1)"

text \<open>A process that has not opened anything, with \<open>&app{}\<close>.\<close>

definition process :: "'d \<Rightarrow> 'd boot" where
  "process d = \<lparr>bt_di = d, bt_opened = [], bt_closers = [], bt_logger = False\<rparr>"

section \<open>The services\<close>

subsection \<open>Order\<close>

record order_app = order_di +
  oa_server :: "order_parts option" \<comment> \<open>the HTTP server, with what its handler was built from\<close>

definition order_initDI :: "(order_app, unit) access" where
  "order_initDI = assign (\<lambda>d. order_di.extend NewDI_order (order_di.more d))"

definition order_initTables :: "boot_env \<Rightarrow> (order_app, unit) access" where
  "order_initTables E = call (order_Migrator E) id (\<lambda>m. check E ''migrations'')"

definition order_initServer :: "boot_env \<Rightarrow> (order_app, unit) access" where
  "order_initServer E =
     call (order_OrderHandler E) id (\<lambda>h.
     call (check E ''server'') id (\<lambda>_.
     call (order_Router E) id (\<lambda>r.
     assign (\<lambda>d. d\<lparr>oa_server := Some h\<rparr>))))"

definition order_init :: "boot_env \<Rightarrow> (order_app, unit) access" where
  "order_init E = run_inits [initConfig E, initLogger, initCloser, order_initDI, order_initTables E, order_initServer E]"

definition order_main :: "boot_env \<Rightarrow> order_app boot \<times> (string, (handle \<times> order_parts) main_end) outcome" where
  "order_main E = main (order_init E) (order_OrderConsumer E)
     (process (order_di.extend NewDI_order \<lparr>oa_server = None\<rparr>))"

subsection \<open>Inventory and payment\<close>

record inventory_app = inventory_di +
  ia_listener :: "handle option"
  ia_server :: "handle option option"

text \<open>\<open>net.Listen\<close> returns its error, it does not panic.\<close>

definition initListener :: "boot_env \<Rightarrow> (handle \<Rightarrow> 'd \<Rightarrow> 'd) \<Rightarrow> ('d, unit) access" where
  "initListener E put =
     call (check E ''listen'') id (\<lambda>_.
     call (open_named (\<lambda>_. None) ''TCP listener'') id (\<lambda>l. assign (put l)))"

definition inventory_initDI :: "(inventory_app, unit) access" where
  "inventory_initDI = assign (\<lambda>d. inventory_di.extend NewDI_inventory (inventory_di.more d))"

definition inventory_initServer :: "boot_env \<Rightarrow> (inventory_app, unit) access" where
  "inventory_initServer E = call (inventory_Server E) id (\<lambda>s. assign (\<lambda>d. d\<lparr>ia_server := Some s\<rparr>))"

definition inventory_initPartsData :: "boot_env \<Rightarrow> (inventory_app, unit) access" where
  "inventory_initPartsData E = call (inventory_PartsRepository E) id (\<lambda>r. check E ''bootstrap'')"

definition inventory_init :: "boot_env \<Rightarrow> (inventory_app, unit) access" where
  "inventory_init E = run_inits [initConfig E, initLogger, initCloser, inventory_initDI,
     initListener E (\<lambda>l d. d\<lparr>ia_listener := Some l\<rparr>), inventory_initServer E, inventory_initPartsData E]"

definition inventory_main :: "boot_env \<Rightarrow> inventory_app boot \<times> (string, unit main_end) outcome" where
  "inventory_main E = main (inventory_init E) (ok ())
     (process (inventory_di.extend NewDI_inventory \<lparr>ia_listener = None, ia_server = None\<rparr>))"

record payment_app = payment_di +
  pa_listener :: "handle option"
  pa_server :: "unit option"

definition payment_initDI :: "(payment_app, unit) access" where
  "payment_initDI = assign (\<lambda>d. payment_di.extend NewDI_payment (payment_di.more d))"

definition payment_initServer :: "boot_env \<Rightarrow> (payment_app, unit) access" where
  "payment_initServer E = call (payment_Server E) id (\<lambda>s. assign (\<lambda>d. d\<lparr>pa_server := Some s\<rparr>))"

definition payment_init :: "boot_env \<Rightarrow> (payment_app, unit) access" where
  "payment_init E = run_inits [initConfig E, initLogger, initCloser, payment_initDI,
     initListener E (\<lambda>l d. d\<lparr>pa_listener := Some l\<rparr>), payment_initServer E]"

definition payment_main :: "boot_env \<Rightarrow> payment_app boot \<times> (string, unit main_end) outcome" where
  "payment_main E = main (payment_init E) (ok ())
     (process (payment_di.extend NewDI_payment \<lparr>pa_listener = None, pa_server = None\<rparr>))"

subsection \<open>Assembly and notification\<close>

definition assembly_init :: "boot_env \<Rightarrow> (assembly_di, unit) access" where
  "assembly_init E = run_inits [initConfig E, initLogger, initCloser, assign (\<lambda>_. NewDI_assembly)]"

definition assembly_main :: "boot_env \<Rightarrow> assembly_di boot \<times> (string, (handle \<times> handle) option main_end) outcome" where
  "assembly_main E = main (assembly_init E) (assembly_AssemblyService E) (process NewDI_assembly)"

definition initTelegramBot :: "boot_env \<Rightarrow> (notification_di, unit) access" where
  "initTelegramBot E = call (notification_TelegramBot E) id (\<lambda>b. call (notification_TelegramService E) id (\<lambda>t. ok ()))"

definition notification_init :: "boot_env \<Rightarrow> (notification_di, unit) access" where
  "notification_init E = run_inits
     [initConfig E, initLogger, initCloser, assign (\<lambda>_. NewDI_notification), initTelegramBot E]"

text \<open>The two goroutines of \<open>run\<close> call their accessors in either order; here the first comes first.\<close>

definition notification_main ::
  "boot_env \<Rightarrow> notification_di boot \<times> (string, ((handle \<times> handle) \<times> (handle \<times> handle)) main_end) outcome" where
  "notification_main E = main (notification_init E)
     (call (notification_OrderPaidConsumer E) id (\<lambda>p. call (notification_OrderAssembledConsumer E) id (\<lambda>a. ok (p, a))))
     (process NewDI_notification)"

section \<open>Starting keeps the containers' invariants\<close>

lemma boots_check [intro, simp]: "boots slots (check E n)"
  by (simp add: check_def split: option.split)

lemma boots_run_inits: "(\<And>f. f \<in> set fs \<Longrightarrow> boots slots f) \<Longrightarrow> boots slots (run_inits fs)"
  by (induction fs) auto

text \<open>The first four functions, the same in every service.\<close>

lemma init_prefix:
  "run_inits (initConfig E # initLogger # initCloser # assign f # fs) (process d) =
     (case E ''config'' of
        Some err \<Rightarrow> (process d, Err err)
      | None \<Rightarrow> run_inits fs (process (f d)\<lparr>bt_logger := True\<rparr>))"
  by (simp add: initConfig_def check_def initLogger_def initCloser_def assign_def call_def ok_def fail_def
      process_def split: option.split)

lemma registered_process [simp]: "registered (process d)"
  by (simp add: registered_def process_def)

lemma booted_process: "(\<And>n g p. (n, g, p) \<in> set slots \<Longrightarrow> g d = None) \<Longrightarrow> booted slots (process d\<lparr>bt_logger := True\<rparr>)"
  by (auto simp: booted_def registered_def process_def)

definition starts :: "'d slot list \<Rightarrow> ('d, 'a) access \<Rightarrow> 'd boot \<Rightarrow> bool" where
  "starts slots m w \<longleftrightarrow> (\<forall>w' r. m w = (w', r) \<longrightarrow> registered w' \<and> ((\<forall>p. r \<noteq> Panic p) \<longrightarrow> booted slots w'))"

lemma starts_boots: "booted slots w \<Longrightarrow> boots slots m \<Longrightarrow> starts slots m w"
  by (simp add: starts_def boots_def)

lemma starts_call:
  assumes "starts slots m w" and "\<And>a. boots slots (k a)"
  shows "starts slots (call m h k) w"
  unfolding starts_def
proof (intro allI impI)
  fix w' r
  assume run: "call m h k w = (w', r)"
  obtain w1 r1 where m: "m w = (w1, r1)" by fastforce
  with assms(1) have "registered w1" and "(\<And>p. r1 \<noteq> Panic p) \<Longrightarrow> booted slots w1"
    unfolding starts_def by blast+
  then show "registered w' \<and> ((\<forall>p. r \<noteq> Panic p) \<longrightarrow> booted slots w')"
    using run m assms(2) unfolding boots_def by (cases r1) (auto simp: call_evals)
qed

lemma starts_listener:
  assumes "\<And>n g p. (n, g, p) \<in> set slots \<Longrightarrow> n \<noteq> ''TCP listener'' \<and> g d = None \<and> (\<forall>l. g (put l d) = None)"
  shows "starts slots (initListener E put) (process d\<lparr>bt_logger := True\<rparr>)"
proof -
  have "\<forall>x \<in> set slots. fst (snd x) d = None \<and> (\<forall>l. fst (snd x) (put l d) = None)"
    using assms by fastforce
  moreover have "(''TCP listener'', g, p) \<notin> set slots" for g p using assms by blast
  ultimately show ?thesis
    by (auto simp: starts_def initListener_def check_def open_named_def open_resource_def AddNamed_def assign_def
      call_def ok_def fail_def process_def registered_def booted_def split: option.splits)
qed

lemma main_registered:
  assumes "init (process d) = (case E ''config'' of Some err \<Rightarrow> (process d, Err err) | None \<Rightarrow> rest w0)"
    and "starts slots rest w0" and "boots slots run"
  shows "registered (fst (main init run (process d)))"
proof (cases "E ''config''")
  case (Some err)
  then show ?thesis using assms(1)
    by (simp add: main_def call_def logger_Error_def process_def ok_def registered_def)
next
  case None
  obtain w1 r where rest: "rest w0 = (w1, r)" by fastforce
  then have reg: "registered w1" and ok: "\<And>x. r = Ok x \<Longrightarrow> booted slots w1"
    using assms(2) unfolding starts_def by blast+
  have run: "registered (fst (call run id (\<lambda>x. ok (Ran x)) w1))" if "r = Ok x" for x
  proof -
    have "boots slots (call run id (\<lambda>x. ok (Ran x)))" using assms(3) by auto
    then show ?thesis using ok [OF that] unfolding boots_def by (metis fst_conv prod.collapse)
  qed
  show ?thesis using assms(1) None rest reg run
    by (cases r) (auto simp: main_def call_def [of logger_Error] logger_Error_def ok_def)
qed

lemma order_main_registered: "registered (fst (order_main E))"
  unfolding order_main_def
proof (rule main_registered [where slots = order_slots])
  let ?d = "order_di.extend NewDI_order \<lparr>oa_server = None\<rparr> :: order_app"
  let ?w = "process ?d\<lparr>bt_logger := True\<rparr>"
  show "order_init E (process ?d) = (case E ''config'' of Some err \<Rightarrow> (process ?d, Err err)
      | None \<Rightarrow> run_inits [order_initTables E, order_initServer E] ?w)"
    unfolding order_init_def order_initDI_def init_prefix
    by (simp add: order_di.defs NewDI_order_def split: option.split)
  have "booted order_slots ?w"
    by (rule booted_process) (auto dest!: order_slot simp: order_di.defs NewDI_order_def)
  moreover have "boots order_slots (order_initServer E)"
    unfolding order_initServer_def
    by (intro boots_call boots_check boots_assign accessor_boots; auto dest!: order_slot)
  moreover have "boots order_slots (order_initTables E)"
    unfolding order_initTables_def by (intro boots_call boots_check accessor_boots)
  ultimately show "starts order_slots (run_inits [order_initTables E, order_initServer E]) ?w"
    by (intro starts_boots boots_run_inits) auto
  show "boots order_slots (order_OrderConsumer E)" by (rule accessor_boots)
qed

lemma inventory_main_registered: "registered (fst (inventory_main E))"
  unfolding inventory_main_def
proof (rule main_registered [where slots = inventory_slots])
  let ?d = "inventory_di.extend NewDI_inventory \<lparr>ia_listener = None, ia_server = None\<rparr> :: inventory_app"
  let ?rest = "run_inits [initListener E (\<lambda>l d. d\<lparr>ia_listener := Some l\<rparr>), inventory_initServer E,
    inventory_initPartsData E]"
  show "inventory_init E (process ?d) = (case E ''config'' of Some err \<Rightarrow> (process ?d, Err err)
      | None \<Rightarrow> ?rest (process ?d\<lparr>bt_logger := True\<rparr>))"
    unfolding inventory_init_def inventory_initDI_def init_prefix
    by (simp add: inventory_di.defs NewDI_inventory_def split: option.split)
  have "boots inventory_slots (inventory_initServer E)"
    unfolding inventory_initServer_def
    by (intro boots_call boots_assign accessor_boots; auto dest!: inventory_slot)
  moreover have "boots inventory_slots (inventory_initPartsData E)"
    unfolding inventory_initPartsData_def by (intro boots_call boots_check accessor_boots)
  moreover have "starts inventory_slots (initListener E (\<lambda>l d. d\<lparr>ia_listener := Some l\<rparr>)) (process ?d\<lparr>bt_logger := True\<rparr>)"
    by (rule starts_listener) (simp add: inventory_slots_def inventory_di.defs NewDI_inventory_def)
  ultimately show "starts inventory_slots ?rest (process ?d\<lparr>bt_logger := True\<rparr>)"
    by (simp only: run_inits.simps) (intro starts_call boots_call boots_ok)
qed simp

lemma payment_main_registered: "registered (fst (payment_main E))"
  unfolding payment_main_def
proof (rule main_registered [where slots = "[]"])
  let ?d = "payment_di.extend NewDI_payment \<lparr>pa_listener = None, pa_server = None\<rparr> :: payment_app"
  let ?rest = "run_inits [initListener E (\<lambda>l d. d\<lparr>pa_listener := Some l\<rparr>), payment_initServer E]"
  show "payment_init E (process ?d) = (case E ''config'' of Some err \<Rightarrow> (process ?d, Err err)
      | None \<Rightarrow> ?rest (process ?d\<lparr>bt_logger := True\<rparr>))"
    unfolding payment_init_def payment_initDI_def init_prefix
    by (simp add: payment_di.defs NewDI_payment_def split: option.split)
  have "boots [] (payment_initServer E)"
    unfolding payment_initServer_def payment_Server_def payment_PaymentHandler_def payment_PaymentService_def
    by (intro boots_parts) simp_all
  moreover have "starts [] (initListener E (\<lambda>l d. d\<lparr>pa_listener := Some l\<rparr>)) (process ?d\<lparr>bt_logger := True\<rparr>)"
    by (rule starts_listener) simp
  ultimately show "starts [] ?rest (process ?d\<lparr>bt_logger := True\<rparr>)"
    by (simp only: run_inits.simps) (intro starts_call boots_call boots_ok)
qed simp

lemma assembly_main_registered: "registered (fst (assembly_main E))"
  unfolding assembly_main_def assembly_init_def
proof (rule main_registered [where slots = assembly_slots])
  let ?w = "process NewDI_assembly\<lparr>bt_logger := True\<rparr>"
  show "run_inits [initConfig E, initLogger, initCloser, assign (\<lambda>_. NewDI_assembly)] (process NewDI_assembly) =
      (case E ''config'' of Some err \<Rightarrow> (process NewDI_assembly, Err err) | None \<Rightarrow> run_inits [] ?w)"
    by (rule init_prefix)
  show "starts assembly_slots (run_inits []) (process NewDI_assembly\<lparr>bt_logger := True\<rparr>)"
    by (rule starts_boots [OF booted_process]) (auto dest!: assembly_slot simp: NewDI_assembly_def)
qed (rule accessor_boots)

lemma notification_main_registered: "registered (fst (notification_main E))"
  unfolding notification_main_def notification_init_def
proof (rule main_registered [where slots = notification_slots])
  let ?w = "process NewDI_notification\<lparr>bt_logger := True\<rparr>"
  show "run_inits [initConfig E, initLogger, initCloser, assign (\<lambda>_. NewDI_notification), initTelegramBot E]
      (process NewDI_notification) =
      (case E ''config'' of Some err \<Rightarrow> (process NewDI_notification, Err err) | None \<Rightarrow> run_inits [initTelegramBot E] ?w)"
    by (rule init_prefix)
  show "starts notification_slots (run_inits [initTelegramBot E]) (process NewDI_notification\<lparr>bt_logger := True\<rparr>)"
  proof (rule starts_boots [OF booted_process])
    show "boots notification_slots (run_inits [initTelegramBot E])"
      by (rule boots_run_inits) (auto simp: initTelegramBot_def intro: accessor_boots)
  qed (auto dest!: notification_slot simp: NewDI_notification_def)
  show "boots notification_slots (call (notification_OrderPaidConsumer E) id (\<lambda>p.
      call (notification_OrderAssembledConsumer E) id (\<lambda>a. ok (p, a))))"
    by (intro boots_call boots_ok accessor_boots)
qed

section \<open>What a start opens and builds\<close>

text \<open>An environment where nothing fails.\<close>

definition working :: boot_env where
  "working = (\<lambda>_. None)"

lemmas start_defs = main_def run_inits.simps call_def ok_def reuse_def lazily_def assign_def check_def must_def
  open_named_def open_resource_def AddNamed_def process_def working_def initConfig_def initLogger_def initCloser_def

lemmas order_main_defs = order_main_def order_init_def order_initDI_def order_initTables_def order_initServer_def
  NewDI_order_def order_di.defs order_Migrator_def order_DBPool_def order_OrderHandler_def order_OrderService_def
  order_OrderRepository_def order_InventoryClient_def order_PaymentClient_def order_OrderProducer_def
  order_OrderPaidProducer_def order_SyncProducer_def order_KafkaConverter_def order_Router_def
  order_OrderConsumer_def order_OrderAssembledConsumer_def order_ConsumerGroup_def

text \<open>
  A successful start of the order service: what it opened, in this order, and that the Kafka consumer
  and the HTTP server work on one service over the pool, both clients and the producer.
\<close>

lemma order_started:
  "order_main E = (w, Ok (Ran x)) \<Longrightarrow>
    bt_opened w = [''PGX Pool'', ''Migrator'', ''Inventory Service'', ''Payment Service'', ''Kafka sync producer'',
       ''Kafka consumer group''] \<and>
    x = (5, \<lparr>op_repository = 0, op_inventory = 2, op_payment = 3, op_producer = 4\<rparr>) \<and>
    oa_server (bt_di w) = Some (snd x)"
  by (auto simp: order_main_defs start_defs fail_def panic_def logger_Error_def split: option.splits)

lemma inventory_started:
  "inventory_main E = (w, Ok (Ran x)) \<Longrightarrow> bt_opened w = [''TCP listener'', ''Mongo Client''] \<and>
     ia_listener (bt_di w) = Some 0 \<and> ia_server (bt_di w) = Some (Some 1)"
  by (auto simp: inventory_main_def inventory_init_def inventory_initDI_def inventory_initServer_def
      inventory_initPartsData_def initListener_def NewDI_inventory_def inventory_di.defs inventory_Server_def
      inventory_InventoryHandler_def inventory_InventoryService_def inventory_PartsRepository_def
      inventory_PartsCollection_def inventory_MongoDB_def start_defs fail_def panic_def logger_Error_def
      split: option.splits)

lemma payment_started: "payment_main E = (w, Ok (Ran x)) \<Longrightarrow> bt_opened w = [''TCP listener'']"
  by (auto simp: payment_main_def payment_init_def payment_initDI_def payment_initServer_def initListener_def
      NewDI_payment_def payment_di.defs payment_Server_def payment_PaymentHandler_def payment_PaymentService_def
      start_defs fail_def panic_def logger_Error_def split: option.splits)

lemmas assembly_main_defs = assembly_main_def assembly_init_def NewDI_assembly_def assembly_AssemblyService_def
  assembly_OrderPaidConsumer_def assembly_ConsumerGroup_def assembly_OrderAssembledProducer_def
  assembly_SyncProducer_def assembly_KafkaConverter_def

lemma assembly_started:
  "assembly_main E = (w, Ok (Ran x)) \<Longrightarrow>
    bt_opened w = [''Kafka consumer group'', ''Kafka sync producer''] \<and> x = Some (0, 1)"
  by (auto simp: assembly_main_defs start_defs fail_def panic_def logger_Error_def split: option.splits)

lemma notification_started:
  "notification_main E = (w, Ok (Ran x)) \<Longrightarrow>
    bt_opened w = [''Telegram Bot'', ''Kafka order.paid consumer group'', ''Kafka order.assembled consumer group''] \<and>
    x = ((1, 0), (2, 0))"
  by (auto simp: notification_main_def notification_init_def initTelegramBot_def NewDI_notification_def
      notification_OrderPaidConsumer_def notification_OrderAssembledConsumer_def notification_OrderPaidKafkaConsumer_def
      notification_OrderAssembledKafkaConsumer_def notification_OrderPaidConsumerGroup_def
      notification_OrderAssembledConsumerGroup_def notification_KafkaConverter_def notification_TelegramService_def
      notification_TelegramClient_def notification_TelegramBot_def start_defs fail_def panic_def logger_Error_def
      split: option.splits)

section \<open>Failing starts\<close>

text \<open>
  Where the configuration cannot be loaded there is no logger yet, so that the report of the error
  is a nil dereference: no service prints the reason.
\<close>

lemma config_error_crashes:
  assumes "E ''config'' = Some err"
  shows "snd (order_main E) = Panic nil_dereference" and "snd (inventory_main E) = Panic nil_dereference"
    and "snd (payment_main E) = Panic nil_dereference" and "snd (assembly_main E) = Panic nil_dereference"
    and "snd (notification_main E) = Panic nil_dereference"
  using assms
  by (simp_all add: order_main_def order_init_def inventory_main_def inventory_init_def payment_main_def
      payment_init_def assembly_main_def assembly_init_def notification_main_def notification_init_def
      main_def initConfig_def check_def call_def fail_def logger_Error_def process_def)

text \<open>A start that fails later ends the process with what it opened, and nothing is closed.\<close>

lemma failed_migration_leaks:
  "\<exists>w. order_main (\<lambda>n. if n = ''migrations'' then Some err else None) = (w, Ok Ended) \<and>
     bt_closers w = [(''PGX Pool'', 0), (''Migrator'', 1)]"
  by (simp add: order_main_defs start_defs fail_def logger_Error_def)

text \<open>
  The assembly container tests the field of the consumer group before it makes its service: where
  the consumer group was asked for first, the service is nil.
\<close>

lemma assembly_service_nil:
  "snd (call (assembly_ConsumerGroup working) id (\<lambda>_. assembly_AssemblyService working) (process NewDI_assembly)) = Ok None"
  by (simp add: assembly_main_defs start_defs)

end
