(* ===== verification/App_Run.thy ===== *)
theory App_Run
  imports App_Start
begin

text \<open>
  The \<open>run\<close> functions of \<open>internal/app/app.go\<close> after their accessors have returned: goroutines that
  serve until they fail or their context ends, the signal that ends the context of \<open>main\<close>
  (\<open>signal.NotifyContext\<close>), and what the deferred \<open>gracefulShutdown\<close> closes. Order and notification
  wait for an error group, the other three for a channel. Each is a step relation whose labels are
  the events; a run is the list of its events.
\<close>

section \<open>Error groups: order and notification\<close>

text \<open>The context that ends a goroutine: \<open>ctx\<close>, the context of the group, or none.\<close>

datatype scope = RunCtx | GroupCtx | NoCtx

datatype task = Running | Returned "string option"

record group_run =
  gr_tasks :: "task list"
  gr_signalled :: bool \<comment> \<open>\<open>ctx\<close> is done\<close>
  gr_cancelled :: bool \<comment> \<open>the group has cancelled its own context\<close>
  gr_err :: "string option" \<comment> \<open>the first error, kept by \<open>errOnce\<close>\<close>
  gr_result :: "string option option" \<comment> \<open>what \<open>run\<close> returned\<close>
  gr_closed :: "(string \<times> handle) list" \<comment> \<open>what \<open>closer.CloseAll\<close> was called for\<close>

text \<open>
  \<open>order\<close>: the consumer is given \<open>ctx\<close>; \<open>ListenAndServe\<close> has no context, and nothing calls the
  server's \<open>Shutdown\<close> or \<open>Close\<close>, so that it returns only with an error of its own.
  \<open>notification\<close>: both consumers are given the context of the group.
\<close>

definition order_tasks :: "scope list" where
  "order_tasks = [RunCtx, NoCtx]"

definition notification_tasks :: "scope list" where
  "notification_tasks = [GroupCtx, GroupCtx]"

fun scope_done :: "scope \<Rightarrow> group_run \<Rightarrow> bool" where
  "scope_done RunCtx s = gr_signalled s"
| "scope_done GroupCtx s = (gr_signalled s \<or> gr_cancelled s)"
| "scope_done NoCtx s = False"

definition start_group :: "scope list \<Rightarrow> group_run" where
  "start_group ls = \<lparr>gr_tasks = replicate (length ls) Running, gr_signalled = False, gr_cancelled = False,
     gr_err = None, gr_result = None, gr_closed = []\<rparr>"

text \<open>\<open>if err := f(); err != nil { errOnce.Do(func() { g.err = err; cancel() }) }\<close>\<close>

definition task_returns :: "nat \<Rightarrow> string option \<Rightarrow> group_run \<Rightarrow> group_run" where
  "task_returns i r s =
     (let s1 = s\<lparr>gr_tasks := (gr_tasks s)[i := Returned r]\<rparr> in
      if r \<noteq> None \<and> gr_err s = None then s1\<lparr>gr_err := r, gr_cancelled := True\<rparr> else s1)"

datatype group_event =
    Signal
  | Fails nat string \<comment> \<open>a goroutine returns an error while its context lives\<close>
  | Stops nat "string option" \<comment> \<open>a goroutine returns because its context is done\<close>
  | WaitReturns

text \<open>\<open>cs\<close> are the registered closers, \<open>ls\<close> the contexts of the goroutines.\<close>

inductive group_step :: "scope list \<Rightarrow> (string \<times> handle) list \<Rightarrow> group_run \<Rightarrow> group_event \<Rightarrow> group_run \<Rightarrow> bool"
  for ls :: "scope list" and cs :: "(string \<times> handle) list" where
  signal: "\<not> gr_signalled s \<Longrightarrow> group_step ls cs s Signal (s\<lparr>gr_signalled := True\<rparr>)"
| fails: "i < length ls \<Longrightarrow> gr_tasks s ! i = Running \<Longrightarrow> \<not> scope_done (ls ! i) s \<Longrightarrow>
    group_step ls cs s (Fails i e) (task_returns i (Some e) s)"
| stops: "i < length ls \<Longrightarrow> gr_tasks s ! i = Running \<Longrightarrow> scope_done (ls ! i) s \<Longrightarrow>
    group_step ls cs s (Stops i r) (task_returns i r s)"
| wait_returns: "\<forall>t \<in> set (gr_tasks s). t \<noteq> Running \<Longrightarrow> gr_result s = None \<Longrightarrow>
    group_step ls cs s WaitReturns (s\<lparr>gr_cancelled := True, gr_result := Some (gr_err s), gr_closed := cs\<rparr>)"

inductive group_runs :: "scope list \<Rightarrow> (string \<times> handle) list \<Rightarrow> group_event list \<Rightarrow> group_run \<Rightarrow> bool"
  for ls :: "scope list" and cs :: "(string \<times> handle) list" where
  start: "group_runs ls cs [] (start_group ls)"
| step: "group_runs ls cs es s \<Longrightarrow> group_step ls cs s e s' \<Longrightarrow> group_runs ls cs (es @ [e]) s'"

inductive_cases group_stepE: "group_step ls cs s e s'"

section \<open>Facts about a run of a group\<close>

fun event_error :: "group_event \<Rightarrow> string option" where
  "event_error (Fails i e) = Some e"
| "event_error (Stops i r) = r"
| "event_error _ = None"

fun event_task :: "group_event \<Rightarrow> nat option" where
  "event_task (Fails i e) = Some i"
| "event_task (Stops i r) = Some i"
| "event_task _ = None"

lemma event_task_iff: "event_task e = Some i \<longleftrightarrow> (\<exists>x. e = Fails i x) \<or> (\<exists>r. e = Stops i r)"
  by (cases e) auto

text \<open>The first error among the events.\<close>

definition first_failure :: "group_event list \<Rightarrow> string option" where
  "first_failure es = (case List.map_filter event_error es of [] \<Rightarrow> None | e # _ \<Rightarrow> Some e)"

lemma first_failure_snoc:
  "first_failure (es @ [e]) = (case first_failure es of None \<Rightarrow> event_error e | Some x \<Rightarrow> Some x)"
  by (auto simp: first_failure_def List.map_filter_def split: list.splits option.splits)

lemma task_returns_sel [simp]:
  "gr_tasks (task_returns i r s) = (gr_tasks s)[i := Returned r]"
  "gr_signalled (task_returns i r s) = gr_signalled s"
  "gr_result (task_returns i r s) = gr_result s" "gr_closed (task_returns i r s) = gr_closed s"
  "gr_err (task_returns i r s) = (case gr_err s of None \<Rightarrow> r | Some x \<Rightarrow> Some x)"
  "gr_cancelled (task_returns i r s) = (gr_cancelled s \<or> r \<noteq> None \<and> gr_err s = None)"
  by (auto simp: task_returns_def Let_def split: option.splits)

text \<open>What the state of a run says about its events, one fact at a time.\<close>

lemma runs_length: "group_runs ls cs es s \<Longrightarrow> length (gr_tasks s) = length ls"
  by (induction rule: group_runs.induct) (auto simp: start_group_def elim!: group_stepE)

lemma runs_signal: "group_runs ls cs es s \<Longrightarrow> gr_signalled s \<longleftrightarrow> Signal \<in> set es"
  by (induction rule: group_runs.induct) (auto simp: start_group_def elim!: group_stepE)

lemma runs_err: "group_runs ls cs es s \<Longrightarrow> gr_err s = first_failure es"
  by (induction rule: group_runs.induct)
    (auto simp: start_group_def first_failure_snoc first_failure_def [of "[]"] elim!: group_stepE split: option.splits)

lemma runs_finished:
  "group_runs ls cs es s \<Longrightarrow> i < length ls \<Longrightarrow> gr_tasks s ! i \<noteq> Running \<Longrightarrow> \<exists>e \<in> set es. event_task e = Some i"
proof (induction rule: group_runs.induct)
  case start
  then show ?case by (simp add: start_group_def)
next
  case (step es s e s')
  show ?case
  proof (cases "gr_tasks s ! i = Running")
    case True
    then show ?thesis using step.hyps(2) step.prems runs_length [OF step.hyps(1)]
      by (auto elim!: group_stepE simp: nth_list_update split: if_splits)
  next
    case False
    then show ?thesis using step.IH step.prems(1) by auto
  qed
qed

lemma runs_stops:
  "group_runs ls cs es s \<Longrightarrow> Stops i r \<in> set es \<Longrightarrow> i < length ls \<and> ls ! i \<noteq> NoCtx \<and> (ls ! i = RunCtx \<longrightarrow> Signal \<in> set es)"
proof (induction rule: group_runs.induct)
  case (step es s e s')
  show ?case
  proof (cases "Stops i r \<in> set es")
    case False
    then have "e = Stops i r" using step.prems by simp
    with step.hyps(2) have "i < length ls" "scope_done (ls ! i) s" by (auto elim!: group_stepE)
    then show ?thesis using runs_signal [OF step.hyps(1)] by (cases "ls ! i") auto
  qed (use step in auto)
qed simp

lemma runs_result:
  "group_runs ls cs es s \<Longrightarrow>
    (case gr_result s of None \<Rightarrow> gr_closed s = []
     | Some r \<Rightarrow> gr_closed s = cs \<and> r = gr_err s \<and> (\<forall>t \<in> set (gr_tasks s). t \<noteq> Running))"
proof (induction rule: group_runs.induct)
  case (step es s e s')
  have idle: "gr_result s = None" if "i < length ls" "gr_tasks s ! i = Running" for i
    using step.IH that runs_length [OF step.hyps(1)] by (force split: option.splits)
  show ?case using step.hyps(2)
    by (cases rule: group_stepE) (use step.IH idle in \<open>auto split: option.splits\<close>)
qed (simp add: start_group_def)

lemma runs_cancelled:
  "group_runs ls cs es s \<Longrightarrow> gr_err s \<noteq> None \<Longrightarrow> gr_cancelled s"
  by (induction rule: group_runs.induct) (auto simp: start_group_def elim!: group_stepE split: option.splits)

section \<open>Progress and termination\<close>

text \<open>Once the context of every goroutine is done, \<open>run\<close> is never stuck before it has returned.\<close>

lemma group_progress:
  assumes run: "group_runs ls cs es s" and "\<forall>l \<in> set ls. scope_done l s" and "gr_result s = None"
  shows "\<exists>e s'. group_step ls cs s e s' \<and> e \<noteq> Signal"
proof (cases "\<forall>t \<in> set (gr_tasks s). t \<noteq> Running")
  case True
  then show ?thesis using wait_returns [of s ls cs] assms(3) by blast
next
  case False
  then obtain i where i: "i < length ls" "gr_tasks s ! i = Running"
    using runs_length [OF run] by (metis in_set_conv_nth)
  then have "scope_done (ls ! i) s" using assms(2) by simp
  then show ?thesis using stops [OF i] by blast
qed

definition group_left :: "group_run \<Rightarrow> nat" where
  "group_left s = length (filter (\<lambda>t. t = Running) (gr_tasks s)) + (if gr_signalled s then 0 else 1) +
     (if gr_result s = None then 1 else 0)"

lemma filter_update_less:
  "i < length xs \<Longrightarrow> P (xs ! i) \<Longrightarrow> \<not> P x \<Longrightarrow> length (filter P (xs[i := x])) < length (filter P xs)"
  by (induction xs arbitrary: i) (auto split: nat.splits)

lemma group_step_left:
  assumes "group_runs ls cs es s" and "group_step ls cs s e s'"
  shows "group_left s' < group_left s"
  using assms(2)
proof (cases rule: group_step.cases)
  case (fails i f)
  then show ?thesis using filter_update_less [of i "gr_tasks s" "\<lambda>t. t = Running" "Returned (Some f)"]
      runs_length [OF assms(1)] by (simp add: group_left_def)
next
  case (stops i r)
  then show ?thesis using filter_update_less [of i "gr_tasks s" "\<lambda>t. t = Running" "Returned r"]
      runs_length [OF assms(1)] by (simp add: group_left_def)
qed (auto simp: group_left_def)

text \<open>A run has at most one event per goroutine, the signal and the return.\<close>

lemma group_runs_bounded: "group_runs ls cs es s \<Longrightarrow> length es + group_left s \<le> length ls + 2"
proof (induction rule: group_runs.induct)
  case start
  then show ?case by (simp add: group_left_def start_group_def)
next
  case (step es s e s')
  then show ?case using group_step_left [OF step.hyps] by simp
qed

section \<open>The two groups\<close>

text \<open>
  \<open>order\<close> returns, and closes what it opened, only if its HTTP server has failed: a signal alone
  never ends the process.
\<close>

lemma order_returns_only:
  assumes run: "group_runs order_tasks cs es s" and "gr_result s \<noteq> None"
  shows "(\<exists>e. Fails 1 e \<in> set es) \<and> (Signal \<in> set es \<or> (\<exists>e. Fails 0 e \<in> set es))"
proof -
  have fin: "gr_tasks s ! i \<noteq> Running" if "i < 2" for i
    using runs_result [OF run] assms(2) that runs_length [OF run]
    by (auto simp: order_tasks_def split: option.splits)
  have ev: "\<exists>e \<in> set es. event_task e = Some i" if "i < 2" for i
    using runs_finished [OF run _ fin [OF that]] that by (simp add: order_tasks_def)
  have "Stops 1 r \<notin> set es" for r using runs_stops [OF run, of 1 r] by (auto simp: order_tasks_def)
  then have "\<exists>e. Fails 1 e \<in> set es" using ev [of 1] unfolding event_task_iff by auto
  moreover have "Signal \<in> set es" if "Stops 0 r \<in> set es" for r
    using runs_stops [OF run that] by (simp add: order_tasks_def)
  then have "Signal \<in> set es \<or> (\<exists>e. Fails 0 e \<in> set es)" using ev [of 0] unfolding event_task_iff by auto
  ultimately show ?thesis ..
qed

lemma order_server_keeps_serving:
  assumes "group_runs order_tasks cs es s" and "\<forall>e. Fails 1 e \<notin> set es"
  shows "gr_result s = None \<and> gr_closed s = [] \<and> gr_tasks s ! 1 = Running"
proof -
  have "gr_result s = None" using order_returns_only [OF assms(1)] assms(2) by blast
  moreover have "gr_closed s = []" using runs_result [OF assms(1)] \<open>gr_result s = None\<close> by simp
  moreover have "gr_tasks s ! 1 = Running"
  proof (rule ccontr)
    assume "gr_tasks s ! 1 \<noteq> Running"
    then obtain e where "e \<in> set es" "event_task e = Some 1"
      using runs_finished [OF assms(1), of 1] by (auto simp: order_tasks_def)
    then show False using assms(2) runs_stops [OF assms(1), of 1]
      unfolding event_task_iff by (fastforce simp: order_tasks_def)
  qed
  ultimately show ?thesis by simp
qed

lemma notification_scopes:
  "group_runs notification_tasks cs es s \<Longrightarrow> Signal \<in> set es \<or> first_failure es \<noteq> None \<Longrightarrow>
    \<forall>l \<in> set notification_tasks. scope_done l s"
  using runs_signal [of notification_tasks cs es s] runs_err [of notification_tasks cs es s]
    runs_cancelled [of notification_tasks cs es s]
  by (auto simp: notification_tasks_def)

lemma notification_returns:
  assumes run: "group_runs notification_tasks cs es s"
  shows "length es \<le> 4" and
    "Signal \<in> set es \<or> first_failure es \<noteq> None \<Longrightarrow> gr_result s = None \<Longrightarrow>
      \<exists>e s'. group_step notification_tasks cs s e s' \<and> e \<noteq> Signal" and
    "gr_result s = Some r \<Longrightarrow> r = first_failure es \<and> gr_closed s = cs"
proof -
  show "length es \<le> 4" using group_runs_bounded [OF run] by (simp add: notification_tasks_def)
  show "\<exists>e s'. group_step notification_tasks cs s e s' \<and> e \<noteq> Signal"
    if "Signal \<in> set es \<or> first_failure es \<noteq> None" and "gr_result s = None"
    using group_progress [OF run notification_scopes [OF run that(1)] that(2)] .
  show "r = first_failure es \<and> gr_closed s = cs" if "gr_result s = Some r"
    using runs_result [OF run] runs_err [OF run] that by simp
qed

section \<open>Channels: assembly, inventory and payment\<close>

text \<open>
  One goroutine serves and sends its error into an unbuffered channel, or gives up when \<open>ctx\<close> is
  done; \<open>run\<close> selects between \<open>ctx\<close> and the channel. Inventory and payment close the channel when
  the goroutine ends (\<open>defer close(errCh)\<close>), assembly does not.
\<close>

datatype server = Serving | SendingErr string | Finished

record select_run =
  sl_server :: server
  sl_chan_closed :: bool
  sl_signalled :: bool
  sl_result :: "string option option"
  sl_closed :: "(string \<times> handle) list"

definition start_select :: select_run where
  "start_select = \<lparr>sl_server = Serving, sl_chan_closed = False, sl_signalled = False, sl_result = None, sl_closed = []\<rparr>"

text \<open>
  What \<open>gracefulShutdown\<close> closes: assembly calls \<open>closer.CloseAll\<close>; inventory and payment only stop
  the gRPC server and never call the closer.
\<close>

datatype select_kind = AssemblyRun | GrpcRun

definition shutdown_closes :: "select_kind \<Rightarrow> (string \<times> handle) list \<Rightarrow> (string \<times> handle) list" where
  "shutdown_closes k cs = (case k of AssemblyRun \<Rightarrow> cs | GrpcRun \<Rightarrow> [])"

definition server_ends :: "select_kind \<Rightarrow> select_run \<Rightarrow> select_run" where
  "server_ends k s = s\<lparr>sl_server := Finished, sl_chan_closed := (k = GrpcRun)\<rparr>"

definition select_returns :: "select_kind \<Rightarrow> (string \<times> handle) list \<Rightarrow> string option \<Rightarrow> select_run \<Rightarrow> select_run" where
  "select_returns k cs r s = s\<lparr>sl_result := Some r, sl_closed := shutdown_closes k cs\<rparr>"

datatype select_event =
    CtxSignal
  | ServeFails string \<comment> \<open>an error that is not \<open>ErrServerStopped\<close>\<close>
  | ServeEnds \<comment> \<open>no error, or \<open>ErrServerStopped\<close>\<close>
  | ErrDelivered
  | ErrDropped
  | CtxSelected
  | CloseSelected

inductive select_step ::
  "select_kind \<Rightarrow> (string \<times> handle) list \<Rightarrow> string \<Rightarrow> select_run \<Rightarrow> select_event \<Rightarrow> select_run \<Rightarrow> bool"
  for k :: select_kind and cs :: "(string \<times> handle) list" and ctxErr :: string where
  ctx_signal: "\<not> sl_signalled s \<Longrightarrow> select_step k cs ctxErr s CtxSignal (s\<lparr>sl_signalled := True\<rparr>)"
| serve_fails: "sl_server s = Serving \<Longrightarrow>
    select_step k cs ctxErr s (ServeFails e) (s\<lparr>sl_server := SendingErr e\<rparr>)"
| serve_ends: "sl_server s = Serving \<Longrightarrow> select_step k cs ctxErr s ServeEnds (server_ends k s)"
| err_delivered: "sl_server s = SendingErr e \<Longrightarrow> sl_result s = None \<Longrightarrow>
    select_step k cs ctxErr s ErrDelivered (select_returns k cs (Some e) (server_ends k s))"
| err_dropped: "sl_server s = SendingErr e \<Longrightarrow> sl_signalled s \<Longrightarrow>
    select_step k cs ctxErr s ErrDropped (server_ends k s)"
| ctx_selected: "sl_signalled s \<Longrightarrow> sl_result s = None \<Longrightarrow>
    select_step k cs ctxErr s CtxSelected (select_returns k cs (Some ctxErr) s)"
| close_selected: "sl_chan_closed s \<Longrightarrow> sl_result s = None \<Longrightarrow>
    select_step k cs ctxErr s CloseSelected (select_returns k cs None s)"

inductive select_runs ::
  "select_kind \<Rightarrow> (string \<times> handle) list \<Rightarrow> string \<Rightarrow> select_event list \<Rightarrow> select_run \<Rightarrow> bool"
  for k :: select_kind and cs :: "(string \<times> handle) list" and ctxErr :: string where
  start: "select_runs k cs ctxErr [] start_select"
| step: "select_runs k cs ctxErr es s \<Longrightarrow> select_step k cs ctxErr s e s' \<Longrightarrow> select_runs k cs ctxErr (es @ [e]) s'"

inductive_cases select_stepE: "select_step k cs ctxErr s e s'"

lemmas select_defs = server_ends_def select_returns_def shutdown_closes_def start_select_def

lemma select_signalled: "select_runs k cs ctxErr es s \<Longrightarrow> sl_signalled s \<longleftrightarrow> CtxSignal \<in> set es"
  by (induction rule: select_runs.induct) (auto simp: select_defs elim!: select_stepE)

lemma select_sending: "select_runs k cs ctxErr es s \<Longrightarrow> sl_server s = SendingErr e \<Longrightarrow> ServeFails e \<in> set es"
  by (induction rule: select_runs.induct) (auto simp: select_defs elim!: select_stepE)

lemma select_chan_closed: "select_runs k cs ctxErr es s \<Longrightarrow> sl_chan_closed s \<Longrightarrow> k = GrpcRun \<and> sl_server s = Finished"
  by (induction rule: select_runs.induct) (auto simp: select_defs elim!: select_stepE)

text \<open>What \<open>run\<close> returns: the error of the server, that of the context, or nothing.\<close>

lemma select_result:
  assumes "select_runs k cs ctxErr es s"
  shows "case sl_result s of
     None \<Rightarrow> sl_closed s = []
   | Some r \<Rightarrow> sl_closed s = shutdown_closes k cs \<and>
      (case r of None \<Rightarrow> k = GrpcRun | Some e \<Rightarrow> e = ctxErr \<and> CtxSignal \<in> set es \<or> ServeFails e \<in> set es)"
  using assms
proof (induction rule: select_runs.induct)
  case (step es s e s')
  note facts = select_signalled [OF step.hyps(1)] select_sending [OF step.hyps(1)] select_chan_closed [OF step.hyps(1)]
  show ?case using step.hyps(2)
    by (cases rule: select_step.cases) (use step.IH facts in \<open>auto simp: select_defs split: option.splits\<close>)
qed (simp add: start_select_def)

text \<open>After a signal, or an error of the server, \<open>run\<close> can return at once.\<close>

lemma select_progress:
  "select_runs k cs ctxErr es s \<Longrightarrow> CtxSignal \<in> set es \<Longrightarrow> sl_result s = None \<Longrightarrow>
    select_step k cs ctxErr s CtxSelected (select_returns k cs (Some ctxErr) s)"
  using select_signalled ctx_selected by metis

definition select_left :: "select_run \<Rightarrow> nat" where
  "select_left s = (case sl_server s of Serving \<Rightarrow> 2 | SendingErr e \<Rightarrow> 1 | Finished \<Rightarrow> 0) +
     (if sl_signalled s then 0 else 1) + (if sl_result s = None then 1 else 0)"

lemma select_runs_bounded: "select_runs k cs ctxErr es s \<Longrightarrow> length es + select_left s \<le> 4"
  by (induction rule: select_runs.induct) (auto simp: select_left_def select_defs elim!: select_stepE)

end
