(* ===== verification/Config.thy ===== *)
theory Config
  imports Prelude
begin

text \<open>
  Configuration (\<open>internal/config\<close> of the five services): environment variables, read into structs by
  \<open>env.Parse\<close> and kept in a package variable by \<open>Load\<close>, and the texts that the structs build from
  them. The parsers of \<open>env.Parse\<close> and \<open>godotenv.Load\<close> are parameters; a struct is parsed field by
  field, and the errors of all fields are joined into one, as the package documents.
\<close>

section \<open>Environment\<close>

type_synonym environ = "string \<rightharpoonup> string"

record env_lib =
  el_Int :: "string \<Rightarrow> (string, int64) outcome"
  el_Duration :: "string \<Rightarrow> (string, int64) outcome"
  el_Bool :: "string \<Rightarrow> (string, bool) outcome"
  el_Strings :: "string \<Rightarrow> (string, string list) outcome"
  el_NotSet :: "string \<Rightarrow> string"
  el_Aggregate :: "string list \<Rightarrow> string"

text \<open>The fields parsed so far, or all errors.\<close>

datatype 'a parsed = Parsed 'a | Broken "string list"

text \<open>A field with the tag \<open>env:"key,required"\<close>.\<close>

definition required :: "env_lib \<Rightarrow> environ \<Rightarrow> (string \<Rightarrow> (string, 'a) outcome) \<Rightarrow> string \<Rightarrow> 'a parsed" where
  "required L en parse key =
     (case en key of
        None \<Rightarrow> Broken [el_NotSet L key]
      | Some v \<Rightarrow> (case parse v of Ok x \<Rightarrow> Parsed x | Err e \<Rightarrow> Broken [e] | Panic p \<Rightarrow> Broken [p]))"

fun and_field :: "('a \<Rightarrow> 'b) parsed \<Rightarrow> 'a parsed \<Rightarrow> 'b parsed" where
  "and_field (Parsed f) (Parsed x) = Parsed (f x)"
| "and_field (Parsed f) (Broken es) = Broken es"
| "and_field (Broken es) (Parsed x) = Broken es"
| "and_field (Broken es) (Broken es') = Broken (es @ es')"

definition env_Parse :: "env_lib \<Rightarrow> 'a parsed \<Rightarrow> (string, 'a) outcome" where
  "env_Parse L p = (case p of Parsed x \<Rightarrow> Ok x | Broken es \<Rightarrow> Err (el_Aggregate L es))"

text \<open>\<open>fmt.Sprintf("%s:%d", host, port)\<close>\<close>

definition host_port :: "string \<Rightarrow> int64 \<Rightarrow> string" where
  "host_port host port = host @ '':'' @ fmt_d (sint port)"

section \<open>The structs\<close>

record http_server_cfg =
  hs_Host :: string
  hs_Port :: int64
  hs_ReadTimeout :: int64
  hs_ShutdownTimeout :: int64
  hs_DBReadTimeout :: int64
  hs_DBWriteTimeout :: int64

definition NewHTTPServerConfig :: "env_lib \<Rightarrow> environ \<Rightarrow> (string, http_server_cfg) outcome" where
  "NewHTTPServerConfig L en = env_Parse L
     (and_field (and_field (and_field (and_field (and_field (and_field (Parsed http_server_cfg.make)
       (required L en Ok ''HTTP_HOST'')) (required L en (el_Int L) ''HTTP_PORT''))
       (required L en (el_Duration L) ''HTTP_READ_TIMEOUT'')) (required L en (el_Duration L) ''SHUTDOWN_TIMEOUT''))
       (required L en (el_Duration L) ''DB_READ_TIMEOUT'')) (required L en (el_Duration L) ''DB_WRITE_TIMEOUT''))"

definition http_Address :: "http_server_cfg \<Rightarrow> string" where
  "http_Address cfg = host_port (hs_Host cfg) (hs_Port cfg)"

record grpc_client_cfg =
  gc_GRPCHost :: string
  gc_GRPCPort :: int64

definition NewInventoryConfig :: "env_lib \<Rightarrow> environ \<Rightarrow> (string, grpc_client_cfg) outcome" where
  "NewInventoryConfig L en = env_Parse L
     (and_field (and_field (Parsed grpc_client_cfg.make)
       (required L en Ok ''INVENTORY_GRPC_HOST'')) (required L en (el_Int L) ''INVENTORY_GRPC_PORT''))"

definition inventory_Address :: "grpc_client_cfg \<Rightarrow> string" where
  "inventory_Address cfg = host_port (gc_GRPCHost cfg) (gc_GRPCPort cfg)"

definition NewPaymentConfig :: "env_lib \<Rightarrow> environ \<Rightarrow> (string, grpc_client_cfg) outcome" where
  "NewPaymentConfig L en = env_Parse L
     (and_field (and_field (Parsed grpc_client_cfg.make)
       (required L en Ok ''PAYMENT_GRPC_HOST'')) (required L en (el_Int L) ''PAYMENT_GRPC_PORT''))"

definition payment_Address :: "grpc_client_cfg \<Rightarrow> string" where
  "payment_Address cfg = host_port (gc_GRPCHost cfg) (gc_GRPCPort cfg)"

record logger_cfg =
  lg_Level :: string
  lg_AsJSON :: bool

definition NewLoggerConfig :: "env_lib \<Rightarrow> environ \<Rightarrow> (string, logger_cfg) outcome" where
  "NewLoggerConfig L en = env_Parse L
     (and_field (and_field (Parsed logger_cfg.make)
       (required L en Ok ''LOGGER_LEVEL'')) (required L en (el_Bool L) ''LOGGER_AS_JSON''))"

record postgres_cfg =
  pg_Host :: string
  pg_Port :: int64
  pg_User :: string
  pg_Password :: string
  pg_DBName :: string
  pg_SSLMode :: string
  pg_MigrationsDir :: string

definition NewPostgresConfig :: "env_lib \<Rightarrow> environ \<Rightarrow> (string, postgres_cfg) outcome" where
  "NewPostgresConfig L en = env_Parse L
     (and_field (and_field (and_field (and_field (and_field (and_field (and_field (Parsed postgres_cfg.make)
       (required L en Ok ''POSTGRES_HOST'')) (required L en (el_Int L) ''POSTGRES_PORT''))
       (required L en Ok ''POSTGRES_USER'')) (required L en Ok ''POSTGRES_PASSWORD''))
       (required L en Ok ''POSTGRES_DB'')) (required L en Ok ''POSTGRES_SSL_MODE''))
       (required L en Ok ''MIGRATION_DIRECTORY''))"

definition postgres_DSN :: "postgres_cfg \<Rightarrow> string" where
  "postgres_DSN cfg = ''postgres://'' @ pg_User cfg @ '':'' @ pg_Password cfg @ ''@'' @ pg_Host cfg @ '':'' @
     fmt_d (sint (pg_Port cfg)) @ ''/'' @ pg_DBName cfg @ ''?sslmode='' @ pg_SSLMode cfg"

record mongo_cfg =
  mg_Host :: string
  mg_Port :: int64
  mg_User :: string
  mg_Password :: string
  mg_DBName :: string
  mg_AuthDB :: string
  mg_PartsCollection :: string

definition NewMongoConfig :: "env_lib \<Rightarrow> environ \<Rightarrow> (string, mongo_cfg) outcome" where
  "NewMongoConfig L en = env_Parse L
     (and_field (and_field (and_field (and_field (and_field (and_field (and_field (Parsed mongo_cfg.make)
       (required L en Ok ''MONGO_HOST'')) (required L en (el_Int L) ''MONGO_PORT''))
       (required L en Ok ''MONGO_INITDB_ROOT_USERNAME'')) (required L en Ok ''MONGO_INITDB_ROOT_PASSWORD''))
       (required L en Ok ''MONGO_DATABASE'')) (required L en Ok ''MONGO_AUTH_DB''))
       (required L en Ok ''MONGO_PARTS_COLLECTION''))"

definition mongo_DSN :: "mongo_cfg \<Rightarrow> string" where
  "mongo_DSN cfg = ''mongodb://'' @ mg_User cfg @ '':'' @ mg_Password cfg @ ''@'' @ mg_Host cfg @ '':'' @
     fmt_d (sint (mg_Port cfg)) @ ''/'' @ mg_DBName cfg @ ''?authSource='' @ mg_AuthDB cfg"

record inventory_server_cfg =
  is_Host :: string
  is_Port :: int64
  is_DBReadTimeout :: int64

definition inventory_NewGRPCServerConfig :: "env_lib \<Rightarrow> environ \<Rightarrow> (string, inventory_server_cfg) outcome" where
  "inventory_NewGRPCServerConfig L en = env_Parse L
     (and_field (and_field (and_field (Parsed inventory_server_cfg.make)
       (required L en Ok ''GRPC_HOST'')) (required L en (el_Int L) ''GRPC_PORT''))
       (required L en (el_Duration L) ''DB_READ_TIMEOUT''))"

definition inventory_server_Address :: "inventory_server_cfg \<Rightarrow> string" where
  "inventory_server_Address cfg = host_port (is_Host cfg) (is_Port cfg)"

record payment_server_cfg =
  ps_Host :: string
  ps_Port :: int64

definition payment_NewGRPCServerConfig :: "env_lib \<Rightarrow> environ \<Rightarrow> (string, payment_server_cfg) outcome" where
  "payment_NewGRPCServerConfig L en = env_Parse L
     (and_field (and_field (Parsed payment_server_cfg.make)
       (required L en Ok ''GRPC_HOST'')) (required L en (el_Int L) ''GRPC_PORT''))"

definition payment_server_Address :: "payment_server_cfg \<Rightarrow> string" where
  "payment_server_Address cfg = host_port (ps_Host cfg) (ps_Port cfg)"

subsection \<open>Kafka and Telegram\<close>

record kafka_cfg =
  kf_Brokers :: "string list"
  kf_OrderPaidTopicName :: string
  kf_OrderAssembledTopicName :: string
  kf_ConsumerGroupID :: string

definition order_NewKafkaConfig :: "env_lib \<Rightarrow> environ \<Rightarrow> (string, kafka_cfg) outcome" where
  "order_NewKafkaConfig L en = env_Parse L
     (and_field (and_field (and_field (and_field (Parsed kafka_cfg.make)
       (required L en (el_Strings L) ''KAFKA_BROKERS'')) (required L en Ok ''ORDER_PAID_TOPIC_NAME''))
       (required L en Ok ''ORDER_ASSEMBLED_TOPIC_NAME'')) (required L en Ok ''ORDER_ASSEMBLED_CONSUMER_GROUP_ID''))"

definition assembly_NewKafkaConfig :: "env_lib \<Rightarrow> environ \<Rightarrow> (string, kafka_cfg) outcome" where
  "assembly_NewKafkaConfig L en = env_Parse L
     (and_field (and_field (and_field (and_field (Parsed kafka_cfg.make)
       (required L en (el_Strings L) ''KAFKA_BROKERS'')) (required L en Ok ''ORDER_PAID_TOPIC_NAME''))
       (required L en Ok ''ORDER_ASSEMBLED_TOPIC_NAME'')) (required L en Ok ''ORDER_PAID_CONSUMER_GROUP_ID''))"

record notification_kafka_cfg =
  nk_Brokers :: "string list"
  nk_OrderPaidTopicName :: string
  nk_OrderPaidConsumerGroupID :: string
  nk_OrderAssembledTopicName :: string
  nk_OrderAssembledConsumerGroupID :: string

definition notification_NewKafkaConfig :: "env_lib \<Rightarrow> environ \<Rightarrow> (string, notification_kafka_cfg) outcome" where
  "notification_NewKafkaConfig L en = env_Parse L
     (and_field (and_field (and_field (and_field (and_field (Parsed notification_kafka_cfg.make)
       (required L en (el_Strings L) ''KAFKA_BROKERS'')) (required L en Ok ''ORDER_PAID_TOPIC_NAME''))
       (required L en Ok ''ORDER_PAID_CONSUMER_GROUP_ID'')) (required L en Ok ''ORDER_ASSEMBLED_TOPIC_NAME''))
       (required L en Ok ''ORDER_ASSEMBLED_CONSUMER_GROUP_ID''))"

text \<open>The fields of \<open>sarama.Config\<close> that are assigned; \<open>new\<close> is \<open>sarama.NewConfig()\<close>.\<close>

datatype balance_strategy = RoundRobin | OtherStrategy string

datatype initial_offset = OffsetOldest | OffsetNewest

record sarama_cfg =
  sc_Version :: string
  sc_GroupStrategies :: "balance_strategy list"
  sc_OffsetsInitial :: initial_offset
  sc_ReturnSuccesses :: bool

definition consumer_config :: "sarama_cfg \<Rightarrow> sarama_cfg" where
  "consumer_config new = new\<lparr>sc_Version := ''4.0.0.0'', sc_GroupStrategies := [RoundRobin],
     sc_OffsetsInitial := OffsetOldest\<rparr>"

definition producer_config :: "sarama_cfg \<Rightarrow> sarama_cfg" where
  "producer_config new = new\<lparr>sc_Version := ''4.0.0.0'', sc_ReturnSuccesses := True\<rparr>"

definition NewTelegramConfig :: "env_lib \<Rightarrow> environ \<Rightarrow> (string, string) outcome" where
  "NewTelegramConfig L en = env_Parse L (required L en Ok ''TELEGRAM_BOT_TOKEN'')"

section \<open>Load\<close>

text \<open>The environment and the package variable \<open>cfg\<close>; \<open>os.ErrNotExist\<close> is the sentinel that is told apart.\<close>

record 'c config_state =
  cs_env :: environ
  cs_cfg :: "'c option"

datatype os_sentinel = ErrNotExist

type_synonym os_error = "os_sentinel goerr"

type_synonym dotenv = "string list \<Rightarrow> environ \<Rightarrow> environ \<times> os_error option"

definition op_Load :: string where
  "op_Load = ''config.Load''"

definition shouldLoadDotenv :: "environ \<Rightarrow> bool" where
  "shouldLoadDotenv en \<longleftrightarrow> en ''APP_ENV'' = Some ''local''"

definition load_dotenv :: "dotenv \<Rightarrow> string list \<Rightarrow> ('c config_state, os_error, unit) prog" where
  "load_dotenv dot path w =
     (if shouldLoadDotenv (cs_env w) then
        case dot path (cs_env w) of
          (en, None) \<Rightarrow> (w\<lparr>cs_env := en\<rparr>, Ok ())
        | (en, Some err) \<Rightarrow>
            (w\<lparr>cs_env := en\<rparr>, if errors_Is err ErrNotExist then Ok () else Err (Wrapf (op_Load @ '': load .env: '') err ''''))
      else (w, Ok ()))"

text \<open>\<open>xCfg, err := envconfig.NewX(); if err != nil { return fmt.Errorf("%s X: %w", op, err) }\<close>\<close>

definition part_of :: "string \<Rightarrow> (environ \<Rightarrow> (string, 'a) outcome) \<Rightarrow> ('c config_state, os_error, 'a) prog" where
  "part_of name new w =
     (w, case new (cs_env w) of
           Ok x \<Rightarrow> Ok x
         | Err e \<Rightarrow> Err (Wrapf (op_Load @ '' '' @ name @ '': '') (ErrText e) '''')
         | Panic p \<Rightarrow> Panic p)"

definition set_cfg :: "'c \<Rightarrow> ('c config_state, os_error, unit) prog" where
  "set_cfg c w = (w\<lparr>cs_cfg := Some c\<rparr>, Ok ())"

record order_config =
  oc_Server :: http_server_cfg
  oc_Inventory :: grpc_client_cfg
  oc_Payment :: grpc_client_cfg
  oc_Logger :: logger_cfg
  oc_Postgres :: postgres_cfg
  oc_Kafka :: kafka_cfg

definition order_Load :: "env_lib \<Rightarrow> dotenv \<Rightarrow> string list \<Rightarrow> (order_config config_state, os_error, unit) prog" where
  "order_Load L dot path =
     call (load_dotenv dot path) id (\<lambda>_.
     call (part_of ''Server'' (NewHTTPServerConfig L)) id (\<lambda>server.
     call (part_of ''Inventory'' (NewInventoryConfig L)) id (\<lambda>inventory.
     call (part_of ''Payment'' (NewPaymentConfig L)) id (\<lambda>payment.
     call (part_of ''Logger'' (NewLoggerConfig L)) id (\<lambda>logger.
     call (part_of ''Postgres'' (NewPostgresConfig L)) id (\<lambda>postgres.
     call (part_of ''Kafka'' (order_NewKafkaConfig L)) id (\<lambda>kafka.
     set_cfg \<lparr>oc_Server = server, oc_Inventory = inventory, oc_Payment = payment, oc_Logger = logger,
       oc_Postgres = postgres, oc_Kafka = kafka\<rparr>)))))))"

record inventory_config =
  ic_Server :: inventory_server_cfg
  ic_Logger :: logger_cfg
  ic_Mongo :: mongo_cfg

definition inventory_Load :: "env_lib \<Rightarrow> dotenv \<Rightarrow> string list \<Rightarrow> (inventory_config config_state, os_error, unit) prog" where
  "inventory_Load L dot path =
     call (load_dotenv dot path) id (\<lambda>_.
     call (part_of ''Server'' (inventory_NewGRPCServerConfig L)) id (\<lambda>server.
     call (part_of ''Logger'' (NewLoggerConfig L)) id (\<lambda>logger.
     call (part_of ''Mongo'' (NewMongoConfig L)) id (\<lambda>mongo.
     set_cfg \<lparr>ic_Server = server, ic_Logger = logger, ic_Mongo = mongo\<rparr>))))"

record payment_config =
  pc_Server :: payment_server_cfg
  pc_Logger :: logger_cfg

definition payment_Load :: "env_lib \<Rightarrow> dotenv \<Rightarrow> string list \<Rightarrow> (payment_config config_state, os_error, unit) prog" where
  "payment_Load L dot path =
     call (load_dotenv dot path) id (\<lambda>_.
     call (part_of ''Server'' (payment_NewGRPCServerConfig L)) id (\<lambda>server.
     call (part_of ''Logger'' (NewLoggerConfig L)) id (\<lambda>logger.
     set_cfg \<lparr>pc_Server = server, pc_Logger = logger\<rparr>)))"

record assembly_config =
  ac_Kafka :: kafka_cfg
  ac_Logger :: logger_cfg

definition assembly_Load :: "env_lib \<Rightarrow> dotenv \<Rightarrow> string list \<Rightarrow> (assembly_config config_state, os_error, unit) prog" where
  "assembly_Load L dot path =
     call (load_dotenv dot path) id (\<lambda>_.
     call (part_of ''Kafka'' (assembly_NewKafkaConfig L)) id (\<lambda>kafka.
     call (part_of ''Logger'' (NewLoggerConfig L)) id (\<lambda>logger.
     set_cfg \<lparr>ac_Kafka = kafka, ac_Logger = logger\<rparr>)))"

record notification_config =
  nc_Kafka :: notification_kafka_cfg
  nc_Telegram :: string
  nc_Logger :: logger_cfg

definition notification_Load :: "env_lib \<Rightarrow> dotenv \<Rightarrow> string list \<Rightarrow> (notification_config config_state, os_error, unit) prog" where
  "notification_Load L dot path =
     call (load_dotenv dot path) id (\<lambda>_.
     call (part_of ''Kafka'' (notification_NewKafkaConfig L)) id (\<lambda>kafka.
     call (part_of ''Telegram'' (NewTelegramConfig L)) id (\<lambda>telegram.
     call (part_of ''Logger'' (NewLoggerConfig L)) id (\<lambda>logger.
     set_cfg \<lparr>nc_Kafka = kafka, nc_Telegram = telegram, nc_Logger = logger\<rparr>))))"

section \<open>When Load succeeds\<close>

datatype field_kind = KText | KInt | KDuration | KBool | KList

fun is_ok :: "('e, 'a) outcome \<Rightarrow> bool" where
  "is_ok (Ok x) = True"
| "is_ok _ = False"

fun readable :: "env_lib \<Rightarrow> field_kind \<Rightarrow> string \<Rightarrow> bool" where
  "readable L KText v = True"
| "readable L KInt v = is_ok (el_Int L v)"
| "readable L KDuration v = is_ok (el_Duration L v)"
| "readable L KBool v = is_ok (el_Bool L v)"
| "readable L KList v = is_ok (el_Strings L v)"

definition usable :: "env_lib \<Rightarrow> environ \<Rightarrow> string \<times> field_kind \<Rightarrow> bool" where
  "usable L en f = (case en (fst f) of None \<Rightarrow> False | Some v \<Rightarrow> readable L (snd f) v)"

definition server_keys :: "(string \<times> field_kind) list" where
  "server_keys = [(''HTTP_HOST'', KText), (''HTTP_PORT'', KInt), (''HTTP_READ_TIMEOUT'', KDuration),
     (''SHUTDOWN_TIMEOUT'', KDuration), (''DB_READ_TIMEOUT'', KDuration), (''DB_WRITE_TIMEOUT'', KDuration)]"

definition logger_keys :: "(string \<times> field_kind) list" where
  "logger_keys = [(''LOGGER_LEVEL'', KText), (''LOGGER_AS_JSON'', KBool)]"

definition postgres_keys :: "(string \<times> field_kind) list" where
  "postgres_keys = [(''POSTGRES_HOST'', KText), (''POSTGRES_PORT'', KInt), (''POSTGRES_USER'', KText),
     (''POSTGRES_PASSWORD'', KText), (''POSTGRES_DB'', KText), (''POSTGRES_SSL_MODE'', KText),
     (''MIGRATION_DIRECTORY'', KText)]"

definition mongo_keys :: "(string \<times> field_kind) list" where
  "mongo_keys = [(''MONGO_HOST'', KText), (''MONGO_PORT'', KInt), (''MONGO_INITDB_ROOT_USERNAME'', KText),
     (''MONGO_INITDB_ROOT_PASSWORD'', KText), (''MONGO_DATABASE'', KText), (''MONGO_AUTH_DB'', KText),
     (''MONGO_PARTS_COLLECTION'', KText)]"

definition topic_keys :: "(string \<times> field_kind) list" where
  "topic_keys = [(''KAFKA_BROKERS'', KList), (''ORDER_PAID_TOPIC_NAME'', KText), (''ORDER_ASSEMBLED_TOPIC_NAME'', KText)]"

definition order_keys :: "(string \<times> field_kind) list" where
  "order_keys = server_keys @ [(''INVENTORY_GRPC_HOST'', KText), (''INVENTORY_GRPC_PORT'', KInt),
     (''PAYMENT_GRPC_HOST'', KText), (''PAYMENT_GRPC_PORT'', KInt)] @ logger_keys @ postgres_keys @ topic_keys @
     [(''ORDER_ASSEMBLED_CONSUMER_GROUP_ID'', KText)]"

definition inventory_keys :: "(string \<times> field_kind) list" where
  "inventory_keys = [(''GRPC_HOST'', KText), (''GRPC_PORT'', KInt), (''DB_READ_TIMEOUT'', KDuration)] @ logger_keys @ mongo_keys"

definition payment_keys :: "(string \<times> field_kind) list" where
  "payment_keys = [(''GRPC_HOST'', KText), (''GRPC_PORT'', KInt)] @ logger_keys"

definition assembly_keys :: "(string \<times> field_kind) list" where
  "assembly_keys = topic_keys @ [(''ORDER_PAID_CONSUMER_GROUP_ID'', KText)] @ logger_keys"

definition notification_keys :: "(string \<times> field_kind) list" where
  "notification_keys = topic_keys @ [(''ORDER_PAID_CONSUMER_GROUP_ID'', KText),
     (''ORDER_ASSEMBLED_CONSUMER_GROUP_ID'', KText), (''TELEGRAM_BOT_TOKEN'', KText)] @ logger_keys"

lemmas key_defs = server_keys_def logger_keys_def postgres_keys_def mongo_keys_def topic_keys_def order_keys_def
  inventory_keys_def payment_keys_def assembly_keys_def notification_keys_def

text \<open>A struct is parsed when all of its fields are.\<close>

lemma is_ok_iff: "is_ok r \<longleftrightarrow> (\<exists>x. r = Ok x)"
  by (cases r) auto

definition is_parsed :: "'a parsed \<Rightarrow> bool" where
  "is_parsed p \<longleftrightarrow> (\<exists>x. p = Parsed x)"

lemma is_parsed_simps [simp]:
  "is_parsed (Parsed x)" "is_parsed (and_field p q) \<longleftrightarrow> is_parsed p \<and> is_parsed q"
  by (cases p; cases q; auto simp: is_parsed_def)+

lemma is_ok_env_Parse [simp]: "is_ok (env_Parse L p) \<longleftrightarrow> is_parsed p"
  by (cases p) (auto simp: is_parsed_def env_Parse_def)

lemma is_parsed_required [simp]:
  "is_parsed (required L en Ok k) \<longleftrightarrow> usable L en (k, KText)"
  "is_parsed (required L en (el_Int L) k) \<longleftrightarrow> usable L en (k, KInt)"
  "is_parsed (required L en (el_Duration L) k) \<longleftrightarrow> usable L en (k, KDuration)"
  "is_parsed (required L en (el_Bool L) k) \<longleftrightarrow> usable L en (k, KBool)"
  "is_parsed (required L en (el_Strings L) k) \<longleftrightarrow> usable L en (k, KList)"
  by (auto simp: is_parsed_def required_def usable_def split: option.splits outcome.splits)

lemmas struct_defs = NewHTTPServerConfig_def NewInventoryConfig_def NewPaymentConfig_def NewLoggerConfig_def
  NewPostgresConfig_def NewMongoConfig_def inventory_NewGRPCServerConfig_def payment_NewGRPCServerConfig_def
  order_NewKafkaConfig_def assembly_NewKafkaConfig_def notification_NewKafkaConfig_def NewTelegramConfig_def

text \<open>Loading stops at the first part that cannot be read, with the variable \<open>cfg\<close> as it was.\<close>

definition dotenv_ok :: "dotenv \<Rightarrow> string list \<Rightarrow> environ \<Rightarrow> bool" where
  "dotenv_ok dot path en \<longleftrightarrow> shouldLoadDotenv en \<longrightarrow>
     (case snd (dot path en) of None \<Rightarrow> True | Some err \<Rightarrow> errors_Is err ErrNotExist)"

definition loaded_env :: "dotenv \<Rightarrow> string list \<Rightarrow> environ \<Rightarrow> environ" where
  "loaded_env dot path en = (if shouldLoadDotenv en then fst (dot path en) else en)"

lemma load_dotenv_run:
  "load_dotenv dot path w =
     (w\<lparr>cs_env := loaded_env dot path (cs_env w)\<rparr>,
      if dotenv_ok dot path (cs_env w) then Ok ()
      else Err (Wrapf (op_Load @ '': load .env: '') (the (snd (dot path (cs_env w)))) ''''))"
  by (auto simp: load_dotenv_def loaded_env_def dotenv_ok_def split: prod.splits option.splits)

lemma is_ok_call_part:
  "is_ok (snd (call (part_of n f) id k w)) \<longleftrightarrow> (\<exists>x. f (cs_env w) = Ok x \<and> is_ok (snd (k x w)))"
  by (auto simp: call_def part_of_def split: outcome.splits)

lemma is_ok_set_cfg: "is_ok (snd (set_cfg c w))"
  by (simp add: set_cfg_def)

lemma ex_ok_simp: "(\<exists>x. r = Ok x \<and> P) \<longleftrightarrow> is_ok r \<and> P"
  by (cases r) auto

lemma is_ok_load:
  "is_ok (snd (call (load_dotenv dot path) id k w)) \<longleftrightarrow>
     dotenv_ok dot path (cs_env w) \<and> is_ok (snd (k () (w\<lparr>cs_env := loaded_env dot path (cs_env w)\<rparr>)))"
  by (simp add: call_def load_dotenv_run)

lemmas load_success = is_ok_load is_ok_call_part is_ok_set_cfg ex_ok_simp is_ok_iff [symmetric]

lemma order_Load_ok:
  "is_ok (snd (order_Load L dot path w)) \<longleftrightarrow>
     dotenv_ok dot path (cs_env w) \<and> list_all (usable L (loaded_env dot path (cs_env w))) order_keys"
  unfolding order_Load_def by (simp add: load_success struct_defs key_defs conj_assoc)

lemma inventory_Load_ok:
  "is_ok (snd (inventory_Load L dot path w)) \<longleftrightarrow>
     dotenv_ok dot path (cs_env w) \<and> list_all (usable L (loaded_env dot path (cs_env w))) inventory_keys"
  unfolding inventory_Load_def by (simp add: load_success struct_defs key_defs conj_assoc)

lemma payment_Load_ok:
  "is_ok (snd (payment_Load L dot path w)) \<longleftrightarrow>
     dotenv_ok dot path (cs_env w) \<and> list_all (usable L (loaded_env dot path (cs_env w))) payment_keys"
  unfolding payment_Load_def by (simp add: load_success struct_defs key_defs conj_assoc)

lemma assembly_Load_ok:
  "is_ok (snd (assembly_Load L dot path w)) \<longleftrightarrow>
     dotenv_ok dot path (cs_env w) \<and> list_all (usable L (loaded_env dot path (cs_env w))) assembly_keys"
  unfolding assembly_Load_def by (simp add: load_success struct_defs key_defs conj_assoc)

lemma notification_Load_ok:
  "is_ok (snd (notification_Load L dot path w)) \<longleftrightarrow>
     dotenv_ok dot path (cs_env w) \<and> list_all (usable L (loaded_env dot path (cs_env w))) notification_keys"
  unfolding notification_Load_def by (simp add: load_success struct_defs key_defs conj_ac)

text \<open>A failing \<open>Load\<close> leaves the variable alone; a successful one assigns what the parts gave.\<close>

definition guards_cfg :: "('c config_state, os_error, unit) prog \<Rightarrow> bool" where
  "guards_cfg m \<longleftrightarrow> (\<forall>w. \<not> is_ok (snd (m w)) \<longrightarrow> cs_cfg (fst (m w)) = cs_cfg w)"

lemma keeps_load_dotenv: "keeps cs_cfg (load_dotenv dot path)"
  by (simp add: keeps_def load_dotenv_run)

lemma keeps_part_of: "keeps cs_cfg (part_of n f)"
  by (simp add: keeps_def part_of_def)

lemma guards_set_cfg: "guards_cfg (set_cfg c)"
  by (simp add: guards_cfg_def set_cfg_def)

lemma guards_call:
  assumes "keeps cs_cfg m" and "\<And>x. guards_cfg (k x)"
  shows "guards_cfg (call m id k)"
  unfolding guards_cfg_def
proof (intro allI impI)
  fix w
  assume bad: "\<not> is_ok (snd (call m id k w))"
  obtain w1 r where m: "m w = (w1, r)" by fastforce
  then have "cs_cfg w1 = cs_cfg w" using keepsD [OF assms(1)] by blast
  with m bad assms(2) show "cs_cfg (fst (call m id k w)) = cs_cfg w"
    by (cases r) (auto simp: call_def guards_cfg_def)
qed

lemma loads_guard:
  "guards_cfg (order_Load L dot path)" "guards_cfg (inventory_Load L dot path)"
  "guards_cfg (payment_Load L dot path)" "guards_cfg (assembly_Load L dot path)"
  "guards_cfg (notification_Load L dot path)"
  unfolding order_Load_def inventory_Load_def payment_Load_def assembly_Load_def notification_Load_def
  by (intro guards_call guards_set_cfg keeps_load_dotenv keeps_part_of)+

lemma part_of_Ok: "part_of n f w = (w', Ok x) \<longleftrightarrow> w' = w \<and> f (cs_env w) = Ok x"
  by (auto simp: part_of_def split: outcome.splits)

lemma order_Load_assigns:
  assumes "order_Load L dot path w = (w', Ok ())"
  shows "\<exists>c. cs_cfg w' = Some c \<and> NewHTTPServerConfig L (cs_env w') = Ok (oc_Server c) \<and>
    NewInventoryConfig L (cs_env w') = Ok (oc_Inventory c) \<and> NewPaymentConfig L (cs_env w') = Ok (oc_Payment c) \<and>
    NewLoggerConfig L (cs_env w') = Ok (oc_Logger c) \<and> NewPostgresConfig L (cs_env w') = Ok (oc_Postgres c) \<and>
    order_NewKafkaConfig L (cs_env w') = Ok (oc_Kafka c)"
  using assms unfolding order_Load_def
  by (auto simp: call_Ok_iff part_of_Ok set_cfg_def)

section \<open>Connection strings\<close>

lemma split_at:
  "a @ x # b = a' @ x # b' \<Longrightarrow> x \<notin> set a \<Longrightarrow> x \<notin> set a' \<Longrightarrow> a = a' \<and> b = b'"
  by (auto simp: append_eq_append_conv2 append_eq_Cons_conv Cons_eq_append_conv)

lemma show_nat_digit: "c \<in> set (show_nat n) \<Longrightarrow> is_digit c"
  using show_nat_digits by blast

lemma fmt_d_no_slash: "CHR ''/'' \<notin> set (fmt_d i)"
  by (auto simp: fmt_d_def is_digit_def dest!: show_nat_digit)

lemma fmt_d_inject: "fmt_d i = fmt_d j \<Longrightarrow> i = j"
proof -
  assume eq: "fmt_d i = fmt_d j"
  have minus: "hd (show_nat n) \<noteq> CHR ''-''" for n
    using show_nat_digit [of "hd (show_nat n)" n] by (auto simp: is_digit_def)
  have "i < 0 \<longleftrightarrow> j < 0" using eq minus by (auto simp: fmt_d_def split: if_splits) (metis list.sel(1))+
  then have "show_nat (nat \<bar>i\<bar>) = show_nat (nat \<bar>j\<bar>)" using eq by (auto simp: fmt_d_def split: if_splits)
  then have "nat \<bar>i\<bar> = nat \<bar>j\<bar>" by (metis read_show_nat)
  with \<open>i < 0 \<longleftrightarrow> j < 0\<close> show "i = j" by (auto split: if_splits simp: abs_if)
qed

text \<open>No part contains the separator that ends it.\<close>

definition dsn_clean :: "string \<Rightarrow> string \<Rightarrow> string \<Rightarrow> string \<Rightarrow> bool" where
  "dsn_clean user password host db \<longleftrightarrow>
     CHR '':'' \<notin> set user \<and> CHR ''@'' \<notin> set password \<and> CHR '':'' \<notin> set host \<and> CHR ''?'' \<notin> set db"

lemma dsn_parts:
  assumes "u @ '':'' @ p @ ''@'' @ h @ '':'' @ fmt_d n @ ''/'' @ d @ CHR ''?'' # m =
      u' @ '':'' @ p' @ ''@'' @ h' @ '':'' @ fmt_d n' @ ''/'' @ d' @ CHR ''?'' # m'"
    and "dsn_clean u p h d" and "dsn_clean u' p' h' d'"
  shows "u = u' \<and> p = p' \<and> h = h' \<and> n = n' \<and> d = d' \<and> m = m'"
proof -
  have clean: "CHR '':'' \<notin> set u" "CHR '':'' \<notin> set u'" "CHR ''@'' \<notin> set p" "CHR ''@'' \<notin> set p'"
    "CHR '':'' \<notin> set h" "CHR '':'' \<notin> set h'" "CHR ''?'' \<notin> set d" "CHR ''?'' \<notin> set d'"
    using assms(2,3) by (simp_all add: dsn_clean_def)
  note eq = assms(1) [simplified]
  note 1 = split_at [OF eq clean(1,2)]
  note 2 = split_at [OF conjunct2 [OF 1] clean(3,4)]
  note 3 = split_at [OF conjunct2 [OF 2] clean(5,6)]
  note 4 = split_at [OF conjunct2 [OF 3] fmt_d_no_slash fmt_d_no_slash]
  note 5 = split_at [OF conjunct2 [OF 4] clean(7,8)]
  show ?thesis using 1 2 3 5 fmt_d_inject [OF conjunct1 [OF 4]] by blast
qed

text \<open>
  The string of a connection says which connection it is, if no part contains the separator that ends
  it. Nothing is escaped: a colon in the user's name or in the password moves to the other side.
\<close>

lemma postgres_DSN_inject:
  assumes "postgres_DSN c = postgres_DSN c'"
    and "dsn_clean (pg_User c) (pg_Password c) (pg_Host c) (pg_DBName c)"
    and "dsn_clean (pg_User c') (pg_Password c') (pg_Host c') (pg_DBName c')"
    and "pg_MigrationsDir c = pg_MigrationsDir c'"
  shows "c = c'"
proof -
  from assms(1) have "pg_User c @ '':'' @ pg_Password c @ ''@'' @ pg_Host c @ '':'' @ fmt_d (sint (pg_Port c)) @ ''/'' @
      pg_DBName c @ CHR ''?'' # ''sslmode='' @ pg_SSLMode c =
      pg_User c' @ '':'' @ pg_Password c' @ ''@'' @ pg_Host c' @ '':'' @ fmt_d (sint (pg_Port c')) @ ''/'' @
      pg_DBName c' @ CHR ''?'' # ''sslmode='' @ pg_SSLMode c'"
    by (simp add: postgres_DSN_def)
  note parts = dsn_parts [OF this assms(2,3)]
  then have "word_of_int (sint (pg_Port c)) = (word_of_int (sint (pg_Port c')) :: int64)" by simp
  then have "pg_Port c = pg_Port c'" by simp
  with parts assms(4) show ?thesis by (cases c; cases c') simp
qed

lemma postgres_DSN_ambiguous:
  "postgres_DSN (c\<lparr>pg_User := ''a'', pg_Password := ''b:c''\<rparr>) = postgres_DSN (c\<lparr>pg_User := ''a:b'', pg_Password := ''c''\<rparr>)"
  by (simp add: postgres_DSN_def)

end
