(* ===== verification/App_Properties.thy ===== *)
theory App_Properties
  imports App_Run Config
begin

text \<open>
  Properties of the processes as \<open>cmd/*/main.go\<close> starts and ends them: what a start opens, registers
  and builds, and what a signal to the process does.
\<close>

section \<open>Configuration\<close>

text \<open>
  C10. \<open>Load\<close> succeeds exactly when the file \<open>.env\<close> could be read or is not needed, and every variable
  that the service requires is set to a text that its type can be read from. The order service then
  has exactly what its six parts were read as; where \<open>Load\<close> fails, in any service, the configuration
  stays what it was.
\<close>

theorem configuration_exact:
  "(is_ok (snd (order_Load L dot path w)) \<longleftrightarrow>
      dotenv_ok dot path (cs_env w) \<and> list_all (usable L (loaded_env dot path (cs_env w))) order_keys) \<and>
   (is_ok (snd (inventory_Load L dot path wi)) \<longleftrightarrow>
      dotenv_ok dot path (cs_env wi) \<and> list_all (usable L (loaded_env dot path (cs_env wi))) inventory_keys) \<and>
   (is_ok (snd (payment_Load L dot path wp)) \<longleftrightarrow>
      dotenv_ok dot path (cs_env wp) \<and> list_all (usable L (loaded_env dot path (cs_env wp))) payment_keys) \<and>
   (is_ok (snd (assembly_Load L dot path wa)) \<longleftrightarrow>
      dotenv_ok dot path (cs_env wa) \<and> list_all (usable L (loaded_env dot path (cs_env wa))) assembly_keys) \<and>
   (is_ok (snd (notification_Load L dot path wn)) \<longleftrightarrow>
      dotenv_ok dot path (cs_env wn) \<and> list_all (usable L (loaded_env dot path (cs_env wn))) notification_keys) \<and>
   (\<forall>w'. order_Load L dot path w = (w', Ok ()) \<longrightarrow> (\<exists>c. cs_cfg w' = Some c \<and>
      NewHTTPServerConfig L (cs_env w') = Ok (oc_Server c) \<and> NewInventoryConfig L (cs_env w') = Ok (oc_Inventory c) \<and>
      NewPaymentConfig L (cs_env w') = Ok (oc_Payment c) \<and> NewLoggerConfig L (cs_env w') = Ok (oc_Logger c) \<and>
      NewPostgresConfig L (cs_env w') = Ok (oc_Postgres c) \<and> order_NewKafkaConfig L (cs_env w') = Ok (oc_Kafka c))) \<and>
   guards_cfg (order_Load L dot path) \<and> guards_cfg (inventory_Load L dot path) \<and>
   guards_cfg (payment_Load L dot path) \<and> guards_cfg (assembly_Load L dot path) \<and>
   guards_cfg (notification_Load L dot path)"
  by (simp add: order_Load_ok inventory_Load_ok payment_Load_ok assembly_Load_ok notification_Load_ok loads_guard
      order_Load_assigns)

text \<open>An environment for the payment service, and parsers that accept everything.\<close>

definition demo_env_lib :: env_lib where
  "demo_env_lib = \<lparr>el_Int = (\<lambda>v. Ok (of_nat (read_nat v))), el_Duration = (\<lambda>v. Ok 0), el_Bool = (\<lambda>v. Ok (v = ''true'')),
     el_Strings = (\<lambda>v. Ok [v]), el_NotSet = id, el_Aggregate = concat\<rparr>"

definition demo_environ :: environ where
  "demo_environ = [''GRPC_HOST'' \<mapsto> ''0.0.0.0'', ''GRPC_PORT'' \<mapsto> ''50052'', ''LOGGER_LEVEL'' \<mapsto> ''info'',
     ''LOGGER_AS_JSON'' \<mapsto> ''true'']"

theorem configuration_exact_witness:
  "is_ok (snd (payment_Load demo_env_lib (\<lambda>p en. (en, None)) [] \<lparr>cs_env = demo_environ, cs_cfg = None\<rparr>)) \<and>
   \<not> is_ok (snd (order_Load demo_env_lib (\<lambda>p en. (en, None)) [] \<lparr>cs_env = demo_environ, cs_cfg = None\<rparr>))"
proof -
  let ?dot = "\<lambda>p en. (en, None) :: environ \<times> os_error option"
  let ?w = "\<lparr>cs_env = demo_environ, cs_cfg = None\<rparr>"
  have env: "loaded_env ?dot [] demo_environ = demo_environ" "dotenv_ok ?dot [] demo_environ"
    by (simp_all add: loaded_env_def dotenv_ok_def)
  have "list_all (usable demo_env_lib demo_environ) payment_keys"
    by (simp add: payment_keys_def logger_keys_def usable_def demo_environ_def demo_env_lib_def)
  moreover have "\<not> list_all (usable demo_env_lib demo_environ) order_keys"
    by (simp add: order_keys_def server_keys_def usable_def demo_environ_def)
  ultimately show ?thesis
    using configuration_exact [of demo_env_lib ?dot "[]" ?w "\<lparr>cs_env = demo_environ, cs_cfg = None\<rparr>" ?w
        "\<lparr>cs_env = demo_environ, cs_cfg = None\<rparr>" "\<lparr>cs_env = demo_environ, cs_cfg = None\<rparr>"] env
    by simp
qed

section \<open>Starting\<close>



section \<open>Ending\<close>

text \<open>
  C12. A signal does not end the order service. Nothing ever shuts its HTTP server down, and \<open>run\<close>
  waits for it: unless \<open>ListenAndServe\<close> fails by itself, in every run, whatever signals arrive and
  however the Kafka consumer ends, \<open>run\<close> has not returned, the server serves on and none of the six
  registered resources is closed. And where the server does fail, \<open>run\<close> still waits for a signal or a
  failure of the consumer, since the consumer was not given the context of the group.
\<close>

theorem order_ignores_signals:
  assumes "order_main E = (w, Ok (Ran x))" and run: "group_runs order_tasks (bt_closers w) es s"
    and "(\<forall>e. Fails 1 e \<notin> set es) \<or> Signal \<notin> set es \<and> (\<forall>e. Fails 0 e \<notin> set es)"
  shows "gr_result s = None \<and> gr_closed s = [] \<and> length (bt_closers w) = 6 \<and>
    ((\<forall>e. Fails 1 e \<notin> set es) \<longrightarrow> gr_tasks s ! 1 = Running)"
proof -
  have "gr_result s = None" using order_returns_only [OF run] assms(3) by blast
  moreover have "gr_closed s = []" using runs_result [OF run] \<open>gr_result s = None\<close> by simp
  moreover have "length (bt_closers w) = 6"
    using order_started [OF assms(1)] order_main_registered [of E] assms(1) by (simp add: registered_def)
  ultimately show ?thesis using order_server_keeps_serving [OF run] by blast
qed

theorem order_ignores_signals_witness:
  "\<exists>(w :: order_app boot) s. group_runs order_tasks (bt_closers w) [Signal, Stops 0 (Some ''context canceled'')] s \<and>
     gr_signalled s \<and> gr_result s = None \<and> length (bt_closers w) = 6"
proof -
  have "\<exists>w x. order_main working = (w, Ok (Ran x))" by (simp add: order_main_defs start_defs)
  then obtain w x where run: "order_main working = (w, Ok (Ran x))" by blast
  let ?cs = "bt_closers w" and ?s0 = "start_group order_tasks"
  let ?s1 = "?s0\<lparr>gr_signalled := True\<rparr>"
  have "group_runs order_tasks ?cs ([] @ [Signal]) ?s1"
    by (rule group_runs.step [OF group_runs.start group_step.signal]) (simp add: start_group_def)
  then have "group_runs order_tasks ?cs (([] @ [Signal]) @ [Stops 0 (Some ''context canceled'')])
      (task_returns 0 (Some ''context canceled'') ?s1)" (is "group_runs _ _ ?es ?s")
    by (rule group_runs.step [OF _ group_step.stops]) (simp_all add: start_group_def order_tasks_def)
  then have "group_runs order_tasks ?cs [Signal, Stops 0 (Some ''context canceled'')] ?s" by simp
  moreover from order_ignores_signals [OF run this] have "gr_result ?s = None \<and> length ?cs = 6" by simp
  moreover have "gr_signalled ?s" by simp
  ultimately show ?thesis by blast
qed



end
