(* ===== verification/Grpc_Stubs.thy ===== *)
theory Grpc_Stubs
  imports System
begin

text \<open>
  The code that protoc generates for the two gRPC services (\<open>inventory_grpc.pb.go\<close>,
  \<open>payment_grpc.pb.go\<close>): the client stubs, the method handlers with their interceptor, and the
  service descriptors. Messages cross the runtime as \<open>interface{}\<close>, here the sum type \<open>pb_any\<close>. The
  gRPC runtime is a parameter, the function \<open>Invoke\<close> of a connection; its contract \<open>grpc_conn\<close> says
  that a call runs the handler that is registered for the method on the message that was sent.
\<close>

section \<open>Messages as values of any type\<close>

datatype pb_any =
    AnyGetPartRequest get_part_request
  | AnyGetPartResponse get_part_response
  | AnyListPartsRequest list_parts_request
  | AnyListPartsResponse list_parts_response
  | AnyPayOrderRequest pay_order_pb_request
  | AnyPayOrderResponse pay_order_pb_response

text \<open>Whether two messages are of one type.\<close>

fun same_message :: "pb_any \<Rightarrow> pb_any \<Rightarrow> bool" where
  "same_message (AnyGetPartRequest _) (AnyGetPartRequest _) = True"
| "same_message (AnyGetPartResponse _) (AnyGetPartResponse _) = True"
| "same_message (AnyListPartsRequest _) (AnyListPartsRequest _) = True"
| "same_message (AnyListPartsResponse _) (AnyListPartsResponse _) = True"
| "same_message (AnyPayOrderRequest _) (AnyPayOrderRequest _) = True"
| "same_message (AnyPayOrderResponse _) (AnyPayOrderResponse _) = True"
| "same_message _ _ = False"

text \<open>The text of a failed type assertion \<open>req.(*T)\<close>.\<close>

definition bad_assertion :: string where
  "bad_assertion = ''interface conversion''"

section \<open>Clients\<close>

text \<open>\<open>cc.Invoke(ctx, method, in, out)\<close>: the message \<open>out\<close> is filled and returned.\<close>

type_synonym 'w client_conn = "string \<Rightarrow> pb_any \<Rightarrow> pb_any \<Rightarrow> ('w, oerr, pb_any) prog"

definition InventoryService_GetPart_FullMethodName :: string where
  "InventoryService_GetPart_FullMethodName = ''/inventory.v1.InventoryService/GetPart''"

definition InventoryService_ListParts_FullMethodName :: string where
  "InventoryService_ListParts_FullMethodName = ''/inventory.v1.InventoryService/ListParts''"

definition PaymentService_PayOrder_FullMethodName :: string where
  "PaymentService_PayOrder_FullMethodName = ''/payment.v1.PaymentService/PayOrder''"

definition inventoryServiceClient_GetPart ::
  "'w client_conn \<Rightarrow> get_part_request \<Rightarrow> ('w, oerr, get_part_response) prog" where
  "inventoryServiceClient_GetPart cc req =
     call (cc InventoryService_GetPart_FullMethodName (AnyGetPartRequest req) (AnyGetPartResponse \<lparr>gpo_Part = None\<rparr>)) id
       (\<lambda>out. case out of AnyGetPartResponse r \<Rightarrow> ok r | _ \<Rightarrow> panic bad_assertion)"

definition inventoryServiceClient_ListParts ::
  "'w client_conn \<Rightarrow> list_parts_request \<Rightarrow> ('w, oerr, list_parts_response) prog" where
  "inventoryServiceClient_ListParts cc req =
     call (cc InventoryService_ListParts_FullMethodName (AnyListPartsRequest req) (AnyListPartsResponse \<lparr>lpo_Parts = []\<rparr>)) id
       (\<lambda>out. case out of AnyListPartsResponse r \<Rightarrow> ok r | _ \<Rightarrow> panic bad_assertion)"

definition paymentServiceClient_PayOrder ::
  "'w client_conn \<Rightarrow> pay_order_pb_request \<Rightarrow> ('w, oerr, pay_order_pb_response) prog" where
  "paymentServiceClient_PayOrder cc req =
     call (cc PaymentService_PayOrder_FullMethodName (AnyPayOrderRequest req)
         (AnyPayOrderResponse \<lparr>ppo_TransactionUuid = ''''\<rparr>)) id
       (\<lambda>out. case out of AnyPayOrderResponse r \<Rightarrow> ok r | _ \<Rightarrow> panic bad_assertion)"

section \<open>Servers\<close>

text \<open>
  \<open>dec(in)\<close> fills the empty message \<open>in\<close>. A handler of the runtime takes a message that may be nil;
  an interceptor also knows the full method name.
\<close>

type_synonym 'w any_handler = "pb_any option \<Rightarrow> ('w, grpc_status, pb_any) prog"
type_synonym 'w interceptor = "string \<Rightarrow> 'w any_handler \<Rightarrow> 'w any_handler"
type_synonym decoder = "pb_any \<Rightarrow> (grpc_status, pb_any) outcome"
type_synonym 'w method_handler = "decoder \<Rightarrow> 'w interceptor option \<Rightarrow> ('w, grpc_status, pb_any) prog"

definition InventoryService_GetPart_Handler ::
  "(get_part_request option \<Rightarrow> ('w, grpc_status, get_part_response) prog) \<Rightarrow> 'w method_handler" where
  "InventoryService_GetPart_Handler srv dec interceptor =
     call (lift (dec (AnyGetPartRequest \<lparr>gpr_Uuid = ''''\<rparr>))) id (\<lambda>inn.
       let handler = (\<lambda>req. case req of
             Some (AnyGetPartRequest r) \<Rightarrow> call (srv (Some r)) id (\<lambda>resp. ok (AnyGetPartResponse resp))
           | _ \<Rightarrow> panic bad_assertion)
       in case interceptor of
            None \<Rightarrow> handler (Some inn)
          | Some i \<Rightarrow> i InventoryService_GetPart_FullMethodName handler (Some inn))"

definition InventoryService_ListParts_Handler ::
  "(list_parts_request option \<Rightarrow> ('w, grpc_status, list_parts_response) prog) \<Rightarrow> 'w method_handler" where
  "InventoryService_ListParts_Handler srv dec interceptor =
     call (lift (dec (AnyListPartsRequest \<lparr>lpr_Filter = None\<rparr>))) id (\<lambda>inn.
       let handler = (\<lambda>req. case req of
             Some (AnyListPartsRequest r) \<Rightarrow> call (srv (Some r)) id (\<lambda>resp. ok (AnyListPartsResponse resp))
           | _ \<Rightarrow> panic bad_assertion)
       in case interceptor of
            None \<Rightarrow> handler (Some inn)
          | Some i \<Rightarrow> i InventoryService_ListParts_FullMethodName handler (Some inn))"

definition PaymentService_PayOrder_Handler ::
  "(pay_order_pb_request option \<Rightarrow> ('w, grpc_status, pay_order_pb_response) prog) \<Rightarrow> 'w method_handler" where
  "PaymentService_PayOrder_Handler srv dec interceptor =
     call (lift (dec (AnyPayOrderRequest \<lparr>ppr_OrderUuid = '''', ppr_UserUuid = '''', ppr_PaymentMethod = 0\<rparr>))) id (\<lambda>inn.
       let handler = (\<lambda>req. case req of
             Some (AnyPayOrderRequest r) \<Rightarrow> call (srv (Some r)) id (\<lambda>resp. ok (AnyPayOrderResponse resp))
           | _ \<Rightarrow> panic bad_assertion)
       in case interceptor of
            None \<Rightarrow> handler (Some inn)
          | Some i \<Rightarrow> i PaymentService_PayOrder_FullMethodName handler (Some inn))"

record 'w service_desc =
  sd_ServiceName :: string
  sd_Methods :: "(string \<times> 'w method_handler) list"

definition InventoryService_ServiceDesc ::
  "(get_part_request option \<Rightarrow> ('w, grpc_status, get_part_response) prog) \<Rightarrow>
   (list_parts_request option \<Rightarrow> ('w, grpc_status, list_parts_response) prog) \<Rightarrow> 'w service_desc" where
  "InventoryService_ServiceDesc getPart listParts =
     \<lparr>sd_ServiceName = ''inventory.v1.InventoryService'',
      sd_Methods = [(''GetPart'', InventoryService_GetPart_Handler getPart),
                    (''ListParts'', InventoryService_ListParts_Handler listParts)]\<rparr>"

definition PaymentService_ServiceDesc ::
  "(pay_order_pb_request option \<Rightarrow> ('w, grpc_status, pay_order_pb_response) prog) \<Rightarrow> 'w service_desc" where
  "PaymentService_ServiceDesc payOrder =
     \<lparr>sd_ServiceName = ''payment.v1.PaymentService'',
      sd_Methods = [(''PayOrder'', PaymentService_PayOrder_Handler payOrder)]\<rparr>"

text \<open>\<open>grpc.NewServer(interceptor)\<close> with a service registered: methods by the name a client uses.\<close>

record 'w grpc_server =
  gs_Interceptor :: "'w interceptor option"
  gs_Services :: "'w service_desc list"

definition server_methods :: "'w grpc_server \<Rightarrow> (string \<times> (decoder \<Rightarrow> ('w, grpc_status, pb_any) prog)) list" where
  "server_methods s = concat (map (\<lambda>d. map (\<lambda>(name, h).
     (''/'' @ sd_ServiceName d @ ''/'' @ name, \<lambda>dec. h dec (gs_Interceptor s))) (sd_Methods d)) (gs_Services s))"

text \<open>The two servers, as \<open>Server\<close> of \<open>inventory/internal/app/di.go\<close> and of \<open>payment\<close> makes them.\<close>

definition inventory_grpc_server :: "(log_line \<Rightarrow> 'w \<Rightarrow> 'w) \<Rightarrow> ts_lib \<Rightarrow> 'w mongo_coll \<Rightarrow> 'w grpc_server" where
  "inventory_grpc_server emit T m =
     \<lparr>gs_Interceptor = Some (UnaryLogging emit),
      gs_Services = [InventoryService_ServiceDesc (GetPart_handler T (mongo_parts m)) (ListParts_handler T (mongo_parts m))]\<rparr>"

definition payment_grpc_server :: "(log_line \<Rightarrow> 'w \<Rightarrow> 'w) \<Rightarrow> ('w \<Rightarrow> 'w \<times> string) \<Rightarrow> 'w grpc_server" where
  "payment_grpc_server emit newString =
     \<lparr>gs_Interceptor = Some (\<lambda>method handler.
        UnaryLogging emit method (RejectNilRequest (\<lambda>r. handler (Some r)))),
      gs_Services = [PaymentService_ServiceDesc (PayOrder_grpc_handler (payment_PayOrder_svc newString))]\<rparr>"

section \<open>The runtime\<close>

definition received :: "pb_any \<Rightarrow> decoder" where
  "received msg inn = (if same_message msg inn then Ok msg else Err (status_Error GrpcInternal ''grpc: error unmarshalling request''))"

text \<open>
  A call over a connection to \<open>server\<close>: the handler of the method decodes what was sent, the caller
  decodes what was answered, and a status becomes an error with its text.
\<close>

locale grpc_conn =
  fixes Invoke :: "'w client_conn" and server :: "'w grpc_server"
  assumes delivers: "map_of (server_methods server) meth = Some h \<Longrightarrow> h (received msg) w = (w', r) \<Longrightarrow>
    (\<And>resp. r = Ok resp \<Longrightarrow> same_message resp out) \<Longrightarrow> Invoke meth msg out w = rpc (\<lambda>_ _. (w', r)) msg w"
begin

lemma delivers_ok:
  "map_of (server_methods server) meth = Some h \<Longrightarrow> h (received msg) w = (w', Ok resp) \<Longrightarrow> same_message resp out \<Longrightarrow>
    Invoke meth msg out w = (w', Ok resp)"
  using delivers [of meth h msg w w' "Ok resp" out] by (simp add: rpc_def)

lemma delivers_err:
  "map_of (server_methods server) meth = Some h \<Longrightarrow> h (received msg) w = (w', Err st) \<Longrightarrow>
    Invoke meth msg out w = (w', Err (ErrText (status_text st)))"
  using delivers [of meth h msg w w' "Err st" out] by (simp add: rpc_def)

lemma delivers_panic:
  "map_of (server_methods server) meth = Some h \<Longrightarrow> h (received msg) w = (w', Panic p) \<Longrightarrow>
    Invoke meth msg out w = rpc (\<lambda>_ _. (w', Panic p) :: _ \<times> (grpc_status, pb_any) outcome) msg w"
  using delivers [of meth h msg w w' "Panic p" out] by simp

end

text \<open>The connection of two processes with nothing lost in between.\<close>

definition loopback :: "'w grpc_server \<Rightarrow> 'w client_conn" where
  "loopback server method msg out w =
     (case map_of (server_methods server) method of
        None \<Rightarrow> (w, Err (ErrText (''rpc error: code = Unimplemented desc = unknown method '' @ method)))
      | Some h \<Rightarrow>
          rpc (\<lambda>_ w. case h (received msg) w of
                 (w', Ok resp) \<Rightarrow> (w', if same_message resp out then Ok resp
                                       else Err (status_Error GrpcInternal ''grpc: failed to unmarshal the received message''))
               | r \<Rightarrow> r) msg w)"

interpretation loop: grpc_conn "loopback server" server for server
  by unfold_locales (auto simp: loopback_def rpc_def split: outcome.splits)

section \<open>A stub is a call of the remote endpoint\<close>

text \<open>Packing the response does not change what the interceptor logs.\<close>

lemma UnaryLogging_packed:
  assumes "h x = call (srv q) id (\<lambda>resp. ok (pack resp))"
  shows "UnaryLogging emit method h x = call (UnaryLogging emit method srv q) id (\<lambda>resp. ok (pack resp))"
  using assms by (auto simp: fun_eq_iff UnaryLogging_def call_def ok_def split: prod.splits outcome.splits)

lemma inventory_methods:
  "map_of (server_methods (inventory_grpc_server emit T m)) InventoryService_GetPart_FullMethodName =
     Some (\<lambda>dec. InventoryService_GetPart_Handler (GetPart_handler T (mongo_parts m)) dec (Some (UnaryLogging emit)))"
  "map_of (server_methods (inventory_grpc_server emit T m)) InventoryService_ListParts_FullMethodName =
     Some (\<lambda>dec. InventoryService_ListParts_Handler (ListParts_handler T (mongo_parts m)) dec (Some (UnaryLogging emit)))"
  by (simp_all add: server_methods_def inventory_grpc_server_def InventoryService_ServiceDesc_def
      InventoryService_GetPart_FullMethodName_def InventoryService_ListParts_FullMethodName_def)

lemma payment_methods:
  "map_of (server_methods (payment_grpc_server emit newString)) PaymentService_PayOrder_FullMethodName =
     Some (\<lambda>dec. PaymentService_PayOrder_Handler (PayOrder_grpc_handler (payment_PayOrder_svc newString)) dec
       (gs_Interceptor (payment_grpc_server emit newString)))"
  by (simp add: server_methods_def payment_grpc_server_def PaymentService_ServiceDesc_def
      PaymentService_PayOrder_FullMethodName_def)

lemma call_lift_Ok: "call (lift (Ok a)) id k = k a"
  by (simp add: fun_eq_iff call_def lift_def)

lemma GetPart_handled:
  "InventoryService_GetPart_Handler (GetPart_handler T (mongo_parts m)) (received (AnyGetPartRequest req))
     (Some (UnaryLogging emit)) =
   call (inventory_GetPart_endpoint emit T m (Some req)) id (\<lambda>resp. ok (AnyGetPartResponse resp))"
  unfolding InventoryService_GetPart_Handler_def inventory_GetPart_endpoint_def received_def
  by (simp add: call_lift_Ok Let_def InventoryService_GetPart_FullMethodName_def)
    (rule UnaryLogging_packed, simp)

lemma ListParts_handled:
  "InventoryService_ListParts_Handler (ListParts_handler T (mongo_parts m)) (received (AnyListPartsRequest req))
     (Some (UnaryLogging emit)) =
   call (inventory_ListParts_endpoint emit T m (Some req)) id (\<lambda>resp. ok (AnyListPartsResponse resp))"
  unfolding InventoryService_ListParts_Handler_def inventory_ListParts_endpoint_def received_def
  by (simp add: call_lift_Ok Let_def InventoryService_ListParts_FullMethodName_def)
    (rule UnaryLogging_packed, simp)

lemma PayOrder_handled:
  "PaymentService_PayOrder_Handler (PayOrder_grpc_handler (payment_PayOrder_svc newString)) (received (AnyPayOrderRequest req))
     (gs_Interceptor (payment_grpc_server emit newString)) =
   call (payment_PayOrder_endpoint emit newString (Some req)) id (\<lambda>resp. ok (AnyPayOrderResponse resp))"
  unfolding PaymentService_PayOrder_Handler_def payment_PayOrder_endpoint_def received_def payment_grpc_server_def
  by (simp add: call_lift_Ok Let_def PaymentService_PayOrder_FullMethodName_def)
    (rule UnaryLogging_packed, simp add: RejectNilRequest_def)

context grpc_conn begin

lemma stub_is_rpc:
  assumes reg: "map_of (server_methods server) method = Some h"
    and handled: "h (received (pack_req req)) = call (endpoint (Some req)) id (\<lambda>resp. ok (pack resp))"
    and packed: "\<And>resp. same_message (pack resp) out" and unpack: "\<And>resp. unpack (pack resp) = ok resp"
  shows "call (Invoke method (pack_req req) out) id unpack = rpc endpoint req"
proof
  fix w
  obtain w' r where run: "endpoint (Some req) w = (w', r)" by fastforce
  show "call (Invoke method (pack_req req) out) id unpack w = rpc endpoint req w"
  proof (cases r)
    case (Ok resp)
    then have "h (received (pack_req req)) w = (w', Ok (pack resp))" using run handled by (simp add: call_def ok_def)
    from delivers_ok [OF reg this packed] show ?thesis using run Ok unpack by (simp add: call_def rpc_def ok_def)
  next
    case (Err st)
    then have "h (received (pack_req req)) w = (w', Err st)" using run handled by (simp add: call_def)
    from delivers_err [OF reg this] show ?thesis using run Err by (simp add: call_def rpc_def)
  next
    case (Panic p)
    then have "h (received (pack_req req)) w = (w', Panic p)" using run handled by (simp add: call_def)
    from delivers_panic [OF reg this] show ?thesis using run Panic by (simp add: call_def rpc_def)
  qed
qed

end

lemma inventory_stubs:
  assumes "grpc_conn cc (inventory_grpc_server emit T m)"
  shows "inventoryServiceClient_GetPart cc = rpc (inventory_GetPart_endpoint emit T m)"
    and "inventoryServiceClient_ListParts cc = rpc (inventory_ListParts_endpoint emit T m)"
proof -
  show "inventoryServiceClient_GetPart cc = rpc (inventory_GetPart_endpoint emit T m)"
    by (rule ext, unfold inventoryServiceClient_GetPart_def,
        rule grpc_conn.stub_is_rpc [OF assms inventory_methods(1), where pack_req = AnyGetPartRequest and pack = AnyGetPartResponse
          and endpoint = "inventory_GetPart_endpoint emit T m",
          OF GetPart_handled]) simp_all
  show "inventoryServiceClient_ListParts cc = rpc (inventory_ListParts_endpoint emit T m)"
    by (rule ext, unfold inventoryServiceClient_ListParts_def,
        rule grpc_conn.stub_is_rpc [OF assms inventory_methods(2), where pack_req = AnyListPartsRequest and pack = AnyListPartsResponse
          and endpoint = "inventory_ListParts_endpoint emit T m",
          OF ListParts_handled]) simp_all
qed

lemma payment_stub:
  assumes "grpc_conn cc (payment_grpc_server emit newString)"
  shows "paymentServiceClient_PayOrder cc = rpc (payment_PayOrder_endpoint emit newString)"
  by (rule ext, unfold paymentServiceClient_PayOrder_def,
      rule grpc_conn.stub_is_rpc [OF assms payment_methods, where pack_req = AnyPayOrderRequest and pack = AnyPayOrderResponse
          and endpoint = "payment_PayOrder_endpoint emit newString",
        OF PayOrder_handled]) simp_all

section \<open>The order service over the stubs\<close>

text \<open>
  C35. Over connections to the two servers, the order service that is built on the generated stubs is
  the order service that calls the endpoints of inventory and payment: each stub packs its request,
  reaches the handler that its server registered under the same name, behind the interceptors of that
  server, and unpacks the answer or the error that the endpoint gave; \<open>GetPart\<close> does the same.
\<close>

theorem stubs_reach_services:
  assumes "grpc_conn ic (inventory_grpc_server emit T m)" and "grpc_conn pc (payment_grpc_server emit' newString)"
  shows "NewOrderService pg (inventoryServiceClient_ListParts ic) (paymentServiceClient_PayOrder pc) send newID U T' P topic =
      NewOrderService pg (rpc (inventory_ListParts_endpoint emit T m)) (rpc (payment_PayOrder_endpoint emit' newString))
        send newID U T' P topic \<and>
    inventoryServiceClient_GetPart ic = rpc (inventory_GetPart_endpoint emit T m)"
  by (simp add: inventory_stubs [OF assms(1)] payment_stub [OF assms(2)])

theorem stubs_reach_services_witness:
  "order_svc = NewOrderService sys_pg
     (inventoryServiceClient_ListParts (loopback (inventory_grpc_server log_rpc unix_ts sys_mongo)))
     (paymentServiceClient_PayOrder (loopback (payment_grpc_server log_rpc new_tx)))
     sys_send new_uuid canonical_uuid unix_ts wire_proto ''order.paid''"
  unfolding order_svc_def
  by (rule stubs_reach_services [THEN conjunct1, symmetric]) (rule loop.grpc_conn_axioms)+

end
