(* ===== verification/Logger.thy ===== *)
theory Logger
  imports Go_Text
begin

text \<open>
  The global logger (\<open>platform/logger/logger.go\<close>): its package variables, the functions that set them and
  the five levels with the fields taken from a context. zap is modelled as documented: a logger writes
  an entry when its core is enabled for the level, with the fields of \<open>With\<close> before those of the call, and
  \<open>Fatal\<close> then ends the process, even where nothing is written. Time stamps and callers are left out.
\<close>

section \<open>Levels, fields and contexts\<close>

datatype level = LevelDebug | LevelInfo | LevelWarn | LevelError | LevelFatal

fun severity :: "level \<Rightarrow> int" where
  "severity LevelDebug = -1"
| "severity LevelInfo = 0"
| "severity LevelWarn = 1"
| "severity LevelError = 2"
| "severity LevelFatal = 5"

text \<open>\<open>ulow\<close> is the path of \<open>strings.ToLower\<close> for text that is not ASCII.\<close>

definition parseLevel :: "(string \<Rightarrow> string) \<Rightarrow> string \<Rightarrow> level" where
  "parseLevel ulow levelStr =
     (let l = ToLower ulow levelStr in
      if l = ''debug'' then LevelDebug
      else if l = ''info'' then LevelInfo
      else if l = ''warn'' \<or> l = ''warning'' then LevelWarn
      else if l = ''error'' then LevelError
      else LevelInfo)"

type_synonym log_field = "string \<times> string" \<comment> \<open>key and value, as \<open>zap.String\<close> makes it\<close>

text \<open>What \<open>ctx.Value\<close> can give for a key: a string or a value of another type.\<close>

datatype ctx_value = CtxString string | CtxOther

type_synonym log_ctx = "string \<rightharpoonup> ctx_value"

definition traceIDKey :: string where "traceIDKey = ''trace_id''"
definition userIDKey :: string where "userIDKey = ''user_id''"

text \<open>\<open>if v, ok := ctx.Value(key).(string); ok && v != "" { fields = append(...) }\<close>\<close>

definition ctx_field :: "log_ctx \<Rightarrow> string \<Rightarrow> log_field list" where
  "ctx_field ctx key =
     (case ctx key of Some (CtxString v) \<Rightarrow> if v \<noteq> '''' then [(key, v)] else [] | _ \<Rightarrow> [])"

definition fieldsFromContext :: "log_ctx \<Rightarrow> log_field list" where
  "fieldsFromContext ctx = ctx_field ctx traceIDKey @ ctx_field ctx userIDKey"

section \<open>The package\<close>

datatype log_core = JsonCore | ConsoleCore | NopCore

record zap_logger =
  zl_Core :: log_core
  zl_Fields :: "log_field list" \<comment> \<open>given to \<open>With\<close>\<close>

record log_entry =
  le_Level :: level
  le_Message :: string
  le_Fields :: "log_field list"

text \<open>\<open>ls_Level\<close> is \<open>None\<close> while \<open>dynamicLevel\<close> is the zero value; \<open>ls_Out\<close> is standard output.\<close>

record log_state =
  ls_Global :: "zap_logger option"
  ls_Once :: bool
  ls_Level :: "level option"
  ls_Out :: "log_entry list"

definition fresh_log :: log_state where
  "fresh_log = \<lparr>ls_Global = None, ls_Once = False, ls_Level = None, ls_Out = []\<rparr>"

datatype log_exit = ExitProcess

definition Init :: "(string \<Rightarrow> string) \<Rightarrow> string \<Rightarrow> bool \<Rightarrow> (log_state, log_exit, unit) prog" where
  "Init ulow levelStr asJSON s =
     (if ls_Once s then s
      else s\<lparr>ls_Once := True, ls_Level := Some (parseLevel ulow levelStr),
             ls_Global := Some \<lparr>zl_Core = if asJSON then JsonCore else ConsoleCore, zl_Fields = []\<rparr>\<rparr>, Ok ())"

definition SetLevel :: "(string \<Rightarrow> string) \<Rightarrow> string \<Rightarrow> (log_state, log_exit, unit) prog" where
  "SetLevel ulow levelStr s =
     (if ls_Level s = None then s else s\<lparr>ls_Level := Some (parseLevel ulow levelStr)\<rparr>, Ok ())"

definition nop_logger :: zap_logger where
  "nop_logger = \<lparr>zl_Core = NopCore, zl_Fields = []\<rparr>"

definition InitForBenchmark :: "(log_state, log_exit, unit) prog" where
  "InitForBenchmark s = (s\<lparr>ls_Global := Some nop_logger\<rparr>, Ok ())"

definition SetNopLogger :: "(log_state, log_exit, unit) prog" where
  "SetNopLogger s = (s\<lparr>ls_Global := Some nop_logger\<rparr>, Ok ())"

text \<open>\<open>With\<close> and \<open>WithContext\<close> return a logger and leave the global one alone.\<close>

definition With :: "log_field list \<Rightarrow> log_state \<Rightarrow> zap_logger" where
  "With fs s =
     (case ls_Global s of None \<Rightarrow> nop_logger | Some l \<Rightarrow> l\<lparr>zl_Fields := zl_Fields l @ fs\<rparr>)"

definition WithContext :: "log_ctx \<Rightarrow> log_state \<Rightarrow> zap_logger" where
  "WithContext ctx s =
     (case ls_Global s of None \<Rightarrow> nop_logger | Some l \<Rightarrow> l\<lparr>zl_Fields := zl_Fields l @ fieldsFromContext ctx\<rparr>)"

text \<open>\<open>zapLogger.Debug\<close> and its siblings.\<close>

definition enabled :: "log_state \<Rightarrow> level \<Rightarrow> bool" where
  "enabled s lvl \<longleftrightarrow> (case ls_Level s of Some l \<Rightarrow> severity l \<le> severity lvl | None \<Rightarrow> False)"

definition zap_log :: "zap_logger \<Rightarrow> level \<Rightarrow> string \<Rightarrow> log_field list \<Rightarrow> (log_state, log_exit, unit) prog" where
  "zap_log l lvl msg fs s =
     (if zl_Core l = NopCore \<or> \<not> enabled s lvl then s
      else s\<lparr>ls_Out := ls_Out s @ [\<lparr>le_Level = lvl, le_Message = msg, le_Fields = zl_Fields l @ fs\<rparr>]\<rparr>,
      if lvl = LevelFatal then Err ExitProcess else Ok ())"

text \<open>The methods of \<open>*logger\<close>; a nil receiver is dereferenced.\<close>

definition log_on ::
  "zap_logger option \<Rightarrow> level \<Rightarrow> log_ctx \<Rightarrow> string \<Rightarrow> log_field list \<Rightarrow> (log_state, log_exit, unit) prog" where
  "log_on l lvl ctx msg fs =
     (let allFields = fieldsFromContext ctx @ fs in
      case l of None \<Rightarrow> panic nil_deref | Some zl \<Rightarrow> zap_log zl lvl msg allFields)"

definition log_Debug where "log_Debug l = log_on l LevelDebug"
definition log_Info where "log_Info l = log_on l LevelInfo"
definition log_Warn where "log_Warn l = log_on l LevelWarn"
definition log_Error where "log_Error l = log_on l LevelError"
definition log_Fatal where "log_Fatal l = log_on l LevelFatal"

lemmas logger_method_defs =
  log_Debug_def log_Info_def log_Warn_def log_Error_def log_Fatal_def

text \<open>The functions of the package call the method of the global logger.\<close>

type_synonym log_function = "log_ctx \<Rightarrow> string \<Rightarrow> log_field list \<Rightarrow> (log_state, log_exit, unit) prog"

definition Debug :: log_function where "Debug ctx msg fs s = log_Debug (ls_Global s) ctx msg fs s"
definition Info :: log_function where "Info ctx msg fs s = log_Info (ls_Global s) ctx msg fs s"
definition Warn :: log_function where "Warn ctx msg fs s = log_Warn (ls_Global s) ctx msg fs s"
definition Error :: log_function where "Error ctx msg fs s = log_Error (ls_Global s) ctx msg fs s"
definition Fatal :: log_function where "Fatal ctx msg fs s = log_Fatal (ls_Global s) ctx msg fs s"

lemmas log_function_defs = Debug_def Info_def Warn_def Error_def Fatal_def

text \<open>\<open>syncCore\<close> is the outcome of zap's \<open>Sync\<close>.\<close>

definition Sync :: "(log_state, log_exit, unit) prog \<Rightarrow> (log_state, log_exit, unit) prog" where
  "Sync syncCore s = (if ls_Global s \<noteq> None then syncCore s else (s, Ok ()))"

section \<open>Sequences of calls\<close>

datatype log_call =
    CallInit string bool
  | CallSetLevel string
  | CallSetNop
  | CallBenchmark
  | CallLog level log_ctx string "log_field list"

fun log_at :: "level \<Rightarrow> log_function" where
  "log_at LevelDebug = Debug"
| "log_at LevelInfo = Info"
| "log_at LevelWarn = Warn"
| "log_at LevelError = Error"
| "log_at LevelFatal = Fatal"

fun log_step :: "(string \<Rightarrow> string) \<Rightarrow> log_call \<Rightarrow> log_state \<Rightarrow> log_state" where
  "log_step ulow (CallInit t j) s = fst (Init ulow t j s)"
| "log_step ulow (CallSetLevel t) s = fst (SetLevel ulow t s)"
| "log_step ulow CallSetNop s = fst (SetNopLogger s)"
| "log_step ulow CallBenchmark s = fst (InitForBenchmark s)"
| "log_step ulow (CallLog lvl ctx msg fs) s = fst (log_at lvl ctx msg fs s)"

text \<open>
  What a sequence of calls amounts to: the level is that of the first \<open>Init\<close>, or of the last \<open>SetLevel\<close>
  after it, and the logger is there once one of the four functions has set it.
\<close>

fun is_init :: "log_call \<Rightarrow> bool" where
  "is_init (CallInit t j) = True"
| "is_init _ = False"

fun sets_logger :: "log_call \<Rightarrow> bool" where
  "sets_logger (CallInit t j) = True"
| "sets_logger CallSetNop = True"
| "sets_logger CallBenchmark = True"
| "sets_logger _ = False"

fun level_after :: "string \<Rightarrow> log_call list \<Rightarrow> string" where
  "level_after t [] = t"
| "level_after t (CallSetLevel u # cs) = level_after u cs"
| "level_after t (c # cs) = level_after t cs"

fun level_of :: "log_call list \<Rightarrow> string option" where
  "level_of [] = None"
| "level_of (CallInit t j # cs) = Some (level_after t cs)"
| "level_of (c # cs) = level_of cs"

lemma log_at_step:
  "log_at lvl ctx msg fs s =
     (case ls_Global s of None \<Rightarrow> (s, Panic nil_deref) | Some l \<Rightarrow> zap_log l lvl msg (fieldsFromContext ctx @ fs) s)"
  by (cases lvl) (simp_all add: log_function_defs logger_method_defs log_on_def panic_def split: option.split)

lemma log_at_frame:
  "ls_Global (fst (log_at lvl ctx msg fs s)) = ls_Global s"
  "ls_Once (fst (log_at lvl ctx msg fs s)) = ls_Once s"
  "ls_Level (fst (log_at lvl ctx msg fs s)) = ls_Level s"
  by (simp_all add: log_at_step zap_log_def split: option.split)

lemmas log_setters = Init_def SetLevel_def SetNopLogger_def InitForBenchmark_def

lemma level_running:
  assumes "ls_Once s" "ls_Level s = Some (parseLevel ulow t)"
  shows "ls_Level (fold (log_step ulow) cs s) = Some (parseLevel ulow (level_after t cs))"
  using assms
proof (induction cs arbitrary: s t)
  case (Cons c cs)
  then show ?case by (cases c) (simp_all add: log_setters log_at_frame)
qed simp

lemma level_from_start:
  assumes "\<not> ls_Once s" "ls_Level s = None"
  shows "ls_Level (fold (log_step ulow) cs s) = map_option (parseLevel ulow) (level_of cs)"
  using assms
proof (induction cs arbitrary: s)
  case (Cons c cs)
  show ?case
  proof (cases c)
    case (CallInit t j)
    with Cons.prems show ?thesis by (simp add: Init_def level_running)
  qed (use Cons in \<open>simp_all add: log_setters log_at_frame\<close>)
qed simp

lemma logger_running:
  "ls_Global s \<noteq> None \<Longrightarrow> ls_Global (fold (log_step ulow) cs s) \<noteq> None"
proof (induction cs arbitrary: s)
  case (Cons c cs)
  then show ?case by (cases c) (simp_all add: log_setters log_at_frame)
qed simp

lemma logger_from_start:
  assumes "\<not> ls_Once s" "ls_Global s = None"
  shows "ls_Global (fold (log_step ulow) cs s) \<noteq> None \<longleftrightarrow> list_ex sets_logger cs"
  using assms
proof (induction cs arbitrary: s)
  case (Cons c cs)
  show ?case
  proof (cases "sets_logger c")
    case True
    then have "ls_Global (log_step ulow c s) \<noteq> None"
      using Cons.prems by (cases c) (simp_all add: log_setters)
    with True show ?thesis using logger_running [of "log_step ulow c s" ulow cs] by simp
  next
    case False
    then have "\<not> ls_Once (log_step ulow c s)" "ls_Global (log_step ulow c s) = None"
      using Cons.prems by (cases c; simp add: log_setters log_at_frame)+
    from Cons.IH [OF this] False show ?thesis by simp
  qed
qed simp

text \<open>A field of the context is written under its key, and nothing else is taken from it.\<close>

lemma fieldsFromContext_keys:
  "(k, v) \<in> set (fieldsFromContext ctx) \<longleftrightarrow>
     k \<in> {traceIDKey, userIDKey} \<and> ctx k = Some (CtxString v) \<and> v \<noteq> ''''"
  by (auto simp: fieldsFromContext_def ctx_field_def split: option.splits ctx_value.splits)

section \<open>The logger after any calls\<close>


end
