(* ===== verification/Health.thy ===== *)
theory Health
  imports Logger
begin

text \<open>
  The health endpoints (\<open>platform/grpc/health\<close>, \<open>order/internal/transport/http/health\<close>) and the migrator
  (\<open>platform/db/migrator\<close>). The stream, the HTTP connection, goose and the database are parameters.
\<close>

section \<open>Health\<close>

datatype serving_status = SERVICE_UNKNOWN | SERVING | NOT_SERVING

definition health_Check :: "string \<Rightarrow> ('w, 'e, serving_status) prog" where
  "health_Check service = ok SERVING"

text \<open>\<open>send\<close> is \<open>stream.Send\<close>; the method returns after one message.\<close>

definition health_Watch :: "(serving_status \<Rightarrow> ('w, 'e, unit) prog) \<Rightarrow> string \<Rightarrow> ('w, 'e, unit) prog" where
  "health_Watch send service = send SERVING"

text \<open>
  \<open>write\<close> is \<open>w.Write\<close> on the connection \<open>conn\<close>, which gives the text of its error if it fails; a failure
  is logged, with the field that \<open>zap.Error\<close> makes.
\<close>

definition HealthCheck ::
  "('c \<Rightarrow> string \<Rightarrow> 'c \<times> string option) \<Rightarrow> log_ctx \<Rightarrow> ('c \<times> log_state, log_exit, unit) prog" where
  "HealthCheck write ctx w =
     (case write (fst w) ''SERVING'' of
        (conn, None) \<Rightarrow> ((conn, snd w), Ok ())
      | (conn, Some err) \<Rightarrow>
          (case Error ctx ''health check'' [(''error'', err)] (snd w) of (logs, r) \<Rightarrow> ((conn, logs), r)))"

text \<open>A probe never says more than that the process answers: the state of the service is not consulted.\<close>

lemma health_constant: "health_Check s w = (w, Ok SERVING)" "health_Watch send s = health_Watch send t"
  by (simp_all add: health_Check_def health_Watch_def ok_def)

text \<open>A broken connection is one entry in the log, and without a logger the handler panics.\<close>

lemma broken_probe:
  assumes "write conn ''SERVING'' = (conn', Some err)"
  shows "HealthCheck write ctx (conn, s) =
    (case ls_Global s of
       None \<Rightarrow> ((conn', s), Panic nil_deref)
     | Some l \<Rightarrow> ((conn', fst (zap_log l LevelError ''health check'' (fieldsFromContext ctx @ [(''error'', err)]) s)), Ok ()))"
  using assms
  by (auto simp: HealthCheck_def log_at_step [of LevelError, unfolded log_at.simps] zap_log_def split: option.split)

section \<open>Migrations\<close>

record ('w, 'e) migrator =
  mg_db_Close :: "('w, 'e, unit) prog"
  mg_Up :: "string \<Rightarrow> ('w, 'e, unit) prog" \<comment> \<open>\<open>goose.Up\<close> on the database, with the directory\<close>
  mg_migrationsDir :: string

definition NewMigrator :: "('w, 'e, unit) prog \<Rightarrow> (string \<Rightarrow> ('w, 'e, unit) prog) \<Rightarrow> string \<Rightarrow> ('w, 'e) migrator" where
  "NewMigrator dbClose gooseUp migrationsDir =
     \<lparr>mg_db_Close = dbClose, mg_Up = gooseUp, mg_migrationsDir = migrationsDir\<rparr>"

definition Migrator_Up :: "('w, 'e) migrator \<Rightarrow> ('w, 'e, unit) prog" where
  "Migrator_Up m = call (mg_Up m (mg_migrationsDir m)) id (\<lambda>_. ok ())"

definition Migrator_Close :: "('w, 'e) migrator \<Rightarrow> ('w, 'e, unit) prog" where
  "Migrator_Close m = mg_db_Close m"

lemma migrator_up: "Migrator_Up (NewMigrator c up dir) = up dir"
  by (auto simp: fun_eq_iff Migrator_Up_def NewMigrator_def call_def ok_def split: prod.split outcome.split)

end
