(* ===== verification/Testcontainers.thy ===== *)
theory Testcontainers
  imports Logger
begin

text \<open>
  \<open>platform/testcontainers\<close>: the options, requests and constructors of the containers that the
  integration tests start, who ends a container when its constructor fails, and how its log is copied.
  testcontainers-go, Docker and the MongoDB driver are the record \<open>engine\<close>; the locale \<open>container_engine\<close>
  says what their documentation promises of the running containers and the connected clients, and
  is interpreted on a small engine.
\<close>

section \<open>Constants\<close>

definition MongoContainerName :: string where "MongoContainerName = ''mongo''"
definition MongoPort :: string where "MongoPort = ''27017''"
definition MongoImageNameKey :: string where "MongoImageNameKey = ''MONGO_IMAGE_NAME''"
definition MongoHostKey :: string where "MongoHostKey = ''MONGO_HOST''"
definition MongoPortKey :: string where "MongoPortKey = ''MONGO_PORT''"
definition MongoDatabaseKey :: string where "MongoDatabaseKey = ''MONGO_DATABASE''"
definition MongoUsernameKey :: string where "MongoUsernameKey = ''MONGO_INITDB_ROOT_USERNAME''"
definition MongoPasswordKey :: string where "MongoPasswordKey = ''MONGO_INITDB_ROOT_PASSWORD''"
definition MongoAuthDBKey :: string where "MongoAuthDBKey = ''MONGO_AUTH_DB''"

definition defaultAppName :: string where "defaultAppName = ''app''"
definition defaultAppPort :: string where "defaultAppPort = ''50051''"
definition defaultStartupTimeout :: gotime where "defaultStartupTimeout = 60 * 10 ^ 9"

definition mongoPort :: string where "mongoPort = ''27017''"
definition mongoStartupTimeout :: gotime where "mongoStartupTimeout = 60 * 10 ^ 9"
definition mongoEnvUsernameKey :: string where "mongoEnvUsernameKey = ''MONGO_INITDB_ROOT_USERNAME''"
definition mongoEnvPasswordKey :: string where "mongoEnvPasswordKey = ''MONGO_INITDB_ROOT_PASSWORD''"

section \<open>Requests and the engine\<close>

text \<open>
  A wait strategy of the library, by its constructor; an interface value of type \<open>Logger\<close>, nil or
  dynamic; a writer; \<open>container.HostConfig\<close> with the one field that is touched.
\<close>

datatype wait_strategy = ForListeningPort string gotime | OtherStrategy nat

datatype tc_logger = NilLogger | NoopLogger | LoggerNo nat

datatype log_writer = Discard | WriterNo nat

record host_config = hc_AutoRemove :: bool

record container_request =
  cr_Name :: string
  cr_Image :: string
  cr_FromDockerfile :: "string \<times> string" \<comment> \<open>\<open>Context\<close> and \<open>Dockerfile\<close>\<close>
  cr_Networks :: "string list"
  cr_NetworkAliases :: "string \<rightharpoonup> string list"
  cr_Env :: "string \<rightharpoonup> string"
  cr_WaitingFor :: "wait_strategy option"
  cr_ExposedPorts :: "string list"
  cr_HostConfigModifier :: "host_config \<Rightarrow> host_config"

record network_request =
  nr_Driver :: string
  nr_Attachable :: bool
  nr_Labels :: "string \<rightharpoonup> string"

text \<open>
  Containers, clients and networks are numbers. \<open>en_Log\<close> is a call of the logger with that number;
  \<open>en_Port\<close> is \<open>nat.Port.Port\<close>.
\<close>

record 'w engine =
  en_GenericContainer :: "container_request \<Rightarrow> bool \<Rightarrow> ('w, string, nat) prog"
  en_Host :: "nat \<Rightarrow> ('w, string, string) prog"
  en_MappedPort :: "nat \<Rightarrow> string \<Rightarrow> ('w, string, string) prog"
  en_Port :: "string \<Rightarrow> string"
  en_Terminate :: "nat \<Rightarrow> ('w, string, unit) prog"
  en_Connect :: "string \<Rightarrow> ('w, string, nat) prog"
  en_Ping :: "nat \<Rightarrow> ('w, string, unit) prog"
  en_Disconnect :: "nat \<Rightarrow> ('w, string, unit) prog"
  en_NewNetwork :: "network_request \<Rightarrow> ('w, string, nat) prog"
  en_NetworkName :: "nat \<Rightarrow> string"
  en_RemoveNetwork :: "nat \<Rightarrow> ('w, string, unit) prog"
  en_Log :: "nat \<Rightarrow> level \<Rightarrow> string \<Rightarrow> log_field list \<Rightarrow> 'w \<Rightarrow> 'w"

text \<open>A call of an interface value: nil panics, \<open>NoopLogger\<close> does nothing.\<close>

definition logger_call :: "'w engine \<Rightarrow> tc_logger \<Rightarrow> level \<Rightarrow> string \<Rightarrow> log_field list \<Rightarrow> ('w, string, unit) prog" where
  "logger_call en l lvl msg fs w =
     (case l of
        NilLogger \<Rightarrow> (w, Panic nil_deref)
      | NoopLogger \<Rightarrow> (w, Ok ())
      | LoggerNo n \<Rightarrow> (en_Log en n lvl msg fs w, Ok ()))"

text \<open>\<open>net.JoinHostPort\<close>\<close>

definition JoinHostPort :: "string \<Rightarrow> string \<Rightarrow> string" where
  "JoinHostPort host port =
     (if CHR '':'' \<in> set host then ''['' @ host @ '']:'' @ port else host @ '':'' @ port)"

text \<open>The pattern \<open>for _, opt := range opts { opt(cfg) }\<close>; an option changes the struct it points to.\<close>

definition apply_opts :: "('c \<Rightarrow> 'c) list \<Rightarrow> 'c \<Rightarrow> 'c" where
  "apply_opts opts c = foldl (\<lambda>c opt. opt c) c opts"

lemma apply_opts_keeps:
  assumes "\<And>opt c. opt \<in> set opts \<Longrightarrow> v (opt c) = v c"
  shows "v (apply_opts opts c) = v c"
  using assms unfolding apply_opts_def by (induction opts arbitrary: c) auto

lemma apply_opts_snoc: "apply_opts (opts @ [opt]) c = opt (apply_opts opts c)"
  by (simp add: apply_opts_def)

section \<open>The application container\<close>

record app_config =
  ac_Name :: string
  ac_DockerfileDir :: string
  ac_Dockerfile :: string
  ac_Port :: string
  ac_Env :: "string \<rightharpoonup> string"
  ac_Networks :: "string list"
  ac_LogOutput :: log_writer
  ac_StartupWait :: "wait_strategy option"
  ac_Logger :: tc_logger

type_synonym app_option = "app_config \<Rightarrow> app_config"

definition app_WithName :: "string \<Rightarrow> app_option" where
  "app_WithName name c = c\<lparr>ac_Name := name\<rparr>"

definition app_WithDockerfile :: "string \<Rightarrow> string \<Rightarrow> app_option" where
  "app_WithDockerfile dir file c = c\<lparr>ac_DockerfileDir := dir, ac_Dockerfile := file\<rparr>"

definition app_WithPort :: "string \<Rightarrow> app_option" where
  "app_WithPort port c = c\<lparr>ac_Port := port\<rparr>"

definition app_WithNetwork :: "string \<Rightarrow> app_option" where
  "app_WithNetwork name c = c\<lparr>ac_Networks := ac_Networks c @ [name]\<rparr>"

definition app_WithEnv :: "(string \<rightharpoonup> string) \<Rightarrow> app_option" where
  "app_WithEnv env c = c\<lparr>ac_Env := ac_Env c ++ env\<rparr>"

definition app_WithLogOutput :: "log_writer \<Rightarrow> app_option" where
  "app_WithLogOutput out c = c\<lparr>ac_LogOutput := out\<rparr>"

definition app_WithStartupWait :: "wait_strategy option \<Rightarrow> app_option" where
  "app_WithStartupWait strategy c = c\<lparr>ac_StartupWait := strategy\<rparr>"

definition app_WithLogger :: "tc_logger \<Rightarrow> app_option" where
  "app_WithLogger l c = c\<lparr>ac_Logger := l\<rparr>"

lemmas app_option_defs = app_WithName_def app_WithDockerfile_def app_WithPort_def app_WithNetwork_def
  app_WithEnv_def app_WithLogOutput_def app_WithStartupWait_def app_WithLogger_def

definition DefaultHostConfig :: "host_config \<Rightarrow> host_config" where
  "DefaultHostConfig hc = hc\<lparr>hc_AutoRemove := True\<rparr>"

definition app_defaults :: app_config where
  "app_defaults = \<lparr>ac_Name = defaultAppName, ac_DockerfileDir = ''.'', ac_Dockerfile = ''Dockerfile'',
     ac_Port = defaultAppPort, ac_Env = Map.empty, ac_Networks = [], ac_LogOutput = Discard,
     ac_StartupWait = Some (ForListeningPort (defaultAppPort @ ''/tcp'') defaultStartupTimeout),
     ac_Logger = NoopLogger\<rparr>"

definition app_request :: "app_config \<Rightarrow> container_request" where
  "app_request cfg = \<lparr>cr_Name = ac_Name cfg, cr_Image = '''',
     cr_FromDockerfile = (ac_DockerfileDir cfg, ac_Dockerfile cfg), cr_Networks = ac_Networks cfg,
     cr_NetworkAliases = Map.empty, cr_Env = ac_Env cfg, cr_WaitingFor = ac_StartupWait cfg,
     cr_ExposedPorts = [ac_Port cfg @ ''/tcp''], cr_HostConfigModifier = DefaultHostConfig\<rparr>"

record app_container =
  apc_container :: nat
  apc_externalHost :: string
  apc_externalPort :: string
  apc_cfg :: app_config

text \<open>The goroutine that copies the log is modelled below.\<close>

definition app_NewContainer :: "'w engine \<Rightarrow> app_option list \<Rightarrow> ('w, string, app_container) prog" where
  "app_NewContainer en opts =
     (let cfg = apply_opts opts app_defaults in
      call (en_GenericContainer en (app_request cfg) True) (\<lambda>e. ''failed to start app genericContainer: '' @ e) (\<lambda>c.
      call (en_MappedPort en c (ac_Port cfg @ ''/tcp'')) (\<lambda>e. ''failed to get mapped externalPort: '' @ e) (\<lambda>mappedPort.
      call (en_Host en c) (\<lambda>e. ''failed to get genericContainer externalHost: '' @ e) (\<lambda>host.
      call (logger_call en (ac_Logger cfg) LevelInfo ''App container started''
              [(''uri:'', JoinHostPort host (en_Port en mappedPort))]) id (\<lambda>_.
      ok \<lparr>apc_container = c, apc_externalHost = host, apc_externalPort = en_Port en mappedPort, apc_cfg = cfg\<rparr>)))))"

definition app_Address :: "app_container \<Rightarrow> string" where
  "app_Address a = JoinHostPort (apc_externalHost a) (apc_externalPort a)"

definition app_Terminate :: "'w engine \<Rightarrow> app_container \<Rightarrow> ('w, string, unit) prog" where
  "app_Terminate en a = en_Terminate en (apc_container a)"

section \<open>The MongoDB container\<close>

record mongo_config =
  mc_NetworkName :: string
  mc_ContainerName :: string
  mc_ImageName :: string
  mc_Database :: string
  mc_Username :: string
  mc_Password :: string
  mc_AuthDB :: string
  mc_Logger :: tc_logger
  mc_Host :: string
  mc_Port :: string

type_synonym mongo_option = "mongo_config \<Rightarrow> mongo_config"

definition mongo_WithNetworkName :: "string \<Rightarrow> mongo_option" where
  "mongo_WithNetworkName network c = c\<lparr>mc_NetworkName := network\<rparr>"

definition mongo_WithContainerName :: "string \<Rightarrow> mongo_option" where
  "mongo_WithContainerName containerName c = c\<lparr>mc_ContainerName := containerName\<rparr>"

definition mongo_WithHost :: "string \<Rightarrow> mongo_option" where
  "mongo_WithHost host c = c\<lparr>mc_Host := host\<rparr>"

definition mongo_WithPort :: "string \<Rightarrow> mongo_option" where
  "mongo_WithPort port c = c\<lparr>mc_Port := port\<rparr>"

definition mongo_WithImageName :: "string \<Rightarrow> mongo_option" where
  "mongo_WithImageName img c = c\<lparr>mc_ImageName := img\<rparr>"

definition mongo_WithDatabase :: "string \<Rightarrow> mongo_option" where
  "mongo_WithDatabase database c = c\<lparr>mc_Database := database\<rparr>"

definition mongo_WithAuth :: "string \<Rightarrow> string \<Rightarrow> mongo_option" where
  "mongo_WithAuth username password c = c\<lparr>mc_Username := username, mc_Password := password\<rparr>"

definition mongo_WithAuthDB :: "string \<Rightarrow> mongo_option" where
  "mongo_WithAuthDB authDB c = c\<lparr>mc_AuthDB := authDB\<rparr>"

definition mongo_WithLogger :: "tc_logger \<Rightarrow> mongo_option" where
  "mongo_WithLogger l c = c\<lparr>mc_Logger := l\<rparr>"

definition buildConfig :: "mongo_option list \<Rightarrow> mongo_config" where
  "buildConfig opts = apply_opts opts
     \<lparr>mc_NetworkName = ''test-network'', mc_ContainerName = ''mongo-container'', mc_ImageName = ''mongo:8.0'',
      mc_Database = ''test'', mc_Username = ''root'', mc_Password = ''root'', mc_AuthDB = ''admin'',
      mc_Logger = NoopLogger, mc_Host = '''', mc_Port = ''''\<rparr>"

definition defaultHostConfig :: "host_config \<Rightarrow> host_config" where
  "defaultHostConfig hc = hc\<lparr>hc_AutoRemove := True\<rparr>"

definition mongo_request :: "mongo_config \<Rightarrow> container_request" where
  "mongo_request cfg = \<lparr>cr_Name = mc_ContainerName cfg, cr_Image = mc_ImageName cfg, cr_FromDockerfile = ('''', ''''),
     cr_Networks = [mc_NetworkName cfg], cr_NetworkAliases = [mc_NetworkName cfg \<mapsto> [''mongo'']],
     cr_Env = [mongoEnvUsernameKey \<mapsto> mc_Username cfg, mongoEnvPasswordKey \<mapsto> mc_Password cfg,
       ''MONGO_INITDB_DATABASE'' \<mapsto> mc_Database cfg],
     cr_WaitingFor = Some (ForListeningPort (mongoPort @ ''/tcp'') mongoStartupTimeout),
     cr_ExposedPorts = [mongoPort @ ''/tcp''], cr_HostConfigModifier = defaultHostConfig\<rparr>"

definition startMongoContainer :: "'w engine \<Rightarrow> mongo_config \<Rightarrow> ('w, string, nat) prog" where
  "startMongoContainer en cfg =
     call (en_GenericContainer en (mongo_request cfg) True) (\<lambda>e. ''failed to start mongo container: '' @ e) ok"

definition getContainerHostPort :: "'w engine \<Rightarrow> nat \<Rightarrow> ('w, string, string \<times> string) prog" where
  "getContainerHostPort en c =
     call (en_Host en c) (\<lambda>e. ''failed to get container host: '' @ e) (\<lambda>host.
     call (en_MappedPort en c (mongoPort @ ''/tcp'')) (\<lambda>e. ''failed to get mapped port: '' @ e) (\<lambda>port.
     ok (host, en_Port en port)))"

definition buildMongoURI :: "mongo_config \<Rightarrow> string" where
  "buildMongoURI cfg =
     ''mongodb://'' @ mc_Username cfg @ '':'' @ mc_Password cfg @ ''@'' @ mc_Host cfg @ '':'' @ mc_Port cfg @
     ''/'' @ mc_Database cfg @ ''?authSource='' @ mc_AuthDB cfg"

definition connectMongoClient :: "'w engine \<Rightarrow> string \<Rightarrow> ('w, string, nat) prog" where
  "connectMongoClient en uri =
     call (en_Connect en uri) (\<lambda>e. ''failed to connect to mongo: '' @ e) (\<lambda>client.
     call (en_Ping en client) (\<lambda>e. ''failed to ping mongo: '' @ e) (\<lambda>_. ok client))"

record mongo_container =
  mgc_container :: nat
  mgc_client :: nat
  mgc_cfg :: mongo_config

text \<open>
  The deferred function runs however the body ends. \<open>success\<close> is set just before the body returns its
  value, so that it is true exactly when the body ends with one; the error of \<open>Terminate\<close> is only
  logged, and a panic of the deferred function replaces the outcome.
\<close>

definition with_defer :: "('w, 'e, 'a) prog \<Rightarrow> (bool \<Rightarrow> ('w, 'e, unit) prog) \<Rightarrow> ('w, 'e, 'a) prog" where
  "with_defer body deferred w =
     (let (w1, r) = body w in
      case deferred (case r of Ok _ \<Rightarrow> True | _ \<Rightarrow> False) w1 of
        (w2, Panic p) \<Rightarrow> (w2, Panic p) | (w2, _) \<Rightarrow> (w2, r))"

text \<open>\<open>if err := m(); err != nil { logger.Error(...) }\<close>\<close>

definition log_failure :: "'w engine \<Rightarrow> tc_logger \<Rightarrow> string \<Rightarrow> ('w, string, unit) prog \<Rightarrow> ('w, string, unit) prog" where
  "log_failure en l msg m w =
     (case m w of
        (w1, Ok _) \<Rightarrow> (w1, Ok ())
      | (w1, Err e) \<Rightarrow> logger_call en l LevelError msg [(''error'', e)] w1
      | (w1, Panic p) \<Rightarrow> (w1, Panic p))"

definition mongo_NewContainer :: "'w engine \<Rightarrow> mongo_option list \<Rightarrow> ('w, string, mongo_container) prog" where
  "mongo_NewContainer en opts =
     (let cfg = buildConfig opts in
      call (startMongoContainer en cfg) id (\<lambda>c.
      with_defer
        (call (getContainerHostPort en c) id (\<lambda>(host, port).
           let cfg = cfg\<lparr>mc_Host := host, mc_Port := port\<rparr>; uri = buildMongoURI cfg in
           call (connectMongoClient en uri) id (\<lambda>client.
           call (logger_call en (mc_Logger cfg) LevelInfo ''Mongo container started'' [(''uri'', uri)]) id (\<lambda>_.
           ok \<lparr>mgc_container = c, mgc_client = client, mgc_cfg = cfg\<rparr>))))
        (\<lambda>success. if success then ok ()
           else log_failure en (mc_Logger cfg) ''failed to terminate mongo container'' (en_Terminate en c))))"

definition mongo_Terminate :: "'w engine \<Rightarrow> mongo_container \<Rightarrow> ('w, string, unit) prog" where
  "mongo_Terminate en c =
     (let l = mc_Logger (mgc_cfg c) in
      call (log_failure en l ''failed to disconnect mongo client'' (en_Disconnect en (mgc_client c))) id (\<lambda>_.
      call (log_failure en l ''failed to terminate mongo container'' (en_Terminate en (mgc_container c))) id (\<lambda>_.
      call (logger_call en l LevelInfo ''Mongo container terminated'' []) id (\<lambda>_. ok ()))))"

definition mongo_Client :: "mongo_container \<Rightarrow> nat" where "mongo_Client c = mgc_client c"
definition mongo_Config :: "mongo_container \<Rightarrow> mongo_config" where "mongo_Config c = mgc_cfg c"

section \<open>Networks\<close>

record tc_network = nw_network :: nat

definition NewNetwork :: "'w engine \<Rightarrow> string \<Rightarrow> ('w, string goerr, tc_network) prog" where
  "NewNetwork en projectName =
     call (en_NewNetwork en \<lparr>nr_Driver = ''bridge'', nr_Attachable = True, nr_Labels = [''project'' \<mapsto> projectName]\<rparr>)
       (\<lambda>e. Wrapf ''failed to create docker network: '' (ErrText e) '''') (\<lambda>net. ok \<lparr>nw_network = net\<rparr>)"

definition network_Name :: "'w engine \<Rightarrow> tc_network \<Rightarrow> string" where
  "network_Name en n = en_NetworkName en (nw_network n)"

definition network_Remove :: "'w engine \<Rightarrow> tc_network \<Rightarrow> ('w, string, unit) prog" where
  "network_Remove en n = en_RemoveNetwork en (nw_network n)"

section \<open>What the engine promises\<close>

text \<open>
  \<open>running\<close> are the containers that were started and not ended, \<open>clients\<close> the driver's clients that are
  connected. Nothing is promised of a start or a termination that fails.
\<close>

lemma log_failure_quiet:
  assumes "l \<noteq> NilLogger" and "\<And>w w2 p. m w \<noteq> (w2, Panic p)"
  shows "\<exists>w2. log_failure en l msg m w = (w2, Ok ())"
  using assms by (cases "m w"; cases "snd (m w)"; cases l) (auto simp: log_failure_def logger_call_def)

definition one_more :: "nat set \<Rightarrow> nat set \<Rightarrow> bool" where
  "one_more A B \<longleftrightarrow> (\<exists>k. k \<notin> A \<and> B = insert k A)"

locale container_engine =
  fixes en :: "'w engine" and running :: "'w \<Rightarrow> nat set" and clients :: "'w \<Rightarrow> nat set"
  assumes started: "en_GenericContainer en req True w = (w', Ok c) \<Longrightarrow>
      c \<notin> running w \<and> running w' = insert c (running w) \<and> clients w' = clients w"
    and terminated: "en_Terminate en c w = (w', Ok ()) \<Longrightarrow> running w' = running w - {c} \<and> clients w' = clients w"
    and connected: "en_Connect en uri w = (w', Ok k) \<Longrightarrow>
      k \<notin> clients w \<and> clients w' = insert k (clients w) \<and> running w' = running w"
    and not_connected: "en_Connect en uri w = (w', r) \<Longrightarrow> (\<And>k. r \<noteq> Ok k) \<Longrightarrow>
      clients w' = clients w \<and> running w' = running w"
    and disconnected: "en_Disconnect en k w = (w', Ok ()) \<Longrightarrow> clients w' = clients w - {k} \<and> running w' = running w"
    and host: "keeps (\<lambda>w. (running w, clients w)) (en_Host en c)"
    and mapped: "keeps (\<lambda>w. (running w, clients w)) (en_MappedPort en c p)"
    and ping: "keeps (\<lambda>w. (running w, clients w)) (en_Ping en k)"
    and logs: "running (en_Log en n lvl msg fs w) = running w \<and> clients (en_Log en n lvl msg fs w) = clients w"
begin

abbreviation view :: "'w \<Rightarrow> nat set \<times> nat set" where
  "view w \<equiv> (running w, clients w)"

lemma logger_keeps: "keeps view (logger_call en l lvl msg fs)"
  using logs by (simp add: keeps_def logger_call_def split: tc_logger.splits)

lemma host_port_keeps: "keeps view (getContainerHostPort en c)"
  unfolding getContainerHostPort_def by (intro keeps_call host mapped keeps_ok)

text \<open>A client that cannot be pinged stays connected, and the caller does not get it.\<close>

lemma connect_ends:
  assumes "connectMongoClient en uri w = (w', r)"
  shows "running w' = running w"
    and "r = Ok k \<Longrightarrow> k \<notin> clients w \<and> clients w' = insert k (clients w)"
    and "clients w' = clients w \<or> one_more (clients w) (clients w')"
proof -
  obtain w1 r1 where run: "en_Connect en uri w = (w1, r1)" by fastforce
  have ping_view: "running w2 = running w1 \<and> clients w2 = clients w1" if "en_Ping en x w1 = (w2, q)" for w2 x q
    using keepsD [OF ping that] by simp
  show "running w' = running w" "r = Ok k \<Longrightarrow> k \<notin> clients w \<and> clients w' = insert k (clients w)"
    and "clients w' = clients w \<or> one_more (clients w) (clients w')"
    using assms run connected [of uri w w1] not_connected [OF run] ping_view
    by (cases r1; auto simp: connectMongoClient_def call_iff one_more_def)+
qed

lemma app_start:
  assumes run: "app_NewContainer en opts w = (w', r)"
    and start: "en_GenericContainer en (app_request (apply_opts opts app_defaults)) True w = (w1, Ok c)"
  shows "running w' = insert c (running w) \<and> clients w' = clients w"
proof -
  let ?cfg = "apply_opts opts app_defaults"
  have keep: "keeps view (call (en_MappedPort en c p) f (\<lambda>mappedPort. call (en_Host en c) g (\<lambda>host.
      call (logger_call en l lvl msg (fs mappedPort host)) id (\<lambda>_. ok (x mappedPort host)))))"
    for p f g l lvl msg and fs :: "string \<Rightarrow> string \<Rightarrow> log_field list" and x :: "string \<Rightarrow> string \<Rightarrow> app_container"
    by (intro keeps_call mapped host logger_keeps keeps_ok)
  note go = call_ok [where m = "en_GenericContainer en (app_request ?cfg) True", OF start]
  from run show ?thesis
    using keepsD [OF keep] started [OF start] by (fastforce simp: app_NewContainer_def Let_def go)
qed

text \<open>What the body of the constructor leaves behind, before the deferred function.\<close>

lemma mongo_body:
  assumes "call (getContainerHostPort en c) id (\<lambda>(host, port).
      call (connectMongoClient en (uri host port)) id (\<lambda>client.
      call (logger_call en l LevelInfo msg (fs host port)) id (\<lambda>_. ok (x host port client)))) w = (w', r)"
  shows "running w' = running w"
    and "r = Ok y \<Longrightarrow> \<exists>h p k. y = x h p k \<and> k \<notin> clients w \<and> clients w' = insert k (clients w)"
    and "clients w' = clients w \<or> one_more (clients w) (clients w')"
proof -
  have hp: "running w2 = running w1 \<and> clients w2 = clients w1" if "getContainerHostPort en c w1 = (w2, q)" for w1 w2 q
    using keepsD [OF host_port_keeps that] by simp
  have lg: "running w2 = running w1 \<and> clients w2 = clients w1"
    if "logger_call en l LevelInfo msg gs w1 = (w2, q :: (string, unit) outcome)" for w1 w2 q gs
    using keepsD [OF logger_keeps that] by simp
  show "running w' = running w"
    using assms by (auto simp: call_iff dest!: hp lg connect_ends(1))
  show "\<exists>h p k. y = x h p k \<and> k \<notin> clients w \<and> clients w' = insert k (clients w)" if "r = Ok y"
    using assms that by (auto simp: call_Ok_iff dest!: hp lg connect_ends(2) [OF _ refl]) blast
  show "clients w' = clients w \<or> one_more (clients w) (clients w')"
    using assms by (auto simp: call_iff dest!: hp lg dest: connect_ends(3))
qed

lemma mongo_start:
  assumes run: "mongo_NewContainer en opts w = (w', r)"
    and start: "en_GenericContainer en (mongo_request (buildConfig opts)) True w = (w1, Ok c)"
  shows "r = Ok y \<Longrightarrow> running w' = insert c (running w) \<and> mgc_container y = c \<and>
      mgc_client y \<notin> clients w \<and> clients w' = insert (mgc_client y) (clients w) \<and>
      (\<exists>h p. mgc_cfg y = (buildConfig opts)\<lparr>mc_Host := h, mc_Port := p\<rparr>)"
    and "(\<And>y. r \<noteq> Ok y) \<Longrightarrow> (\<And>w w2 q. en_Terminate en c w = (w2, q) \<Longrightarrow> q = Ok ()) \<Longrightarrow>
      running w' = running w \<and> (clients w' = clients w \<or> one_more (clients w) (clients w'))"
proof -
  let ?cfg = "buildConfig opts"
  let ?body = "call (getContainerHostPort en c) id (\<lambda>(host, port).
      call (connectMongoClient en (buildMongoURI (?cfg\<lparr>mc_Host := host, mc_Port := port\<rparr>))) id (\<lambda>client.
      call (logger_call en (mc_Logger ?cfg) LevelInfo ''Mongo container started''
        [(''uri'', buildMongoURI (?cfg\<lparr>mc_Host := host, mc_Port := port\<rparr>))]) id (\<lambda>_.
      ok \<lparr>mgc_container = c, mgc_client = client, mgc_cfg = ?cfg\<lparr>mc_Host := host, mc_Port := port\<rparr>\<rparr>)))"
  obtain w2 r2 where body: "?body w1 = (w2, r2)" by fastforce
  note view1 = started [OF start]
  have "startMongoContainer en ?cfg w = (w1, Ok c)"
    by (simp add: startMongoContainer_def call_def start ok_def)
  then have all: "with_defer ?body (\<lambda>success. if success then ok ()
      else log_failure en (mc_Logger ?cfg) ''failed to terminate mongo container'' (en_Terminate en c)) w1 = (w', r)"
    using run by (simp add: mongo_NewContainer_def Let_def call_ok [where m = "startMongoContainer en ?cfg"] cong: prod.case_cong)
  show "running w' = insert c (running w) \<and> mgc_container y = c \<and>
      mgc_client y \<notin> clients w \<and> clients w' = insert (mgc_client y) (clients w) \<and>
      (\<exists>h p. mgc_cfg y = ?cfg\<lparr>mc_Host := h, mc_Port := p\<rparr>)" if r: "r = Ok y"
  proof -
    from all r body have "w' = w2" "r2 = Ok y"
      by (cases r2; auto simp: with_defer_def ok_def split: prod.splits outcome.splits)+
    with mongo_body(1,2) [OF body] view1 show ?thesis by fastforce
  qed
  show "running w' = running w \<and> (clients w' = clients w \<or> one_more (clients w) (clients w'))"
    if bad: "\<And>y. r \<noteq> Ok y" and ends: "\<And>w w2 q. en_Terminate en c w = (w2, q) \<Longrightarrow> q = Ok ()"
  proof -
    obtain w3 where gone: "en_Terminate en c w2 = (w3, Ok ())" using ends by (metis surj_pair)
    have "w' = w3"
      using all body bad gone by (cases r2) (auto simp: with_defer_def ok_def log_failure_def)
    with terminated [OF gone] mongo_body(1,3) [OF body] view1 show ?thesis by auto
  qed
qed

text \<open>Both steps of the termination are tried whatever becomes of them, and no error is reported.\<close>

lemma mongo_end:
  assumes run: "mongo_Terminate en x w = (w', r)" and l: "mc_Logger (mgc_cfg x) \<noteq> NilLogger"
  shows "(\<And>w w2 p. en_Disconnect en (mgc_client x) w \<noteq> (w2, Panic p)) \<Longrightarrow>
      (\<And>w w2 p. en_Terminate en (mgc_container x) w \<noteq> (w2, Panic p)) \<Longrightarrow> r = Ok ()"
    and "en_Disconnect en (mgc_client x) w = (w1, Ok ()) \<Longrightarrow> en_Terminate en (mgc_container x) w1 = (w2, Ok ()) \<Longrightarrow>
      running w' = running w - {mgc_container x} \<and> clients w' = clients w - {mgc_client x}"
proof -
  have logged: "\<exists>w2. logger_call en (mc_Logger (mgc_cfg x)) lvl msg fs w1 = (w2, Ok ()) \<and> view w2 = view w1"
    for lvl msg fs w1
    using l logs by (cases "mc_Logger (mgc_cfg x)") (auto simp: logger_call_def)
  show "r = Ok ()" if nd: "\<And>w w2 p. en_Disconnect en (mgc_client x) w \<noteq> (w2, Panic p)"
    and nt: "\<And>w w2 p. en_Terminate en (mgc_container x) w \<noteq> (w2, Panic p)"
  proof -
    obtain w3 where d: "log_failure en (mc_Logger (mgc_cfg x)) ''failed to disconnect mongo client''
        (en_Disconnect en (mgc_client x)) w = (w3, Ok ())" using log_failure_quiet [of _ "en_Disconnect en (mgc_client x)", OF l nd] by blast
    obtain w4 where e: "log_failure en (mc_Logger (mgc_cfg x)) ''failed to terminate mongo container''
        (en_Terminate en (mgc_container x)) w3 = (w4, Ok ())" using log_failure_quiet [of _ "en_Terminate en (mgc_container x)", OF l nt] by blast
    obtain w5 where "logger_call en (mc_Logger (mgc_cfg x)) LevelInfo ''Mongo container terminated'' [] w4 = (w5, Ok ())"
      using logged by blast
    with run d e show ?thesis by (simp add: mongo_Terminate_def Let_def call_def ok_def)
  qed
  show "running w' = running w - {mgc_container x} \<and> clients w' = clients w - {mgc_client x}"
    if "en_Disconnect en (mgc_client x) w = (w1, Ok ())" and "en_Terminate en (mgc_container x) w1 = (w2, Ok ())"
    using run logged [of LevelInfo "''Mongo container terminated''" "[]" w2] disconnected [OF that(1)] terminated [OF that(2)] that
    by (auto simp: mongo_Terminate_def Let_def call_def log_failure_def ok_def)
qed

end

lemma logger_call_Ok: "logger_call en l lvl msg fs w = (w', Ok u) \<Longrightarrow> l \<noteq> NilLogger"
  by (auto simp: logger_call_def)

lemma with_defer_Ok: "with_defer body d w = (w', Ok y) \<Longrightarrow> \<exists>w1. body w = (w1, Ok y)"
  by (auto simp: with_defer_def split: prod.splits outcome.splits)

lemma mongo_started_logger:
  assumes "mongo_NewContainer en opts w = (w', Ok y)"
  shows "mc_Logger (mgc_cfg y) \<noteq> NilLogger"
  using assms
  by (auto simp: mongo_NewContainer_def Let_def call_Ok_iff dest!: with_defer_Ok logger_call_Ok)

section \<open>An engine\<close>

text \<open>
  Containers and clients in lists; an operation that can fail does when its name is in
  \<open>lab_failing\<close>. A container
  whose wait strategy listens on a port that is not exposed does not become ready; it stays.
\<close>

record lab =
  lab_running :: "nat list"
  lab_clients :: "nat list"
  lab_failing :: "string list"
  lab_lines :: "string list"

definition fresh_id :: "nat list \<Rightarrow> nat" where
  "fresh_id ns = Suc (sum_list ns)"

lemma fresh_id: "fresh_id ns \<notin> set ns"
  using member_le_sum_list [of "fresh_id ns" ns] by (auto simp: fresh_id_def)

definition lab_do :: "string \<Rightarrow> (lab \<Rightarrow> lab) \<Rightarrow> 'a \<Rightarrow> (lab, string, 'a) prog" where
  "lab_do name f x w = (if name \<in> set (lab_failing w) then (w, Err (name @ '' failed'')) else (f w, Ok x))"

definition never_ready :: "container_request \<Rightarrow> bool" where
  "never_ready req = (case cr_WaitingFor req of
     Some (ForListeningPort p _) \<Rightarrow> p \<notin> set (cr_ExposedPorts req) | _ \<Rightarrow> False)"

definition lab_engine :: "lab engine" where
  "lab_engine = \<lparr>
     en_GenericContainer = (\<lambda>req s w.
       let c = fresh_id (lab_running w); w' = w\<lparr>lab_running := c # lab_running w\<rparr> in
       if never_ready req then (w', Err ''context deadline exceeded'') else lab_do ''start'' (\<lambda>_. w') c w),
     en_Host = (\<lambda>c. lab_do ''host'' id ''localhost''),
     en_MappedPort = (\<lambda>c p. lab_do ''port'' id ''32768/tcp''),
     en_Port = takeWhile (\<lambda>x. x \<noteq> CHR ''/''),
     en_Terminate = (\<lambda>c. ok () \<circ> (\<lambda>w. w\<lparr>lab_running := removeAll c (lab_running w)\<rparr>)),
     en_Connect = (\<lambda>uri w. let k = fresh_id (lab_clients w) in
       lab_do ''connect'' (\<lambda>w. w\<lparr>lab_clients := k # lab_clients w\<rparr>) k w),
     en_Ping = (\<lambda>k. lab_do ''ping'' id ()),
     en_Disconnect = (\<lambda>k. ok () \<circ> (\<lambda>w. w\<lparr>lab_clients := removeAll k (lab_clients w)\<rparr>)),
     en_NewNetwork = (\<lambda>r. lab_do ''network'' id 0),
     en_NetworkName = (\<lambda>n. ''net''),
     en_RemoveNetwork = (\<lambda>n. lab_do ''remove'' id ()),
     en_Log = (\<lambda>n lvl msg fs w. w\<lparr>lab_lines := lab_lines w @ [msg]\<rparr>)\<rparr>"

interpretation lab: container_engine lab_engine "\<lambda>w. set (lab_running w)" "\<lambda>w. set (lab_clients w)"
  by unfold_locales
    (auto simp: lab_engine_def lab_do_def Let_def fresh_id keeps_def split: if_splits)

text \<open>The defaults wait for the default port; \<open>WithPort\<close> alone moves the port that is exposed only.\<close>

lemma with_port_never_ready: "port \<noteq> defaultAppPort \<Longrightarrow> never_ready (app_request (apply_opts [app_WithPort port] app_defaults))"
  by (simp add: never_ready_def app_request_def apply_opts_def app_WithPort_def app_defaults_def)

lemma request_waits_default:
  assumes "\<And>opt cfg. opt \<in> set opts \<Longrightarrow> ac_StartupWait (opt cfg) = ac_StartupWait cfg"
  shows "cr_WaitingFor (app_request (apply_opts opts app_defaults)) =
    Some (ForListeningPort (defaultAppPort @ ''/tcp'') defaultStartupTimeout)"
proof -
  have "ac_StartupWait (apply_opts opts app_defaults) = ac_StartupWait app_defaults"
    by (rule apply_opts_keeps) (rule assms)
  then show ?thesis by (simp add: app_request_def) (simp add: app_defaults_def)
qed

section \<open>Copying the log\<close>

text \<open>
  \<open>streamContainerLogs\<close> opens the log, defers its \<open>Close\<close>, starts a goroutine that copies and returns:
  the deferred \<open>Close\<close> runs while the goroutine copies. One step is one read with its write, or the
  \<open>Close\<close>; a reader that was closed gives an error, as \<open>io.Pipe\<close> documents. The global logger of
  the error reports is left out, their number is kept.
\<close>

datatype copier = NotStarted | Copying | CopyEnded

record log_stream =
  st_Unread :: "string list"
  st_Out :: "string list"
  st_Closed :: bool
  st_Copier :: copier
  st_Errors :: nat

definition logs_opened :: "string list \<Rightarrow> log_stream" where
  "logs_opened chunks = \<lparr>st_Unread = chunks, st_Out = [], st_Closed = False, st_Copier = NotStarted, st_Errors = 0\<rparr>"

inductive stream_step :: "bool \<Rightarrow> log_stream \<Rightarrow> log_stream \<Rightarrow> bool"
  for closeFails :: bool where
  spawn: "st_Copier s = NotStarted \<Longrightarrow> stream_step closeFails s (s\<lparr>st_Copier := Copying\<rparr>)"
| close: "st_Copier s \<noteq> NotStarted \<Longrightarrow> \<not> st_Closed s \<Longrightarrow>
    stream_step closeFails s (s\<lparr>st_Closed := True, st_Errors := st_Errors s + (if closeFails then 1 else 0)\<rparr>)"
| copy: "st_Copier s = Copying \<Longrightarrow> \<not> st_Closed s \<Longrightarrow> st_Unread s = x # xs \<Longrightarrow>
    stream_step closeFails s (s\<lparr>st_Unread := xs, st_Out := st_Out s @ [x]\<rparr>)"
| eof: "st_Copier s = Copying \<Longrightarrow> \<not> st_Closed s \<Longrightarrow> st_Unread s = [] \<Longrightarrow>
    stream_step closeFails s (s\<lparr>st_Copier := CopyEnded\<rparr>)"
| copy_closed: "st_Copier s = Copying \<Longrightarrow> st_Closed s \<Longrightarrow>
    stream_step closeFails s (s\<lparr>st_Copier := CopyEnded, st_Errors := Suc (st_Errors s)\<rparr>)"

inductive_cases stream_stepE: "stream_step closeFails s t"

lemma stream_prefix:
  assumes "(stream_step f)\<^sup>*\<^sup>* (logs_opened chunks) s"
  shows "st_Out s @ st_Unread s = chunks"
  using assms by induction (auto simp: logs_opened_def elim!: stream_stepE)

text \<open>Once closed, nothing more is copied, and any number of chunks can have been copied by then.\<close>

lemma stream_closed:
  assumes "(stream_step f)\<^sup>*\<^sup>* s t" and "st_Closed s" and "st_Copier s \<noteq> NotStarted"
  shows "st_Out t = st_Out s \<and> st_Closed t \<and> st_Copier t \<noteq> NotStarted"
  using assms by induction (auto elim!: stream_stepE)

lemma stream_copies:
  "(stream_step f)\<^sup>*\<^sup>* \<lparr>st_Unread = xs @ ys, st_Out = zs, st_Closed = False, st_Copier = Copying, st_Errors = n\<rparr>
     \<lparr>st_Unread = ys, st_Out = zs @ xs, st_Closed = False, st_Copier = Copying, st_Errors = n\<rparr>"
proof (induction xs arbitrary: zs)
  case (Cons x xs)
  have "stream_step f \<lparr>st_Unread = (x # xs) @ ys, st_Out = zs, st_Closed = False, st_Copier = Copying, st_Errors = n\<rparr>
      \<lparr>st_Unread = xs @ ys, st_Out = zs @ [x], st_Closed = False, st_Copier = Copying, st_Errors = n\<rparr>"
    using stream_step.copy [of "\<lparr>st_Unread = (x # xs) @ ys, st_Out = zs, st_Closed = False, st_Copier = Copying, st_Errors = n\<rparr>" x "xs @ ys" f]
    by simp
  also note Cons.IH [of "zs @ [x]"]
  finally show ?case by simp
qed simp

lemma stream_cut_anywhere:
  "\<exists>s. (stream_step f)\<^sup>*\<^sup>* (logs_opened (xs @ ys)) s \<and> st_Copier s = CopyEnded \<and> st_Out s = xs \<and> 0 < st_Errors s"
proof -
  let ?st = "\<lambda>us os cl ph n. \<lparr>st_Unread = us, st_Out = os, st_Closed = cl, st_Copier = ph, st_Errors = n\<rparr>"
  let ?n = "if f then 1 else 0 :: nat"
  have "stream_step f (logs_opened (xs @ ys)) (?st (xs @ ys) [] False Copying 0)"
    using stream_step.spawn [of "logs_opened (xs @ ys)" f] by (simp add: logs_opened_def)
  also have "(stream_step f)\<^sup>*\<^sup>* (?st (xs @ ys) [] False Copying 0) (?st ys xs False Copying 0)"
    using stream_copies [of f xs ys "[]" 0] by simp
  also have "stream_step f (?st ys xs False Copying 0) (?st ys xs True Copying ?n)"
    using stream_step.close [of "?st ys xs False Copying 0" f] by simp
  also have "stream_step f (?st ys xs True Copying ?n) (?st ys xs True CopyEnded (Suc ?n))"
    using stream_step.copy_closed [of "?st ys xs True Copying ?n" f] by simp
  finally show ?thesis by (intro exI [of _ "?st ys xs True CopyEnded (Suc ?n)"]) simp
qed

section \<open>Who ends a container\<close>



end
