(* ===== verification/Project_Root.thy ===== *)
theory Project_Root
  imports Go_Text
begin

text \<open>
  \<open>platform/testcontainers/path/path.go\<close>: the search for the directory that holds \<open>go.work\<close>, from the
  working directory upwards. The functions of \<open>path/filepath\<close> that it uses are written out as they are
  documented for Unix; \<open>os.Getwd\<close> and \<open>os.Stat\<close> are arguments, the second as the predicate that it
  returns no error. The loop is a \<open>function\<close> whose measure counts separators.
\<close>

section \<open>Paths\<close>

abbreviation slash :: char where "slash \<equiv> CHR ''/''"

text \<open>The texts between the separators, and their inverse.\<close>

fun segments :: "string \<Rightarrow> string list" where
  "segments [] = [[]]"
| "segments (c # s) =
     (if c = slash then [] # segments s
      else (case segments s of [] \<Rightarrow> [[c]] | x # xs \<Rightarrow> (c # x) # xs))"

fun join_slash :: "string list \<Rightarrow> string" where
  "join_slash [] = []"
| "join_slash [x] = x"
| "join_slash (x # y # ys) = x @ slash # join_slash (y # ys)"

text \<open>
  \<open>filepath.Clean\<close> drops empty elements and \<open>.\<close>, and each \<open>..\<close> with the element before it; a \<open>..\<close>
  stays at the front of a path that is not rooted and vanishes at the root. \<open>acc\<close> has the last
  element first.
\<close>

definition clean_elem :: "bool \<Rightarrow> string \<Rightarrow> string list \<Rightarrow> string list" where
  "clean_elem rooted x acc =
     (if x = '''' \<or> x = ''.'' then acc
      else if x = ''..'' then
        (case acc of [] \<Rightarrow> if rooted then [] else [x] | y # ys \<Rightarrow> if y = ''..'' then x # acc else ys)
      else x # acc)"

definition is_rooted :: "string \<Rightarrow> bool" where
  "is_rooted p \<longleftrightarrow> (case p of [] \<Rightarrow> False | c # _ \<Rightarrow> c = slash)"

definition Clean :: "string \<Rightarrow> string" where
  "Clean p =
     (let xs = rev (fold (clean_elem (is_rooted p)) (segments p) []) in
      if is_rooted p then slash # join_slash xs else if xs = [] then ''.'' else join_slash xs)"

text \<open>\<open>filepath.Dir\<close> cleans what ends with the last separator; \<open>filepath.Join\<close> ignores empty elements.\<close>

definition up_to_slash :: "string \<Rightarrow> string" where
  "up_to_slash p = rev (dropWhile (\<lambda>c. c \<noteq> slash) (rev p))"

definition Dir :: "string \<Rightarrow> string" where
  "Dir p = Clean (up_to_slash p)"

definition Join2 :: "string \<Rightarrow> string \<Rightarrow> string" where
  "Join2 a b = (if a \<noteq> '''' then Clean (a @ slash # b) else if b \<noteq> '''' then Clean b else '''')"

section \<open>Separators\<close>

definition slashes :: "string \<Rightarrow> nat" where
  "slashes p = length (filter (\<lambda>c. c = slash) p)"

lemma slashes_simps [simp]:
  "slashes [] = 0" "slashes (c # s) = (if c = slash then Suc (slashes s) else slashes s)"
  "slashes (a @ b) = slashes a + slashes b" "slashes (rev a) = slashes a"
  by (simp_all add: slashes_def flip: rev_filter)

lemma slashes_0: "slashes p = 0 \<longleftrightarrow> slash \<notin> set p"
  by (induction p) auto

lemma segments_nonempty [simp]: "segments p \<noteq> []"
  by (induction p) (auto split: list.splits)

lemma length_segments: "length (segments p) = Suc (slashes p)"
  by (induction p) (auto split: list.splits)

lemma segments_no_slash: "x \<in> set (segments p) \<Longrightarrow> slash \<notin> set x"
  by (induction p arbitrary: x) (auto split: list.splits if_splits)

lemma slashes_join: "\<forall>x \<in> set xs. slash \<notin> set x \<Longrightarrow> slashes (join_slash xs) = length xs - 1"
  by (induction xs rule: join_slash.induct) (auto simp: slashes_0)

lemma clean_elem_length: "length (clean_elem r x acc) \<le> (if x = '''' then length acc else Suc (length acc))"
  by (simp add: clean_elem_def split: list.splits)

lemma clean_elem_set: "set (clean_elem r x acc) \<subseteq> insert x (set acc)"
  by (cases acc) (auto simp: clean_elem_def)

lemma clean_fold_length:
  "length (fold (clean_elem r) xs acc) \<le> length acc + length (filter (\<lambda>x. x \<noteq> '''') xs)"
proof (induction xs arbitrary: acc)
  case (Cons x xs)
  from Cons.IH [of "clean_elem r x acc"] clean_elem_length [of r x acc] show ?case
    by (auto split: if_splits)
qed simp

lemma clean_fold_set: "set (fold (clean_elem r) xs acc) \<subseteq> set xs \<union> set acc"
proof (induction xs arbitrary: acc)
  case (Cons x xs)
  from Cons.IH [of "clean_elem r x acc"] clean_elem_set [of r x acc] show ?case by auto
qed simp

text \<open>What ends with a separator has an empty last segment.\<close>

lemma segments_append:
  "segments (p @ slash # q) = segments p @ segments q"
  by (induction p) (auto split: list.splits)

lemma up_to_slash_cases:
  obtains "up_to_slash p = []" "slash \<notin> set p" | q where "up_to_slash p = q @ [slash]" "slashes q < slashes p"
proof (cases "dropWhile (\<lambda>c. c \<noteq> slash) (rev p)")
  case Nil
  with that(1) show ?thesis by (auto simp: up_to_slash_def)
next
  case (Cons c s)
  have c: "c = slash" using hd_dropWhile [of "\<lambda>c. c \<noteq> slash" "rev p"] Cons by simp
  have "slashes (takeWhile (\<lambda>c. c \<noteq> slash) (rev p)) + slashes (dropWhile (\<lambda>c. c \<noteq> slash) (rev p)) = slashes p"
    by (metis slashes_simps(3,4) takeWhile_dropWhile_id)
  with Cons c have "slashes (rev s) < slashes p" by simp
  moreover have "up_to_slash p = rev s @ [slash]" using Cons c by (simp add: up_to_slash_def)
  ultimately show ?thesis using that(2) by blast
qed

lemma slashes_Clean:
  assumes "is_rooted (q @ [slash]) \<Longrightarrow> q \<noteq> []"
  shows "slashes (Clean (q @ [slash])) \<le> slashes q"
proof -
  let ?r = "is_rooted (q @ [slash])"
  let ?xs = "rev (fold (clean_elem ?r) (segments (q @ [slash])) [])"
  have no: "\<forall>x \<in> set ?xs. slash \<notin> set x"
    using clean_fold_set [of ?r "segments (q @ [slash])" "[]"] segments_no_slash by fastforce
  have join: "slashes (join_slash ?xs) = length ?xs - 1" by (rule slashes_join [OF no])
  have len: "length ?xs \<le> length (filter (\<lambda>x. x \<noteq> '''') (segments q))"
    using clean_fold_length [of ?r "segments (q @ [slash])" "[]"] by (simp add: segments_append)
  also have "\<dots> \<le> Suc (slashes q)"
    using length_filter_le [of "\<lambda>x. x \<noteq> ''''" "segments q"] by (simp add: length_segments)
  finally have le: "length ?xs \<le> Suc (slashes q)" .
  show ?thesis
  proof (cases ?r)
    case True
    with assms obtain t where q: "q = slash # t" by (cases q) (auto simp: is_rooted_def)
    with len length_filter_le [of "\<lambda>x. x \<noteq> ''''" "segments t"] have "length ?xs \<le> slashes q"
      by (simp add: length_segments)
    moreover have "1 \<le> slashes q" using q by simp
    ultimately show ?thesis using join True by (auto simp: Clean_def Let_def)
  next
    case False
    with join le show ?thesis by (auto simp: Clean_def Let_def)
  qed
qed

lemma Clean_ends: "Clean [] = ''.''" "Clean [slash] = [slash]"
  by (simp_all add: Clean_def is_rooted_def clean_elem_def)

text \<open>Every step upwards that does not reach the top loses a separator.\<close>

lemma slashes_Dir: "Dir p = [slash] \<or> Dir p = ''.'' \<or> slashes (Dir p) < slashes p"
proof (cases rule: up_to_slash_cases [of p])
  case 1
  then show ?thesis by (simp add: Dir_def Clean_ends)
next
  case (2 q)
  then show ?thesis
    using slashes_Clean [of q] by (cases "q = []") (auto simp: Dir_def Clean_ends)
qed

definition depth :: "string \<Rightarrow> nat" where
  "depth p = (if p = [slash] \<or> p = ''.'' then 0 else Suc (slashes p))"

lemma Dir_top: "Dir [slash] = [slash]" "Dir ''.'' = ''.''"
  by (simp_all add: Dir_def up_to_slash_def Clean_ends)

lemma depth_Dir: "Dir p \<noteq> p \<Longrightarrow> depth (Dir p) < depth p"
  using slashes_Dir [of p] Dir_top by (auto simp: depth_def)

section \<open>The search\<close>

text \<open>The texts of the two panics, in UTF-8.\<close>

definition no_project_root :: string where
  "no_project_root = map byte
    [208, 189, 208, 181, 32, 209, 131, 208, 180, 208, 176, 208, 187, 208, 190, 209, 129, 209, 140, 32,
     208, 189, 208, 176, 208, 185, 209, 130, 208, 184, 32, 208, 186, 208, 190, 209, 128, 208, 181, 208,
     189, 209, 140, 32, 208, 191, 209, 128, 208, 190, 208, 181, 208, 186, 209, 130, 208, 176, 32] @ ''(go.work)''"

definition no_working_dir :: string where
  "no_working_dir = map byte
    [208, 189, 208, 181, 32, 209, 131, 208, 180, 208, 176, 208, 187, 208, 190, 209, 129, 209, 140, 32,
     208, 191, 208, 190, 208, 187, 209, 131, 209, 135, 208, 184, 209, 130, 209, 140, 32, 209, 128, 208,
     176, 208, 177, 208, 190, 209, 135, 209, 131, 209, 142, 32, 208, 180, 208, 184, 209, 128, 208, 181,
     208, 186, 209, 130, 208, 190, 209, 128, 208, 184, 209, 142, 58, 32]"

function find_root :: "(string \<Rightarrow> bool) \<Rightarrow> string \<Rightarrow> (string, string) outcome" where
  "find_root stat_ok dir =
     (if stat_ok (Join2 dir ''go.work'') then Ok dir
      else (let parent = Dir dir in
        if parent = dir then Panic no_project_root else find_root stat_ok parent))"
  by auto

termination find_root
  by (relation "measure (depth \<circ> snd)") (simp_all add: depth_Dir)

declare find_root.simps [simp del]

definition GetProjectRoot :: "(string, string) outcome \<Rightarrow> (string \<Rightarrow> bool) \<Rightarrow> (string, string) outcome" where
  "GetProjectRoot getwd stat_ok =
     (case getwd of
        Ok dir \<Rightarrow> find_root stat_ok dir
      | Err e \<Rightarrow> Panic (no_working_dir @ e)
      | Panic p \<Rightarrow> Panic p)"

section \<open>Which directory is found\<close>

abbreviation has_go_work :: "(string \<Rightarrow> bool) \<Rightarrow> string \<Rightarrow> bool" where
  "has_go_work stat_ok dir \<equiv> stat_ok (Join2 dir ''go.work'')"

lemma Dir_fixed: "Dir d = d \<Longrightarrow> (Dir ^^ k) d = d"
  by (induction k) simp_all

lemma ex_nat_split: "(\<exists>k. P k) \<longleftrightarrow> P 0 \<or> (\<exists>k. P (Suc k))"
  by (metis not0_implies_Suc)

lemma find_root_Ok:
  "find_root st d = Ok r \<longleftrightarrow>
     (\<exists>k. r = (Dir ^^ k) d \<and> has_go_work st r \<and> (\<forall>j < k. \<not> has_go_work st ((Dir ^^ j) d)))"
proof (induction st d rule: find_root.induct)
  case (1 st d)
  show ?case
  proof (cases "has_go_work st d")
    case True
    then have "find_root st d = Ok d" by (subst find_root.simps) simp
    moreover have "k = 0" if "\<forall>j < k. \<not> has_go_work st ((Dir ^^ j) d)" for k
      using that [rule_format, of 0] True by auto
    ultimately show ?thesis using True by (metis funpow_0 not_less0 outcome.inject(1))
  next
    case False
    show ?thesis
    proof (cases "Dir d = d")
      case True
      with False show ?thesis by (subst find_root.simps) (auto simp: Dir_fixed)
    next
      case up: False
      let ?P = "\<lambda>k. r = (Dir ^^ k) d \<and> has_go_work st r \<and> (\<forall>j < k. \<not> has_go_work st ((Dir ^^ j) d))"
      have up_eq: "find_root st d = find_root st (Dir d)"
        using False up by (subst find_root.simps) (simp add: Let_def)
      have "find_root st (Dir d) = Ok r \<longleftrightarrow> (\<exists>k. ?P (Suc k))"
        unfolding 1 [OF False refl up] using False
        by (simp del: funpow.simps(2) add: funpow_Suc_right All_less_Suc2)
      moreover have "\<not> ?P 0" using False by auto
      ultimately show ?thesis unfolding up_eq ex_nat_split [of ?P] by blast
    qed
  qed
qed

lemma find_root_not_found:
  "find_root st d = Panic no_project_root \<longleftrightarrow> (\<forall>k. \<not> has_go_work st ((Dir ^^ k) d))"
  "find_root st d \<noteq> Err e" "find_root st d = Panic p \<Longrightarrow> p = no_project_root"
proof -
  have ends: "(\<exists>r. find_root st d = Ok r) \<or> find_root st d = Panic no_project_root"
    by (induction st d rule: find_root.induct) (subst (1 2) find_root.simps, auto simp: Let_def)
  then show "find_root st d \<noteq> Err e" "find_root st d = Panic p \<Longrightarrow> p = no_project_root" by auto
  have "(\<exists>r. find_root st d = Ok r) \<longleftrightarrow> (\<exists>k. has_go_work st ((Dir ^^ k) d))"
    using exists_least_iff [of "\<lambda>k. has_go_work st ((Dir ^^ k) d)"] by (auto simp: find_root_Ok)
  with ends show "find_root st d = Panic no_project_root \<longleftrightarrow> (\<forall>k. \<not> has_go_work st ((Dir ^^ k) d))" by auto
qed

text \<open>Absolute paths in the form that \<open>Clean\<close> gives them.\<close>

definition elem_ok :: "string \<Rightarrow> bool" where
  "elem_ok x \<longleftrightarrow> x \<notin> {'''', ''.'', ''..''} \<and> slash \<notin> set x"

definition abs_path :: "string list \<Rightarrow> string" where
  "abs_path xs = slash # join_slash xs"

lemma clean_fold_ok: "list_all elem_ok xs \<Longrightarrow> fold (clean_elem r) xs acc = rev xs @ acc"
  by (induction xs arbitrary: acc) (auto simp: clean_elem_def elem_ok_def)

lemma segments_plain: "slash \<notin> set x \<Longrightarrow> segments x = [x]"
  by (induction x) auto

lemma segments_join: "list_all elem_ok xs \<Longrightarrow> xs \<noteq> [] \<Longrightarrow> segments (join_slash xs) = xs"
  by (induction xs rule: join_slash.induct) (auto simp: segments_append segments_plain elem_ok_def)

lemma join_slash_snoc: "join_slash (xs @ [x]) = (if xs = [] then x else join_slash xs @ slash # x)"
  by (induction xs rule: join_slash.induct) auto

text \<open>A trailing separator and a repeated one change nothing.\<close>

lemma Clean_abs:
  assumes "list_all elem_ok xs"
  shows "Clean (abs_path xs) = abs_path xs" and "Clean (abs_path xs @ [slash]) = abs_path xs"
    and "elem_ok x \<Longrightarrow> Clean (abs_path xs @ slash # x) = abs_path (xs @ [x])"
proof -
  have skip: "clean_elem True [] acc = acc" for acc by (simp add: clean_elem_def)
  have seg: "segments (join_slash xs) = (if xs = [] then [[]] else xs)" using assms by (simp add: segments_join)
  have r: "is_rooted (abs_path xs @ ys)" for ys by (simp add: is_rooted_def abs_path_def)
  have front: "fold (clean_elem True) (segments (abs_path xs)) [] = rev xs"
    using clean_fold_ok [OF assms, of True "[]"] by (simp add: abs_path_def seg skip)
  show "Clean (abs_path xs) = abs_path xs" using r [of "[]"] front by (simp add: Clean_def abs_path_def)
  show "Clean (abs_path xs @ [slash]) = abs_path xs"
    using r front by (simp add: Clean_def segments_append skip) (simp add: abs_path_def)
  assume x: "elem_ok x"
  then have "segments x = [x]" by (simp add: elem_ok_def segments_plain)
  then show "Clean (abs_path xs @ slash # x) = abs_path (xs @ [x])"
    using r front clean_fold_ok [of "[x]" True "rev xs"] x
    by (simp add: Clean_def segments_append) (simp add: abs_path_def)
qed

lemma dropWhile_to_slash: "slash \<notin> set x \<Longrightarrow> dropWhile (\<lambda>c. c \<noteq> slash) (x @ slash # q) = slash # q"
  by (induction x) auto

lemma Dir_abs: "list_all elem_ok xs \<Longrightarrow> Dir (abs_path xs) = abs_path (butlast xs)"
proof (cases xs rule: rev_cases)
  case Nil
  then show ?thesis by (simp add: abs_path_def Dir_top)
next
  case (snoc ys x)
  assume ok: "list_all elem_ok xs"
  have cut: "up_to_slash (p @ slash # x) = p @ [slash]" for p
    using ok snoc by (simp add: up_to_slash_def elem_ok_def dropWhile_to_slash)
  have "up_to_slash (abs_path xs) = (if ys = [] then [slash] else abs_path ys @ [slash])"
    using cut [of "[]"] cut [of "abs_path ys"] snoc by (simp add: abs_path_def join_slash_snoc)
  then show ?thesis
    using Clean_abs [of ys] ok snoc by (auto simp: Dir_def Clean_ends abs_path_def)
qed

lemma parents_abs: "list_all elem_ok xs \<Longrightarrow> (Dir ^^ k) (abs_path xs) = abs_path (take (length xs - k) xs)"
proof (induction k)
  case (Suc k)
  then have "list_all elem_ok (take (length xs - k) xs)" by (auto simp: list_all_iff dest: in_set_takeD)
  with Suc show ?case by (simp add: Dir_abs butlast_take)
qed simp

lemma Join2_abs: "list_all elem_ok xs \<Longrightarrow> Join2 (abs_path xs) ''go.work'' = abs_path (xs @ [''go.work''])"
  using Clean_abs(3) [of xs "''go.work''"] by (simp add: Join2_def abs_path_def elem_ok_def)

text \<open>Over the parents of a clean path, the search is one over its prefixes, the longest first.\<close>

lemma find_upt_less: "find P (rev [0..<m]) = Some n \<Longrightarrow> n < m"
  by (auto simp: find_Some_iff rev_nth)

lemma find_root_abs:
  assumes "list_all elem_ok xs"
  shows "find_root st (abs_path xs) =
    (case find (\<lambda>n. st (abs_path (take n xs @ [''go.work'']))) (rev [0..<Suc (length xs)]) of
       Some n \<Rightarrow> Ok (abs_path (take n xs)) | None \<Rightarrow> Panic no_project_root)"
  using assms
proof (induction xs rule: rev_induct)
  case Nil
  show ?case using Join2_abs [of "[]"] Dir_abs [of "[]"]
    by (subst find_root.simps) simp
next
  case (snoc x xs)
  let ?hit = "\<lambda>ys. st (abs_path (ys @ [''go.work'']))"
  have "abs_path xs \<noteq> abs_path (xs @ [x])"
    using snoc.prems by (auto simp: abs_path_def join_slash_snoc elem_ok_def)
  then have "find_root st (abs_path (xs @ [x])) =
      (if ?hit (xs @ [x]) then Ok (abs_path (xs @ [x])) else find_root st (abs_path xs))"
    using Join2_abs [OF snoc.prems] Dir_abs [OF snoc.prems] by (subst find_root.simps) (simp add: Let_def)
  moreover have "find (\<lambda>n. ?hit (take n (xs @ [x]))) (rev [0..<Suc (length xs)]) =
      find (\<lambda>n. ?hit (take n xs)) (rev [0..<Suc (length xs)])"
    by (rule find_cong) auto
  ultimately show ?case
    using snoc by (auto split: option.splits dest: find_upt_less)
qed

text \<open>
  C23. The search for the project root ends for every working directory and every file system, with a
  directory or a panic. It gives the first of the working directory, its parent, the parent of that and so
  on that holds \<open>go.work\<close>, and panics exactly where none does (or there is no working directory). From
  an absolute path in clean form it is a search over the prefixes of the path, the longest first, which
  are finitely many.
\<close>

theorem project_root_search:
  fixes st :: "string \<Rightarrow> bool"
  defines "found \<equiv> \<lambda>dir k. has_go_work st ((Dir ^^ k) dir)"
  shows "(\<forall>dir. (\<exists>k. found dir k \<and> (\<forall>j < k. \<not> found dir j) \<and> GetProjectRoot (Ok dir) st = Ok ((Dir ^^ k) dir)) \<or>
      ((\<forall>k. \<not> found dir k) \<and> GetProjectRoot (Ok dir) st = Panic no_project_root)) \<and>
    (\<forall>e. GetProjectRoot (Err e) st = Panic (no_working_dir @ e)) \<and>
    (\<forall>xs. list_all elem_ok xs \<longrightarrow> GetProjectRoot (Ok (abs_path xs)) st =
      (case find (\<lambda>n. st (abs_path (take n xs @ [''go.work'']))) (rev [0..<Suc (length xs)]) of
         Some n \<Rightarrow> Ok (abs_path (take n xs)) | None \<Rightarrow> Panic no_project_root))"
proof (intro conjI allI impI)
  fix dir
  show "(\<exists>k. found dir k \<and> (\<forall>j < k. \<not> found dir j) \<and> GetProjectRoot (Ok dir) st = Ok ((Dir ^^ k) dir)) \<or>
      ((\<forall>k. \<not> found dir k) \<and> GetProjectRoot (Ok dir) st = Panic no_project_root)"
  proof (cases "find_root st dir")
    case (Ok r)
    then show ?thesis by (auto simp: find_root_Ok found_def GetProjectRoot_def)
  next
    case (Panic p)
    with find_root_not_found(3) [OF Panic] show ?thesis
      using find_root_not_found(1) [of st dir] by (simp add: found_def GetProjectRoot_def)
  qed (use find_root_not_found(2) in auto)
qed (simp_all add: GetProjectRoot_def find_root_abs)

theorem project_root_search_witness:
  "GetProjectRoot (Ok ''/src/rocket/order'') (\<lambda>p. p = ''/src/rocket/go.work'') = Ok ''/src/rocket'' \<and>
   GetProjectRoot (Ok ''/a/../b//c'') (\<lambda>p. False) = Panic no_project_root"
proof
  let ?st = "\<lambda>p. p = ''/src/rocket/go.work''"
  have "list_all elem_ok [''src'', ''rocket'', ''order'']" by (simp add: elem_ok_def)
  from project_root_search [THEN conjunct2, THEN conjunct2, rule_format, OF this, of ?st]
  show "GetProjectRoot (Ok ''/src/rocket/order'') ?st = Ok ''/src/rocket''"
    by (simp add: abs_path_def upt_rec)
  show "GetProjectRoot (Ok ''/a/../b//c'') (\<lambda>p. False) = Panic no_project_root"
    using project_root_search [THEN conjunct1, rule_format, of "\<lambda>p. False" "''/a/../b//c''"] by simp
qed

end
