(* ===== verification/Spec2Isabelle.thy ===== *)
theory Spec2Isabelle
  imports Order_Properties System_Properties Http_Properties Parts_Properties Event_Properties Api_Properties App_Properties Grpc_Stubs Health Testcontainers Project_Root
begin

text \<open>
  A verification development of Rocket Maintenance, a Go system of five services that take, pay,
  build and announce orders of rocket parts.

  \<^bold>\<open>The program.\<close> A customer creates, pays, reads and cancels orders through an HTTP API. The order
  service (\<open>order/\<close>) keeps orders in PostgreSQL, asks the inventory service (\<open>inventory/\<close>, parts in
  MongoDB) for parts over gRPC and the payment service (\<open>payment/\<close>) for the charge. A payment is
  announced on the Kafka topic \<open>order.paid\<close>; the assembly service (\<open>assembly/\<close>) builds the ship and
  announces it on \<open>order.assembled\<close>, which completes the order. The notification service
  (\<open>notification/\<close>) reads both topics and writes to Telegram chats. \<open>platform/\<close> holds what the services
  share (Kafka consumers and producers, graceful shutdown), \<open>shared/pkg\<close> the generated API code.

  \<^bold>\<open>Conventions.\<close> A Go function that touches the world is a \<open>prog\<close>: it maps a world to the world it
  leaves and an outcome, a value, an error or a panic (Prelude). \<open>call\<close> is one call followed by its
  \<open>if err != nil\<close>. Errors keep the chain that \<open>fmt.Errorf\<close> and \<open>errors.Join\<close> build, so that
  \<open>errors.Is\<close> and the error text are computed as in Go. Machine integers are words of their width,
  \<open>[]byte\<close> and \<open>string\<close> are lists of bytes, a nil slice is \<open>None\<close> where the code tells it from an empty
  one. Packages that are not in the repository are parameters: records of functions, with a locale
  that names the documented behaviour that is used, and an interpretation of each locale on a
  concrete implementation, so that no hypothesis is empty.

  \<^bold>\<open>Theories.\<close>
  \<^item> Prelude, Go_Text, Uuid_Lib: outcomes, programs, error chains, Go's division and formatting,
    \<open>strings.TrimSpace\<close> and \<open>ToLower\<close>, UUIDs (locale \<open>uuid_codec\<close>, interpreted on the canonical
    hexadecimal form).
  \<^item> Order_Model, Order_Repository, Order_Service: \<open>order/internal/model\<close>, the repository with the
    constraints of the migration (locale \<open>orders_db\<close> for squirrel and pgx, interpreted on a table;
    \<open>order_repo_api\<close> is what the service relies on), and \<open>Create\<close>, \<open>Pay\<close>, \<open>OrderByID\<close>, \<open>Cancel\<close>,
    \<open>Complete\<close> of \<open>order/internal/service/order\<close> (contract \<open>order_service_env\<close>).
  \<^item> Order_Concurrency: the same operations cut at their calls of other components, run by a
    scheduler in any interleaving, since each HTTP request has its own goroutine.
  \<^item> Order_Http: \<open>order/internal/transport\<close> and \<open>converter\<close>: handlers, error mappings, conversions.
  \<^item> Oapi, Json, Oapi_Json, Oapi_Server, Oapi_Client, Oapi_Wire, Order_Api:
    \<open>shared/pkg/openapi/order/v1\<close>. Oapi has the schema types, validators, router, response
    encoders and the marker methods of the response interfaces (no handler gives a response outside
    its interface, \<open>handlers_encodable\<close>); Json the values of the jx library, its contract \<open>json_codec\<close> and, as interpretation, a
    writer and a recursive-descent reader of the JSON grammar; Oapi_Json every \<open>Encode\<close> and \<open>Decode\<close>;
    Oapi_Server the parameter and body decoders and the four \<open>handle...Request\<close> functions with their
    metrics; Oapi_Client the four \<open>send...\<close> functions and the response decoders; Oapi_Wire connects
    the two (locales \<open>http_wire\<close>, \<open>api_session\<close>); Order_Api puts the order service behind the server.
  \<^item> Oapi_Schemas, Oapi_Config, Oapi_Middleware: the structs behind optional fields (locale \<open>optional_value\<close>, interpreted on
    the four types), the texts of the enumerations, \<open>MarshalJSON\<close> and \<open>UnmarshalJSON\<close>; the options of
    server and client with \<open>NewServer\<close>; and the middleware branch of the handlers (locale
    \<open>passing_hooks\<close> for ogen's hook, interpreted on one that only calls the next), the labeler and the server
    URL of a context.
  \<^item> Proto, Order_Clients: protobuf messages and gRPC statuses, and \<open>order/internal/client\<close>.
  \<^item> Inventory_Model, Inventory_Repository, Inventory_Service: \<open>inventory/\<close> (locale \<open>parts_coll\<close> for
    the MongoDB driver, interpreted on a list of documents; \<open>part_repo_api\<close>, \<open>inventory_server\<close>).
  \<^item> Payment: \<open>payment/\<close>, with its validation and interceptor.
  \<^item> Kafka, Consumers: \<open>platform/kafka\<close>: messages, middleware chain, claim and consumer loops, producer; the
    consumers as the services make and run them.
  \<^item> Assembly, Order_Events, Notification: the Kafka handlers of the three services.
  \<^item> Closer: \<open>platform/closer\<close>, with \<open>CloseAll\<close> as a step relation over its goroutines, the error
    channel and the caller.
  \<^item> System, System_Runs, Demo: the services composed as their \<open>internal/app/di.go\<close> composes them,
    over one world with a table, a collection, two topic logs, offsets and chats; the closed forms
    of its runs; a small installation for the witnesses. All contracts of the clients are
    interpreted here on the model of their providers.
  \<^item> Containers, App_Start, App_Run: \<open>internal/app\<close> and \<open>cmd\<close> of the five services. Containers has every
    accessor of the lazy containers (\<open>di.go\<close>) with the resources it opens and the closing functions it
    registers (locale \<open>slotted\<close> for the fields that hold resources, interpreted on each container);
    App_Start the initialisation lists and \<open>main\<close>; App_Run the \<open>run\<close> functions as step relations over
    goroutines, contexts and the signal (\<open>errgroup\<close> and contexts as their packages document them).
  \<^item> Config: \<open>internal/config\<close> of the five services, from the variables to the structs, their addresses
    and connection strings.
  \<^item> Grpc_Stubs: the generated \<open>*_grpc.pb.go\<close>: client stubs, method handlers, descriptors, the two
    servers, and the runtime between them (locale \<open>grpc_conn\<close>, interpreted on a loopback).
  \<^item> Logger, Health: \<open>platform/logger\<close> with its package variables; the health endpoints and the migrator.
  \<^item> Testcontainers, Project_Root: \<open>platform/testcontainers\<close>, the containers of the integration tests (locale
    \<open>container_engine\<close> for testcontainers-go and the MongoDB driver, interpreted on a small engine) and
    the search for the project root, with \<open>filepath.Clean\<close>, \<open>Dir\<close> and \<open>Join\<close>.

  \<^bold>\<open>What is shown.\<close>
  \<^item> Order_Properties (C1-C5): what a successful and a failed payment and creation do to the table
    and the outside, the table's invariant under every sequence of requests, settled orders stay
    settled, failed requests leave no trace.
  \<^item> System_Properties (C7-C9, C11, C14): the invariant under every interleaving, the agreement of
    the cut operations with the whole ones, the two races in one run (double charge, cancel over paid),
    the way of an order from payment to completion, and what both services make of a list of parts.
  \<^item> Http_Properties (C13, C15, C17, C19, C21, C22): the repository against its abstract table, the router
    (exactly the documented paths, agreement with \<open>FindPath\<close>), statuses of all error responses, price
    text, and the allowed requests that are always refused.
  \<^item> Parts_Properties (C24, C26, C28, C29): inventory and payment handlers branch by branch, batches and
    what becomes of the first parts, the refinement of a filter by its MongoDB query.
  \<^item> Event_Properties (C30-C34, C36): panics and failures in consumers and their offsets, assembly,
    notification, safety and termination of shutdown.
  \<^item> Api_Properties (C16, C20, C37-C40): the structs of optional fields against the values of the model,
    a path prefix and middlewares, the generated decoders against a reference (required-field bit set, duplicates,
    unknown fields), round trips over the text, a client sees exactly what the service computed, and
    what a request that cannot be read does.
  \<^item> App_Properties (C10, C12, C18, C25): when a configuration loads; every start registers what it
    opened, once; the order service ignores signals while its HTTP server works, and the other four services end.
  \<^item> Grpc_Stubs (C35): the order service over the generated stubs is the order service that calls the
    endpoints of the two other services.
  \<^item> Logger (C27): when there is a logger, which level it has and what a call writes.
  \<^item> Testcontainers (C6), Project_Root (C23): which containers and clients a failed start leaves behind; the
    search for the project root ends and finds the nearest directory.

  \<^bold>\<open>Bounds and fuel.\<close> The JSON reader has fuel, the length of the text plus one, and the round trip
  shows it is enough for every written value; \<open>json_ok\<close> bounds the nesting by 2, the deepest value of
  the API. The Kafka claim loop is structural in the events of a claim, the consumer loop in the
  sessions it joins. The steps of \<open>CloseAll\<close> and of every \<open>run\<close> decrease a measure. Everything else recurs
  structurally.

  \<^bold>\<open>Not modelled.\<close> The log lines of the services, traces and durations, except where a metric or a span
  status is decided by the code; deadlines, which appear as errors of the call that was given the
  context; the reflection of protobuf and the getters that no service calls, and its wire format but
  for the two Kafka records, which belong to its runtime; the getters and setters of the API's structs that
  only copy a field; and the generated mocks.
\<close>

end
